(* ===== verification/Prelude.thy ===== *)
theory Prelude imports Complex_Main "HOL-Library.List_Lexorder" begin

section \<open>Prelude: strings, decimal digits and association maps of the JavaScript runtime\<close>

text \<open>
  What every component of the web application shares. A JavaScript string is the list of its
  UTF-16 code units (\<open>jstr\<close>); \<open>js\<close> reads an ASCII literal. Strings compare lexicographically by
  code unit, which is the order of \<open>HOL-Library.List_Lexorder\<close> on \<open>nat list\<close>, so that
  JavaScript's \<open><\<close> on strings is \<open><\<close> here. A \<open>Map\<close> and an object literal keep their keys in insertion order
  and overwrite in place: \<open>put\<close> is \<open>Map.prototype.set\<close> and the assignment of one property.
\<close>

named_theorems js_eval \<open>evaluation of the modelled runtime functions on concrete input\<close>

type_synonym jstr = "nat list"

definition js :: "string \<Rightarrow> jstr" where
  "js s = map of_char s"

lemma js_Nil [simp]: "js [] = []"
  by (simp add: js_def)

lemma js_Cons [simp]: "js (c # s) = of_char c # js s"
  by (simp add: js_def)

lemma length_js [simp]: "length (js s) = length s"
  by (simp add: js_def)

section \<open>String operations the source uses\<close>

text \<open>\<open>s.startsWith(p)\<close>\<close>

fun starts_with :: "jstr \<Rightarrow> jstr \<Rightarrow> bool" where
  "starts_with s [] = True"
| "starts_with [] (p # ps) = False"
| "starts_with (c # s) (p # ps) = (c = p \<and> starts_with s ps)"

lemma starts_with_append [simp]: "starts_with (p @ s) p"
  by (induction p) auto

lemma starts_with_iff: "starts_with s p \<longleftrightarrow> (\<exists>t. s = p @ t)"
  by (induction s p rule: starts_with.induct) auto

text \<open>\<open>s.split(c)\<close> for a separator of one code unit\<close>

fun split_on :: "nat \<Rightarrow> jstr \<Rightarrow> jstr list" where
  "split_on c [] = [[]]"
| "split_on c (x # s) =
     (if x = c then [] # split_on c s
      else (case split_on c s of [] \<Rightarrow> [[x]] | w # ws \<Rightarrow> (x # w) # ws))"

lemma split_on_nonempty [simp]: "split_on c s \<noteq> []"
  by (induction s) (auto split: list.splits)

lemma split_on_free: "c \<notin> set s \<Longrightarrow> split_on c s = [s]"
  by (induction s) auto

lemma split_on_append: "c \<notin> set s \<Longrightarrow> split_on c (s @ c # t) = s # split_on c t"
  by (induction s) auto

text \<open>\<open>s.replace(c, "")\<close> for a pattern of one code unit: the first occurrence only\<close>

definition replace_first :: "nat \<Rightarrow> jstr \<Rightarrow> jstr" where
  "replace_first c s = remove1 c s"

text \<open>\<open>s.trim()\<close>: white space and line terminators of ECMAScript\<close>

definition is_space :: "nat \<Rightarrow> bool" where
  "is_space c \<longleftrightarrow> c \<in> {9, 10, 11, 12, 13, 32, 160, 5760, 8232, 8233, 8239, 8287, 12288, 65279}
     \<or> 8192 \<le> c \<and> c \<le> 8202"

definition trim_start :: "jstr \<Rightarrow> jstr" where
  "trim_start = dropWhile is_space"

definition trim :: "jstr \<Rightarrow> jstr" where
  "trim s = rev (dropWhile is_space (rev (trim_start s)))"

section \<open>Decimal digits\<close>

text \<open>The decimal text of a natural number, most significant digit first.\<close>

fun nat_str :: "nat \<Rightarrow> jstr" where
  "nat_str n = (if n < 10 then [48 + n] else nat_str (n div 10) @ [48 + n mod 10])"

declare nat_str.simps [simp del]

lemma nat_str_small: "n < 10 \<Longrightarrow> nat_str n = [48 + n]"
  by (simp add: nat_str.simps)

lemma nat_str_step: "10 \<le> n \<Longrightarrow> nat_str n = nat_str (n div 10) @ [48 + n mod 10]"
  by (simp add: nat_str.simps)

lemma nat_str_numeral [js_eval]:
  "nat_str 0 = [48]" "nat_str 1 = [49]"
  "nat_str (numeral k) =
     (if numeral k < (10::nat) then [48 + numeral k]
      else nat_str (numeral k div 10) @ [48 + numeral k mod 10])"
  by (simp_all add: nat_str_small nat_str_step)

lemma nat_str_nonempty [simp]: "nat_str n \<noteq> []"
  by (subst nat_str.simps) simp

lemma nat_str_digits: "c \<in> set (nat_str n) \<Longrightarrow> 48 \<le> c \<and> c \<le> 57"
proof (induction n rule: nat_str.induct)
  case (1 n)
  show ?case
  proof (cases "n < 10")
    case True
    with "1.prems" show ?thesis by (simp add: nat_str_small)
  next
    case False
    with "1.prems" have "c \<in> set (nat_str (n div 10)) \<or> c = 48 + n mod 10"
      by (auto simp: nat_str_step)
    then show ?thesis
    proof
      assume "c \<in> set (nat_str (n div 10))"
      then show ?thesis by (rule "1.IH" [OF False])
    next
      assume "c = 48 + n mod 10"
      then show ?thesis by simp
    qed
  qed
qed

text \<open>\<open>String(n)\<close> for an integer\<close>

definition int_str :: "int \<Rightarrow> jstr" where
  "int_str n = (if n < 0 then 45 # nat_str (nat (- n)) else nat_str (nat n))"

text \<open>\<open>String(n).padStart(2, '0')\<close>\<close>

definition pad2 :: "int \<Rightarrow> jstr" where
  "pad2 n = (let s = int_str n in replicate (2 - length s) 48 @ s)"

lemma pad2_two_digits:
  assumes "0 \<le> n" and "n < 100"
  shows "pad2 n = [48 + nat n div 10, 48 + nat n mod 10]"
proof (cases "n < 10")
  case True
  with assms show ?thesis by (simp add: pad2_def int_str_def nat_str_small)
next
  case False
  with assms show ?thesis
    by (simp add: pad2_def int_str_def nat_str_step nat_str_small)
qed

lemma nat_str_four_digits:
  assumes "1000 \<le> n" and "n < 10000"
  shows "nat_str n =
    [48 + n div 1000, 48 + n div 100 mod 10, 48 + n div 10 mod 10, 48 + n mod 10]"
proof -
  have "nat_str n = nat_str (n div 10 div 10 div 10)
      @ [48 + n div 10 div 10 mod 10] @ [48 + n div 10 mod 10] @ [48 + n mod 10]"
    using assms by (simp add: nat_str_step)
  then show ?thesis
    using assms by (simp add: nat_str_small div_mult2_eq [symmetric])
qed

text \<open>The value of a digit text; the inverse of \<open>nat_str\<close>.\<close>

definition digits_value :: "jstr \<Rightarrow> nat" where
  "digits_value ds = foldl (\<lambda>v c. 10 * v + (c - 48)) 0 ds"

lemma digits_value_snoc: "digits_value (ds @ [c]) = 10 * digits_value ds + (c - 48)"
  by (simp add: digits_value_def)

lemma digits_value_nat_str [simp]: "digits_value (nat_str n) = n"
proof (induction n rule: nat_str.induct)
  case (1 n)
  show ?case
  proof (cases "n < 10")
    case True
    then show ?thesis by (simp add: nat_str_small digits_value_def)
  next
    case False
    with "1.IH" show ?thesis by (simp add: nat_str_step digits_value_snoc)
  qed
qed

lemma nat_str_inject [simp]: "nat_str m = nat_str n \<longleftrightarrow> m = n"
  by (metis digits_value_nat_str)

section \<open>Maps that keep insertion order\<close>

type_synonym ('k, 'v) omap = "('k \<times> 'v) list"

fun put :: "'k \<Rightarrow> 'v \<Rightarrow> ('k, 'v) omap \<Rightarrow> ('k, 'v) omap" where
  "put k v [] = [(k, v)]"
| "put k v ((k', v') # m) = (if k' = k then (k, v) # m else (k', v') # put k v m)"

definition put_all :: "('k \<times> 'v) list \<Rightarrow> ('k, 'v) omap \<Rightarrow> ('k, 'v) omap" where
  "put_all kvs m = foldl (\<lambda>m (k, v). put k v m) m kvs"

lemma put_all_Nil [simp]: "put_all [] m = m"
  by (simp add: put_all_def)

lemma put_all_Cons [simp]: "put_all ((k, v) # kvs) m = put_all kvs (put k v m)"
  by (simp add: put_all_def)

lemma put_all_append: "put_all (xs @ ys) m = put_all ys (put_all xs m)"
  by (simp add: put_all_def)

lemma map_of_put [simp]: "map_of (put k v m) = (map_of m)(k \<mapsto> v)"
  by (induction m) (auto simp: fun_eq_iff)

lemma keys_put:
  "map fst (put k v m) = (if k \<in> set (map fst m) then map fst m else map fst m @ [k])"
proof (induction m)
  case (Cons a m)
  then show ?case by (cases a) simp
qed simp

lemma set_keys_put [simp]: "fst ` set (put k v m) = insert k (fst ` set m)"
proof -
  have "set (map fst (put k v m)) = insert k (set (map fst m))" unfolding keys_put by auto
  then show ?thesis by simp
qed

lemma distinct_put [simp]: "distinct (map fst m) \<Longrightarrow> distinct (map fst (put k v m))"
  by (auto simp: keys_put)

lemma distinct_put_all [simp]: "distinct (map fst m) \<Longrightarrow> distinct (map fst (put_all kvs m))"
proof (induction kvs arbitrary: m)
  case (Cons a kvs)
  then show ?case by (cases a) (simp add: Cons.IH)
qed simp

lemma map_of_put_all: "map_of (put_all kvs m) = map_of m ++ map_of (rev kvs)"
proof (induction kvs arbitrary: m)
  case (Cons a kvs)
  then show ?case by (cases a) (auto simp: fun_eq_iff map_add_def split: option.splits)
qed simp

lemma set_keys_put_all [simp]: "fst ` set (put_all kvs m) = fst ` set m \<union> fst ` set kvs"
proof (induction kvs arbitrary: m)
  case (Cons a kvs)
  then show ?case by (cases a) auto
qed simp

lemma put_in_set: "kv \<in> set (put k v m) \<Longrightarrow> kv = (k, v) \<or> kv \<in> set m"
  by (induction m) (auto split: if_splits)

lemma put_all_in_set: "kv \<in> set (put_all kvs m) \<Longrightarrow> kv \<in> set kvs \<or> kv \<in> set m"
proof (induction kvs arbitrary: m)
  case (Cons a kvs)
  then show ?case by (cases a) (auto dest: put_in_set)
qed simp

lemma length_put: "length (put k v m) = (if k \<in> set (map fst m) then length m else Suc (length m))"
  using arg_cong [OF keys_put [of k v m], of length] by (simp split: if_splits)

lemma put_fresh: "k \<notin> fst ` set m \<Longrightarrow> put k v m = m @ [(k, v)]"
  by (induction m) auto

text \<open>
  Keys put in increasing order come out strictly increasing, each with the value put last: what the
  code relies on wherever it removes duplicates with a \<open>Map\<close> built from a sorted array.
\<close>

lemma put_ascending:
  fixes k :: "'k::linorder"
  assumes "sorted_wrt (<) (map fst m)" and "\<forall>k'\<in>fst ` set m. k' \<le> k"
  shows "sorted_wrt (<) (map fst (put k v m))"
proof (cases "k \<in> set (map fst m)")
  case True
  then show ?thesis using assms(1) by (simp only: keys_put if_True)
next
  case False
  then have "\<forall>k'\<in>set (map fst m). k' < k" using assms(2) by (auto simp: le_less)
  with False show ?thesis
    using assms(1) by (simp only: keys_put if_False sorted_wrt_append) simp
qed

lemma put_all_ascending:
  fixes kvs :: "('k::linorder \<times> 'v) list"
  assumes "sorted (map fst kvs)" and "sorted_wrt (<) (map fst m)"
    and "\<forall>k\<in>fst ` set m. \<forall>k'\<in>fst ` set kvs. k \<le> k'"
  shows "sorted_wrt (<) (map fst (put_all kvs m))"
  using assms
proof (induction kvs arbitrary: m)
  case (Cons a kvs)
  obtain k v where a: "a = (k, v)" by (cases a)
  have "sorted_wrt (<) (map fst (put k v m))"
    using Cons.prems by (intro put_ascending) (auto simp: a)
  moreover have "\<forall>k'\<in>fst ` set (put k v m). \<forall>k''\<in>fst ` set kvs. k' \<le> k''"
    using Cons.prems by (auto simp: a)
  ultimately show ?case using Cons.IH [of "put k v m"] Cons.prems(1) by (simp add: a)
qed simp

lemma put_all_last:
  assumes "kvs = us @ (k, v) # ws" and "\<And>v'. (k, v') \<in> set ws \<Longrightarrow> v' = v"
  shows "map_of (put_all kvs []) k = Some v"
proof -
  have "map_of (rev ws) k = None \<or> map_of (rev ws) k = Some v"
    using assms(2) by (cases "map_of (rev ws) k") (auto dest: map_of_SomeD)
  then show ?thesis
    by (auto simp: assms(1) map_of_put_all map_add_def split: option.splits)
qed

section \<open>Invariants of a component that runs step by step\<close>

text \<open>
  Every stateful component is an initial state and a step relation. An invariant that holds at the
  start and is kept by each step holds in every state the component can reach.
\<close>

locale stepwise =
  fixes step :: "'s \<Rightarrow> 's \<Rightarrow> bool" and start :: "'s \<Rightarrow> bool" and inv :: "'s \<Rightarrow> bool"
  assumes inv_start: "start s \<Longrightarrow> inv s"
    and inv_step: "inv s \<Longrightarrow> step s t \<Longrightarrow> inv t"
begin

lemma inv_reach: "step\<^sup>*\<^sup>* s t \<Longrightarrow> start s \<Longrightarrow> inv t"
  by (induction rule: rtranclp_induct) (auto intro: inv_start inv_step)

lemma inv_from: "step\<^sup>*\<^sup>* s t \<Longrightarrow> inv s \<Longrightarrow> inv t"
  by (induction rule: rtranclp_induct) (auto intro: inv_step)

end

end
