(* ===== verification/Session.thy ===== *)
theory Session imports Prelude begin

section \<open>Session, sign-up and profile (app/auth, app/settings/profile, proxy.ts)\<close>

text \<open>
  What the pages share is the browser: the token in \<open>localStorage\<close>, the cookie jar, the navigations the
  router was asked for and the alerts shown. Each page is its own record of state variables; a submit
  handler is split at its \<open>await\<close> into the part before the request and the continuation for each
  outcome. The proxy is the server side check of the cookie. \<open>encodeURIComponent\<close> is the function of
  ECMAScript on UTF-16 code units, \<open>None\<close> when it throws.
\<close>

subsection \<open>encodeURIComponent\<close>

definition hex_digit :: "nat \<Rightarrow> nat" where
  "hex_digit n = (if n < 10 then 48 + n else 55 + n)"

definition percent :: "nat \<Rightarrow> jstr" where
  "percent b = [37, hex_digit (b div 16 mod 16), hex_digit (b mod 16)]"

text \<open>Letters, digits and \<open>- _ . ! ~ * ' ( )\<close> stay as they are.\<close>

definition unreserved :: "nat \<Rightarrow> bool" where
  "unreserved c \<longleftrightarrow> 65 \<le> c \<and> c \<le> 90 \<or> 97 \<le> c \<and> c \<le> 122 \<or> 48 \<le> c \<and> c \<le> 57
     \<or> c \<in> {45, 95, 46, 33, 126, 42, 39, 40, 41}"

definition utf8 :: "nat \<Rightarrow> nat list" where
  "utf8 c = (if c < 128 then [c]
     else if c < 2048 then [192 + c div 64, 128 + c mod 64]
     else if c < 65536 then [224 + c div 4096, 128 + c div 64 mod 64, 128 + c mod 64]
     else [240 + c div 262144, 128 + c div 4096 mod 64, 128 + c div 64 mod 64, 128 + c mod 64])"

definition encode_char :: "nat \<Rightarrow> jstr" where
  "encode_char c = (if unreserved c then [c] else concat (map percent (utf8 c)))"

fun encode_uri_component :: "jstr \<Rightarrow> jstr option" where
  "encode_uri_component [] = Some []"
| "encode_uri_component [c] = (if 55296 \<le> c \<and> c < 57344 then None else Some (encode_char c))"
| "encode_uri_component (c # d # s) =
     (if 56320 \<le> c \<and> c < 57344 then None
      else if 55296 \<le> c \<and> c < 56320
      then (if 56320 \<le> d \<and> d < 57344
            then map_option ((@) (encode_char (65536 + (c - 55296) * 1024 + (d - 56320)))) (encode_uri_component s)
            else None)
      else map_option ((@) (encode_char c)) (encode_uri_component (d # s)))"

subsection \<open>The browser\<close>

record browser =
  storage :: "jstr option"
  jar :: "(jstr, jstr) omap"
  routes :: "jstr list"
  alerts :: "jstr list"

text \<open>
  \<open>document.cookie = s\<close>: the name and value of the first segment; the attribute \<open>max-age=0\<close> deletes
  the cookie. The other attributes the pages use do not matter here.
\<close>

definition set_cookie :: "jstr \<Rightarrow> browser \<Rightarrow> browser" where
  "set_cookie s b =
     (let parts = split_on 59 s;
          name = trim (takeWhile (\<lambda>c. c \<noteq> 61) (hd parts));
          val = trim (tl (dropWhile (\<lambda>c. c \<noteq> 61) (hd parts)))
      in if js ''max-age=0'' \<in> set (map trim (tl parts))
         then b\<lparr>jar := filter (\<lambda>(k, v). k \<noteq> name) (jar b)\<rparr>
         else b\<lparr>jar := put name val (jar b)\<rparr>)"

definition navigate :: "jstr \<Rightarrow> browser \<Rightarrow> browser" where
  "navigate p b = b\<lparr>routes := routes b @ [p]\<rparr>"

definition alert :: "jstr \<Rightarrow> browser \<Rightarrow> browser" where
  "alert m b = b\<lparr>alerts := alerts b @ [m]\<rparr>"

definition or_else :: "jstr \<Rightarrow> jstr \<Rightarrow> jstr" where
  "or_else s t = (if s = [] then t else s)"

subsection \<open>Messages\<close>

definition msg_login_failed :: jstr where
  "msg_login_failed =
     [47196, 44536, 51064, 32, 49892, 54056, 58, 32, 51060, 47700, 51068, 32, 46608, 45716, 32,
     48708, 48128, 48264, 54840, 47484, 32, 54869, 51064, 54644, 51452, 49464, 50836, 46]"

definition msg_no_server :: jstr where
  "msg_no_server =
     [49436, 48260, 32, 50672, 44208, 50640, 32, 49892, 54056, 54664, 49845, 45768, 45796, 46]"

definition msg_signup_done :: jstr where
  "msg_signup_done =
     [54924, 50896, 44032, 51077, 51060, 32, 50756, 47308, 46104, 50632, 49845, 45768, 45796, 33, 32,
     47196, 44536, 51064, 32, 54644, 51452, 49464, 50836, 46]"

definition msg_signup_failed :: jstr where
  "msg_signup_failed =
     [54924, 50896, 44032, 51077, 50640, 32, 49892, 54056, 54664, 49845, 45768, 45796, 46, 32, 51077,
     47141, 32, 51221, 48372, 47484, 32, 54869, 51064, 54644, 51452, 49464, 50836, 46]"

definition msg_saved :: jstr where
  "msg_saved =
     [75, 73, 83, 32, 65, 80, 73, 32, 53412, 44032, 32, 49457, 44277, 51201, 51004, 47196, 32, 51200,
     51109, 46104, 50632, 49845, 45768, 45796, 46]"

definition msg_save_failed :: jstr where
  "msg_save_failed =
     [51200, 51109, 50640, 32, 49892, 54056, 54664, 49845, 45768, 45796, 46, 32, 45796, 49884, 32,
     49884, 46020, 54644, 51452, 49464, 50836, 46]"


subsection \<open>The proxy\<close>

datatype proxy_result = Next | Redirect jstr

definition login_path :: jstr where "login_path = js ''/auth/login''"
definition signup_path :: jstr where "signup_path = js ''/auth/signup''"

definition proxy :: "jstr \<Rightarrow> jstr option \<Rightarrow> proxy_result" where
  "proxy pathname cookie =
     (if starts_with pathname login_path \<or> starts_with pathname signup_path then Next
      else if cookie = None \<or> cookie = Some [] then Redirect login_path
      else Next)"

text \<open>The matcher of the proxy: a slash not followed by one of four prefixes; the dot is a wildcard.\<close>

fun starts_with_any :: "jstr \<Rightarrow> nat option list \<Rightarrow> bool" where
  "starts_with_any s [] = True"
| "starts_with_any [] (p # ps) = False"
| "starts_with_any (c # s) (p # ps) = ((p = None \<or> p = Some c) \<and> starts_with_any s ps)"

definition excluded :: "nat option list list" where
  "excluded = [map Some (js ''api''), map Some (js ''_next/static''), map Some (js ''_next/image''),
     map Some (js ''favicon'') @ [None] @ map Some (js ''ico'')]"

definition matcher :: "jstr \<Rightarrow> bool" where
  "matcher p = (case p of [] \<Rightarrow> False | c # r \<Rightarrow> c = 47 \<and> \<not> list_ex (starts_with_any r) excluded)"

definition guard_request :: "jstr \<Rightarrow> jstr option \<Rightarrow> proxy_result" where
  "guard_request pathname cookie = (if matcher pathname then proxy pathname cookie else Next)"

subsection \<open>Login\<close>

record login_page =
  lp_email :: jstr
  lp_password :: jstr
  lp_loading :: bool

datatype login_reply = LoginOk jstr jstr | LoginRefused jstr | LoginFailed

definition login_initial :: login_page where
  "login_initial = \<lparr>lp_email = [], lp_password = [], lp_loading = False\<rparr>"

definition login_submit :: "login_page \<times> browser \<Rightarrow> login_page \<times> browser" where
  "login_submit = (\<lambda>(p, b). (p\<lparr>lp_loading := True\<rparr>, b))"

definition login_cookie :: "jstr \<Rightarrow> jstr" where
  "login_cookie v = js ''accessToken='' @ v @ js ''; path=/; SameSite=Lax''"

definition login_body :: "login_reply \<Rightarrow> browser \<Rightarrow> browser" where
  "login_body r b = (case r of
       LoginOk tokenType accessToken \<Rightarrow>
         (let token = tokenType @ [32] @ accessToken;
              b1 = b\<lparr>storage := Some token\<rparr>
          in case encode_uri_component token of
               None \<Rightarrow> alert msg_no_server b1
             | Some v \<Rightarrow> navigate (js ''/'') (set_cookie (login_cookie v) b1))
     | LoginRefused errorMsg \<Rightarrow> alert msg_login_failed b
     | LoginFailed \<Rightarrow> alert msg_no_server b)"

definition login_respond :: "login_reply \<Rightarrow> login_page \<times> browser \<Rightarrow> login_page \<times> browser" where
  "login_respond r = (\<lambda>(p, b). (p\<lparr>lp_loading := False\<rparr>, login_body r b))"

subsection \<open>Sign-up\<close>

record signup_page =
  sp_form :: "(jstr, jstr) omap"
  sp_loading :: bool

datatype signup_reply = SignupOk | SignupRefused jstr | SignupFailed

definition signup_initial :: signup_page where
  "signup_initial = \<lparr>sp_form = [(js ''email'', []), (js ''password'', []), (js ''name'', []),
     (js ''phoneNumber'', []), (js ''kisApiKey'', []), (js ''kisSecretKey'', [])], sp_loading = False\<rparr>"

definition handle_change :: "jstr \<Rightarrow> jstr \<Rightarrow> signup_page \<Rightarrow> signup_page" where
  "handle_change i v p = p\<lparr>sp_form := put i v (sp_form p)\<rparr>"

definition signup_submit :: "signup_page \<times> browser \<Rightarrow> signup_page \<times> browser" where
  "signup_submit = (\<lambda>(p, b). (p\<lparr>sp_loading := True\<rparr>, b))"

definition signup_body :: "signup_reply \<Rightarrow> browser \<Rightarrow> browser" where
  "signup_body r b = (case r of
       SignupOk \<Rightarrow> navigate login_path (alert msg_signup_done b)
     | SignupRefused errorData \<Rightarrow> alert (or_else errorData msg_signup_failed) b
     | SignupFailed \<Rightarrow> alert msg_no_server b)"

definition signup_respond :: "signup_reply \<Rightarrow> signup_page \<times> browser \<Rightarrow> signup_page \<times> browser" where
  "signup_respond r = (\<lambda>(p, b). (p\<lparr>sp_loading := False\<rparr>, signup_body r b))"

subsection \<open>Profile\<close>

record user_profile =
  up_email :: jstr
  up_name :: jstr
  up_phoneNumber :: jstr
  up_hasKisApiKey :: bool

datatype message_type = Success | Error

record profile_page =
  pp_profile :: "user_profile option"
  pp_kisApiKey :: jstr
  pp_kisSecretKey :: jstr
  pp_loading :: bool
  pp_saving :: bool
  pp_message :: "(message_type \<times> jstr) option"

datatype profile_reply = ProfileOk user_profile | ProfileStatus nat | ProfileFailed
datatype save_reply = SaveOk | SaveRefused jstr | SaveFailed

definition profile_initial :: profile_page where
  "profile_initial = \<lparr>pp_profile = None, pp_kisApiKey = [], pp_kisSecretKey = [], pp_loading = True,
     pp_saving = False, pp_message = None\<rparr>"

text \<open>The mount effect; the flag says whether the profile is requested.\<close>

definition profile_mount :: "profile_page \<times> browser \<Rightarrow> bool \<times> profile_page \<times> browser" where
  "profile_mount = (\<lambda>(p, b).
     if storage b = None \<or> storage b = Some [] then (False, p, navigate login_path b) else (True, p, b))"

definition fetch_profile_respond :: "profile_reply \<Rightarrow> profile_page \<times> browser \<Rightarrow> profile_page \<times> browser" where
  "fetch_profile_respond r = (\<lambda>(p, b). (\<lambda>(p, b). (p\<lparr>pp_loading := False\<rparr>, b)) (case r of
       ProfileOk data \<Rightarrow> (p\<lparr>pp_profile := Some data\<rparr>, b)
     | ProfileStatus st \<Rightarrow> if st = 401 then (p, navigate login_path b) else (p, b)
     | ProfileFailed \<Rightarrow> (p, b)))"

definition save_submit :: "profile_page \<times> browser \<Rightarrow> profile_page \<times> browser" where
  "save_submit = (\<lambda>(p, b).
     if pp_kisApiKey p = [] \<or> pp_kisSecretKey p = [] then (p, b)
     else (p\<lparr>pp_saving := True, pp_message := None\<rparr>, b))"

definition save_body :: "save_reply \<Rightarrow> profile_page \<Rightarrow> profile_page" where
  "save_body r p = (case r of
       SaveOk \<Rightarrow> p\<lparr>pp_message := Some (Success, msg_saved), pp_kisApiKey := [], pp_kisSecretKey := [],
                   pp_profile := map_option (\<lambda>u. u\<lparr>up_hasKisApiKey := True\<rparr>) (pp_profile p)\<rparr>
     | SaveRefused errorText \<Rightarrow> p\<lparr>pp_message := Some (Error, or_else errorText msg_save_failed)\<rparr>
     | SaveFailed \<Rightarrow> p\<lparr>pp_message := Some (Error, msg_no_server)\<rparr>)"

definition save_respond :: "save_reply \<Rightarrow> profile_page \<times> browser \<Rightarrow> profile_page \<times> browser" where
  "save_respond r = (\<lambda>(p, b). ((save_body r p)\<lparr>pp_saving := False\<rparr>, b))"

subsection \<open>Logout and the token of the event stream (app/page.tsx)\<close>

text \<open>With a token a request is sent and awaited, whatever its outcome; only then, or at once without one, are
  token and cookie removed. \<open>handle_logout\<close> is the part up to the await, with the token to send, if any.\<close>

definition logout_body :: "browser \<Rightarrow> browser" where
  "logout_body b = navigate login_path (set_cookie (js ''accessToken=; path=/; max-age=0'') (b\<lparr>storage := None\<rparr>))"

definition handle_logout :: "browser \<Rightarrow> jstr option \<times> browser" where
  "handle_logout b = (case storage b of
       None \<Rightarrow> (None, logout_body b)
     | Some token \<Rightarrow> if token = [] then (None, logout_body b) else (Some token, b))"

definition raw_token :: "jstr \<Rightarrow> jstr" where
  "raw_token token = (if starts_with token (js ''Bearer '') then split_on 32 token ! 1 else token)"


section \<open>Lemmas\<close>

subsection \<open>The cookie\<close>

lemma hex_digit_unreserved: "n < 16 \<Longrightarrow> unreserved (hex_digit n)"
  by (simp add: unreserved_def hex_digit_def)

lemma encode_char_safe: "d \<in> set (encode_char c) \<Longrightarrow> unreserved d \<or> d = 37"
proof -
  assume "d \<in> set (encode_char c)"
  moreover have "unreserved d \<or> d = 37" if "d \<in> set (percent x)" for x
    using that hex_digit_unreserved [of "x div 16 mod 16"] hex_digit_unreserved [of "x mod 16"]
    by (auto simp: percent_def)
  ultimately show ?thesis by (auto simp: encode_char_def split: if_splits)
qed

lemma encode_safe: "encode_uri_component s = Some v \<Longrightarrow> d \<in> set v \<Longrightarrow> unreserved d \<or> d = 37"
  by (induction s arbitrary: v rule: encode_uri_component.induct)
    (auto split: if_splits dest: encode_char_safe)

lemma encode_nonempty: "encode_uri_component s = Some v \<Longrightarrow> s \<noteq> [] \<Longrightarrow> v \<noteq> []"
proof -
  have "encode_char c \<noteq> []" for c by (simp add: encode_char_def utf8_def percent_def)
  then show "encode_uri_component s = Some v \<Longrightarrow> s \<noteq> [] \<Longrightarrow> v \<noteq> []"
    by (induction s arbitrary: v rule: encode_uri_component.induct) (auto split: if_splits)
qed

lemma trim_safe: "\<forall>c\<in>set v. \<not> is_space c \<Longrightarrow> trim v = v"
proof -
  assume a: "\<forall>c\<in>set v. \<not> is_space c"
  then have "dropWhile is_space v = v" by (cases v) auto
  moreover have "v \<noteq> [] \<Longrightarrow> \<not> is_space (last v)" using a by simp
  then have "dropWhile is_space (rev v) = rev v" by (auto simp: dropWhile_eq_self_iff hd_rev)
  ultimately show ?thesis by (simp add: trim_def trim_start_def)
qed

lemma safe_chars:
  assumes "\<forall>c\<in>set v. unreserved c \<or> c = 37"
  shows "59 \<notin> set v" "61 \<notin> set v" "32 \<notin> set v" "trim v = v"
proof -
  have n: "\<not> unreserved 59" "\<not> unreserved 61" "\<not> unreserved 32" by (simp_all add: unreserved_def)
  have "\<not> is_space c" if "c \<in> set v" for c
  proof -
    have "unreserved c \<or> c = 37" using assms that by blast
    then show ?thesis by (auto simp: unreserved_def is_space_def)
  qed
  then show "trim v = v" by (rule trim_safe [OF ballI])
  show "59 \<notin> set v" using assms n(1) by fastforce
  show "61 \<notin> set v" using assms n(2) by fastforce
  show "32 \<notin> set v" using assms n(3) by fastforce
qed

lemma set_login_cookie:
  assumes "\<forall>c\<in>set v. unreserved c \<or> c = 37"
  shows "set_cookie (login_cookie v) b = b\<lparr>jar := put (js ''accessToken'') v (jar b)\<rparr>"
proof -
  note v = safe_chars [OF assms]
  have "split_on 59 (login_cookie v) = (js ''accessToken='' @ v) # [js '' path=/'', js '' SameSite=Lax'']"
    using split_on_append [of 59 "js ''accessToken='' @ v" "js '' path=/; SameSite=Lax''"] v(1)
    by (simp add: login_cookie_def)
  moreover have "trim (js ''accessToken'') = js ''accessToken''" by (rule trim_safe) (simp add: is_space_def)
  ultimately show ?thesis using v(4)
    by (simp add: set_cookie_def Let_def) (simp add: trim_def trim_start_def is_space_def)
qed

lemma set_logout_cookie:
  "set_cookie (js ''accessToken=; path=/; max-age=0'') b = b\<lparr>jar := filter (\<lambda>(k, v). k \<noteq> js ''accessToken'') (jar b)\<rparr>"
  by (simp add: set_cookie_def Let_def trim_def trim_start_def is_space_def)

lemma guard_login [simp]: "guard_request login_path c = Next"
  by (simp add: guard_request_def proxy_def starts_with_iff login_path_def matcher_def)

subsection \<open>A form with a busy flag\<close>

text \<open>
  A form sends a request on submit, which its button allows only while the busy flag is down, and gets
  one reply for each request. Edits are everything else that changes the page.
\<close>

inductive form_step ::
  "('s \<Rightarrow> 's) \<Rightarrow> ('s \<Rightarrow> bool) \<Rightarrow> ('r \<Rightarrow> 's \<Rightarrow> 's) \<Rightarrow> ('s \<Rightarrow> bool) \<Rightarrow> ('s \<Rightarrow> 's \<Rightarrow> bool)
    \<Rightarrow> 's \<times> nat \<Rightarrow> 's \<times> nat \<Rightarrow> bool"
  for submit sends respond busy edit where
  submit: "\<not> busy s \<Longrightarrow> form_step submit sends respond busy edit (s, n) (submit s, if sends s then Suc n else n)"
| reply: "form_step submit sends respond busy edit (s, Suc n) (respond r s, n)"
| edit: "edit s t \<Longrightarrow> form_step submit sends respond busy edit (s, n) (t, n)"

locale busy_form =
  fixes submit :: "'s \<Rightarrow> 's" and sends :: "'s \<Rightarrow> bool" and respond :: "'r \<Rightarrow> 's \<Rightarrow> 's"
    and busy :: "'s \<Rightarrow> bool" and edit :: "'s \<Rightarrow> 's \<Rightarrow> bool"
  assumes submit_busy: "\<not> busy s \<Longrightarrow> busy (submit s) = sends s"
    and respond_idle: "\<not> busy (respond r s)"
    and edit_busy: "edit s t \<Longrightarrow> busy t = busy s"
begin

abbreviation guarded :: "'s \<times> nat \<Rightarrow> bool" where
  "guarded x \<equiv> snd x = (if busy (fst x) then 1 else 0)"

lemma step_guarded: "form_step submit sends respond busy edit x y \<Longrightarrow> guarded x \<Longrightarrow> guarded y"
  by (induction rule: form_step.induct) (auto simp: submit_busy respond_idle split: if_splits dest: edit_busy)

lemma single_request:
  "(form_step submit sends respond busy edit)\<^sup>*\<^sup>* x y \<Longrightarrow> guarded x \<Longrightarrow> guarded y"
  by (induction rule: rtranclp_induct) (auto dest: step_guarded)

end

inductive login_edit :: "login_page \<times> browser \<Rightarrow> login_page \<times> browser \<Rightarrow> bool" where
  "login_edit (p, b) (p\<lparr>lp_email := v\<rparr>, b)"
| "login_edit (p, b) (p\<lparr>lp_password := v\<rparr>, b)"

inductive signup_edit :: "signup_page \<times> browser \<Rightarrow> signup_page \<times> browser \<Rightarrow> bool" where
  "signup_edit (p, b) (handle_change i v p, b)"

inductive save_edit :: "profile_page \<times> browser \<Rightarrow> profile_page \<times> browser \<Rightarrow> bool" where
  "save_edit (p, b) (p\<lparr>pp_kisApiKey := v\<rparr>, b)"
| "save_edit (p, b) (p\<lparr>pp_kisSecretKey := v\<rparr>, b)"
| "save_edit s (fetch_profile_respond r s)"

definition save_sends :: "profile_page \<times> browser \<Rightarrow> bool" where
  "save_sends = (\<lambda>(p, b). pp_kisApiKey p \<noteq> [] \<and> pp_kisSecretKey p \<noteq> [])"

interpretation login_form: busy_form login_submit "\<lambda>s. True" login_respond "\<lambda>(p, b). lp_loading p" login_edit
  by unfold_locales (auto simp: login_submit_def login_respond_def elim!: login_edit.cases)

interpretation signup_form: busy_form signup_submit "\<lambda>s. True" signup_respond "\<lambda>(p, b). sp_loading p" signup_edit
  by unfold_locales (auto simp: signup_submit_def signup_respond_def handle_change_def elim!: signup_edit.cases)

interpretation save_form: busy_form save_submit save_sends save_respond "\<lambda>(p, b). pp_saving p" save_edit
  by unfold_locales (auto simp: save_submit_def save_respond_def save_sends_def fetch_profile_respond_def
      split: profile_reply.splits if_splits elim!: save_edit.cases)


section \<open>Properties of the session\<close>

definition demo_browser :: browser where
  "demo_browser = \<lparr>storage = None, jar = [], routes = [], alerts = []\<rparr>"

text \<open>C10. A successful login leads into the dashboard: the token is stored, the cookie jar holds exactly its
  encoding under \<open>accessToken\<close>, the page navigates to the root, the proxy lets that request through, and
  the dashboard's event stream uses the access token without the scheme. \<open>read\<close> stands for the decoding
  of a cookie by the server framework, of which only that a nonempty cookie stays nonempty is used.\<close>

theorem login_reaches_dashboard:
  assumes "32 \<notin> set access" and "encode_uri_component (js ''Bearer '' @ access) = Some v" and "read v \<noteq> []"
  shows "let b' = login_body (LoginOk (js ''Bearer'') access) b in
      storage b' = Some (js ''Bearer '' @ access)
    \<and> jar b' = put (js ''accessToken'') v (jar b)
    \<and> routes b' = routes b @ [js ''/''] \<and> alerts b' = alerts b
    \<and> guard_request (js ''/'') (map_option read (map_of (jar b') (js ''accessToken''))) = Next
    \<and> raw_token (the (storage b')) = access"
proof -
  have "\<forall>c\<in>set v. unreserved c \<or> c = 37" using encode_safe [OF assms(2)] by blast
  note cookie = set_login_cookie [OF this]
  have "split_on 32 (js ''Bearer '' @ access) ! 1 = access"
    using split_on_append [of 32 "js ''Bearer''" access] assms(1) by (simp add: split_on_free)
  then have raw: "raw_token (js ''Bearer '' @ access) = access" by (simp add: raw_token_def)
  have tok: "js ''Bearer'' @ [32] @ access = js ''Bearer '' @ access" by simp
  have body: "login_body (LoginOk (js ''Bearer'') access) b =
      navigate (js ''/'') (b\<lparr>storage := Some (js ''Bearer '' @ access), jar := put (js ''accessToken'') v (jar b)\<rparr>)"
    unfolding login_body_def login_reply.case Let_def tok assms(2) option.case cookie by simp
  have guard: "guard_request (js ''/'') (Some (read v)) = Next"
    using assms(3) by (simp add: guard_request_def proxy_def)
  show ?thesis unfolding body Let_def using raw guard by (simp add: navigate_def del: js_Cons)
qed

theorem login_reaches_dashboard_witness:
  "raw_token (the (storage (login_body (LoginOk (js ''Bearer'') (js ''e.x'')) demo_browser))) = js ''e.x''"
proof -
  have "encode_uri_component (js ''Bearer '' @ js ''e.x'') = Some (js ''Bearer%20e.x'')"
    by (simp add: encode_char_def unreserved_def utf8_def percent_def hex_digit_def)
  moreover have "32 \<notin> set (js ''e.x'')" "js ''Bearer%20e.x'' \<noteq> []" by simp_all
  ultimately show ?thesis
    using login_reaches_dashboard [of "js ''e.x''" "js ''Bearer%20e.x''" "\<lambda>c. c" demo_browser]
    unfolding Let_def by blast
qed

text \<open>Whatever the token, the cookie string of the login page sets one cookie and nothing else: the
  encoded value holds no character that could end it or add an attribute.\<close>

theorem login_cookie_exact:
  assumes "encode_uri_component token = Some v"
  shows "list_all (\<lambda>c. unreserved c \<or> c = 37) v
    \<and> set_cookie (login_cookie v) b = b\<lparr>jar := put (js ''accessToken'') v (jar b)\<rparr>"
proof -
  have "\<forall>c\<in>set v. unreserved c \<or> c = 37" using encode_safe [OF assms] by blast
  then show ?thesis by (simp add: list_all_iff set_login_cookie)
qed

theorem login_cookie_exact_witness:
  "list_all (\<lambda>c. unreserved c \<or> c = 37) (js ''a%3B%20b'')"
  using login_cookie_exact [of "js ''a; b''" "js ''a%3B%20b''"]
  by (simp add: encode_char_def unreserved_def utf8_def percent_def hex_digit_def)

text \<open>C18. Without a cookie exactly the login and sign-up pages and the paths the matcher leaves out are
  served; every other request is redirected to the login page, which is always served, so that a
  redirect is never followed by another.\<close>

theorem proxy_guards:
  "(guard_request p None = Next) = (starts_with p login_path \<or> starts_with p signup_path \<or> \<not> matcher p)
    \<and> guard_request p cookie \<in> {Next, Redirect login_path}
    \<and> guard_request login_path cookie' = Next"
proof -
  have "guard_request p cookie \<in> {Next, Redirect login_path}"
    by (simp add: guard_request_def proxy_def)
  moreover have "(guard_request p None = Next) = (starts_with p login_path \<or> starts_with p signup_path \<or> \<not> matcher p)"
    by (simp add: guard_request_def proxy_def)
  ultimately show ?thesis using guard_login by blast
qed

theorem proxy_guards_witness: "guard_request (js ''/settings'') None = Redirect login_path"
proof -
  have "\<not> starts_with (js ''/settings'') login_path" "\<not> starts_with (js ''/settings'') signup_path" "matcher (js ''/settings'')"
    by (simp_all add: login_path_def signup_path_def matcher_def excluded_def)
  then show ?thesis using proxy_guards [of "js ''/settings''" None None] by auto
qed


text \<open>C29. Each of the three forms has at most one request open: its busy flag, which disables the button, is
  up exactly while a request of the form is unanswered, whatever is typed meanwhile and however the
  requests end.\<close>

theorem forms_single_request:
  assumes "(form_step login_submit (\<lambda>s. True) login_respond (\<lambda>(p, b). lp_loading p) login_edit)\<^sup>*\<^sup>*
      ((login_initial, b), 0) ((lp, b1), l)"
    and "(form_step signup_submit (\<lambda>s. True) signup_respond (\<lambda>(p, b). sp_loading p) signup_edit)\<^sup>*\<^sup>*
      ((signup_initial, b), 0) ((sp, b2), m)"
    and "(form_step save_submit save_sends save_respond (\<lambda>(p, b). pp_saving p) save_edit)\<^sup>*\<^sup>*
      ((profile_initial, b), 0) ((pp, b3), n)"
  shows "l = (if lp_loading lp then 1 else 0) \<and> m = (if sp_loading sp then 1 else 0)
    \<and> n = (if pp_saving pp then 1 else 0)"
  using login_form.single_request [OF assms(1)] signup_form.single_request [OF assms(2)]
    save_form.single_request [OF assms(3)]
  by (simp add: login_initial_def signup_initial_def profile_initial_def)

theorem forms_single_request_witness:
  "lp_loading (fst (login_submit (login_initial, demo_browser)))"
proof -
  have "form_step login_submit (\<lambda>s. True) login_respond (\<lambda>(p, b). lp_loading p) login_edit
      ((login_initial, demo_browser), 0) (login_submit (login_initial, demo_browser), if True then Suc 0 else 0)"
    by (rule form_step.submit) (simp add: login_initial_def)
  from r_into_rtranclp [of "form_step login_submit (\<lambda>s. True) login_respond (\<lambda>(p, b). lp_loading p) login_edit", OF this]
  show ?thesis
    using forms_single_request [of demo_browser "fst (login_submit (login_initial, demo_browser))" "snd (login_submit (login_initial, demo_browser))" 1
        signup_initial demo_browser 0 profile_initial demo_browser 0]
    by (simp split: if_splits)
qed

text \<open>C40. Saving the KIS keys sends nothing while one of them is empty. A success clears both inputs, says so
  and marks the loaded profile as having a key; a refusal or a lost connection keeps what was typed and
  the profile, and shows the server's text or a default that is never empty.\<close>

theorem save_keys_outcomes:
  "(save_sends (p, b) = (pp_kisApiKey p \<noteq> [] \<and> pp_kisSecretKey p \<noteq> []))
    \<and> (\<not> save_sends (p, b) \<longrightarrow> save_submit (p, b) = (p, b))
    \<and> (let (p', b') = save_respond r (p, b) in b' = b \<and> \<not> pp_saving p' \<and>
        (if r = SaveOk
         then pp_kisApiKey p' = [] \<and> pp_kisSecretKey p' = [] \<and> pp_message p' = Some (Success, msg_saved)
           \<and> map_option up_hasKisApiKey (pp_profile p') = map_option (\<lambda>u. True) (pp_profile p)
         else pp_kisApiKey p' = pp_kisApiKey p \<and> pp_kisSecretKey p' = pp_kisSecretKey p
           \<and> pp_profile p' = pp_profile p
           \<and> (case pp_message p' of Some (Error, m) \<Rightarrow> m \<noteq> [] | _ \<Rightarrow> False)))"
  by (cases r) (auto simp: save_sends_def save_submit_def save_respond_def save_body_def or_else_def
      option.map_comp comp_def msg_save_failed_def msg_no_server_def)

theorem save_keys_outcomes_witness:
  "save_submit (profile_initial\<lparr>pp_kisApiKey := js ''k''\<rparr>, demo_browser) = (profile_initial\<lparr>pp_kisApiKey := js ''k''\<rparr>, demo_browser)"
  using save_keys_outcomes [of "profile_initial\<lparr>pp_kisApiKey := js ''k''\<rparr>" demo_browser SaveFailed]
  by (simp add: profile_initial_def save_sends_def)

end
