(* ===== verification/JsNumber.thy ===== *)
theory JsNumber imports Prelude begin

section \<open>Decimal texts of numbers\<close>

text \<open>
  \<open>parseFloat\<close> and \<open>Number\<close> on decimal texts, and \<open>String\<close> of a number given as \<open>m / 10 ^ s\<close>. A result
  \<open>None\<close> is \<open>NaN\<close>. Values are exact rationals: the rounding of binary doubles is not modelled, nor are
  the texts \<open>Infinity\<close> and \<open>0x\<dots>\<close>. \<open>dec_str\<close> is the JavaScript text of magnitudes from \<open>1e-6\<close> up to
  \<open>1e21\<close>, the range in which no exponent is printed.
\<close>

definition is_digit :: "nat \<Rightarrow> bool" where
  "is_digit c \<longleftrightarrow> 48 \<le> c \<and> c \<le> 57"

definition span_digits :: "jstr \<Rightarrow> jstr \<times> jstr" where
  "span_digits s = (takeWhile is_digit s, dropWhile is_digit s)"

definition scale10 :: "rat \<Rightarrow> int \<Rightarrow> rat" where
  "scale10 v e = (if e < 0 then v / 10 ^ nat (- e) else v * 10 ^ nat e)"

text \<open>An exponent part, if a complete one follows.\<close>

definition parse_exponent :: "jstr \<Rightarrow> int \<times> jstr" where
  "parse_exponent s = (case s of
       c # r \<Rightarrow>
         if c = 101 \<or> c = 69
         then let (neg, r1) = (case r of d # r' \<Rightarrow> if d = 45 then (True, r') else if d = 43 then (False, r')
                                                  else (False, r) | [] \<Rightarrow> (False, []));
                  (ds, r2) = span_digits r1
              in if ds = [] then (0, s)
                 else ((if neg then - int (digits_value ds) else int (digits_value ds)), r2)
         else (0, s)
     | [] \<Rightarrow> (0, []))"

definition parse_unsigned :: "jstr \<Rightarrow> (rat \<times> jstr) option" where
  "parse_unsigned s =
     (let (ip, r1) = span_digits s;
          (fp, r2) = (case r1 of c # r \<Rightarrow> if c = 46 then span_digits r else ([], r1) | [] \<Rightarrow> ([], []))
      in if ip = [] \<and> fp = [] then None
         else let (e, r3) = parse_exponent r2;
                  v = of_nat (digits_value ip) + of_nat (digits_value fp) / 10 ^ length fp
              in Some (scale10 v e, r3))"

definition parse_signed :: "jstr \<Rightarrow> (rat \<times> jstr) option" where
  "parse_signed s = (case s of
       c # r \<Rightarrow> if c = 45 then map_option (\<lambda>(v, r'). (- v, r')) (parse_unsigned r)
               else if c = 43 then parse_unsigned r else parse_unsigned s
     | [] \<Rightarrow> None)"

definition parse_float :: "jstr \<Rightarrow> rat option" where
  "parse_float s = map_option fst (parse_signed (trim_start s))"

definition to_number :: "jstr \<Rightarrow> rat option" where
  "to_number s =
     (let t = trim s
      in if t = [] then Some 0
         else (case parse_signed t of Some (v, []) \<Rightarrow> Some v | _ \<Rightarrow> None))"

text \<open>\<open>String(m / 10 ^ s)\<close>\<close>

definition frac_digits :: "nat \<Rightarrow> nat \<Rightarrow> jstr" where
  "frac_digits s n = (let d = nat_str n in replicate (s - length d) 48 @ d)"

definition strip_zeros :: "jstr \<Rightarrow> jstr" where
  "strip_zeros ds = rev (dropWhile ((=) 48) (rev ds))"

definition dec_str :: "int \<Rightarrow> nat \<Rightarrow> jstr" where
  "dec_str m s =
     (let a = nat \<bar>m\<bar>; f = a mod 10 ^ s
      in (if m < 0 then [45] else []) @ nat_str (a div 10 ^ s)
         @ (if f = 0 then [] else 46 # strip_zeros (frac_digits s f)))"

lemma span_digits_all: "\<forall>c\<in>set ds. is_digit c \<Longrightarrow> span_digits ds = (ds, [])"
  by (simp add: span_digits_def takeWhile_eq_all_conv dropWhile_eq_Nil_conv)

lemma span_digits_stop:
  "\<forall>c\<in>set ds. is_digit c \<Longrightarrow> \<not> is_digit c \<Longrightarrow> span_digits (ds @ c # r) = (ds, c # r)"
  by (simp add: span_digits_def takeWhile_append2 dropWhile_append2)

lemma is_digit_nat_str: "c \<in> set (nat_str n) \<Longrightarrow> is_digit c"
  using nat_str_digits by (simp add: is_digit_def)

lemma digits_value_zeros: "digits_value (replicate k 48 @ ds) = digits_value ds"
  by (induction k) (simp_all add: digits_value_def)

lemma digits_value_append:
  "digits_value (xs @ ys) = digits_value xs * 10 ^ length ys + digits_value ys"
proof (induction ys rule: rev_induct)
  case (snoc y ys)
  have "digits_value (xs @ ys @ [y]) = 10 * digits_value (xs @ ys) + (y - 48)"
    using digits_value_snoc [of "xs @ ys" y] by simp
  with snoc show ?case by (simp add: digits_value_snoc algebra_simps)
qed (simp add: digits_value_def)

lemma strip_zeros_split: "\<exists>k. ds = strip_zeros ds @ replicate k 48"
proof -
  have "rev ds = takeWhile ((=) 48) (rev ds) @ dropWhile ((=) 48) (rev ds)" by simp
  moreover have "takeWhile ((=) 48) (rev ds) = replicate (length (takeWhile ((=) 48) (rev ds))) 48"
    by (rule replicate_length_same [symmetric]) (auto dest: set_takeWhileD)
  ultimately show ?thesis
    unfolding strip_zeros_def by (metis rev_append rev_replicate rev_rev_ident)
qed

lemma strip_zeros_value:
  "of_nat (digits_value (strip_zeros ds)) / 10 ^ length (strip_zeros ds)
     = (of_nat (digits_value ds) / 10 ^ length ds :: rat)"
proof -
  obtain k where k: "ds = strip_zeros ds @ replicate k 48" using strip_zeros_split by blast
  have z: "digits_value (replicate k 48) = 0"
    using digits_value_zeros [of k "[]"] by (simp add: digits_value_def)
  have "digits_value ds = digits_value (strip_zeros ds) * 10 ^ k"
    by (subst k) (simp add: digits_value_append z)
  moreover have "length ds = length (strip_zeros ds) + k" by (subst k) simp
  ultimately show ?thesis by (simp add: power_add)
qed

lemma length_nat_str_le: "n < 10 ^ s \<Longrightarrow> 0 < s \<Longrightarrow> length (nat_str n) \<le> s"
proof (induction s arbitrary: n)
  case (Suc s)
  show ?case
  proof (cases "n < 10")
    case False
    then have "n div 10 < 10 ^ s" "0 < s" using Suc.prems by (cases s; auto)+
    with Suc.IH [of "n div 10"] False show ?thesis by (simp add: nat_str_step)
  qed (simp add: nat_str_small)
qed simp

lemma frac_digits_length: "n < 10 ^ s \<Longrightarrow> 0 < s \<Longrightarrow> length (frac_digits s n) = s"
  using length_nat_str_le by (simp add: frac_digits_def Let_def)

lemma frac_digits_value: "digits_value (frac_digits s n) = n"
  by (simp add: frac_digits_def Let_def digits_value_zeros)

lemma frac_digits_digits: "c \<in> set (frac_digits s n) \<Longrightarrow> is_digit c"
  by (auto simp: frac_digits_def Let_def is_digit_nat_str is_digit_def [of 48])

lemma strip_zeros_subset: "c \<in> set (strip_zeros ds) \<Longrightarrow> c \<in> set ds"
  by (auto simp: strip_zeros_def dest: set_dropWhileD)

lemma parse_unsigned_dec:
  assumes "\<forall>c\<in>set ip. is_digit c" "\<forall>c\<in>set fp. is_digit c" "ip \<noteq> []"
  shows "parse_unsigned (ip @ (if fp = [] then [] else 46 # fp)) =
    Some (of_nat (digits_value ip) + of_nat (digits_value fp) / 10 ^ length fp, [])"
  using assms
  by (simp add: parse_unsigned_def span_digits_all span_digits_stop is_digit_def [of 46]
      parse_exponent_def scale10_def digits_value_def)

lemma dec_str_unsigned:
  fixes a s :: nat
  defines "f \<equiv> a mod 10 ^ s"
  shows "parse_unsigned (nat_str (a div 10 ^ s) @ (if f = 0 then [] else 46 # strip_zeros (frac_digits s f)))
    = Some (of_nat a / 10 ^ s, [])"
proof -
  let ?fp = "if f = 0 then [] else strip_zeros (frac_digits s f)"
  have f: "f < 10 ^ s" by (simp add: f_def)
  have val: "(of_nat (digits_value ?fp) / 10 ^ length ?fp :: rat) = of_nat f / 10 ^ s"
  proof (cases "f = 0")
    case True
    then show ?thesis by (simp add: digits_value_def)
  next
    case False
    then have "0 < s" using f by (cases s) auto
    with False f show ?thesis
      by (simp add: strip_zeros_value frac_digits_length frac_digits_value)
  qed
  have ne: "strip_zeros (frac_digits s f) \<noteq> []" if "f \<noteq> 0"
    using val that by (auto simp: digits_value_def)
  have dg: "\<forall>c\<in>set ?fp. is_digit c" by (auto dest: strip_zeros_subset frac_digits_digits)
  have e: "(if f = 0 then [] else 46 # strip_zeros (frac_digits s f)) = (if ?fp = [] then [] else 46 # ?fp)"
    using ne by auto
  have "parse_unsigned (nat_str (a div 10 ^ s) @ (if ?fp = [] then [] else 46 # ?fp))
      = Some (of_nat (a div 10 ^ s) + of_nat f / 10 ^ s, [])"
    using parse_unsigned_dec [of "nat_str (a div 10 ^ s)" ?fp] val dg
    by (simp add: is_digit_nat_str)
  moreover have "(of_nat (a div 10 ^ s) + of_nat f / 10 ^ s :: rat) = of_nat a / 10 ^ s"
  proof -
    have "a = a div 10 ^ s * 10 ^ s + f" unfolding f_def by (rule div_mult_mod_eq [symmetric])
    then have "(of_nat a :: rat) = of_nat (a div 10 ^ s * 10 ^ s + f)" by (rule arg_cong)
    also have "\<dots> = of_nat (a div 10 ^ s) * 10 ^ s + of_nat f"
      by (simp only: of_nat_add of_nat_mult of_nat_power of_nat_numeral)
    finally show ?thesis by (simp add: add_divide_distrib)
  qed
  ultimately show ?thesis unfolding e by simp
qed

text \<open>Printing a number and parsing the text gives the number back.\<close>

lemma parse_float_dec_str: "parse_float (dec_str m s) = Some (of_int m / 10 ^ s)"
proof -
  let ?a = "nat \<bar>m\<bar>"
  let ?t = "nat_str (?a div 10 ^ s) @ (if ?a mod 10 ^ s = 0 then [] else 46 # strip_zeros (frac_digits s (?a mod 10 ^ s)))"
  have d: "dec_str m s = (if m < 0 then [45] else []) @ ?t" by (simp add: dec_str_def Let_def)
  obtain c r where t: "?t = c # r" "is_digit c"
    using is_digit_nat_str nat_str_nonempty
    by (metis (no_types, lifting) append_Cons list.set_intros(1) neq_Nil_conv)
  have sp: "\<not> is_space c" "\<not> is_space 45" using t(2) by (auto simp: is_digit_def is_space_def)
  have p: "parse_unsigned (c # r) = Some (of_nat ?a / 10 ^ s, [])"
    using dec_str_unsigned [of ?a s] t(1) by simp
  have a: "(of_nat ?a :: rat) = (if m < 0 then - of_int m else of_int m)" by simp
  have c: "c \<noteq> 45" "c \<noteq> 43" using t(2) by (auto simp: is_digit_def)
  show ?thesis
    unfolding d t(1) using p sp a c by (simp add: parse_float_def parse_signed_def trim_start_def)
qed

end
