(* ===== verification/StockTypes.thy ===== *)
theory StockTypes imports Prelude begin

section \<open>The entries the dashboard passes between its components\<close>

text \<open>
  The exported interfaces of \<open>components/dashboard\<close>: \<open>Stock\<close>, \<open>AlarmEntry\<close> and \<open>AiSignalEntry\<close>. Their
  string fields are JavaScript strings, a \<open>Date\<close> is its time value in milliseconds.
\<close>

record stock =
  s_id :: jstr
  s_ticker :: jstr
  s_name :: jstr
  s_price :: jstr
  s_change :: jstr
  s_changeAmount :: jstr
  s_status :: jstr

datatype severity = HIGH | MEDIUM | LOW

record alarm_entry =
  al_id :: jstr
  al_timestamp :: int
  al_ticker :: jstr
  al_zscore :: rat
  al_price_change_pct :: rat
  al_current_price :: rat
  al_severity :: severity

datatype direction = BUY_READY | SELL_READY | NEUTRAL

record ai_signal_entry =
  ai_id :: jstr
  ai_timestamp :: int
  ai_ticker :: jstr
  ai_close :: rat
  ai_bullProbability :: rat
  ai_bearProbability :: rat
  ai_direction :: direction

end
