(* ===== verification/Dashboard.thy ===== *)
theory Dashboard imports Session JsNumber StockTypes begin

section \<open>The dashboard page (app/page.tsx)\<close>

text \<open>
  The state variables of the page, its search timer, the requests it has open, the token of its event
  stream and the browser. A handler is split at its \<open>await\<close>: the first part opens a request, the
  continuation is the answer to it. Answers may come in any order. A change of the search text runs the
  effect that restarts the timer. Values of a JSON message are \<open>jval\<close>; numbers are decimals \<open>m / 10 ^ s\<close>.
\<close>

subsection \<open>Messages of the server\<close>

datatype jval = JStr jstr | JNum int nat | JNull | JUndefined

definition js_string :: "jval \<Rightarrow> jstr" where
  "js_string v = (case v of JStr s \<Rightarrow> s | JNum m s \<Rightarrow> dec_str m s
     | JNull \<Rightarrow> js ''null'' | JUndefined \<Rightarrow> js ''undefined'')"

text \<open>\<open>v != null ? String(v) : null\<close>\<close>

definition string_unless_null :: "jval \<Rightarrow> jstr option" where
  "string_unless_null v = (case v of JNull \<Rightarrow> None | JUndefined \<Rightarrow> None | _ \<Rightarrow> Some (js_string v))"

record tick =
  tk_ticker :: jstr
  tk_price :: jval
  tk_changeRate :: jval
  tk_changeAmount :: jval

record raw_alarm =
  ra_ticker :: jstr
  ra_timestamp_ms :: int
  ra_zscore :: rat
  ra_price_change_pct :: rat
  ra_current_price :: rat
  ra_severity :: severity

record raw_signal =
  rs_ticker :: jstr
  rs_timestamp_ms :: int
  rs_close :: rat
  rs_bull_probability :: rat
  rs_bear_probability :: rat
  rs_direction :: direction

record stock_item =
  it_ticker :: jstr
  it_name :: jstr
  it_price :: "jstr option"
  it_currentPrice :: "jstr option"

subsection \<open>State\<close>

datatype dash_request =
    SubsReq jstr
  | SearchReq jstr jstr
  | SubscribeReq jstr jstr
  | UnsubscribeReq jstr jstr
  | LogoutReq jstr

datatype dash_reply = Items "stock_item list" | Done | Refused | Lost

record dash =
  selectedStock :: "stock option"
  loading :: bool
  stocks :: "stock list"
  alarms :: "alarm_entry list"
  aiSignals :: "ai_signal_entry list"
  newTicker :: jstr
  searchResults :: "stock list"
  showSearchResults :: bool
  timer :: "jstr option"
  open_requests :: "dash_request list"
  event_source :: "jstr option"
  browser :: browser

definition initial_dash :: "browser \<Rightarrow> dash" where
  "initial_dash b = \<lparr>selectedStock = None, loading = True, stocks = [], alarms = [], aiSignals = [],
     newTicker = [], searchResults = [], showSearchResults = False, timer = None,
     open_requests = [], event_source = None, browser = b\<rparr>"

definition auth_header :: "dash \<Rightarrow> jstr" where
  "auth_header s = (case storage (browser s) of None \<Rightarrow> [] | Some t \<Rightarrow> t)"

definition send :: "dash_request \<Rightarrow> dash \<Rightarrow> dash" where
  "send r s = s\<lparr>open_requests := open_requests s @ [r]\<rparr>"

subsection \<open>Subscriptions\<close>

definition fetch_subscriptions :: "dash \<Rightarrow> dash" where
  "fetch_subscriptions s = send (SubsReq (auth_header s)) s"

definition subscription_row :: "stock_item \<Rightarrow> stock" where
  "subscription_row item =
     \<lparr>s_id = it_ticker item, s_ticker = it_ticker item, s_name = it_name item,
      s_price = (case it_price item of
          Some p \<Rightarrow> if p \<noteq> [] \<and> p \<noteq> js ''0'' then p else js ''0''
        | None \<Rightarrow> js ''0''),
      s_change = js ''0.00%'', s_changeAmount = js ''0'', s_status = js ''stable''\<rparr>"

definition search_row :: "stock_item \<Rightarrow> stock" where
  "search_row item =
     \<lparr>s_id = it_ticker item, s_ticker = it_ticker item, s_name = it_name item,
      s_price = (case it_currentPrice item of
          Some p \<Rightarrow> if p \<noteq> [] then p else js ''0''
        | None \<Rightarrow> js ''0''),
      s_change = js ''0.00%'', s_changeAmount = js ''0'', s_status = js ''stable''\<rparr>"

subsection \<open>Search\<close>

text \<open>The search effect: the cleanup clears the old timer, the setup starts one for the new text.\<close>

definition search_effect :: "dash \<Rightarrow> dash" where
  "search_effect s = s\<lparr>timer := Some (newTicker s)\<rparr>"

definition set_new_ticker :: "jstr \<Rightarrow> dash \<Rightarrow> dash" where
  "set_new_ticker v s = (if v = newTicker s then s else search_effect (s\<lparr>newTicker := v\<rparr>))"

definition search_stocks :: "jstr \<Rightarrow> dash \<Rightarrow> dash" where
  "search_stocks query s =
     (if length query < 2 then s\<lparr>searchResults := [], showSearchResults := False\<rparr>
      else send (SearchReq (auth_header s) query) s)"

definition timer_expires :: "dash \<Rightarrow> dash" where
  "timer_expires s = (case timer s of None \<Rightarrow> s | Some q \<Rightarrow> search_stocks q (s\<lparr>timer := None\<rparr>))"

definition focus_search :: "dash \<Rightarrow> dash" where
  "focus_search s = (if 2 \<le> length (newTicker s) then s\<lparr>showSearchResults := True\<rparr> else s)"

subsection \<open>Mounting: the token guard and the event stream\<close>

definition mount_dash :: "dash \<Rightarrow> dash" where
  "mount_dash s =
     (let s = search_effect s
      in case storage (browser s) of
           None \<Rightarrow> s\<lparr>browser := navigate login_path (browser s)\<rparr>
         | Some token \<Rightarrow>
             if token = [] then s\<lparr>browser := navigate login_path (browser s)\<rparr>
             else (fetch_subscriptions (s\<lparr>loading := False\<rparr>))\<lparr>event_source := Some (raw_token token)\<rparr>)"

definition unmount_dash :: "dash \<Rightarrow> dash" where
  "unmount_dash s = s\<lparr>event_source := None, timer := None\<rparr>"

text \<open>The same update for a row and for the selected stock.\<close>

definition apply_stock_tick :: "tick \<Rightarrow> stock \<Rightarrow> stock" where
  "apply_stock_tick tk st =
     (if s_ticker st \<noteq> tk_ticker tk then st
      else let st1 = st\<lparr>s_price := js_string (tk_price tk)\<rparr>;
               st2 = (case string_unless_null (tk_changeRate tk) of
                        None \<Rightarrow> st1 | Some rate \<Rightarrow> st1\<lparr>s_change := rate @ js ''%''\<rparr>)
           in case string_unless_null (tk_changeAmount tk) of
                None \<Rightarrow> st2 | Some amount \<Rightarrow> st2\<lparr>s_changeAmount := amount\<rparr>)"

definition stock_tick :: "tick \<Rightarrow> dash \<Rightarrow> dash" where
  "stock_tick tk s = s\<lparr>stocks := map (apply_stock_tick tk) (stocks s),
     selectedStock := map_option (apply_stock_tick tk) (selectedStock s)\<rparr>"

definition entry_id :: "jstr \<Rightarrow> int \<Rightarrow> jstr" where
  "entry_id ticker ms = ticker @ js ''-'' @ int_str ms"

definition new_alarm :: "raw_alarm \<Rightarrow> alarm_entry" where
  "new_alarm raw =
     \<lparr>al_id = entry_id (ra_ticker raw) (ra_timestamp_ms raw), al_timestamp = ra_timestamp_ms raw,
      al_ticker = ra_ticker raw, al_zscore = ra_zscore raw,
      al_price_change_pct = ra_price_change_pct raw, al_current_price = ra_current_price raw,
      al_severity = ra_severity raw\<rparr>"

definition anomaly_alert :: "raw_alarm \<Rightarrow> dash \<Rightarrow> dash" where
  "anomaly_alert raw s = s\<lparr>alarms := new_alarm raw # take 49 (alarms s)\<rparr>"

definition new_signal :: "raw_signal \<Rightarrow> ai_signal_entry" where
  "new_signal raw =
     \<lparr>ai_id = entry_id (rs_ticker raw) (rs_timestamp_ms raw), ai_timestamp = rs_timestamp_ms raw,
      ai_ticker = rs_ticker raw, ai_close = rs_close raw,
      ai_bullProbability = rs_bull_probability raw, ai_bearProbability = rs_bear_probability raw,
      ai_direction = rs_direction raw\<rparr>"

definition ai_signal :: "raw_signal \<Rightarrow> dash \<Rightarrow> dash" where
  "ai_signal raw s = s\<lparr>aiSignals := new_signal raw # take 49 (aiSignals s)\<rparr>"

subsection \<open>Handlers\<close>

definition handle_subscribe :: "jstr option \<Rightarrow> dash \<Rightarrow> dash" where
  "handle_subscribe tickerToAdd s =
     (let targetTicker = (case tickerToAdd of None \<Rightarrow> newTicker s | Some t \<Rightarrow> or_else t (newTicker s))
      in if targetTicker = [] then s else send (SubscribeReq (auth_header s) targetTicker) s)"

definition handle_unsubscribe :: "jstr \<Rightarrow> dash \<Rightarrow> dash" where
  "handle_unsubscribe ticker s = send (UnsubscribeReq (auth_header s) ticker) s"

definition subscribed :: "dash \<Rightarrow> dash" where
  "subscribed s = fetch_subscriptions (set_new_ticker [] (s\<lparr>showSearchResults := False\<rparr>))"

definition unsubscribed :: "jstr \<Rightarrow> dash \<Rightarrow> dash" where
  "unsubscribed ticker s = s\<lparr>stocks := filter (\<lambda>st. s_ticker st \<noteq> ticker) (stocks s),
     selectedStock := (case selectedStock s of
         None \<Rightarrow> None
       | Some st \<Rightarrow> if s_ticker st = ticker then None else Some st)\<rparr>"

definition select_stock :: "stock \<Rightarrow> dash \<Rightarrow> dash" where
  "select_stock st s = s\<lparr>selectedStock := Some st\<rparr>"

definition logout_click :: "dash \<Rightarrow> dash" where
  "logout_click s = (case handle_logout (browser s) of
       (None, b) \<Rightarrow> s\<lparr>browser := b\<rparr>
     | (Some token, b) \<Rightarrow> send (LogoutReq token) (s\<lparr>browser := b\<rparr>))"

definition logged_out :: "dash \<Rightarrow> dash" where
  "logged_out s = s\<lparr>browser := logout_body (browser s)\<rparr>"

fun continue_with :: "dash_request \<Rightarrow> dash_reply \<Rightarrow> dash \<Rightarrow> dash" where
  "continue_with (SubsReq a) (Items xs) s = s\<lparr>stocks := map subscription_row xs\<rparr>"
| "continue_with (SearchReq a q) (Items xs) s =
     s\<lparr>searchResults := map search_row xs, showSearchResults := True\<rparr>"
| "continue_with (SubscribeReq a t) Done s = subscribed s"
| "continue_with (UnsubscribeReq a t) Done s = unsubscribed t s"
| "continue_with (LogoutReq a) r s = logged_out s"
| "continue_with r a s = s"

definition reply :: "nat \<Rightarrow> dash_reply \<Rightarrow> dash \<Rightarrow> dash" where
  "reply k r s =
     (if k < length (open_requests s)
      then continue_with (open_requests s ! k) r
        (s\<lparr>open_requests := take k (open_requests s) @ drop (Suc k) (open_requests s)\<rparr>)
      else s)"

text \<open>
  The events of the mounted page. The stream delivers messages while it is open; a row can be clicked
  while it is shown.
\<close>

datatype event =
    Typed jstr
  | TimerExpired
  | Focused
  | Tick tick
  | Alert raw_alarm
  | Signal raw_signal
  | ResultClicked stock
  | RemoveClicked stock
  | RowClicked stock
  | LogoutClicked
  | Replied nat dash_reply

fun handle :: "event \<Rightarrow> dash \<Rightarrow> dash" where
  "handle (Typed v) s = set_new_ticker v s"
| "handle TimerExpired s = timer_expires s"
| "handle Focused s = focus_search s"
| "handle (Tick tk) s = (if event_source s = None then s else stock_tick tk s)"
| "handle (Alert raw) s = (if event_source s = None then s else anomaly_alert raw s)"
| "handle (Signal raw) s = (if event_source s = None then s else ai_signal raw s)"
| "handle (ResultClicked r) s =
     (if showSearchResults s \<and> r \<in> set (searchResults s) then handle_subscribe (Some (s_ticker r)) s else s)"
| "handle (RemoveClicked st) s = (if st \<in> set (stocks s) then handle_unsubscribe (s_ticker st) s else s)"
| "handle (RowClicked st) s = (if st \<in> set (stocks s) then select_stock st s else s)"
| "handle LogoutClicked s = logout_click s"
| "handle (Replied k r) s = reply k r s"

inductive dash_step :: "dash \<Rightarrow> dash \<Rightarrow> bool" where
  "dash_step s (handle e s)"

inductive_cases dash_stepE: "dash_step s t"

lemmas dash_defs = set_new_ticker_def search_effect_def timer_expires_def search_stocks_def focus_search_def
  stock_tick_def anomaly_alert_def ai_signal_def handle_subscribe_def handle_unsubscribe_def select_stock_def
  logout_click_def logged_out_def send_def fetch_subscriptions_def subscribed_def unsubscribed_def

section \<open>Lemmas\<close>

lemma continue_cases:
  obtains (rows) a xs where "r = SubsReq a" "p = Items xs" "continue_with r p s = s\<lparr>stocks := map subscription_row xs\<rparr>"
  | (results) a q xs where "r = SearchReq a q" "p = Items xs"
      "continue_with r p s = s\<lparr>searchResults := map search_row xs, showSearchResults := True\<rparr>"
  | (added) a t where "r = SubscribeReq a t" "p = Done" "continue_with r p s = subscribed s"
  | (removed) a t where "r = UnsubscribeReq a t" "p = Done" "continue_with r p s = unsubscribed t s"
  | (left) a where "r = LogoutReq a" "continue_with r p s = logged_out s"
  | (ignored) "continue_with r p s = s"
proof (cases r)
  case (SubsReq a)
  then show thesis using rows ignored by (cases p) simp_all
next
  case (SearchReq a q)
  then show thesis using results ignored by (cases p) simp_all
next
  case (SubscribeReq a t)
  then show thesis using added ignored by (cases p) simp_all
next
  case (UnsubscribeReq a t)
  then show thesis using removed ignored by (cases p) simp_all
next
  case (LogoutReq a)
  then show thesis by (rule left) (simp add: LogoutReq)
qed

subsection \<open>Logs that keep the newest entries\<close>

text \<open>
  A log is a view of a state that changes with the events that carry an entry only: the entry goes in
  front of the newest \<open>keep - 1\<close>. Then the log is always the newest \<open>keep\<close> entries of all that came.
\<close>

locale recent_log =
  fixes handler :: "'ev \<Rightarrow> 's \<Rightarrow> 's" and live :: "'s \<Rightarrow> bool"
    and view :: "'s \<Rightarrow> 'e list" and entry :: "'ev \<Rightarrow> 'e option" and keep :: nat
  assumes keep_pos: "0 < keep"
    and live_handler: "live s \<Longrightarrow> live (handler ev s)"
    and view_handler: "live s \<Longrightarrow> view (handler ev s) =
        (case entry ev of None \<Rightarrow> view s | Some x \<Rightarrow> x # take (keep - 1) (view s))"
begin

lemma live_fold: "live s \<Longrightarrow> live (fold handler evs s)"
  by (induction evs arbitrary: s) (simp_all add: live_handler)

lemma newest:
  assumes "live s" and "length (view s) \<le> keep"
  shows "view (fold handler evs s) = take keep (rev (List.map_filter entry evs) @ view s)"
proof (induction evs rule: rev_induct)
  case Nil
  then show ?case using assms(2) by (simp add: map_filter_simps)
next
  case (snoc ev evs)
  have mf: "List.map_filter entry (evs @ [ev]) = List.map_filter entry evs @ (case entry ev of None \<Rightarrow> [] | Some x \<Rightarrow> [x])"
    by (simp add: List.map_filter_def split: option.split)
  obtain k where k: "keep = Suc k" using keep_pos by (cases keep) auto
  show ?case
    using view_handler [OF live_fold [OF assms(1), of evs], of ev] snoc.IH k
    by (auto simp: mf min_def split: option.splits)
qed

lemma bounded: "live s \<Longrightarrow> length (view s) \<le> keep \<Longrightarrow> length (view (fold handler evs s)) \<le> keep"
  by (simp add: newest)

end

definition alarm_of :: "event \<Rightarrow> alarm_entry option" where
  "alarm_of e = (case e of Alert raw \<Rightarrow> Some (new_alarm raw) | _ \<Rightarrow> None)"

definition signal_of :: "event \<Rightarrow> ai_signal_entry option" where
  "signal_of e = (case e of Signal raw \<Rightarrow> Some (new_signal raw) | _ \<Rightarrow> None)"

definition streaming :: "dash \<Rightarrow> bool" where
  "streaming s \<longleftrightarrow> event_source s \<noteq> None"

text \<open>What the handlers other than the alerts leave alone.\<close>

definition same_feed :: "dash \<Rightarrow> dash \<Rightarrow> bool" where
  "same_feed s t \<longleftrightarrow> event_source t = event_source s \<and> alarms t = alarms s
     \<and> aiSignals t = aiSignals s \<and> loading t = loading s"

lemma same_feed_handlers [simp]:
  "same_feed s (set_new_ticker v s)" "same_feed s (search_stocks q s)" "same_feed s (timer_expires s)"
  "same_feed s (focus_search s)" "same_feed s (stock_tick tk s)" "same_feed s (handle_subscribe o1 s)"
  "same_feed s (handle_unsubscribe t s)" "same_feed s (select_stock st s)" "same_feed s (logout_click s)"
  "same_feed s (subscribed s)" "same_feed s (unsubscribed t s)" "same_feed s (logged_out s)"
  by (simp_all add: same_feed_def dash_defs Let_def split: option.split prod.split)

lemma same_feed_continue: "same_feed s (continue_with r p s)"
  by (cases rule: continue_cases [of r p s]) (auto simp: same_feed_def [of s "s\<lparr>stocks := x\<rparr>" for x]
      same_feed_def [of s "s\<lparr>searchResults := x, showSearchResults := y\<rparr>" for x y] same_feed_def [of s s])

lemma same_feed_reply [simp]: "same_feed s (reply k r s)"
  using same_feed_continue [of "s\<lparr>open_requests := take k (open_requests s) @ drop (Suc k) (open_requests s)\<rparr>"
      "open_requests s ! k" r]
  by (simp add: reply_def same_feed_def)

lemma handle_feed:
  "(\<And>raw. e \<noteq> Alert raw) \<Longrightarrow> (\<And>raw. e \<noteq> Signal raw) \<Longrightarrow> same_feed s (handle e s)"
  by (cases e) (auto simp: same_feed_def [of s s])

lemma handle_frame:
  "streaming (handle e s) = streaming s" "loading (handle e s) = loading s"
  "streaming s \<Longrightarrow> alarms (handle e s) = (case alarm_of e of None \<Rightarrow> alarms s | Some x \<Rightarrow> x # take (50 - 1) (alarms s))"
  "streaming s \<Longrightarrow> aiSignals (handle e s) = (case signal_of e of None \<Rightarrow> aiSignals s | Some x \<Rightarrow> x # take (50 - 1) (aiSignals s))"
proof -
  consider raw where "e = Alert raw" | raw where "e = Signal raw" | "same_feed s (handle e s)"
    "alarm_of e = None" "signal_of e = None"
    using handle_feed [of e s] by (cases e) (auto simp: alarm_of_def signal_of_def)
  then have "streaming (handle e s) = streaming s \<and> loading (handle e s) = loading s
    \<and> (streaming s \<longrightarrow> alarms (handle e s) = (case alarm_of e of None \<Rightarrow> alarms s | Some x \<Rightarrow> x # take (50 - 1) (alarms s)))
    \<and> (streaming s \<longrightarrow> aiSignals (handle e s) = (case signal_of e of None \<Rightarrow> aiSignals s | Some x \<Rightarrow> x # take (50 - 1) (aiSignals s)))"
    by cases (auto simp: same_feed_def streaming_def anomaly_alert_def ai_signal_def alarm_of_def signal_of_def)
  then show "streaming (handle e s) = streaming s" "loading (handle e s) = loading s"
  "streaming s \<Longrightarrow> alarms (handle e s) = (case alarm_of e of None \<Rightarrow> alarms s | Some x \<Rightarrow> x # take (50 - 1) (alarms s))"
  "streaming s \<Longrightarrow> aiSignals (handle e s) = (case signal_of e of None \<Rightarrow> aiSignals s | Some x \<Rightarrow> x # take (50 - 1) (aiSignals s))"
    by blast+
qed

interpretation alarm_log: recent_log handle streaming alarms alarm_of 50
  by unfold_locales (simp_all only: handle_frame zero_less_numeral)

interpretation signal_log: recent_log handle streaming aiSignals signal_of 50
  by unfold_locales (simp_all only: handle_frame zero_less_numeral)


subsection \<open>Ticks\<close>

lemma tick_keeps [simp]:
  "s_id (apply_stock_tick tk st) = s_id st" "s_ticker (apply_stock_tick tk st) = s_ticker st"
  "s_name (apply_stock_tick tk st) = s_name st" "s_status (apply_stock_tick tk st) = s_status st"
  by (simp_all add: apply_stock_tick_def Let_def split: option.split)

lemma tick_other: "s_ticker st \<noteq> tk_ticker tk \<Longrightarrow> apply_stock_tick tk st = st"
  by (simp add: apply_stock_tick_def)

lemma tick_values:
  assumes "s_ticker st = tk_ticker tk"
  shows "s_price (apply_stock_tick tk st) = js_string (tk_price tk)"
    and "s_change (apply_stock_tick tk st) =
      (case string_unless_null (tk_changeRate tk) of None \<Rightarrow> s_change st | Some r \<Rightarrow> r @ js ''%'')"
    and "s_changeAmount (apply_stock_tick tk st) =
      (case string_unless_null (tk_changeAmount tk) of None \<Rightarrow> s_changeAmount st | Some a \<Rightarrow> a)"
  using assms by (simp_all add: apply_stock_tick_def Let_def split: option.split)

text \<open>What a stock shows after a run of ticks, told by the last tick of its ticker that has the value.\<close>

definition latest :: "(tick \<Rightarrow> jstr option) \<Rightarrow> jstr \<Rightarrow> tick list \<Rightarrow> jstr \<Rightarrow> jstr" where
  "latest f ticker tks old =
     (let said = List.map_filter f (filter (\<lambda>tk. tk_ticker tk = ticker) tks)
      in if said = [] then old else last said)"

definition after_ticks :: "tick list \<Rightarrow> stock \<Rightarrow> stock" where
  "after_ticks tks st = st
     \<lparr>s_price := latest (\<lambda>tk. Some (js_string (tk_price tk))) (s_ticker st) tks (s_price st),
      s_change := latest (\<lambda>tk. map_option (\<lambda>r. r @ js ''%'') (string_unless_null (tk_changeRate tk)))
        (s_ticker st) tks (s_change st),
      s_changeAmount := latest (\<lambda>tk. string_unless_null (tk_changeAmount tk)) (s_ticker st) tks (s_changeAmount st)\<rparr>"

lemma latest_Nil [simp]: "latest f ticker [] old = old"
  by (simp add: latest_def map_filter_simps)

lemma latest_Cons:
  "latest f ticker (tk # tks) old =
     latest f ticker tks (if tk_ticker tk = ticker then (case f tk of None \<Rightarrow> old | Some v \<Rightarrow> v) else old)"
  by (simp add: latest_def map_filter_simps split: option.split)

lemma fold_ticks_latest: "fold apply_stock_tick tks = after_ticks tks"
proof
  show "fold apply_stock_tick tks st = after_ticks tks st" for st
  proof (induction tks arbitrary: st)
    case (Cons tk tks)
    show ?case
    proof (cases "s_ticker st = tk_ticker tk")
      case True
      then show ?thesis
        by (cases st) (auto simp: Cons after_ticks_def latest_Cons tick_values, auto simp: apply_stock_tick_def Let_def split: option.split)
    next
      case False
      then show ?thesis by (simp add: Cons after_ticks_def latest_Cons tick_other)
    qed
  qed (simp add: after_ticks_def)
qed

text \<open>The selected stock is one of the rows.\<close>

definition coherent :: "dash \<Rightarrow> bool" where
  "coherent s \<longleftrightarrow> (case selectedStock s of None \<Rightarrow> True | Some st \<Rightarrow> st \<in> set (stocks s))"

definition replaces_rows :: "event \<Rightarrow> dash \<Rightarrow> bool" where
  "replaces_rows e s = (case e of
       Replied k (Items xs) \<Rightarrow> k < length (open_requests s)
         \<and> (case open_requests s ! k of SubsReq a \<Rightarrow> True | _ \<Rightarrow> False)
     | _ \<Rightarrow> False)"

fun keeps_rows :: "event list \<Rightarrow> dash \<Rightarrow> bool" where
  "keeps_rows [] s = True"
| "keeps_rows (e # es) s = (\<not> replaces_rows e s \<and> keeps_rows es (handle e s))"

lemma coherent_cong: "selectedStock t = selectedStock s \<Longrightarrow> stocks t = stocks s \<Longrightarrow> coherent t = coherent s"
  by (simp add: coherent_def split: option.split)

lemma coherent_unsubscribed: "coherent s \<Longrightarrow> coherent (unsubscribed t s)"
  by (auto simp: coherent_def unsubscribed_def split: option.splits)

lemma coherent_simple [simp]:
  "coherent (set_new_ticker v s) = coherent s" "coherent (timer_expires s) = coherent s"
  "coherent (focus_search s) = coherent s" "coherent (anomaly_alert ra s) = coherent s"
  "coherent (ai_signal rs s) = coherent s" "coherent (handle_subscribe o1 s) = coherent s"
  "coherent (handle_unsubscribe x s) = coherent s" "coherent (logout_click s) = coherent s"
  "coherent (subscribed s) = coherent s" "coherent (logged_out s) = coherent s" "coherent (s\<lparr>open_requests := q\<rparr>) = coherent s"
  by (rule coherent_cong; simp add: dash_defs Let_def split: option.split prod.split)+

lemma coherent_handle:
  assumes "coherent s" and "\<not> replaces_rows e s"
  shows "coherent (handle e s)"
proof (cases e)
  case (Tick tk)
  then show ?thesis using assms(1) by (auto simp: coherent_def stock_tick_def split: option.splits)
next
  case (RowClicked st)
  then show ?thesis using assms(1) by (simp add: coherent_def select_stock_def)
next
  case (Replied k r)
  let ?u = "s\<lparr>open_requests := take k (open_requests s) @ drop (Suc k) (open_requests s)\<rparr>"
  have "coherent ?u" using assms(1) by simp
  moreover have "coherent (?u\<lparr>searchResults := x, showSearchResults := y\<rparr>)" for x y
    using assms(1) by (simp add: coherent_def split: option.splits)
  ultimately show ?thesis using assms Replied
    by (cases rule: continue_cases [of "open_requests s ! k" r ?u])
      (auto simp: reply_def replaces_rows_def intro: coherent_unsubscribed)
qed (use assms in simp_all)

section \<open>Properties of the dashboard\<close>

definition demo_row :: stock where
  "demo_row = \<lparr>s_id = js ''A'', s_ticker = js ''A'', s_name = js ''Alpha'', s_price = js ''10'',
     s_change = js ''1%'', s_changeAmount = js ''0.1'', s_status = js ''stable''\<rparr>"

definition demo_dash :: dash where
  "demo_dash = (initial_dash (demo_browser\<lparr>storage := Some (js ''Bearer t'')\<rparr>))
     \<lparr>stocks := [demo_row, demo_row\<lparr>s_ticker := js ''B''\<rparr>], selectedStock := Some demo_row,
      loading := False, event_source := Some (js ''t'')\<rparr>"

definition demo_alarm :: raw_alarm where
  "demo_alarm = \<lparr>ra_ticker = js ''A'', ra_timestamp_ms = 7, ra_zscore = 3, ra_price_change_pct = 2,
     ra_current_price = 10, ra_severity = HIGH\<rparr>"

text \<open>C4. While the event stream is open, both logs are the newest 50 entries of everything received, newest
  first, whatever other events come in between.\<close>

theorem logs_keep_newest:
  assumes "event_source s \<noteq> None" and "length (alarms s) \<le> 50" and "length (aiSignals s) \<le> 50"
  shows "alarms (fold handle evs s) = take 50 (rev (List.map_filter alarm_of evs) @ alarms s)
    \<and> aiSignals (fold handle evs s) = take 50 (rev (List.map_filter signal_of evs) @ aiSignals s)"
  using alarm_log.newest [of s] signal_log.newest [of s] assms by (simp add: streaming_def)

theorem logs_keep_newest_witness:
  "alarms (fold handle (replicate 60 (Alert demo_alarm)) demo_dash) = replicate 50 (new_alarm demo_alarm)"
proof -
  have "List.map_filter alarm_of (replicate n (Alert demo_alarm)) = replicate n (new_alarm demo_alarm)" for n
    by (induction n) (simp_all add: map_filter_simps alarm_of_def)
  then show ?thesis
    using logs_keep_newest [of demo_dash "replicate 60 (Alert demo_alarm)"]
    by (simp add: demo_dash_def initial_dash_def)
qed

text \<open>C12. The selected stock, which the chart shows, is always one of the rows with the same price and
  change: every event keeps this, ticks included, except an answer that replaces the rows.\<close>

theorem selection_is_a_row:
  assumes "coherent s" and "keeps_rows evs s"
  shows "coherent (fold handle evs s)"
  using assms by (induction evs arbitrary: s) (simp_all add: coherent_handle)

theorem selection_is_a_row_witness:
  "coherent (fold handle [Tick \<lparr>tk_ticker = js ''A'', tk_price = JNum 12 0, tk_changeRate = JNull, tk_changeAmount = JNull\<rparr>,
      RowClicked demo_row] demo_dash)"
  by (rule selection_is_a_row)
    (simp_all add: coherent_def demo_dash_def initial_dash_def replaces_rows_def)

text \<open>C32. While the stream is open, after any run of ticks every row, and the selection, shows what the last
  tick of its own ticker said: the price as text, and the change rate and the amount of the last such
  tick that had one. Everything else of a row is as before, and stocks no tick was about are unchanged.
  A message may carry a value as a text, as the server's do, or as a number, whose text \<open>parseFloat\<close> reads
  back as the same number.\<close>

theorem tick_updates_rows:
  assumes "event_source s \<noteq> None"
  shows "let s' = fold (\<lambda>tk. handle (Tick tk)) tks s in
      stocks s' = map (after_ticks tks) (stocks s)
    \<and> selectedStock s' = map_option (after_ticks tks) (selectedStock s)
    \<and> parse_float (js_string (JNum m d)) = Some (of_int m / 10 ^ d)"
proof -
  have "stocks (fold (\<lambda>tk. handle (Tick tk)) tks s) = map (fold apply_stock_tick tks) (stocks s)
      \<and> selectedStock (fold (\<lambda>tk. handle (Tick tk)) tks s) = map_option (fold apply_stock_tick tks) (selectedStock s)"
    using assms
  proof (induction tks arbitrary: s)
    case (Cons tk tks)
    have "event_source (handle (Tick tk) s) \<noteq> None" using Cons.prems by (simp add: stock_tick_def)
    from Cons.IH [OF this] Cons.prems show ?case by (auto simp: stock_tick_def comp_def option.map_comp)
  qed (simp add: option.map_id)
  then show ?thesis
    by (simp add: Let_def fold_ticks_latest js_string_def parse_float_dec_str)
qed

theorem tick_updates_rows_witness:
  "selectedStock (fold (\<lambda>tk. handle (Tick tk))
     [\<lparr>tk_ticker = js ''A'', tk_price = JStr (js ''12.5''), tk_changeRate = JStr (js ''-8''), tk_changeAmount = JNull\<rparr>,
      \<lparr>tk_ticker = js ''B'', tk_price = JStr (js ''7''), tk_changeRate = JNull, tk_changeAmount = JNull\<rparr>] demo_dash)
   = Some (demo_row\<lparr>s_price := js ''12.5'', s_change := js ''-8%''\<rparr>)"
  using tick_updates_rows [of demo_dash
     "[\<lparr>tk_ticker = js ''A'', tk_price = JStr (js ''12.5''), tk_changeRate = JStr (js ''-8''), tk_changeAmount = JNull\<rparr>,
       \<lparr>tk_ticker = js ''B'', tk_price = JStr (js ''7''), tk_changeRate = JNull, tk_changeAmount = JNull\<rparr>]" 0 0]
  by (simp add: demo_dash_def initial_dash_def demo_row_def after_ticks_def latest_def Let_def js_string_def
      string_unless_null_def)

text \<open>C33. A successful unsubscription removes exactly the rows of that ticker and clears the selection if and
  only if it was that ticker; a refusal or a lost connection keeps the rows and the selection.\<close>

theorem unsubscribe_outcomes:
  assumes "k < length (open_requests s)" and "open_requests s ! k = UnsubscribeReq a t"
  shows "stocks (reply k Done s) = filter (\<lambda>st. s_ticker st \<noteq> t) (stocks s)
    \<and> (selectedStock (reply k Done s) = None) = (selectedStock s = None \<or> map_option s_ticker (selectedStock s) = Some t)
    \<and> open_requests (reply k Done s) = take k (open_requests s) @ drop (Suc k) (open_requests s)
    \<and> stocks (reply k Refused s) = stocks s \<and> selectedStock (reply k Refused s) = selectedStock s
    \<and> stocks (reply k Lost s) = stocks s \<and> selectedStock (reply k Lost s) = selectedStock s"
  using assms by (auto simp: reply_def unsubscribed_def split: option.split)

theorem unsubscribe_outcomes_witness:
  "selectedStock (reply 0 Done (handle_unsubscribe (js ''A'') demo_dash)) = None"
  using unsubscribe_outcomes [of 0 "handle_unsubscribe (js ''A'') demo_dash" "auth_header demo_dash" "js ''A''"]
  by (simp add: handle_unsubscribe_def send_def demo_dash_def initial_dash_def demo_row_def)

text \<open>Every answer to a subscription list sets all rows to no change, also rows whose rate and amount
  ticks had set; the selection is left as it is and may then disagree with its row.\<close>

theorem refetch_resets_changes:
  assumes "k < length (open_requests s)" and "open_requests s ! k = SubsReq a"
  shows "map s_ticker (stocks (reply k (Items xs) s)) = map it_ticker xs
    \<and> list_all (\<lambda>st. s_change st = js ''0.00%'' \<and> s_changeAmount st = js ''0'') (stocks (reply k (Items xs) s))
    \<and> selectedStock (reply k (Items xs) s) = selectedStock s"
  using assms by (simp add: reply_def subscription_row_def comp_def list_all_iff)

theorem refetch_resets_changes_witness:
  "list_all (\<lambda>st. s_change st = js ''0.00%'' \<and> s_changeAmount st = js ''0'')
     (stocks (reply 0 (Items [\<lparr>it_ticker = js ''A'', it_name = js ''Alpha'', it_price = Some (js ''11''), it_currentPrice = None\<rparr>])
       (fetch_subscriptions demo_dash)))"
  using refetch_resets_changes [of 0 "fetch_subscriptions demo_dash" "auth_header demo_dash"]
  by (simp add: fetch_subscriptions_def send_def demo_dash_def initial_dash_def)

text \<open>Typing restarts the search timer for the text now in the input; a request goes out only when the
  timer expires and the text has at least two characters, otherwise the results are hidden. An answer
  to a search is shown whatever the input holds by then.\<close>

theorem search_flow:
  "timer (set_new_ticker v s) = (if v = newTicker s then timer s else Some v)
    \<and> open_requests (set_new_ticker v s) = open_requests s
    \<and> (let t = timer_expires (set_new_ticker v s\<lparr>timer := Some v\<rparr>) in
         timer t = None
       \<and> open_requests t = open_requests s @ (if length v < 2 then [] else [SearchReq (auth_header s) v])
       \<and> (2 \<le> length v \<or> (searchResults t = [] \<and> \<not> showSearchResults t)))
    \<and> showSearchResults (continue_with (SearchReq a q) (Items xs) s)
    \<and> searchResults (continue_with (SearchReq a q) (Items xs) s) = map search_row xs
    \<and> newTicker (continue_with (SearchReq a q) (Items xs) s) = newTicker s"
  by (simp add: dash_defs Let_def auth_header_def)

text \<open>Without a token the page stays in its loading state, asks for nothing, opens no event stream and goes
  to the login page; with one it leaves the loading state, asks once for the subscriptions with that
  token and opens the stream with the token without its scheme.\<close>

theorem mount_guards:
  "let s = mount_dash (initial_dash b) in
     if storage b \<in> {None, Some []}
     then loading s \<and> open_requests s = [] \<and> event_source s = None \<and> routes (browser s) = routes b @ [login_path]
     else \<not> loading s \<and> open_requests s = [SubsReq (the (storage b))]
       \<and> event_source s = Some (raw_token (the (storage b))) \<and> browser s = b"
  by (auto simp: mount_dash_def initial_dash_def Let_def search_effect_def fetch_subscriptions_def send_def
      auth_header_def navigate_def split: option.split)

end
