(* ===== verification/JsDate.thy ===== *)
theory JsDate imports Prelude begin

section \<open>UTC dates of the JavaScript runtime\<close>

text \<open>
  The part of \<open>Date\<close> the chart uses: a time value is an integer number of milliseconds since
  1970-01-01T00:00Z, and the calendar fields are those of ECMAScript (\<open>DayFromYear\<close>, \<open>YearFromTime\<close>,
  \<open>MonthFromTime\<close>, \<open>DateFromTime\<close>, \<open>MakeDay\<close>). A scale is an increasing sequence of start points with
  the index of the interval that holds a point; years and the months of a year are both scales, and
  the two facts about a scale (the index is unique and monotone) are proved once.
\<close>

subsection \<open>Scales\<close>

locale scale =
  fixes start :: "int \<Rightarrow> int" and index :: "int \<Rightarrow> int" and valid :: "int \<Rightarrow> bool"
  assumes start_step: "start i \<le> start (i + 1)"
    and index_range: "valid x \<Longrightarrow> start (index x) \<le> x \<and> x < start (index x + 1)"
begin

lemma start_le: "i \<le> j \<Longrightarrow> start i \<le> start j"
proof (induction "nat (j - i)" arbitrary: j)
  case 0
  then show ?case by simp
next
  case (Suc n)
  then have "start i \<le> start (j - 1)" by simp
  also have "\<dots> \<le> start j" using start_step [of "j - 1"] by simp
  finally show ?case .
qed

lemma index_mono:
  assumes "valid x" and "valid y" and "x \<le> y"
  shows "index x \<le> index y"
proof (rule ccontr)
  assume "\<not> index x \<le> index y"
  then have "start (index y + 1) \<le> start (index x)" by (intro start_le) simp
  with assms index_range [of x] index_range [of y] show False by simp
qed

lemma index_unique:
  assumes "valid x" and "start i \<le> x" and "x < start (i + 1)"
  shows "index x = i"
proof (rule antisym)
  show "index x \<le> i"
    using assms index_range [of x] start_le [of "i + 1" "index x"] by force
  show "i \<le> index x"
    using assms index_range [of x] start_le [of "index x + 1" i] by force
qed

end

subsection \<open>Years\<close>

definition day_from_year :: "int \<Rightarrow> int" where
  "day_from_year y =
     365 * (y - 1970) + (y - 1969) div 4 - (y - 1901) div 100 + (y - 1601) div 400"

text \<open>\<open>YearFromTime\<close>: the year whose days include \<open>d\<close>, from an estimate that is off by at most one.\<close>

definition year_from_day :: "int \<Rightarrow> int" where
  "year_from_day d =
     (let y = (400 * d) div 146097 + 1970
      in if day_from_year (y + 1) \<le> d then y + 1
         else if day_from_year y \<le> d then y else y - 1)"

definition leap :: "int \<Rightarrow> bool" where
  "leap y \<longleftrightarrow> day_from_year (y + 1) - day_from_year y = 366"

lemma div_bounds:
  assumes "0 < (k::int)"
  shows "k * (n div k) \<le> n" and "n < k * (n div k) + k"
  using assms mult_div_mod_eq [of k n] pos_mod_sign [of k n] pos_mod_bound [of k n] by - linarith+

lemma day_from_year_bounds:
  "146097 * y - 287812090 \<le> 400 * day_from_year y"
  "400 * day_from_year y \<le> 146097 * y - 287810090"
proof -
  define a b c where "a = (y - 1969) div 4" and "b = (y - 1901) div 100" and "c = (y - 1601) div 400"
  have "4 * a \<le> y - 1969" "y - 1969 < 4 * a + 4" unfolding a_def by (rule div_bounds; simp)+
  moreover have "100 * b \<le> y - 1901" "y - 1901 < 100 * b + 100" unfolding b_def by (rule div_bounds; simp)+
  moreover have "400 * c \<le> y - 1601" "y - 1601 < 400 * c + 400" unfolding c_def by (rule div_bounds; simp)+
  moreover have "day_from_year y = 365 * y - 719050 + a - b + c"
    by (simp add: day_from_year_def a_def b_def c_def)
  ultimately show "146097 * y - 287812090 \<le> 400 * day_from_year y"
    and "400 * day_from_year y \<le> 146097 * y - 287810090"
    by - linarith+
qed

lemma div_succ:
  assumes "0 < k"
  shows "(n + 1) div k = n div k + (if (n + 1) mod k = 0 then 1 else (0::int))"
proof (cases "n mod k = k - 1")
  case True
  have "k * (n div k) + n mod k = n" by (rule mult_div_mod_eq)
  with True have e: "n + 1 = k * (n div k + 1)" by (simp add: distrib_left)
  then show ?thesis using assms by (simp add: e)
next
  case False
  have e: "n + 1 = n mod k + 1 + k * (n div k)"
    using mult_div_mod_eq [of k n] by simp
  have r: "0 \<le> n mod k + 1" "n mod k + 1 < k"
    using False assms pos_mod_sign [of k n] pos_mod_bound [of k n] by linarith+
  have "(n + 1) div k = n div k"
    unfolding e using r by (simp only: div_mult_self2) simp
  moreover have "(n + 1) mod k = n mod k + 1"
    using r by (subst e) (simp only: mod_mult_self2 mod_pos_pos_trivial)
  moreover have "n mod k + 1 \<noteq> 0" using pos_mod_sign [OF assms, of n] by linarith
  ultimately show ?thesis by simp
qed

lemma day_from_year_step:
  "day_from_year (y + 1) - day_from_year y = 365 \<or> day_from_year (y + 1) - day_from_year y = 366"
proof -
  have a: "(y + 1 - 1969) div 4 = (y - 1969) div 4 + (if (y - 1968) mod 4 = 0 then 1 else 0)"
    using div_succ [of 4 "y - 1969"] by (simp add: algebra_simps)
  have b: "(y + 1 - 1901) div 100 = (y - 1901) div 100 + (if (y - 1900) mod 100 = 0 then 1 else 0)"
    using div_succ [of 100 "y - 1901"] by (simp add: algebra_simps)
  have c: "(y + 1 - 1601) div 400 = (y - 1601) div 400 + (if (y - 1600) mod 400 = 0 then 1 else 0)"
    using div_succ [of 400 "y - 1601"] by (simp add: algebra_simps)
  have "(y - 1600) mod 400 = 0 \<Longrightarrow> (y - 1900) mod 100 = 0"
    "(y - 1900) mod 100 = 0 \<Longrightarrow> (y - 1968) mod 4 = 0"
    using dvd_trans [of 100 400 "y - 1600"] dvd_diff [of 100 "y - 1600" 300]
      dvd_trans [of 4 100 "y - 1900"] dvd_diff [of 4 "y - 1900" 68]
    by (auto simp: mod_eq_0_iff_dvd)
  then show ?thesis unfolding day_from_year_def a b c by auto
qed

lemma year_from_day_range:
  "day_from_year (year_from_day d) \<le> d \<and> d < day_from_year (year_from_day d + 1)"
proof -
  define q where "q = (400 * d) div 146097"
  have q: "146097 * q \<le> 400 * d" "400 * d < 146097 * q + 146097" unfolding q_def by (rule div_bounds; simp)+
  have lo: "day_from_year (q + 1969) \<le> d"
    using day_from_year_bounds(2) [of "q + 1969"] q by (simp only: distrib_left)
  have hi: "d < day_from_year (q + 1972)"
    using day_from_year_bounds(1) [of "q + 1972"] q by (simp only: distrib_left)
  have y: "year_from_day d =
      (if day_from_year (q + 1971) \<le> d then q + 1971
       else if day_from_year (q + 1970) \<le> d then q + 1970 else q + 1969)"
    by (simp add: year_from_day_def Let_def q_def add.assoc)
  consider "day_from_year (q + 1971) \<le> d"
    | "d < day_from_year (q + 1971)" "day_from_year (q + 1970) \<le> d"
    | "d < day_from_year (q + 1971)" "d < day_from_year (q + 1970)"
    by linarith
  then show ?thesis
  proof cases
    case 1
    with y hi show ?thesis by (simp add: add.assoc)
  next
    case 2
    with y show ?thesis by (simp add: add.assoc)
  next
    case 3
    with y lo show ?thesis by (simp add: add.assoc)
  qed
qed

interpretation year: scale day_from_year year_from_day "\<lambda>_. True"
proof unfold_locales
  fix i x
  show "day_from_year i \<le> day_from_year (i + 1)" using day_from_year_step [of i] by auto
  show "day_from_year (year_from_day x) \<le> x \<and> x < day_from_year (year_from_day x + 1)"
    by (rule year_from_day_range)
qed

lemmas year_unique = year.index_unique [simplified]

subsection \<open>Months of a year\<close>

text \<open>First day of month \<open>m\<close> (1 to 12) within its year, 13 standing for the end of the year.\<close>

definition month_start :: "bool \<Rightarrow> int \<Rightarrow> int" where
  "month_start lp m =
     (let l = (if lp then 1 else 0)
      in if m \<le> 1 then 0 else if m = 2 then 31 else if m = 3 then 59 + l
         else if m = 4 then 90 + l else if m = 5 then 120 + l else if m = 6 then 151 + l
         else if m = 7 then 181 + l else if m = 8 then 212 + l else if m = 9 then 243 + l
         else if m = 10 then 273 + l else if m = 11 then 304 + l else if m = 12 then 334 + l
         else 365 + l)"

definition month_from_doy :: "bool \<Rightarrow> int \<Rightarrow> int" where
  "month_from_doy lp n =
     (let l = (if lp then 1 else 0)
      in if n < 31 then 1 else if n < 59 + l then 2 else if n < 90 + l then 3
         else if n < 120 + l then 4 else if n < 151 + l then 5 else if n < 181 + l then 6
         else if n < 212 + l then 7 else if n < 243 + l then 8 else if n < 273 + l then 9
         else if n < 304 + l then 10 else if n < 334 + l then 11 else 12)"

definition year_length :: "bool \<Rightarrow> int" where
  "year_length lp = (if lp then 366 else 365)"

lemma month_from_doy_range: "1 \<le> month_from_doy lp n \<and> month_from_doy lp n \<le> 12"
  by (simp add: month_from_doy_def Let_def)

lemma month_start_at [simp]:
  "month_start lp 1 = 0" "month_start lp 2 = 31" "month_start lp 3 = (if lp then 60 else 59)"
  "month_start lp 4 = (if lp then 91 else 90)" "month_start lp 5 = (if lp then 121 else 120)"
  "month_start lp 6 = (if lp then 152 else 151)" "month_start lp 7 = (if lp then 182 else 181)"
  "month_start lp 8 = (if lp then 213 else 212)" "month_start lp 9 = (if lp then 244 else 243)"
  "month_start lp 10 = (if lp then 274 else 273)" "month_start lp 11 = (if lp then 305 else 304)"
  "month_start lp 12 = (if lp then 335 else 334)" "month_start lp 13 = (if lp then 366 else 365)"
  by (simp_all add: month_start_def)

interpretation month: scale "month_start lp" "month_from_doy lp" "\<lambda>n. 0 \<le> n \<and> n < year_length lp" for lp
proof unfold_locales
  fix i x
  show "month_start lp i \<le> month_start lp (i + 1)"
    by (auto simp: month_start_def Let_def)
  show "month_start lp (month_from_doy lp x) \<le> x \<and> x < month_start lp (month_from_doy lp x + 1)"
    if "0 \<le> x \<and> x < year_length lp"
    using that by (cases lp) (auto simp: month_from_doy_def year_length_def)
qed

subsection \<open>Calendar fields of a day\<close>

definition civil :: "int \<Rightarrow> int \<times> int \<times> int" where
  "civil d =
     (let y = year_from_day d; n = d - day_from_year y; m = month_from_doy (leap y) n
      in (y, m, n - month_start (leap y) m + 1))"

text \<open>\<open>MakeDay\<close> for a month in range: any day-of-month is accepted and carries over.\<close>

definition make_day :: "int \<Rightarrow> int \<Rightarrow> int \<Rightarrow> int" where
  "make_day y m dt = day_from_year y + month_start (leap y) m + dt - 1"

lemma make_day_civil: "civil d = (y, m, dt) \<Longrightarrow> make_day y m dt = d"
  by (auto simp: civil_def make_day_def Let_def)

lemma civil_inject: "civil a = civil b \<longleftrightarrow> a = b"
  by (metis make_day_civil prod_cases3)

lemma doy_range:
  "0 \<le> d - day_from_year (year_from_day d)"
  "d - day_from_year (year_from_day d) < year_length (leap (year_from_day d))"
  using year_from_day_range [of d] day_from_year_step [of "year_from_day d"]
  by (auto simp: leap_def year_length_def)

lemma civil_bounds:
  assumes "civil d = (y, m, dt)"
  shows "1 \<le> m" "m \<le> 12" "1 \<le> dt" "dt \<le> 31"
proof -
  define lp n where "lp = leap (year_from_day d)" and "n = d - day_from_year (year_from_day d)"
  have n: "0 \<le> n" "n < year_length lp" using doy_range [of d] by (simp_all add: n_def lp_def)
  have m: "m = month_from_doy lp n" and dt: "dt = n - month_start lp m + 1"
    using assms by (auto simp: civil_def Let_def lp_def n_def)
  show "1 \<le> m" "m \<le> 12" using month_from_doy_range [of lp n] m by auto
  show "1 \<le> dt" using month.index_range [of n lp] n m dt by simp
  have "n < month_start lp (m + 1)" using month.index_range [of n lp] n m by simp
  moreover have "month_start lp (m + 1) \<le> month_start lp m + 31"
    by (auto simp: month_start_def Let_def)
  ultimately show "dt \<le> 31" using dt by simp
qed

definition lex3 :: "int \<times> int \<times> int \<Rightarrow> int \<times> int \<times> int \<Rightarrow> bool" where
  "lex3 a b = (case (a, b) of ((y, m, d), (y', m', d')) \<Rightarrow>
     y < y' \<or> y = y' \<and> (m < m' \<or> m = m' \<and> d < d'))"

lemma civil_strict_mono:
  assumes "a < b"
  shows "lex3 (civil a) (civil b)"
proof -
  define y n where "y = year_from_day a" and "n = a - day_from_year y"
  define y' n' where "y' = year_from_day b" and "n' = b - day_from_year y'"
  have "y \<le> y'" using year.index_mono [of a b] assms by (simp add: y_def y'_def)
  moreover have "month_from_doy (leap y) n \<le> month_from_doy (leap y') n'" if "y = y'"
    using month.index_mono [of n "leap y" n'] that assms doy_range [of a] doy_range [of b]
    by (simp add: n_def n'_def y_def y'_def)
  moreover have "n < n'" if "y = y'" using that assms by (simp add: n_def n'_def)
  ultimately show ?thesis
    by (auto simp: lex3_def civil_def Let_def y_def [symmetric] y'_def [symmetric]
        n_def [symmetric] n'_def [symmetric])
qed

subsection \<open>Fields of a time value\<close>

definition utc_day :: "int \<Rightarrow> int" where
  "utc_day ms = ms div 86400000"

definition get_utc_full_year :: "int \<Rightarrow> int" where
  "get_utc_full_year ms = (case civil (utc_day ms) of (y, m, d) \<Rightarrow> y)"

text \<open>\<open>getUTCMonth()\<close> counts from 0.\<close>

definition get_utc_month :: "int \<Rightarrow> int" where
  "get_utc_month ms = (case civil (utc_day ms) of (y, m, d) \<Rightarrow> m - 1)"

definition get_utc_date :: "int \<Rightarrow> int" where
  "get_utc_date ms = (case civil (utc_day ms) of (y, m, d) \<Rightarrow> d)"

definition get_utc_hours :: "int \<Rightarrow> int" where
  "get_utc_hours ms = ms div 3600000 mod 24"

definition get_utc_minutes :: "int \<Rightarrow> int" where
  "get_utc_minutes ms = ms div 60000 mod 60"

definition get_utc_seconds :: "int \<Rightarrow> int" where
  "get_utc_seconds ms = ms div 1000 mod 60"

text \<open>\<open>setUTCDate(dt)\<close>: the same month and time of day, the day of the month replaced.\<close>

definition set_utc_date :: "int \<Rightarrow> int \<Rightarrow> int" where
  "set_utc_date ms dt =
     make_day (get_utc_full_year ms) (get_utc_month ms + 1) dt * 86400000 + ms mod 86400000"

lemma set_utc_date_shift: "set_utc_date ms (get_utc_date ms + k) = ms + k * 86400000"
proof -
  obtain y m d where c: "civil (utc_day ms) = (y, m, d)" by (cases "civil (utc_day ms)") auto
  have "make_day y m (d + k) = utc_day ms + k"
    using make_day_civil [OF c] by (simp add: make_day_def)
  then have "set_utc_date ms (get_utc_date ms + k) = (utc_day ms + k) * 86400000 + ms mod 86400000"
    by (simp add: set_utc_date_def get_utc_full_year_def get_utc_month_def get_utc_date_def c)
  also have "\<dots> = ms + k * 86400000" by (simp add: utc_day_def distrib_right)
  finally show ?thesis .
qed

lemma utc_day_mono: "a \<le> b \<Longrightarrow> utc_day a \<le> utc_day b"
  by (simp add: utc_day_def zdiv_mono1)

lemma get_utc_full_year_mono: "a \<le> b \<Longrightarrow> get_utc_full_year a \<le> get_utc_full_year b"
  using year.index_mono [of "utc_day a" "utc_day b"] utc_day_mono [of a b]
  by (simp add: get_utc_full_year_def civil_def Let_def)

end
