(* ===== verification/ChartData.thy ===== *)
theory ChartData imports JsDate begin

section \<open>Chart data of the price chart (components/dashboard/price-chart.tsx)\<close>

text \<open>
  The pure core of \<open>PriceChart\<close>: the candle record, the KST date keys, the list handed to the chart
  library by \<open>updateChartData\<close>, the merge of an older page by \<open>loadMore\<close> with the end date it asks
  for, and the state updater of \<open>applyTick\<close>. Times are integers, prices exact rationals (JSON numbers
  are finite); \<open>NaN\<close> never reaches these functions.
\<close>

subsection \<open>Order on fixed-width texts\<close>

lemma append_less_same_length:
  fixes xs ys us vs :: jstr
  assumes "length xs = length ys"
  shows "xs @ us < ys @ vs \<longleftrightarrow> xs < ys \<or> xs = ys \<and> us < vs"
  using assms by (induction xs ys rule: list_induct2) auto

lemma div_mod_less:
  "(a::nat) < b \<Longrightarrow> a div k < b div k \<or> a div k = b div k \<and> a mod k < b mod k"
  by (metis div_le_mono div_mult_mod_eq le_neq_implies_less less_imp_le nat_add_left_cancel_less)

lemma nat_str_less:
  "length (nat_str a) = length (nat_str b) \<Longrightarrow> a < b \<Longrightarrow> nat_str a < nat_str b"
proof (induction a arbitrary: b rule: nat_str.induct)
  case (1 a)
  show ?case
  proof (cases "a < 10")
    case True
    with "1.prems" have "b < 10" by (cases "b < 10") (simp_all add: nat_str_small nat_str_step)
    with True "1.prems" show ?thesis by (simp add: nat_str_small)
  next
    case False
    with "1.prems" have b: "10 \<le> b" by simp
    have l: "length (nat_str (a div 10)) = length (nat_str (b div 10))"
      using "1.prems"(1) False b by (simp add: nat_str_step)
    have "a div 10 < b div 10 \<Longrightarrow> nat_str (a div 10) < nat_str (b div 10)"
      using "1.IH" [OF False l] .
    with div_mod_less [OF "1.prems"(2), of 10] l False b show ?thesis
      by (auto simp: nat_str_step append_less_same_length)
  qed
qed

lemma pad2_length [simp]: "0 \<le> n \<Longrightarrow> n < 100 \<Longrightarrow> length (pad2 n) = 2"
  by (simp add: pad2_two_digits)

lemma pad2_less:
  assumes "0 \<le> a" "a < b" "b < 100"
  shows "pad2 a < pad2 b"
proof -
  have "nat a < nat b" using assms by simp
  from div_mod_less [OF this, of 10] show ?thesis using assms by (auto simp: pad2_two_digits)
qed

lemma year_length4 [simp]: "1000 \<le> y \<Longrightarrow> y < 10000 \<Longrightarrow> length (int_str y) = 4"
  by (simp add: int_str_def nat_str_four_digits)

lemma year_less:
  assumes "1000 \<le> a" "a < b" "b < 10000"
  shows "int_str a < int_str b"
proof -
  have "nat_str (nat a) < nat_str (nat b)"
    using assms by (intro nat_str_less) (simp_all add: nat_str_four_digits)
  then show ?thesis using assms by (simp add: int_str_def)
qed

text \<open>\<open>YYYY\<close>, \<open>MM\<close>, \<open>DD\<close> with a separator: later days have larger texts.\<close>

definition ymd :: "jstr \<Rightarrow> int \<Rightarrow> jstr" where
  "ymd sep d = (case civil d of (y, m, dt) \<Rightarrow> int_str y @ sep @ pad2 m @ sep @ pad2 dt)"

lemma ymd_less:
  assumes "a < b" and "1000 \<le> year_from_day a" and "year_from_day b < 10000"
  shows "ymd sep a < ymd sep b"
proof -
  obtain y m d where a: "civil a = (y, m, d)" by (cases "civil a") auto
  obtain y' m' d' where b: "civil b = (y', m', d')" by (cases "civil b") auto
  have y: "1000 \<le> y" "y' < 10000" "y \<le> y'"
    using assms year.index_mono [of a b] a b by (auto simp: civil_def Let_def)
  note r = civil_bounds [OF a] civil_bounds [OF b]
  have "lex3 (y, m, d) (y', m', d')" using civil_strict_mono [OF assms(1)] a b by simp
  then consider "y < y'" | "y = y'" "m < m'" | "y = y'" "m = m'" "d < d'" by (auto simp: lex3_def)
  then show ?thesis
  proof cases
    case 1
    with y show ?thesis by (simp add: ymd_def a b append_less_same_length year_less)
  next
    case 2
    with y r show ?thesis by (simp add: ymd_def a b append_less_same_length pad2_less)
  next
    case 3
    with y r show ?thesis by (simp add: ymd_def a b append_less_same_length pad2_less)
  qed
qed

subsection \<open>Candles and chart times\<close>

record candle =
  c_time :: int
  c_open :: rat
  c_high :: rat
  c_low :: rat
  c_close :: rat
  c_volume :: rat

datatype interval = I1d | I1m | I1w | I1M

text \<open>
  The key under which the chart library stores a bar: a date text for the daily, weekly and monthly
  intervals, a time in seconds for the minute interval.
\<close>

datatype tkey = KDate jstr | KTime int

instantiation tkey :: linorder
begin

fun less_tkey :: "tkey \<Rightarrow> tkey \<Rightarrow> bool" where
  "less_tkey (KDate a) (KDate b) = (a < b)"
| "less_tkey (KTime a) (KTime b) = (a < b)"
| "less_tkey (KDate a) (KTime b) = True"
| "less_tkey (KTime a) (KDate b) = False"

definition less_eq_tkey :: "tkey \<Rightarrow> tkey \<Rightarrow> bool" where
  "less_eq_tkey a b \<longleftrightarrow> a = b \<or> a < b"

instance
proof
  fix x y z :: tkey
  show "(x < y) = (x \<le> y \<and> \<not> y \<le> x)"
    by (cases x; cases y) (auto simp: less_eq_tkey_def)
  show "x \<le> x" by (simp add: less_eq_tkey_def)
  show "x \<le> y \<Longrightarrow> y \<le> z \<Longrightarrow> x \<le> z"
    by (cases x; cases y; cases z) (auto simp: less_eq_tkey_def)
  show "x \<le> y \<Longrightarrow> y \<le> x \<Longrightarrow> x = y"
    by (cases x; cases y) (auto simp: less_eq_tkey_def)
  show "x \<le> y \<or> y \<le> x"
    by (cases x; cases y) (auto simp: less_eq_tkey_def)
qed

end

definition is_daily :: "interval \<Rightarrow> bool" where
  "is_daily i \<longleftrightarrow> i = I1d \<or> i = I1w \<or> i = I1M"

lemma is_daily_iff: "is_daily i \<longleftrightarrow> i \<noteq> I1m"
  by (cases i) (simp_all add: is_daily_def)

definition kst_offset :: int where
  "kst_offset = 9 * 60 * 60 * 1000"

text \<open>Seconds become milliseconds below \<open>10000000000\<close>.\<close>

definition to_ms :: "int \<Rightarrow> int" where
  "to_ms t = (if t < 10000000000 then t * 1000 else t)"

definition get_kst_date_string :: "int \<Rightarrow> jstr" where
  "get_kst_date_string timestamp =
     (let date = to_ms timestamp + kst_offset
      in int_str (get_utc_full_year date) @ js ''-''
         @ pad2 (get_utc_month date + 1) @ js ''-'' @ pad2 (get_utc_date date))"

definition chart_key :: "interval \<Rightarrow> int \<Rightarrow> tkey" where
  "chart_key i t = (if is_daily i then KDate (get_kst_date_string t) else KTime t)"

lemma get_kst_date_string_ymd:
  "get_kst_date_string t = ymd (js ''-'') (utc_day (to_ms t + kst_offset))"
  by (simp add: get_kst_date_string_def ymd_def Let_def get_utc_full_year_def get_utc_month_def
      get_utc_date_def split: prod.splits)

text \<open>A time in seconds, as the OHLCV endpoint sends it: from 1970 up to the year 2286.\<close>

definition in_seconds :: "int \<Rightarrow> bool" where
  "in_seconds t \<longleftrightarrow> 0 \<le> t \<and> t < 10000000000"

definition kst_day :: "int \<Rightarrow> int" where
  "kst_day t = utc_day (to_ms t + kst_offset)"

lemma kst_day_mono: "in_seconds a \<Longrightarrow> in_seconds b \<Longrightarrow> a \<le> b \<Longrightarrow> kst_day a \<le> kst_day b"
  by (auto simp: kst_day_def to_ms_def in_seconds_def intro!: utc_day_mono)

lemma year_at: "year_from_day 0 = 1970" "year_from_day (-1) = 1969" "year_from_day 115741 = 2286"
  by (simp_all add: year_from_day_def day_from_year_def Let_def)

lemma kst_day_range:
  assumes "in_seconds t"
  shows "0 \<le> kst_day t" and "kst_day t \<le> 115741"
proof -
  have "0 \<le> to_ms t + kst_offset" "to_ms t + kst_offset \<le> 10000032400000"
    using assms by (auto simp: in_seconds_def to_ms_def kst_offset_def)
  then have "0 \<le> utc_day (to_ms t + kst_offset)"
    "utc_day (to_ms t + kst_offset) \<le> utc_day 10000032400000"
    by (simp add: utc_day_def, intro utc_day_mono)
  then show "0 \<le> kst_day t" "kst_day t \<le> 115741" by (simp_all add: kst_day_def utc_day_def)
qed

lemma day_years:
  assumes "-1 \<le> d" and "d \<le> 115741"
  shows "1000 \<le> year_from_day d" and "year_from_day d < 10000"
  using year.index_mono [of "-1" d] year.index_mono [of d 115741] assms year_at by simp_all

lemma kst_date_string_less:
  assumes "in_seconds a" and "in_seconds b" and "kst_day a < kst_day b"
  shows "get_kst_date_string a < get_kst_date_string b"
  using assms kst_day_range [of a] kst_day_range [of b] day_years [of "kst_day a"]
    day_years [of "kst_day b"]
  by (simp add: get_kst_date_string_ymd kst_day_def [symmetric] ymd_less)

lemma kst_date_string_le:
  "in_seconds a \<Longrightarrow> in_seconds b \<Longrightarrow> a \<le> b \<Longrightarrow> get_kst_date_string a \<le> get_kst_date_string b"
  using kst_date_string_less [of a b] kst_day_mono [of a b]
  by (cases "kst_day a = kst_day b") (auto simp: get_kst_date_string_ymd kst_day_def)

subsection \<open>updateChartData: sort, key and remove duplicates\<close>

record bar =
  b_time :: tkey
  b_open :: rat
  b_high :: rat
  b_low :: rat
  b_close :: rat

record vbar = bar +
  b_volume :: rat

definition bar_of :: "interval \<Rightarrow> candle \<Rightarrow> vbar" where
  "bar_of i d =
     \<lparr>b_time = chart_key i (c_time d), b_open = c_open d, b_high = c_high d, b_low = c_low d,
      b_close = c_close d, b_volume = c_volume d\<rparr>"

definition final_data :: "interval \<Rightarrow> candle list \<Rightarrow> vbar list" where
  "final_data i data =
     (let sortedData = sort_key c_time data
      in map snd (put_all (map (\<lambda>d. (chart_key i (c_time d), bar_of i d)) sortedData) []))"

definition volume_data :: "vbar list \<Rightarrow> (tkey \<times> rat \<times> jstr) list" where
  "volume_data bars =
     map (\<lambda>d. (b_time d, b_volume d,
        if b_open d \<le> b_close d then js ''rgba(38, 166, 154, 0.3)''
        else js ''rgba(239, 83, 80, 0.3)'')) bars"

text \<open>
  The contract of the key: on the values the feed accepts, a later time never has a smaller key.
  Every list that is sorted by time and put into a \<open>Map\<close> by key then leaves it strictly ascending.
\<close>

locale keyed_feed =
  fixes time :: "'a \<Rightarrow> int" and key :: "'a \<Rightarrow> 'k::linorder" and valid :: "'a \<Rightarrow> bool"
  assumes key_mono: "valid x \<Longrightarrow> valid y \<Longrightarrow> time x \<le> time y \<Longrightarrow> key x \<le> key y"
begin

lemma keys_sorted:
  assumes "\<forall>x\<in>set xs. valid x" and "sorted (map time xs)"
  shows "sorted (map key xs)"
  using assms by (induction xs) (auto intro: key_mono)

lemma feed_ascending:
  assumes "\<forall>x\<in>set xs. valid x"
  shows "sorted_wrt (<) (map fst (put_all (map (\<lambda>x. (key x, f x)) (sort_key time xs)) []))"
  using keys_sorted [of "sort_key time xs"] assms
  by (intro put_all_ascending) (simp_all add: comp_def)

lemma feed_last:
  assumes "x \<in> set xs" and last: "\<forall>y\<in>set xs. key y = key x \<longrightarrow> y = x \<or> time y < time x"
  shows "(key x, f x) \<in> set (put_all (map (\<lambda>x. (key x, f x)) (sort_key time xs)) [])"
proof -
  obtain us ws where s: "sort_key time xs = us @ x # ws"
    using assms(1) by (metis set_sort split_list)
  have "sorted (map time (us @ x # ws))" by (metis s sorted_sort_key)
  then have later: "\<forall>y\<in>set ws. time x \<le> time y" by (simp add: sorted_append)
  have in_xs: "\<forall>y\<in>set ws. y \<in> set xs"
  proof
    fix y
    assume "y \<in> set ws"
    then have "y \<in> set (sort_key time xs)" by (simp add: s)
    then show "y \<in> set xs" by simp
  qed
  have same: "y = x" if "y \<in> set ws" "key y = key x" for y
  proof -
    have "y \<in> set xs" "time x \<le> time y" using that in_xs later by blast+
    then show ?thesis using last that(2) by (meson leD)
  qed
  have "v = f x" if kv: "(key x, v) \<in> set (map (\<lambda>x. (key x, f x)) ws)" for v
  proof -
    obtain y where "y \<in> set ws" "key y = key x" "v = f y" using kv by auto
    then show ?thesis using same by blast
  qed
  from put_all_last [OF _ this, of "map (\<lambda>x. (key x, f x)) (us @ x # ws)"
      "map (\<lambda>x. (key x, f x)) us"]
  have "map_of (put_all (map (\<lambda>x. (key x, f x)) (us @ x # ws)) []) (key x) = Some (f x)"
    by simp
  then show ?thesis unfolding s by (rule map_of_SomeD)
qed

end

definition feed_ok :: "interval \<Rightarrow> candle \<Rightarrow> bool" where
  "feed_ok i c \<longleftrightarrow> is_daily i \<longrightarrow> in_seconds (c_time c)"

interpretation feed: keyed_feed c_time "\<lambda>c. chart_key i (c_time c)" "feed_ok i" for i
  by unfold_locales
    (auto simp: chart_key_def feed_ok_def less_eq_tkey_def dest: kst_date_string_le split: if_splits)

lemma final_data_keys:
  "map b_time (final_data i data) =
     map fst (put_all (map (\<lambda>d. (chart_key i (c_time d), bar_of i d)) (sort_key c_time data)) [])"
proof -
  have "kv \<in> set (put_all (map (\<lambda>d. (chart_key i (c_time d), bar_of i d)) xs) []) \<Longrightarrow>
      b_time (snd kv) = fst kv" for kv xs
    by (auto dest!: put_all_in_set simp: bar_of_def)
  then show ?thesis by (simp add: final_data_def Let_def)
qed

lemma final_data_subset: "b \<in> set (final_data i data) \<Longrightarrow> \<exists>d\<in>set data. b = bar_of i d"
  by (auto simp: final_data_def Let_def dest!: put_all_in_set)

subsection \<open>loadMore: the page asked for and the merge of what comes back\<close>

text \<open>\<open>currentData.reduce(\<dots>, currentData[0])\<close>; the caller has returned when the array is empty.\<close>

fun earliest_point :: "candle list \<Rightarrow> candle option" where
  "earliest_point [] = None"
| "earliest_point (c # cs) =
     Some (foldl (\<lambda>mn d. if c_time d < c_time mn then d else mn) c (c # cs))"

definition date_digits :: "int \<Rightarrow> jstr" where
  "date_digits ms =
     int_str (get_utc_full_year ms) @ pad2 (get_utc_month ms + 1) @ pad2 (get_utc_date ms)"

definition end_date_str :: "interval \<Rightarrow> candle \<Rightarrow> jstr" where
  "end_date_str i earliestPoint =
     (let date = to_ms (c_time earliestPoint) + kst_offset
      in if i = I1m
         then let kst = (c_time earliestPoint - 60) * 1000 + kst_offset
              in date_digits kst @ pad2 (get_utc_hours kst) @ pad2 (get_utc_minutes kst)
                 @ pad2 (get_utc_seconds kst)
         else date_digits (set_utc_date date (get_utc_date date - 1)))"

definition merge_older :: "candle list \<Rightarrow> candle list \<Rightarrow> candle list" where
  "merge_older moreData currentData =
     (let combined = moreData @ currentData
      in sort_key c_time (map snd (put_all (map (\<lambda>item. (c_time item, item)) combined) [])))"

lemma foldl_min_time:
  defines "f \<equiv> \<lambda>mn d. if c_time d < c_time mn then d else mn"
  shows "foldl f m cs \<in> insert m (set cs)"
    and "c_time (foldl f m cs) \<le> c_time m"
    and "d \<in> set cs \<Longrightarrow> c_time (foldl f m cs) \<le> c_time d"
proof -
  show *: "foldl f m cs \<in> insert m (set cs)" for m
    by (induction cs arbitrary: m) (auto simp: f_def)
  show le: "c_time (foldl f m cs) \<le> c_time m" for m
  proof (induction cs arbitrary: m)
    case (Cons c cs)
    have "c_time (f m c) \<le> c_time m" by (simp add: f_def)
    with Cons [of "f m c"] show ?case by simp
  qed simp
  show "d \<in> set cs \<Longrightarrow> c_time (foldl f m cs) \<le> c_time d"
  proof (induction cs arbitrary: m)
    case (Cons c cs)
    have "c_time (foldl f (f m c) cs) \<le> c_time (f m c)"
    proof (induction cs arbitrary: m c)
      case (Cons a cs)
      have "c_time (f (f m c) a) \<le> c_time (f m c)" by (simp add: f_def)
      with Cons [of "f m c" a] show ?case by simp
    qed simp
    moreover have "c_time (f m c) \<le> c_time c" by (simp add: f_def)
    ultimately show ?case using Cons by auto
  qed simp
qed

lemma earliest_point_min:
  assumes "earliest_point cs = Some e"
  shows "e \<in> set cs" and "d \<in> set cs \<Longrightarrow> c_time e \<le> c_time d"
  using assms foldl_min_time(1) [of "hd cs" cs] foldl_min_time(3) [of d cs "hd cs"]
  by (cases cs; force)+

lemma earliest_point_exists: "cs \<noteq> [] \<Longrightarrow> \<exists>e. earliest_point cs = Some e"
  by (cases cs) auto

lemma date_digits_ymd: "date_digits ms = ymd [] (utc_day ms)"
  by (simp add: date_digits_def ymd_def get_utc_full_year_def get_utc_month_def
      get_utc_date_def split: prod.splits)

lemma end_date_daily:
  assumes "i \<noteq> I1m"
  shows "end_date_str i e = ymd [] (kst_day (c_time e) - 1)"
proof -
  define date where "date = to_ms (c_time e) + kst_offset"
  have "set_utc_date date (get_utc_date date - 1) = date - 86400000"
    using set_utc_date_shift [of date "-1"] by simp
  moreover have "utc_day (date - 86400000) = utc_day date - 1"
    using div_mult_self2 [of "86400000" date "-1"] by (simp add: utc_day_def)
  ultimately show ?thesis
    using assms by (simp add: end_date_str_def date_digits_ymd kst_day_def date_def [symmetric])
qed

lemma merge_entries_fst:
  "kv \<in> set (put_all (map (\<lambda>item. (c_time item, item)) cs) []) \<Longrightarrow> fst kv = c_time (snd kv)"
  by (auto dest!: put_all_in_set)

lemma merge_times:
  "map c_time (map snd (put_all (map (\<lambda>item. (c_time item, item)) cs) [])) =
     map fst (put_all (map (\<lambda>item. (c_time item, item)) cs) [])"
  by (simp add: merge_entries_fst)

lemma distinct_merge_times: "distinct (map c_time (merge_older a b))"
proof -
  let ?u = "map snd (put_all (map (\<lambda>item. (c_time item, item)) (a @ b)) [])"
  have "distinct (map c_time ?u)" unfolding merge_times by simp
  then have "distinct (map c_time (sort_key c_time ?u))"
    by (simp only: distinct_map distinct_sort set_sort)
  then show ?thesis by (simp add: merge_older_def Let_def)
qed

lemma merge_ascending: "sorted_wrt (<) (map c_time (merge_older a b))"
  using distinct_merge_times [of a b] by (simp add: merge_older_def Let_def strict_sorted_iff)

lemma merge_time_set: "c_time ` set (merge_older a b) = c_time ` set a \<union> c_time ` set b"
proof -
  let ?m = "put_all (map (\<lambda>item. (c_time item, item)) (a @ b)) []"
  have "c_time ` set (merge_older a b) = set (map c_time (map snd ?m))"
    by (simp add: merge_older_def Let_def image_image)
  also have "\<dots> = fst ` set ?m" unfolding merge_times by simp
  also have "\<dots> = c_time ` set a \<union> c_time ` set b"
    by (simp add: image_image image_Un)
  finally show ?thesis .
qed

lemma merge_keeps_current:
  assumes "c \<in> set cur" and "distinct (map c_time cur)"
  shows "c \<in> set (merge_older page cur)"
proof -
  obtain us ws where s: "cur = us @ c # ws" using assms(1) by (metis split_list)
  let ?kv = "\<lambda>item. (c_time item, item)"
  have "v = c" if "(c_time c, v) \<in> set (map ?kv ws)" for v
    using that assms(2) by (force simp: s)
  from put_all_last [OF _ this, of "map ?kv (page @ cur)" "map ?kv (page @ us)"]
  have "map_of (put_all (map ?kv (page @ cur)) []) (c_time c) = Some c" by (simp add: s)
  from map_of_SomeD [OF this] have "c \<in> snd ` set (put_all (map ?kv (page @ cur)) [])"
    by (rule image_eqI [rotated]) simp
  then show ?thesis by (simp add: merge_older_def Let_def)
qed

lemma merge_source: "c \<in> set (merge_older a b) \<Longrightarrow> c \<in> set a \<or> c \<in> set b"
  by (auto simp: merge_older_def Let_def dest!: put_all_in_set)

lemma length_merge_older: "length (merge_older a b) = card (c_time ` set a \<union> c_time ` set b)"
  using distinct_card [OF distinct_merge_times [of a b]] by (simp add: merge_time_set)

lemma merge_grows_iff:
  assumes "distinct (map c_time cur)"
  shows "length cur < length (merge_older page cur) \<longleftrightarrow> \<not> c_time ` set page \<subseteq> c_time ` set cur"
proof -
  have cur: "length cur = card (c_time ` set cur)" using distinct_card [OF assms] by simp
  show ?thesis
  proof
    assume "length cur < length (merge_older page cur)"
    then show "\<not> c_time ` set page \<subseteq> c_time ` set cur"
      by (auto simp: cur length_merge_older Un_absorb1)
  next
    assume "\<not> c_time ` set page \<subseteq> c_time ` set cur"
    then have "c_time ` set cur \<subset> c_time ` set page \<union> c_time ` set cur" by auto
    then show "length cur < length (merge_older page cur)"
      by (simp add: cur length_merge_older psubset_card_mono)
  qed
qed

subsection \<open>applyTick: the state updater\<close>

text \<open>
  What a tick reads when it arrives: the interval kind, its key, its timestamp in milliseconds and its
  price. The updater itself runs later, on the array the state then holds.
\<close>

definition tick_key :: "bool \<Rightarrow> int \<Rightarrow> tkey" where
  "tick_key daily timestamp =
     (if daily then KDate (get_kst_date_string timestamp) else KTime (timestamp div 60000 * 60))"

definition last_key :: "bool \<Rightarrow> candle \<Rightarrow> tkey" where
  "last_key daily p =
     (if daily then KDate (get_kst_date_string (c_time p)) else KTime (c_time p div 60 * 60))"

text \<open>JavaScript truthiness of a key: \<open>0\<close> and the empty string are falsy.\<close>

definition key_truthy :: "tkey \<Rightarrow> bool" where
  "key_truthy k = (case k of KDate s \<Rightarrow> s \<noteq> [] | KTime t \<Rightarrow> t \<noteq> 0)"

definition last_point :: "candle list \<Rightarrow> candle option" where
  "last_point prev = (if prev = [] then None else Some (last prev))"

definition merge_tick :: "rat \<Rightarrow> candle \<Rightarrow> candle" where
  "merge_tick price p =
     p\<lparr>c_high := max (c_high p) price, c_low := min (c_low p) price, c_close := price\<rparr>"

definition new_candle :: "bool \<Rightarrow> int \<Rightarrow> rat \<Rightarrow> candle" where
  "new_candle daily timestamp price =
     \<lparr>c_time = (if daily then timestamp div 1000 else timestamp div 60000 * 60),
      c_open = price, c_high = price, c_low = price, c_close = price, c_volume = 0\<rparr>"

definition tick_bar :: "tkey \<Rightarrow> candle \<Rightarrow> bar" where
  "tick_bar k u = \<lparr>b_time = k, b_open = c_open u, b_high = c_high u, b_low = c_low u, b_close = c_close u\<rparr>"

text \<open>
  The result of the updater: the next array, and the bar given to \<open>candleSeries.update\<close> when the
  tick was not older than the last candle.
\<close>

definition tick_update ::
  "bool \<Rightarrow> int \<Rightarrow> rat \<Rightarrow> candle list \<Rightarrow> candle list \<times> bar option" where
  "tick_update daily timestamp price prev =
     (let timeKey = tick_key daily timestamp;
          lastPoint = last_point prev;
          lastTimeKey = map_option (last_key daily) lastPoint
      in if (case lastTimeKey of None \<Rightarrow> False | Some k \<Rightarrow> key_truthy k \<and> timeKey < k)
         then (prev, None)
         else (case lastPoint of
             Some p \<Rightarrow>
               (if last_key daily p = timeKey
                then let u = merge_tick price p
                     in (butlast prev @ [u],
                         Some (tick_bar (if daily then last_key daily p else KTime (c_time p)) u))
                else let u = new_candle daily timestamp price
                     in (prev @ [u], Some (tick_bar timeKey u)))
           | None \<Rightarrow>
               let u = new_candle daily timestamp price
               in (prev @ [u], Some (tick_bar timeKey u))))"

definition candle_ok :: "candle \<Rightarrow> bool" where
  "candle_ok c \<longleftrightarrow> c_low c \<le> c_open c \<and> c_low c \<le> c_close c \<and> c_open c \<le> c_high c \<and> c_close c \<le> c_high c"

lemma candle_ok_merge_tick: "candle_ok c \<Longrightarrow> candle_ok (merge_tick p c)"
  by (auto simp: candle_ok_def merge_tick_def)

lemma candle_ok_new: "candle_ok (new_candle d t p)"
  by (simp add: candle_ok_def new_candle_def)

lemma last_point_simps [simp]:
  "last_point [] = None" "last_point (xs @ [c]) = Some c"
  by (simp_all add: last_point_def)

text \<open>The three outcomes of the updater, which every proof about it goes through.\<close>

lemma tick_update_empty:
  "tick_update daily ts price [] =
     ([new_candle daily ts price], Some (tick_bar (tick_key daily ts) (new_candle daily ts price)))"
  by (simp add: tick_update_def Let_def)

lemma tick_update_old:
  assumes "key_truthy (last_key daily c)" and "tick_key daily ts < last_key daily c"
  shows "tick_update daily ts price (xs @ [c]) = (xs @ [c], None)"
  using assms by (simp add: tick_update_def Let_def)

lemma tick_update_same:
  assumes "last_key daily c = tick_key daily ts"
  shows "fst (tick_update daily ts price (xs @ [c])) = xs @ [merge_tick price c]"
  using assms by (simp add: tick_update_def Let_def)

lemma tick_update_new:
  assumes "last_key daily c < tick_key daily ts"
  shows "tick_update daily ts price (xs @ [c]) =
    (xs @ [c, new_candle daily ts price], Some (tick_bar (tick_key daily ts) (new_candle daily ts price)))"
  using assms by (auto simp: tick_update_def Let_def)

lemma key_truthy_date [simp]: "key_truthy (KDate (get_kst_date_string t))"
  by (simp add: key_truthy_def get_kst_date_string_def Let_def int_str_def)

lemma key_truthy_daily [simp]: "key_truthy (last_key True c)"
  by (simp add: last_key_def)

text \<open>The minute key of a candle of 1970-01-01T00:00 is \<open>0\<close>, hence falsy; later ones are not.\<close>

lemma key_truthy_minute: "60 \<le> c_time c \<Longrightarrow> key_truthy (last_key False c)"
  using zdiv_mono1 [of 60 "c_time c" 60] by (simp add: last_key_def key_truthy_def)

lemma tick_update_cases:
  assumes "60 \<le> c_time c \<or> daily"
  obtains (older) "tick_key daily ts < last_key daily c"
      "fst (tick_update daily ts price (xs @ [c])) = xs @ [c]"
    | (same) "tick_key daily ts = last_key daily c"
      "fst (tick_update daily ts price (xs @ [c])) = xs @ [merge_tick price c]"
    | (newer) "last_key daily c < tick_key daily ts"
      "fst (tick_update daily ts price (xs @ [c])) = xs @ [c, new_candle daily ts price]"
proof (cases rule: linorder_cases [of "tick_key daily ts" "last_key daily c"])
  case less
  have "key_truthy (last_key daily c)" using assms by (cases daily) (auto simp: key_truthy_minute)
  with less show ?thesis by (intro older) (simp_all add: tick_update_old)
next
  case equal
  then show ?thesis by (intro same) (simp_all add: tick_update_same)
next
  case greater
  then show ?thesis by (intro newer) (simp_all add: tick_update_new)
qed

text \<open>A timestamp of the present in milliseconds: after April 1970 and before 2286.\<close>

definition in_millis :: "int \<Rightarrow> bool" where
  "in_millis ts \<longleftrightarrow> 10000000000 \<le> ts \<and> ts < 10000000000000"

lemma millis_seconds: "in_millis ts \<Longrightarrow> in_seconds (ts div 1000)"
  using zdiv_mono1 [of 0 ts 1000] div_bounds(1) [of 1000 ts] by (simp add: in_millis_def in_seconds_def)

lemma kst_day_millis:
  assumes "in_millis ts"
  shows "kst_day (ts div 1000) = kst_day ts"
proof -
  have "(ts div 1000 * 1000 + 32400000) div 86400000 = (ts div 1000 + 32400) div 86400"
    using div_mult_mult2 [of 1000 "ts div 1000 + 32400" 86400] by (simp add: distrib_right)
  also have "\<dots> = (ts + 32400000) div 1000 div 86400" by simp
  also have "\<dots> = (ts + 32400000) div 86400000" by (simp add: zdiv_zmult2_eq [symmetric])
  finally show ?thesis
    using assms millis_seconds [OF assms]
    by (simp add: kst_day_def to_ms_def in_seconds_def in_millis_def utc_day_def kst_offset_def)
qed

lemma new_candle_key:
  assumes "in_millis ts"
  shows "last_key daily (new_candle daily ts price) = tick_key daily ts"
proof (cases daily)
  case True
  have "get_kst_date_string (ts div 1000) = get_kst_date_string ts"
    using kst_day_millis [OF assms] by (simp add: get_kst_date_string_ymd kst_day_def)
  with True show ?thesis by (simp add: last_key_def new_candle_def tick_key_def)
next
  case False
  then show ?thesis by (simp add: last_key_def new_candle_def tick_key_def)
qed

lemma merge_tick_key [simp]: "last_key daily (merge_tick price c) = last_key daily c"
  by (simp add: last_key_def merge_tick_def)

subsection \<open>A run of ticks\<close>

definition apply_ticks :: "bool \<Rightarrow> (int \<times> rat) list \<Rightarrow> candle list \<Rightarrow> candle list" where
  "apply_ticks daily tks h = foldl (\<lambda>h (ts, p). fst (tick_update daily ts p h)) h tks"

lemma apply_ticks_Nil [simp]: "apply_ticks daily [] h = h"
  by (simp add: apply_ticks_def)

lemma apply_ticks_Cons [simp]:
  "apply_ticks daily ((ts, p) # tks) h = apply_ticks daily tks (fst (tick_update daily ts p h))"
  by (simp add: apply_ticks_def)

definition merge_ticks :: "rat list \<Rightarrow> candle \<Rightarrow> candle" where
  "merge_ticks ps u = foldl (\<lambda>u p. merge_tick p u) u ps"

lemma merge_ticks_simps [simp]:
  "merge_ticks [] u = u" "merge_ticks (p # ps) u = merge_ticks ps (merge_tick p u)"
  by (simp_all add: merge_ticks_def)

lemma Max_insert_max: "finite S \<Longrightarrow> Max (insert (max a b) S) = Max (insert a (insert b S))"
  by (cases "S = {}") (simp_all add: max.assoc)

lemma Min_insert_min: "finite S \<Longrightarrow> Min (insert (min a b) S) = Min (insert a (insert b S))"
  by (cases "S = {}") (simp_all add: min.assoc)

lemma last_key_cong: "c_time a = c_time b \<Longrightarrow> last_key daily a = last_key daily b"
  by (simp add: last_key_def)

lemma merge_ticks_fields:
  "c_time (merge_ticks ps u) = c_time u" "c_open (merge_ticks ps u) = c_open u"
  "c_volume (merge_ticks ps u) = c_volume u"
  "c_high (merge_ticks ps u) = Max (insert (c_high u) (set ps))"
  "c_low (merge_ticks ps u) = Min (insert (c_low u) (set ps))"
  "c_close (merge_ticks ps u) = (if ps = [] then c_close u else last ps)"
proof -
  show "c_high (merge_ticks ps u) = Max (insert (c_high u) (set ps))"
    by (induction ps arbitrary: u) (simp_all add: merge_tick_def Max_insert_max)
  show "c_low (merge_ticks ps u) = Min (insert (c_low u) (set ps))"
    by (induction ps arbitrary: u) (simp_all add: merge_tick_def Min_insert_min)
qed (induction ps arbitrary: u; simp add: merge_tick_def)+

lemma apply_ticks_same:
  assumes "\<forall>(ts, p)\<in>set tks. tick_key daily ts = k" and "last_key daily u = k"
  shows "apply_ticks daily tks (xs @ [u]) = xs @ [merge_ticks (map snd tks) u]"
  using assms
proof (induction tks arbitrary: u)
  case (Cons a tks)
  then show ?case by (cases a) (simp add: tick_update_same)
qed simp

text \<open>Where several points fall under one chart key, the bar drawn is that of the latest of them.\<close>

theorem final_data_latest_wins:
  assumes "d \<in> set data"
    and "\<forall>e\<in>set data. chart_key i (c_time e) = chart_key i (c_time d) \<longrightarrow> e = d \<or> c_time e < c_time d"
  shows "bar_of i d \<in> set (final_data i data)"
  using feed.feed_last [OF assms, where f = "bar_of i"]
  by (force simp: final_data_def Let_def)

theorem final_data_latest_wins_witness:
  "bar_of I1m \<lparr>c_time = 120, c_open = 1, c_high = 2, c_low = 1, c_close = 2, c_volume = 0\<rparr>
     \<in> set (final_data I1m
        [\<lparr>c_time = 120, c_open = 1, c_high = 2, c_low = 1, c_close = 2, c_volume = 0\<rparr>,
         \<lparr>c_time = 60, c_open = 1, c_high = 1, c_low = 1, c_close = 1, c_volume = 0\<rparr>])"
  by (rule final_data_latest_wins) (simp_all add: chart_key_def is_daily_def)

text \<open>\<open>uniqueSorted.length > currentData.length\<close> holds if and only if the page brought a time not loaded before.\<close>

theorem merge_older_progress:
  assumes "distinct (map c_time cur)"
  shows "length cur < length (merge_older page cur) \<longleftrightarrow> (\<exists>d\<in>set page. c_time d \<notin> c_time ` set cur)"
  using merge_grows_iff [OF assms, of page] by auto

section \<open>Properties of the chart data\<close>

text \<open>C19. On times in seconds from 1970 to 2286 the KST date texts used as chart keys compare, as
  JavaScript strings, exactly as the calendar days they name.\<close>

theorem kst_date_string_order:
  assumes "in_seconds a" and "in_seconds b"
  shows "get_kst_date_string a < get_kst_date_string b \<longleftrightarrow> kst_day a < kst_day b"
  using kst_date_string_less [OF assms] kst_date_string_less [OF assms(2,1)]
  by (cases rule: linorder_cases [of "kst_day a" "kst_day b"])
    (auto simp: get_kst_date_string_ymd kst_day_def)

theorem kst_date_string_order_witness:
  "get_kst_date_string 1704067199 < get_kst_date_string 1704121200
     \<longleftrightarrow> kst_day 1704067199 < kst_day 1704121200"
  by (rule kst_date_string_order) (simp_all add: in_seconds_def)

text \<open>C5. The array \<open>updateChartData\<close> hands to \<open>setData\<close> is strictly ascending in time, whatever the
  order of the input and however many points share a day: what the chart library demands. Where several
  points fall under one chart key, the bar drawn is that of the latest of them.\<close>

theorem final_data_ascending:
  assumes "\<forall>d\<in>set data. feed_ok i d"
  shows "sorted_wrt (<) (map b_time (final_data i data))
    \<and> (\<forall>d\<in>set data. (\<forall>e\<in>set data. chart_key i (c_time e) = chart_key i (c_time d) \<longrightarrow> e = d \<or> c_time e < c_time d)
         \<longrightarrow> bar_of i d \<in> set (final_data i data))"
  using final_data_latest_wins feed.feed_ascending [OF assms] by (auto simp: final_data_keys)

definition sample_points :: "candle list" where
  "sample_points =
     [\<lparr>c_time = 1704153600, c_open = 10, c_high = 14, c_low = 9, c_close = 12, c_volume = 5\<rparr>,
      \<lparr>c_time = 1704067200, c_open = 8, c_high = 11, c_low = 7, c_close = 10, c_volume = 3\<rparr>,
      \<lparr>c_time = 1704070800, c_open = 10, c_high = 12, c_low = 8, c_close = 9, c_volume = 4\<rparr>]"

theorem final_data_ascending_witness:
  "sorted_wrt (<) (map b_time (final_data I1d sample_points))"
  using final_data_ascending [of sample_points I1d] by (simp add: sample_points_def feed_ok_def in_seconds_def)

text \<open>C11. Merging an older page: the result is strictly ascending in time, holds exactly the times of
  both arrays, and every candle already loaded survives unchanged. The test
  \<open>uniqueSorted.length > currentData.length\<close> that decides whether older data is exhausted is exact: it
  holds if and only if the page brought a time not loaded before.\<close>

theorem merge_older_correct:
  assumes "distinct (map c_time cur)"
  shows "sorted_wrt (<) (map c_time (merge_older page cur))
    \<and> c_time ` set (merge_older page cur) = c_time ` set page \<union> c_time ` set cur
    \<and> set cur \<subseteq> set (merge_older page cur)
    \<and> set (merge_older page cur) \<subseteq> set page \<union> set cur
    \<and> (length cur < length (merge_older page cur)) = (\<exists>d\<in>set page. c_time d \<notin> c_time ` set cur)"
  using merge_ascending merge_time_set merge_keeps_current [OF _ assms] merge_source
    merge_older_progress [OF assms, of page] by blast

theorem merge_older_correct_witness:
  "sorted_wrt (<) (map c_time (merge_older sample_points (take 1 sample_points)))
    \<and> c_time ` set (merge_older sample_points (take 1 sample_points))
        = c_time ` set sample_points \<union> c_time ` set (take 1 sample_points)
    \<and> set (take 1 sample_points) \<subseteq> set (merge_older sample_points (take 1 sample_points))
    \<and> set (merge_older sample_points (take 1 sample_points))
        \<subseteq> set sample_points \<union> set (take 1 sample_points)"
proof -
  have "distinct (map c_time (take 1 sample_points))" by (simp add: sample_points_def)
  from merge_older_correct [OF this, of sample_points] show ?thesis by blast
qed

theorem merge_older_progress_witness:
  "length (take 1 sample_points) < length (merge_older sample_points (take 1 sample_points))
     \<longleftrightarrow> (\<exists>d\<in>set sample_points. c_time d \<notin> c_time ` set (take 1 sample_points))"
  by (rule merge_older_progress) (simp add: sample_points_def)

text \<open>C16. The end date \<open>loadMore\<close> asks for in a daily, weekly or monthly chart names the KST day
  before that of the earliest candle, so it is strictly below the day of every candle already loaded.\<close>

theorem end_date_before_loaded:
  assumes "i \<noteq> I1m" and "earliest_point cs = Some e" and "\<forall>c\<in>set cs. in_seconds (c_time c)"
    and "d \<in> set cs"
  shows "end_date_str i e = ymd [] (kst_day (c_time e) - 1)
    \<and> end_date_str i e < ymd [] (kst_day (c_time d))"
proof -
  have e: "in_seconds (c_time e)" "c_time e \<le> c_time d" and d: "in_seconds (c_time d)"
    using earliest_point_min [OF assms(2)] assms(3,4) by auto
  have "kst_day (c_time e) - 1 < kst_day (c_time d)" using kst_day_mono [OF e(1) d e(2)] by simp
  moreover have "-1 \<le> kst_day (c_time e) - 1" "kst_day (c_time e) - 1 \<le> 115741"
    using kst_day_range [OF e(1)] by simp_all
  ultimately show ?thesis
    using end_date_daily [OF assms(1)] day_years kst_day_range [OF d] by (simp add: ymd_less)
qed

theorem end_date_before_loaded_witness:
  "end_date_str I1d (sample_points ! 1) = ymd [] (kst_day (c_time (sample_points ! 1)) - 1)
    \<and> end_date_str I1d (sample_points ! 1) < ymd [] (kst_day (c_time (sample_points ! 0)))"
  by (rule end_date_before_loaded [of _ sample_points])
    (simp_all add: sample_points_def in_seconds_def)

text \<open>C8. Ticks of one period after an older last candle build one new candle: it opens at the first
  price, closes at the last, and its high and low are the extremes of all of them.\<close>

theorem ticks_build_candle:
  assumes "last_key daily c < k" and "tks \<noteq> []"
    and "\<forall>(ts, p)\<in>set tks. tick_key daily ts = k \<and> in_millis ts"
  shows "\<exists>u. apply_ticks daily tks (xs @ [c]) = xs @ [c, u] \<and> last_key daily u = k
    \<and> c_open u = snd (hd tks) \<and> c_close u = snd (last tks)
    \<and> c_high u = Max (snd ` set tks) \<and> c_low u = Min (snd ` set tks) \<and> c_volume u = 0"
proof -
  obtain ts p rest where tks: "tks = (ts, p) # rest" using assms(2) by (cases tks) auto
  let ?n = "new_candle daily ts p"
  let ?u = "merge_ticks (map snd rest) ?n"
  have k: "tick_key daily ts = k" "in_millis ts" and rest: "\<forall>(ts, p)\<in>set rest. tick_key daily ts = k"
    using assms(3) by (auto simp: tks)
  have n: "last_key daily ?n = k" using new_candle_key [OF k(2), of daily p] k(1) by simp
  have "apply_ticks daily tks (xs @ [c]) = apply_ticks daily rest ((xs @ [c]) @ [?n])"
    using assms(1) k(1) by (simp add: tks tick_update_new)
  also have "\<dots> = (xs @ [c]) @ [?u]" by (rule apply_ticks_same [OF rest n])
  finally have run: "apply_ticks daily tks (xs @ [c]) = xs @ [c, ?u]" by simp
  have "last_key daily ?u = k"
    using n last_key_cong [OF merge_ticks_fields(1)] by metis
  moreover have "c_close ?u = snd (last tks)"
    by (cases rest) (simp_all add: tks merge_ticks_fields(6) new_candle_def last_map merge_tick_def)
  moreover have "c_open ?u = snd (hd tks)" "c_volume ?u = 0"
    "c_high ?u = Max (snd ` set tks)" "c_low ?u = Min (snd ` set tks)"
    by (simp_all add: tks merge_ticks_fields new_candle_def)
  ultimately show ?thesis using run by blast
qed

theorem ticks_build_candle_witness:
  "\<exists>u. apply_ticks False [(1704070800000, 5), (1704070830000, 9), (1704070859999, 7)] ([] @ [hd sample_points\<lparr>c_time := 1704070740\<rparr>])
      = [] @ [hd sample_points\<lparr>c_time := 1704070740\<rparr>, u] \<and> last_key False u = KTime 1704070800
    \<and> c_open u = snd (hd [(1704070800000::int, 5), (1704070830000, 9), (1704070859999, 7)])
    \<and> c_close u = snd (last [(1704070800000::int, 5), (1704070830000, 9), (1704070859999, 7)])
    \<and> c_high u = Max (snd ` set [(1704070800000::int, 5), (1704070830000, 9), (1704070859999, 7)])
    \<and> c_low u = Min (snd ` set [(1704070800000::int, 5), (1704070830000, 9), (1704070859999, 7)])
    \<and> c_volume u = 0"
  by (rule ticks_build_candle)
    (simp_all add: last_key_def tick_key_def in_millis_def sample_points_def)

text \<open>C13. A tick keeps the array ordered by period and every candle well formed
  (\<open>low \<le> open, close \<le> high\<close>); it changes at most the last candle or appends one.\<close>

theorem tick_update_invariant:
  assumes "sorted (map (last_key daily) h)" and "\<forall>c\<in>set h. candle_ok c \<and> 60 \<le> c_time c"
    and "in_millis ts"
  shows "sorted (map (last_key daily) (fst (tick_update daily ts price h)))
    \<and> list_all candle_ok (fst (tick_update daily ts price h))
    \<and> butlast h = take (length h - 1) (fst (tick_update daily ts price h))"
proof (cases h rule: rev_cases)
  case Nil
  then show ?thesis by (simp add: tick_update_empty candle_ok_new)
next
  case (snoc xs c)
  have c: "60 \<le> c_time c \<or> daily" and xs: "\<forall>d\<in>set xs. candle_ok d" "candle_ok c"
    and s: "sorted (map (last_key daily) xs)" "\<forall>d\<in>set xs. last_key daily d \<le> last_key daily c"
    using assms by (auto simp: snoc sorted_append)
  from c show ?thesis
  proof (cases rule: tick_update_cases [of c daily ts price xs])
    case older
    then show ?thesis using xs s by (simp add: snoc sorted_append list_all_iff)
  next
    case same
    then show ?thesis using xs s by (simp add: snoc sorted_append candle_ok_merge_tick list_all_iff)
  next
    case newer
    then show ?thesis using xs s new_candle_key [OF assms(3), of daily price]
      by (fastforce simp: snoc sorted_append candle_ok_new list_all_iff)
  qed
qed

theorem tick_update_invariant_witness:
  "sorted (map (last_key False) (fst (tick_update False 1704067230000 12 [sample_points ! 1])))
    \<and> list_all candle_ok (fst (tick_update False 1704067230000 12 [sample_points ! 1]))
    \<and> butlast [sample_points ! 1]
        = take (length [sample_points ! 1] - 1) (fst (tick_update False 1704067230000 12 [sample_points ! 1]))"
  by (rule tick_update_invariant) (simp_all add: sample_points_def candle_ok_def in_millis_def)

end
