(* ===== verification/ChartMachine.thy ===== *)
theory ChartMachine imports ChartData JsNumber StockTypes begin

section \<open>PriceChart as a state machine (components/dashboard/price-chart.tsx)\<close>

text \<open>
  The component's state variables, its refs, the queue of state updates React has not rendered yet,
  the requests in flight and the dependency values of the last committed effects. A handler or an
  effect changes refs at once and queues state updates; a commit applies the queue in order and then
  runs the effects whose dependencies changed: all cleanups first, then the setups in source order.
  \<open>settle\<close> repeats commits until nothing is queued. The calls to the chart library are recorded in the
  chart object and have no other effect; the container node is always mounted when an effect runs.
\<close>

subsection \<open>State\<close>

datatype chart_call = SetBars "vbar list" | FitContent | UpdateBar bar

record chart_obj =
  ch_ticker :: jstr
  ch_interval :: interval
  ch_calls :: "chart_call list"

datatype upd =
    SetData "candle list"
  | TickData bool int rat
  | SetReady bool
  | SetHist bool
  | SetLoading bool
  | SetIval interval

datatype request =
    HistoryReq jstr interval
  | MoreReq jstr interval "candle list" jstr

datatype response = Ok "candle list" | NotOk | Failed

record deps =
  d_ver :: nat
  d_ival :: interval
  d_hist :: bool
  d_ticker :: "jstr option"
  d_ready :: bool
  d_price :: "jstr option"

record pc =
  sel :: "stock option"
  ready :: bool
  hist_loaded :: bool
  loading_more :: bool
  cdata :: "candle list"
  data_ver :: nat
  ival :: interval
  ref_data :: "candle list"
  ref_ival :: interval
  ref_hist :: bool
  tick_buffer :: "(rat \<times> int) list"
  fetching :: bool
  no_more :: bool
  chart :: "chart_obj option"
  queue :: "upd list"
  inflight :: "request list"
  effect_deps :: "deps option"

definition initial_pc :: pc where
  "initial_pc =
     \<lparr>sel = None, ready = False, hist_loaded = False, loading_more = False, cdata = [], data_ver = 0,
      ival = I1d, ref_data = [], ref_ival = I1d, ref_hist = False, tick_buffer = [],
      fetching = False, no_more = False, chart = None, queue = [], inflight = [],
      effect_deps = None\<rparr>"

definition enqueue :: "upd list \<Rightarrow> pc \<Rightarrow> pc" where
  "enqueue us s = s\<lparr>queue := queue s @ us\<rparr>"

definition chart_do :: "chart_call \<Rightarrow> pc \<Rightarrow> pc" where
  "chart_do c s = s\<lparr>chart := map_option (\<lambda>ch. ch\<lparr>ch_calls := ch_calls ch @ [c]\<rparr>) (chart s)\<rparr>"

subsection \<open>Helpers the effects and the fetch continuations call\<close>

definition update_chart_data :: "candle list \<Rightarrow> pc \<Rightarrow> pc" where
  "update_chart_data data s =
     (if chart s = None then s else chart_do (SetBars (final_data (ref_ival s) data)) s)"

definition apply_tick :: "rat \<Rightarrow> int \<Rightarrow> pc \<Rightarrow> pc" where
  "apply_tick price timestamp s =
     (if chart s = None \<or> ref_data s = [] then s
      else enqueue [TickData (is_daily (ref_ival s)) timestamp price] s)"

definition load_more :: "jstr \<Rightarrow> interval \<Rightarrow> pc \<Rightarrow> pc" where
  "load_more ticker interval s =
     (if fetching s \<or> ref_data s = [] \<or> \<not> ref_hist s then s
      else case earliest_point (ref_data s) of
          None \<Rightarrow> s
        | Some e \<Rightarrow>
            enqueue [SetLoading True]
              (s\<lparr>fetching := True,
                inflight := inflight s @ [MoreReq ticker interval (ref_data s) (end_date_str interval e)]\<rparr>))"

definition range_change :: "rat \<Rightarrow> rat \<Rightarrow> pc \<Rightarrow> pc" where
  "range_change frm till s = (case chart s of
       None \<Rightarrow> s
     | Some ch \<Rightarrow>
         if fetching s \<or> no_more s then s
         else if ref_data s = [] then s
         else if frm < max ((till - frm) * (1 / 2)) 50 then load_more (ch_ticker ch) (ch_interval ch) s
         else s)"

subsection \<open>Effects\<close>

definition cleanup_chart :: "pc \<Rightarrow> pc" where
  "cleanup_chart s =
     enqueue [SetReady False] (s\<lparr>ref_data := [], no_more := False, chart := None\<rparr>)"

definition init_chart :: "pc \<Rightarrow> pc" where
  "init_chart s = (case sel s of
       None \<Rightarrow> s
     | Some st \<Rightarrow>
         enqueue [SetReady True]
           (s\<lparr>chart := Some \<lparr>ch_ticker = s_ticker st, ch_interval = ival s, ch_calls = []\<rparr>,
             no_more := False\<rparr>))"

definition history_effect :: "pc \<Rightarrow> pc" where
  "history_effect s = (case sel s of
       None \<Rightarrow> chart_do (SetBars []) (enqueue [SetHist False, SetData []] s)
     | Some st \<Rightarrow>
         if \<not> ready s then s
         else enqueue [SetHist False]
           (s\<lparr>inflight := inflight s @ [HistoryReq (s_ticker st) (ival s)]\<rparr>))"

definition realtime_effect :: "int \<Rightarrow> pc \<Rightarrow> pc" where
  "realtime_effect now s = (case sel s of
       None \<Rightarrow> s
     | Some st \<Rightarrow>
         (case parse_float (s_price st) of
            None \<Rightarrow> s
          | Some price \<Rightarrow>
              if price = 0 then s
              else if \<not> hist_loaded s then s\<lparr>tick_buffer := tick_buffer s @ [(price, now)]\<rparr>
              else apply_tick price now s))"

definition deps_of :: "pc \<Rightarrow> deps" where
  "deps_of s =
     \<lparr>d_ver = data_ver s, d_ival = ival s, d_hist = hist_loaded s,
      d_ticker = map_option s_ticker (sel s), d_ready = ready s,
      d_price = map_option s_price (sel s)\<rparr>"

definition changed :: "pc \<Rightarrow> (deps \<Rightarrow> 'a) \<Rightarrow> bool" where
  "changed s f = (case effect_deps s of None \<Rightarrow> True | Some old \<Rightarrow> f old \<noteq> f (deps_of s))"

definition when_do :: "bool \<Rightarrow> ('s \<Rightarrow> 's) \<Rightarrow> 's \<Rightarrow> 's" where
  "when_do b f s = (if b then f s else s)"

definition run_effects :: "int \<Rightarrow> pc \<Rightarrow> pc" where
  "run_effects now s =
     (let chart_ch = changed s (\<lambda>d. (d_ticker d, d_ival d));
          s = when_do (chart_ch \<and> chart s \<noteq> None) cleanup_chart s;
          s = when_do (changed s d_ver) (\<lambda>s. s\<lparr>ref_data := cdata s\<rparr>) s;
          s = when_do (changed s d_ival) (\<lambda>s. s\<lparr>ref_ival := ival s\<rparr>) s;
          s = when_do (changed s d_hist) (\<lambda>s. s\<lparr>ref_hist := hist_loaded s\<rparr>) s;
          s = when_do chart_ch init_chart s;
          s = when_do (changed s (\<lambda>d. (d_ticker d, d_ival d, d_ready d))) history_effect s;
          s = when_do (changed s (\<lambda>d. (d_price d, d_hist d))) (realtime_effect now) s
      in s\<lparr>effect_deps := Some (deps_of s)\<rparr>)"

subsection \<open>Rendering, committing, settling\<close>

fun apply_upd :: "upd \<Rightarrow> pc \<Rightarrow> pc" where
  "apply_upd (SetData xs) s = s\<lparr>cdata := xs, data_ver := Suc (data_ver s)\<rparr>"
| "apply_upd (TickData daily ts price) s =
     (case tick_update daily ts price (cdata s) of
        (h, None) \<Rightarrow> s
      | (h, Some b) \<Rightarrow> chart_do (UpdateBar b) (s\<lparr>cdata := h, data_ver := Suc (data_ver s)\<rparr>))"
| "apply_upd (SetReady b) s = s\<lparr>ready := b\<rparr>"
| "apply_upd (SetHist b) s = s\<lparr>hist_loaded := b\<rparr>"
| "apply_upd (SetLoading b) s = s\<lparr>loading_more := b\<rparr>"
| "apply_upd (SetIval i) s = s\<lparr>ival := i\<rparr>"

definition render :: "pc \<Rightarrow> pc" where
  "render s = fold apply_upd (queue s) (s\<lparr>queue := []\<rparr>)"

definition commit :: "int \<Rightarrow> pc \<Rightarrow> pc" where
  "commit now s = run_effects now (render s)"

fun settle :: "nat \<Rightarrow> int \<Rightarrow> pc \<Rightarrow> pc" where
  "settle 0 now s = s"
| "settle (Suc n) now s = (if queue s = [] then s else settle n now (commit now s))"

text \<open>Five commits are enough for every event (\<open>settle_enough\<close> below).\<close>

definition finish :: "int \<Rightarrow> pc \<Rightarrow> pc" where
  "finish now s = settle 5 now s"

subsection \<open>Events\<close>

text \<open>The parent renders the chart with a (new) selected stock; the first time is the mount.\<close>

definition receive_props :: "int \<Rightarrow> stock option \<Rightarrow> pc \<Rightarrow> pc" where
  "receive_props now st s = finish now (commit now (s\<lparr>sel := st\<rparr>))"

definition set_chart_interval :: "int \<Rightarrow> interval \<Rightarrow> pc \<Rightarrow> pc" where
  "set_chart_interval now i s = finish now (enqueue [SetIval i] s)"

text \<open>The library reports the visible range; \<open>None\<close> is a null range.\<close>

definition visible_range :: "int \<Rightarrow> (rat \<times> rat) option \<Rightarrow> pc \<Rightarrow> pc" where
  "visible_range now r s = (case r of None \<Rightarrow> s | Some (frm, till) \<Rightarrow> finish now (range_change frm till s))"

definition pending_ticks :: "candle list \<Rightarrow> (rat \<times> int) list \<Rightarrow> (rat \<times> int) list" where
  "pending_ticks history buf =
     (let lastHistoryTime = (if history = [] then 0 else c_time (last history))
      in filter (\<lambda>(p, t). lastHistoryTime * 1000 < t) buf)"

definition history_body :: "response \<Rightarrow> pc \<Rightarrow> pc" where
  "history_body r s = enqueue [SetHist True] (case r of
       Ok history \<Rightarrow>
         (let s = enqueue [SetData history] s;
              s = update_chart_data history s;
              s = chart_do FitContent s;
              s = fold (\<lambda>(p, t). apply_tick p t) (pending_ticks history (tick_buffer s)) s
          in s\<lparr>tick_buffer := []\<rparr>)
     | NotOk \<Rightarrow> s
     | Failed \<Rightarrow> s)"

definition more_body :: "candle list \<Rightarrow> response \<Rightarrow> pc \<Rightarrow> pc" where
  "more_body currentData r s = (\<lambda>s. enqueue [SetLoading False] (s\<lparr>fetching := False\<rparr>)) (case r of
       Ok moreData \<Rightarrow>
         if moreData \<noteq> []
         then let uniqueSorted = merge_older moreData currentData
              in if length currentData < length uniqueSorted
                 then update_chart_data uniqueSorted (enqueue [SetData uniqueSorted] s)
                 else s\<lparr>no_more := True\<rparr>
         else s\<lparr>no_more := True\<rparr>
     | NotOk \<Rightarrow> s
     | Failed \<Rightarrow> s)"

definition remove_nth :: "nat \<Rightarrow> 'a list \<Rightarrow> 'a list" where
  "remove_nth k xs = take k xs @ drop (Suc k) xs"

text \<open>The request at position \<open>k\<close> is answered.\<close>

definition respond :: "int \<Rightarrow> nat \<Rightarrow> response \<Rightarrow> pc \<Rightarrow> pc" where
  "respond now k r s =
     (if k < length (inflight s)
      then let s' = s\<lparr>inflight := remove_nth k (inflight s)\<rparr>
           in finish now (case inflight s ! k of
                HistoryReq t i \<Rightarrow> history_body r s'
              | MoreReq t i cur e \<Rightarrow> more_body cur r s')
      else s)"

inductive chart_step :: "pc \<Rightarrow> pc \<Rightarrow> bool" where
  props: "chart_step s (receive_props now st s)"
| interval: "chart_step s (set_chart_interval now i s)"
| range: "chart_step s (visible_range now r s)"
| response: "k < length (inflight s) \<Longrightarrow> chart_step s (respond now k r s)"

inductive_cases chart_stepE: "chart_step s t"


section \<open>What one round of effects does to each variable\<close>

lemma when_do_sel [simp]:
  "sel (when_do b f s) = (if b then sel (f s) else sel s)"
  "ready (when_do b f s) = (if b then ready (f s) else ready s)"
  "hist_loaded (when_do b f s) = (if b then hist_loaded (f s) else hist_loaded s)"
  "loading_more (when_do b f s) = (if b then loading_more (f s) else loading_more s)"
  "cdata (when_do b f s) = (if b then cdata (f s) else cdata s)"
  "data_ver (when_do b f s) = (if b then data_ver (f s) else data_ver s)"
  "ival (when_do b f s) = (if b then ival (f s) else ival s)"
  "ref_data (when_do b f s) = (if b then ref_data (f s) else ref_data s)"
  "ref_ival (when_do b f s) = (if b then ref_ival (f s) else ref_ival s)"
  "ref_hist (when_do b f s) = (if b then ref_hist (f s) else ref_hist s)"
  "tick_buffer (when_do b f s) = (if b then tick_buffer (f s) else tick_buffer s)"
  "fetching (when_do b f s) = (if b then fetching (f s) else fetching s)"
  "chart (when_do b f s) = (if b then chart (f s) else chart s)"
  "queue (when_do b f s) = (if b then queue (f s) else queue s)"
  "inflight (when_do b f s) = (if b then inflight (f s) else inflight s)"
  "effect_deps (when_do b f s) = (if b then effect_deps (f s) else effect_deps s)"
  by (simp_all add: when_do_def)

lemmas effect_defs = enqueue_def chart_do_def cleanup_chart_def init_chart_def history_effect_def
  apply_tick_def realtime_effect_def

text \<open>No effect writes a state variable directly.\<close>

lemma effects_keep_state [simp]:
  "sel (enqueue us s) = sel s" "sel (chart_do c s) = sel s" "sel (cleanup_chart s) = sel s"
  "sel (init_chart s) = sel s" "sel (history_effect s) = sel s" "sel (realtime_effect now s) = sel s"
  "ready (enqueue us s) = ready s" "ready (chart_do c s) = ready s" "ready (cleanup_chart s) = ready s"
  "ready (init_chart s) = ready s" "ready (history_effect s) = ready s" "ready (realtime_effect now s) = ready s"
  "hist_loaded (enqueue us s) = hist_loaded s" "hist_loaded (chart_do c s) = hist_loaded s"
  "hist_loaded (cleanup_chart s) = hist_loaded s" "hist_loaded (init_chart s) = hist_loaded s"
  "hist_loaded (history_effect s) = hist_loaded s" "hist_loaded (realtime_effect now s) = hist_loaded s"
  "cdata (enqueue us s) = cdata s" "cdata (chart_do c s) = cdata s" "cdata (cleanup_chart s) = cdata s"
  "cdata (init_chart s) = cdata s" "cdata (history_effect s) = cdata s" "cdata (realtime_effect now s) = cdata s"
  "data_ver (enqueue us s) = data_ver s" "data_ver (chart_do c s) = data_ver s"
  "data_ver (cleanup_chart s) = data_ver s" "data_ver (init_chart s) = data_ver s"
  "data_ver (history_effect s) = data_ver s" "data_ver (realtime_effect now s) = data_ver s"
  "ival (enqueue us s) = ival s" "ival (chart_do c s) = ival s" "ival (cleanup_chart s) = ival s"
  "ival (init_chart s) = ival s" "ival (history_effect s) = ival s" "ival (realtime_effect now s) = ival s"
  by (simp_all add: effect_defs split: option.splits)

lemma effects_keep_refs [simp]:
  "ref_data (enqueue us s) = ref_data s" "ref_data (chart_do c s) = ref_data s"
  "ref_data (cleanup_chart s) = []" "ref_data (init_chart s) = ref_data s"
  "ref_data (history_effect s) = ref_data s" "ref_data (realtime_effect now s) = ref_data s"
  "ref_ival (enqueue us s) = ref_ival s" "ref_ival (chart_do c s) = ref_ival s"
  "ref_ival (cleanup_chart s) = ref_ival s" "ref_ival (init_chart s) = ref_ival s"
  "ref_ival (history_effect s) = ref_ival s" "ref_ival (realtime_effect now s) = ref_ival s"
  "ref_hist (enqueue us s) = ref_hist s" "ref_hist (chart_do c s) = ref_hist s"
  "ref_hist (cleanup_chart s) = ref_hist s" "ref_hist (init_chart s) = ref_hist s"
  "ref_hist (history_effect s) = ref_hist s" "ref_hist (realtime_effect now s) = ref_hist s"
  "fetching (enqueue us s) = fetching s" "fetching (chart_do c s) = fetching s"
  "fetching (cleanup_chart s) = fetching s" "fetching (init_chart s) = fetching s"
  "fetching (history_effect s) = fetching s" "fetching (realtime_effect now s) = fetching s"
  "effect_deps (enqueue us s) = effect_deps s" "effect_deps (chart_do c s) = effect_deps s"
  "effect_deps (cleanup_chart s) = effect_deps s" "effect_deps (init_chart s) = effect_deps s"
  "effect_deps (history_effect s) = effect_deps s" "effect_deps (realtime_effect now s) = effect_deps s"
  by (simp_all add: effect_defs split: option.splits)

lemma deps_of_cong:
  assumes "sel s = sel t" "ready s = ready t" "hist_loaded s = hist_loaded t"
    "data_ver s = data_ver t" "ival s = ival t"
  shows "deps_of s = deps_of t"
  using assms by (simp add: deps_of_def)

lemma changed_cong:
  assumes "sel s = sel t" "ready s = ready t" "hist_loaded s = hist_loaded t"
    "data_ver s = data_ver t" "ival s = ival t" "effect_deps s = effect_deps t"
  shows "changed s f = changed t f"
  using assms(6) deps_of_cong [OF assms(1-5)] by (simp add: changed_def cong: option.case_cong)

lemma changed_effects [simp]:
  "changed (cleanup_chart s) f = changed s f" "changed (init_chart s) f = changed s f"
  "changed (history_effect s) f = changed s f"
  "changed (s\<lparr>ref_data := x\<rparr>) f = changed s f" "changed (s\<lparr>ref_ival := i\<rparr>) f = changed s f"
  "changed (s\<lparr>ref_hist := b\<rparr>) f = changed s f"
  by (rule changed_cong; simp)+

lemma changed_when_do [simp]:
  "(\<And>t. changed (g t) f = changed t f) \<Longrightarrow> changed (when_do b g s) f = changed s f"
  by (simp add: when_do_def)

abbreviation switched :: "pc \<Rightarrow> bool" where
  "switched s \<equiv> changed s (\<lambda>d. (d_ticker d, d_ival d))"

lemma run_effects_state [simp]:
  "sel (run_effects now s) = sel s" "ready (run_effects now s) = ready s"
  "hist_loaded (run_effects now s) = hist_loaded s" "cdata (run_effects now s) = cdata s"
  "data_ver (run_effects now s) = data_ver s" "ival (run_effects now s) = ival s"
  "fetching (run_effects now s) = fetching s"
  by (simp_all add: run_effects_def Let_def)


lemma changed_effect_deps [simp]: "deps_of (s\<lparr>effect_deps := d\<rparr>) = deps_of s"
  by (rule deps_of_cong) simp_all

lemma run_effects_deps [simp]: "deps_of (run_effects now s) = deps_of s"
  by (rule deps_of_cong; simp)

lemma run_effects_effect_deps [simp]: "effect_deps (run_effects now s) = Some (deps_of s)"
proof -
  have "deps_of (run_effects now s) = deps_of s" by simp
  then show ?thesis unfolding run_effects_def Let_def changed_effect_deps by simp
qed

lemma run_effects_refs:
  "ref_data (run_effects now s) =
     (if changed s d_ver then cdata s else if switched s \<and> chart s \<noteq> None then [] else ref_data s)"
  "ref_ival (run_effects now s) = (if changed s d_ival then ival s else ref_ival s)"
  "ref_hist (run_effects now s) = (if changed s d_hist then hist_loaded s else ref_hist s)"
  by (auto simp: run_effects_def Let_def)

lemma chart_after [simp]:
  "chart (cleanup_chart s) = None"
  "chart (init_chart s) = (case sel s of None \<Rightarrow> chart s
     | Some st \<Rightarrow> Some \<lparr>ch_ticker = s_ticker st, ch_interval = ival s, ch_calls = []\<rparr>)"
  "(chart (chart_do c s) = None) = (chart s = None)"
  "(chart (history_effect s) = None) = (chart s = None)"
  "chart (realtime_effect now s) = chart s"
  by (simp_all add: effect_defs split: option.splits)

lemma run_effects_chart:
  "(chart (run_effects now s) = None) = (if switched s then sel s = None else chart s = None)"
  by (auto simp: run_effects_def Let_def split: option.splits)

definition chart_for :: "pc \<Rightarrow> (jstr \<times> interval) option" where
  "chart_for s = map_option (\<lambda>ch. (ch_ticker ch, ch_interval ch)) (chart s)"

lemma chart_for_after [simp]:
  "chart_for (chart_do c s) = chart_for s" "chart_for (history_effect s) = chart_for s"
  "chart_for (realtime_effect now s) = chart_for s" "chart_for (enqueue us s) = chart_for s"
  by (simp_all add: chart_for_def effect_defs option.map_comp comp_def split: option.splits)

lemma chart_for_simps [simp]:
  "chart_for (cleanup_chart s) = None"
  "chart_for (init_chart s) = (case sel s of None \<Rightarrow> chart_for s
     | Some st \<Rightarrow> Some (s_ticker st, ival s))"
  "chart_for (when_do b f s) = (if b then chart_for (f s) else chart_for s)"
  "chart_for (s\<lparr>ref_data := x\<rparr>) = chart_for s" "chart_for (s\<lparr>ref_ival := i\<rparr>) = chart_for s"
  "chart_for (s\<lparr>ref_hist := c\<rparr>) = chart_for s" "chart_for (s\<lparr>effect_deps := d\<rparr>) = chart_for s"
  "chart s = None \<Longrightarrow> chart_for s = None"
  by (simp_all add: chart_for_def when_do_def split: option.splits)

lemma run_effects_chart_for:
  "chart_for (run_effects now s) =
     (if switched s then map_option (\<lambda>st. (s_ticker st, ival s)) (sel s) else chart_for s)"
  by (auto simp: run_effects_def Let_def split: option.splits)


section \<open>Settling\<close>

text \<open>
  An update's level says how much later work it can cause: a changed interval rebuilds the chart, a
  changed ready flag reloads the history, a changed history flag replays the price.
\<close>

fun upd_level :: "upd \<Rightarrow> nat" where
  "upd_level (SetIval i) = 4"
| "upd_level (SetReady b) = 3"
| "upd_level (SetHist b) = 2"
| "upd_level u = 1"

definition queue_within :: "nat \<Rightarrow> pc \<Rightarrow> bool" where
  "queue_within k s \<longleftrightarrow> (\<forall>u\<in>set (queue s). upd_level u \<le> k)"

definition synced :: "pc \<Rightarrow> bool" where
  "synced s \<longleftrightarrow> effect_deps s = Some (deps_of s)"

lemma queue_within_mono: "queue_within k s \<Longrightarrow> k \<le> l \<Longrightarrow> queue_within l s"
  by (auto simp: queue_within_def)

lemma queue_within_0 [simp]: "queue_within 0 s \<longleftrightarrow> queue s = []"
proof -
  have "0 < upd_level u" for u by (cases u) auto
  then show ?thesis by (cases "queue s") (auto simp: queue_within_def)
qed

lemma queue_within_enqueue [simp]:
  "queue_within k (enqueue us s) \<longleftrightarrow> (\<forall>u\<in>set us. upd_level u \<le> k) \<and> queue_within k s"
  by (auto simp: queue_within_def enqueue_def)

lemma queue_within_effects [simp]:
  "queue_within k (chart_do c s) = queue_within k s"
  "queue_within k (s\<lparr>ref_data := x\<rparr>) = queue_within k s"
  "queue_within k (s\<lparr>ref_ival := i\<rparr>) = queue_within k s"
  "queue_within k (s\<lparr>ref_hist := b\<rparr>) = queue_within k s"
  "queue_within k (s\<lparr>effect_deps := d\<rparr>) = queue_within k s"
  "queue_within k (s\<lparr>inflight := q\<rparr>) = queue_within k s"
  "queue_within k (s\<lparr>chart := c'\<rparr>) = queue_within k s"
  "queue_within k (s\<lparr>tick_buffer := tb\<rparr>) = queue_within k s"
  "queue_within k (s\<lparr>no_more := nm\<rparr>) = queue_within k s"
  by (simp_all add: queue_within_def chart_do_def)

lemma when_do_within:
  assumes "b \<Longrightarrow> queue_within k s \<Longrightarrow> queue_within k (f s)" and "queue_within k s"
  shows "queue_within k (when_do b f s)"
  using assms by (simp add: when_do_def)

lemma effects_within:
  "3 \<le> k \<Longrightarrow> queue_within k s \<Longrightarrow> queue_within k (cleanup_chart s)"
  "3 \<le> k \<Longrightarrow> queue_within k s \<Longrightarrow> queue_within k (init_chart s)"
  "2 \<le> k \<Longrightarrow> queue_within k s \<Longrightarrow> queue_within k (history_effect s)"
  "1 \<le> k \<Longrightarrow> queue_within k s \<Longrightarrow> queue_within k (realtime_effect now s)"
  by (auto simp: cleanup_chart_def init_chart_def history_effect_def realtime_effect_def apply_tick_def
      split: option.splits)

lemma run_effects_within:
  assumes "queue s = []"
    and sw: "switched s \<Longrightarrow> 3 \<le> k"
    and hi: "changed s (\<lambda>d. (d_ticker d, d_ival d, d_ready d)) \<Longrightarrow> 2 \<le> k"
    and pr: "changed s (\<lambda>d. (d_price d, d_hist d)) \<Longrightarrow> 1 \<le> k"
  shows "queue_within k (run_effects now s)"
proof -
  have "queue_within k s" using assms(1) by (simp add: queue_within_def)
  then show ?thesis
    unfolding run_effects_def Let_def queue_within_effects
    by (intro when_do_within effects_within; simp add: sw hi pr [unfolded One_nat_def])
qed


text \<open>Applying queued updates changes the matching state variable only.\<close>

lemma apply_upd_frame [simp]:
  "sel (apply_upd u s) = sel s" "effect_deps (apply_upd u s) = effect_deps s"
  "queue (apply_upd u s) = queue s" "fetching (apply_upd u s) = fetching s"
  "inflight (apply_upd u s) = inflight s" "ref_data (apply_upd u s) = ref_data s"
  "ref_ival (apply_upd u s) = ref_ival s" "ref_hist (apply_upd u s) = ref_hist s"
  "tick_buffer (apply_upd u s) = tick_buffer s" "chart_for (apply_upd u s) = chart_for s"
  "(chart (apply_upd u s) = None) = (chart s = None)"
  by (cases u; simp add: chart_do_def chart_for_def option.map_comp comp_def split: prod.splits option.splits)+

lemma apply_upd_level [simp]:
  "upd_level u \<noteq> 4 \<Longrightarrow> ival (apply_upd u s) = ival s"
  "upd_level u \<noteq> 3 \<Longrightarrow> ready (apply_upd u s) = ready s"
  "upd_level u \<noteq> 2 \<Longrightarrow> hist_loaded (apply_upd u s) = hist_loaded s"
  by (cases u; simp split: prod.splits option.splits)+

lemma fold_keeps: "(\<And>u s. u \<in> set us \<Longrightarrow> f (g u s) = f s) \<Longrightarrow> f (fold g us s) = f s"
  by (induction us arbitrary: s) auto

lemma render_frame [simp]:
  "sel (render s) = sel s" "effect_deps (render s) = effect_deps s" "queue (render s) = []"
  "fetching (render s) = fetching s" "inflight (render s) = inflight s"
  "ref_data (render s) = ref_data s" "ref_ival (render s) = ref_ival s" "ref_hist (render s) = ref_hist s"
  "tick_buffer (render s) = tick_buffer s"
  unfolding render_def
  by (subst fold_keeps [where f = sel], simp_all)
     (subst fold_keeps [where f = effect_deps] fold_keeps [where f = queue] fold_keeps [where f = fetching]
        fold_keeps [where f = inflight] fold_keeps [where f = ref_data] fold_keeps [where f = ref_ival]
        fold_keeps [where f = ref_hist] fold_keeps [where f = tick_buffer], simp_all)+

lemma render_chart [simp]:
  "chart_for (render s) = chart_for s" "(chart (render s) = None) = (chart s = None)"
proof -
  have "chart_for (fold apply_upd (queue s) (s\<lparr>queue := []\<rparr>)) = chart_for (s\<lparr>queue := []\<rparr>)"
    by (rule fold_keeps) simp
  then show *: "chart_for (render s) = chart_for s" by (simp add: render_def chart_for_def)
  show "(chart (render s) = None) = (chart s = None)" using * by (auto simp: chart_for_def)
qed

lemma render_quiet:
  "queue_within 3 s \<Longrightarrow> ival (render s) = ival s"
  "queue_within 2 s \<Longrightarrow> ready (render s) = ready s"
  "queue_within 1 s \<Longrightarrow> hist_loaded (render s) = hist_loaded s"
  unfolding render_def queue_within_def
  by (subst fold_keeps [where f = ival] fold_keeps [where f = ready] fold_keeps [where f = hist_loaded],
      fastforce intro!: apply_upd_level, simp)+

lemma commit_synced [simp]: "synced (commit now s)"
  by (simp add: commit_def synced_def)

lemma commit_within_3 [simp]: "queue_within 3 (commit now s)"
  unfolding commit_def by (rule run_effects_within) simp_all

lemma commit_within:
  assumes "synced s" and "queue_within (Suc k) s"
  shows "queue_within k (commit now s)"
proof -
  have old: "effect_deps (render s) = Some (deps_of s)" using assms(1) by (simp add: synced_def)
  have keep: "k < 3 \<Longrightarrow> ival (render s) = ival s" "k < 2 \<Longrightarrow> ready (render s) = ready s"
    "k < 1 \<Longrightarrow> hist_loaded (render s) = hist_loaded s"
    by (rule render_quiet, rule queue_within_mono [OF assms(2)], simp)+
  show ?thesis unfolding commit_def
    by (rule run_effects_within; use old keep in
        \<open>force simp: changed_def deps_of_def not_less [symmetric]\<close>)
qed


lemma settle_idle [simp]: "queue s = [] \<Longrightarrow> settle n now s = s"
  by (cases n) simp_all

lemma settle_add: "settle (m + n) now s = settle n now (settle m now s)"
  by (induction m now s rule: settle.induct) simp_all

lemma settle_within: "synced s \<Longrightarrow> queue_within k s \<Longrightarrow> queue (settle k now s) = []"
  by (induction k arbitrary: s) (simp_all add: commit_within)

lemma settle_four: "queue (settle 4 now s) = []"
proof (cases "queue s = []")
  case False
  then have "settle 4 now s = settle 3 now (commit now s)" by (simp add: numeral_eq_Suc)
  then show ?thesis by (simp add: settle_within)
qed simp

lemma settle_more: "settle (4 + n) now s = settle 4 now s"
  by (simp only: settle_add settle_idle settle_four)

lemma finish_eq: "finish now s = settle 4 now s"
  using settle_more [of 1 now s] by (simp add: finish_def)

lemma finish_queue [simp]: "queue (finish now s) = []"
  by (simp add: finish_eq settle_four)

lemma finish_idle [simp]: "queue s = [] \<Longrightarrow> finish now s = s"
  by (simp add: finish_def)

lemma finish_keeps:
  assumes "\<And>t. P t \<Longrightarrow> P (commit now t)" and "P s"
  shows "P (finish now s)"
proof -
  have "P (settle n now s)" for n
    using assms(2)
  proof (induction n arbitrary: s)
    case (Suc n)
    then show ?case by (simp add: assms(1))
  qed simp
  then show ?thesis by (simp add: finish_def)
qed

section \<open>The invariant of the component\<close>

text \<open>What a flag will be once the queue is applied.\<close>

fun pick_ready :: "upd \<Rightarrow> bool \<Rightarrow> bool" where
  "pick_ready (SetReady b) r = b"
| "pick_ready u r = r"

fun pick_loading :: "upd \<Rightarrow> bool \<Rightarrow> bool" where
  "pick_loading (SetLoading b) r = b"
| "pick_loading u r = r"

definition ready_next :: "pc \<Rightarrow> bool" where
  "ready_next s = fold pick_ready (queue s) (ready s)"

definition loading_next :: "pc \<Rightarrow> bool" where
  "loading_next s = fold pick_loading (queue s) (loading_more s)"

lemma apply_upd_picks [simp]:
  "ready (apply_upd u s) = pick_ready u (ready s)"
  "loading_more (apply_upd u s) = pick_loading u (loading_more s)"
  by (cases u; simp split: prod.splits option.splits add: chart_do_def)+

lemma render_picks [simp]: "ready (render s) = ready_next s" "loading_more (render s) = loading_next s"
proof -
  have "ready (fold apply_upd us t) = fold pick_ready us (ready t)"
    "loading_more (fold apply_upd us t) = fold pick_loading us (loading_more t)" for us t
    by (induction us arbitrary: t) simp_all
  then show "ready (render s) = ready_next s" "loading_more (render s) = loading_next s"
    by (simp_all add: render_def ready_next_def loading_next_def)
qed

lemma ready_next_simps [simp]:
  "ready_next (enqueue us s) = fold pick_ready us (ready_next s)"
  "ready_next (chart_do c s) = ready_next s"
  "ready_next (when_do b f s) = (if b then ready_next (f s) else ready_next s)"
  "ready_next (cleanup_chart s) = False"
  "ready_next (init_chart s) = (sel s \<noteq> None \<or> ready_next s)"
  "ready_next (history_effect s) = ready_next s"
  "ready_next (realtime_effect now s) = ready_next s"
  by (auto simp: ready_next_def effect_defs when_do_def split: option.splits)

lemma loading_next_simps [simp]:
  "loading_next (enqueue us s) = fold pick_loading us (loading_next s)"
  "loading_next (chart_do c s) = loading_next s"
  "loading_next (when_do b f s) = (if b then loading_next (f s) else loading_next s)"
  "loading_next (cleanup_chart s) = loading_next s"
  "loading_next (init_chart s) = loading_next s"
  "loading_next (history_effect s) = loading_next s"
  "loading_next (realtime_effect now s) = loading_next s"
  by (auto simp: loading_next_def effect_defs when_do_def split: option.splits)

lemma next_updates [simp]:
  "ready_next (s\<lparr>ref_data := x\<rparr>) = ready_next s" "ready_next (s\<lparr>ref_ival := i\<rparr>) = ready_next s"
  "ready_next (s\<lparr>ref_hist := b\<rparr>) = ready_next s" "ready_next (s\<lparr>effect_deps := d\<rparr>) = ready_next s"
  "ready_next (s\<lparr>inflight := q\<rparr>) = ready_next s" "ready_next (s\<lparr>fetching := f\<rparr>) = ready_next s"
  "ready_next (s\<lparr>no_more := f\<rparr>) = ready_next s" "ready_next (s\<lparr>tick_buffer := tb\<rparr>) = ready_next s"
  "ready_next (s\<lparr>sel := st\<rparr>) = ready_next s"
  "loading_next (s\<lparr>ref_data := x\<rparr>) = loading_next s" "loading_next (s\<lparr>ref_ival := i\<rparr>) = loading_next s"
  "loading_next (s\<lparr>ref_hist := b\<rparr>) = loading_next s" "loading_next (s\<lparr>effect_deps := d\<rparr>) = loading_next s"
  "loading_next (s\<lparr>inflight := q\<rparr>) = loading_next s" "loading_next (s\<lparr>fetching := f\<rparr>) = loading_next s"
  "loading_next (s\<lparr>no_more := f\<rparr>) = loading_next s" "loading_next (s\<lparr>tick_buffer := tb\<rparr>) = loading_next s"
  "loading_next (s\<lparr>sel := st\<rparr>) = loading_next s"
  by (simp_all add: ready_next_def loading_next_def)

lemma next_idle [simp]: "queue s = [] \<Longrightarrow> ready_next s = ready s" "queue s = [] \<Longrightarrow> loading_next s = loading_more s"
  by (simp_all add: ready_next_def loading_next_def)

lemma run_effects_next:
  "ready_next (run_effects now s) =
     (if switched s then sel s \<noteq> None \<or> chart s = None \<and> ready_next s else ready_next s)"
  "loading_next (run_effects now s) = loading_next s"
  by (auto simp: run_effects_def Let_def)


fun is_more :: "request \<Rightarrow> bool" where
  "is_more (MoreReq t i cur e) = True"
| "is_more (HistoryReq t i) = False"

definition mores :: "pc \<Rightarrow> request list" where
  "mores s = filter is_more (inflight s)"

lemma mores_simps [simp]:
  "mores (enqueue us s) = mores s" "mores (chart_do c s) = mores s"
  "mores (when_do b f s) = (if b then mores (f s) else mores s)"
  "mores (cleanup_chart s) = mores s" "mores (init_chart s) = mores s"
  "mores (history_effect s) = mores s" "mores (realtime_effect now s) = mores s"
  "mores (s\<lparr>ref_data := x\<rparr>) = mores s" "mores (s\<lparr>ref_ival := i\<rparr>) = mores s"
  "mores (s\<lparr>ref_hist := b'\<rparr>) = mores s" "mores (s\<lparr>effect_deps := d\<rparr>) = mores s"
  "mores (render s) = mores s"
  by (auto simp: mores_def effect_defs when_do_def split: option.splits)

lemma run_effects_mores [simp]: "mores (run_effects now s) = mores s"
  by (simp add: run_effects_def Let_def)

text \<open>
  The invariant between events and between commits. The chart, the ready flag and the refs mirror the
  dependencies of the last effects; the data ref is empty, about to be replaced, or the data shown;
  the loading guard is up exactly while one page request is open.
\<close>

definition chart_matches :: "pc \<Rightarrow> bool" where
  "chart_matches s \<longleftrightarrow> (case effect_deps s of
       None \<Rightarrow> chart s = None \<and> \<not> ready_next s
     | Some d \<Rightarrow> chart_for s = map_option (\<lambda>t. (t, d_ival d)) (d_ticker d)
         \<and> ready_next s = (d_ticker d \<noteq> None))"

definition refs_match :: "pc \<Rightarrow> bool" where
  "refs_match s \<longleftrightarrow> (case effect_deps s of
       None \<Rightarrow> ref_data s = []
     | Some d \<Rightarrow> ref_ival s = d_ival d \<and> ref_hist s = d_hist d \<and> d_ver d \<le> data_ver s
         \<and> (ref_data s = [] \<or> d_ver d < data_ver s \<or> ref_data s = cdata s))"

definition guard_matches :: "pc \<Rightarrow> bool" where
  "guard_matches s \<longleftrightarrow> length (mores s) = (if fetching s then 1 else 0) \<and> loading_next s = fetching s"

definition pc_ok :: "pc \<Rightarrow> bool" where
  "pc_ok s \<longleftrightarrow> chart_matches s \<and> refs_match s \<and> guard_matches s"

lemma apply_upd_version:
  "data_ver s \<le> data_ver (apply_upd u s) \<and> (cdata (apply_upd u s) = cdata s \<or> data_ver s < data_ver (apply_upd u s))"
  by (cases u) (auto simp: chart_do_def split: prod.splits option.splits)

lemma render_version:
  "data_ver s \<le> data_ver (render s) \<and> (cdata (render s) = cdata s \<or> data_ver s < data_ver (render s))"
proof -
  have "data_ver t \<le> data_ver (fold apply_upd us t) \<and>
      (cdata (fold apply_upd us t) = cdata t \<or> data_ver t < data_ver (fold apply_upd us t))" for us t
  proof (induction us arbitrary: t)
    case (Cons u us)
    show ?case using Cons [of "apply_upd u t"] apply_upd_version [of t u] by auto
  qed simp
  from this [of "s\<lparr>queue := []\<rparr>" "queue s"] show ?thesis by (simp add: render_def)
qed

lemma chart_for_None [simp]: "chart_for s = None \<longleftrightarrow> chart s = None"
  by (simp add: chart_for_def)

lemma switched_iff:
  "switched s \<longleftrightarrow> (case effect_deps s of None \<Rightarrow> True
     | Some d \<Rightarrow> (d_ticker d, d_ival d) \<noteq> (map_option s_ticker (sel s), ival s))"
  by (simp add: changed_def deps_of_def split: option.split)

lemma commit_chart_matches:
  assumes "chart_matches s" shows "chart_matches (commit now s)"
proof (cases "effect_deps s")
  case None
  then show ?thesis using assms
    by (auto simp: commit_def chart_matches_def run_effects_chart_for run_effects_next switched_iff deps_of_def
        option.map_comp comp_def)
next
  case (Some d)
  then have c: "chart_for s = map_option (\<lambda>t. (t, d_ival d)) (d_ticker d)"
    and r: "ready_next s = (d_ticker d \<noteq> None)" using assms by (simp_all add: chart_matches_def)
  have n: "(chart s = None) = (d_ticker d = None)" using arg_cong [OF c, of "\<lambda>x. x = None"] by simp
  show ?thesis using Some c r n
    by (auto simp: commit_def chart_matches_def run_effects_chart_for run_effects_next switched_iff deps_of_def
        option.map_comp comp_def)
qed

lemma commit_refs_match:
  assumes "refs_match s" shows "refs_match (commit now s)"
  using assms render_version [of s]
  by (auto simp: commit_def refs_match_def run_effects_refs changed_def deps_of_def split: option.splits)

lemma commit_guard_matches: "guard_matches s \<Longrightarrow> guard_matches (commit now s)"
  by (simp add: commit_def guard_matches_def run_effects_next)

lemma commit_ok: "pc_ok s \<Longrightarrow> pc_ok (commit now s)"
  by (simp add: pc_ok_def commit_chart_matches commit_refs_match commit_guard_matches)

lemma finish_ok: "pc_ok s \<Longrightarrow> pc_ok (finish now s)"
  by (rule finish_keeps) (simp_all add: commit_ok)


text \<open>Changes that touch neither what the invariant reads nor the queued ready and loading flags.\<close>

lemma pc_ok_cong:
  assumes "effect_deps t = effect_deps s" "chart_for t = chart_for s" "ready_next t = ready_next s"
    "ref_data t = ref_data s" "ref_ival t = ref_ival s" "ref_hist t = ref_hist s"
    "data_ver t = data_ver s" "cdata t = cdata s" "mores t = mores s" "fetching t = fetching s"
    "loading_next t = loading_next s"
  shows "pc_ok t = pc_ok s"
proof -
  have "(chart t = None) = (chart s = None)" using arg_cong [OF assms(2), of "\<lambda>x. x = None"] by simp
  then show ?thesis using assms
    by (simp add: pc_ok_def chart_matches_def refs_match_def guard_matches_def cong: option.case_cong)
qed

fun neutral :: "upd \<Rightarrow> bool" where
  "neutral (SetReady b) = False"
| "neutral (SetLoading b) = False"
| "neutral u = True"

lemma neutral_picks:
  "list_all neutral us \<Longrightarrow> fold pick_ready us r = r" "list_all neutral us \<Longrightarrow> fold pick_loading us l = l"
proof (induction us arbitrary: r l)
  case (Cons u us)
  { case 1 with Cons show ?case by (cases u) simp_all }
  { case 2 with Cons show ?case by (cases u) simp_all }
qed simp_all

lemma enqueue_ok [simp]: "list_all neutral us \<Longrightarrow> pc_ok (enqueue us s) = pc_ok s"
  by (rule pc_ok_cong) (simp_all add: neutral_picks)

lemma tick_ok [simp]: "pc_ok (apply_tick p t s) = pc_ok s"
  by (simp add: apply_tick_def)

lemma chart_do_ok [simp]: "pc_ok (chart_do c s) = pc_ok s"
  by (rule pc_ok_cong) simp_all

lemma update_chart_data_ok [simp]: "pc_ok (update_chart_data xs s) = pc_ok s"
  by (simp add: update_chart_data_def)

lemma ticks_ok: "pc_ok (fold (\<lambda>(p, t). apply_tick p t) ts s) = pc_ok s"
proof (induction ts arbitrary: s)
  case (Cons a ts)
  then show ?case by (cases a) simp
qed simp

lemma select_ok: "pc_ok (s\<lparr>sel := st\<rparr>) = pc_ok s"
  by (rule pc_ok_cong) (simp_all add: chart_for_def mores_def)

lemma set_buffer_ok: "pc_ok (s\<lparr>tick_buffer := tb\<rparr>) = pc_ok s"
  by (rule pc_ok_cong) (simp_all add: chart_for_def mores_def)

lemma history_body_ok: "pc_ok s \<Longrightarrow> pc_ok (history_body r s)"
  by (cases r) (simp_all add: history_body_def Let_def set_buffer_ok ticks_ok)

lemma guard_other:
  assumes "effect_deps t = effect_deps s" "chart_for t = chart_for s" "ready_next t = ready_next s"
    "ref_data t = ref_data s" "ref_ival t = ref_ival s" "ref_hist t = ref_hist s"
    "data_ver t = data_ver s" "cdata t = cdata s"
  shows "pc_ok s \<Longrightarrow> guard_matches t \<Longrightarrow> pc_ok t"
proof -
  have "(chart t = None) = (chart s = None)" using arg_cong [OF assms(2), of "\<lambda>x. x = None"] by simp
  then show "pc_ok s \<Longrightarrow> guard_matches t \<Longrightarrow> pc_ok t" using assms
    by (simp add: pc_ok_def chart_matches_def refs_match_def cong: option.case_cong)
qed

lemma load_more_ok: "pc_ok s \<Longrightarrow> pc_ok (load_more t i s)"
  unfolding load_more_def
  by (auto split: option.splits intro!: guard_other [of _ s])
     (auto simp: pc_ok_def guard_matches_def mores_def enqueue_def ready_next_def loading_next_def chart_for_def)

lemma range_change_ok: "pc_ok s \<Longrightarrow> pc_ok (range_change a b s)"
  by (simp add: range_change_def load_more_ok split: option.splits)

lemma remove_nth_filter:
  "k < length xs \<Longrightarrow> length (filter P xs) = length (filter P (remove_nth k xs)) + (if P (xs ! k) then 1 else 0)"
proof -
  assume k: "k < length xs"
  have "filter P xs = filter P (take k xs @ xs ! k # drop (Suc k) xs)"
    using k by (simp add: id_take_nth_drop [symmetric])
  then show ?thesis by (simp add: remove_nth_def)
qed


lemma update_chart_data_frame [simp]:
  "effect_deps (update_chart_data xs s) = effect_deps s" "chart_for (update_chart_data xs s) = chart_for s"
  "ready_next (update_chart_data xs s) = ready_next s" "loading_next (update_chart_data xs s) = loading_next s"
  "ref_data (update_chart_data xs s) = ref_data s" "ref_ival (update_chart_data xs s) = ref_ival s"
  "ref_hist (update_chart_data xs s) = ref_hist s" "data_ver (update_chart_data xs s) = data_ver s"
  "cdata (update_chart_data xs s) = cdata s" "mores (update_chart_data xs s) = mores s"
  "fetching (update_chart_data xs s) = fetching s" "sel (update_chart_data xs s) = sel s"
  "ival (update_chart_data xs s) = ival s" "ready (update_chart_data xs s) = ready s"
  "hist_loaded (update_chart_data xs s) = hist_loaded s"
  by (simp_all add: update_chart_data_def)

lemma guard_updates [simp]:
  "chart_for (s\<lparr>no_more := b\<rparr>) = chart_for s" "mores (s\<lparr>no_more := b\<rparr>) = mores s"
  "chart_for (s\<lparr>fetching := b\<rparr>) = chart_for s" "mores (s\<lparr>fetching := b\<rparr>) = mores s"
  "chart_for (s\<lparr>inflight := q\<rparr>) = chart_for s" "mores (s\<lparr>inflight := q\<rparr>) = filter is_more q"
  by (simp_all add: chart_for_def mores_def)

lemma more_body_frame [simp]:
  "effect_deps (more_body cur r s) = effect_deps s" "chart_for (more_body cur r s) = chart_for s"
  "ready_next (more_body cur r s) = ready_next s" "ref_data (more_body cur r s) = ref_data s"
  "ref_ival (more_body cur r s) = ref_ival s" "ref_hist (more_body cur r s) = ref_hist s"
  "data_ver (more_body cur r s) = data_ver s" "cdata (more_body cur r s) = cdata s"
  "mores (more_body cur r s) = mores s" "\<not> fetching (more_body cur r s)"
  "\<not> loading_next (more_body cur r s)" "sel (more_body cur r s) = sel s"
  "ival (more_body cur r s) = ival s" "ready (more_body cur r s) = ready s"
  "hist_loaded (more_body cur r s) = hist_loaded s"
  by (cases r; simp add: more_body_def Let_def)+

lemma more_body_ok:
  assumes "pc_ok s" and "filter is_more q = []"
  shows "pc_ok (more_body cur r (s\<lparr>inflight := q\<rparr>))"
proof (rule guard_other [OF _ _ _ _ _ _ _ _ assms(1)])
  show "guard_matches (more_body cur r (s\<lparr>inflight := q\<rparr>))"
    using assms(2) by (simp add: guard_matches_def)
qed simp_all

lemma body_ok:
  assumes "pc_ok s" and k: "k < length (inflight s)"
  defines "s' \<equiv> s\<lparr>inflight := remove_nth k (inflight s)\<rparr>"
  shows "inflight s ! k = HistoryReq t i \<Longrightarrow> pc_ok (history_body r s')"
    and "inflight s ! k = MoreReq t i cur e \<Longrightarrow> pc_ok (more_body cur r s')"
proof -
  have n: "length (mores s) = length (mores s') + (if is_more (inflight s ! k) then 1 else 0)"
    using remove_nth_filter [OF k, of is_more] by (simp add: mores_def s'_def)
  have g: "length (mores s) = (if fetching s then 1 else 0)" "loading_next s = fetching s"
    using assms(1) by (simp_all add: pc_ok_def guard_matches_def)
  {
    assume "inflight s ! k = HistoryReq t i"
    then have "guard_matches s'" using n g by (simp add: guard_matches_def s'_def)
    then have "pc_ok s'" by (intro guard_other [OF _ _ _ _ _ _ _ _ assms(1)]) (simp_all add: s'_def)
    then show "pc_ok (history_body r s')" by (rule history_body_ok)
  next
    assume "inflight s ! k = MoreReq t i cur e"
    then have "mores s' = []" using n g by (simp split: if_splits)
    then have "filter is_more (remove_nth k (inflight s)) = []" by (simp add: s'_def)
    from more_body_ok [OF assms(1) this] show "pc_ok (more_body cur r s')" by (simp add: s'_def)
  }
qed

lemma respond_ok: "pc_ok s \<Longrightarrow> pc_ok (respond now k r s)"
  by (auto simp: respond_def Let_def body_ok intro!: finish_ok split: request.split)

text \<open>Synchronisation is kept too.\<close>

lemma synced_cong:
  assumes "sel s = sel t" "ready s = ready t" "hist_loaded s = hist_loaded t"
    "data_ver s = data_ver t" "ival s = ival t" "effect_deps s = effect_deps t"
  shows "synced s = synced t"
  using assms deps_of_cong [of s t] by (simp add: synced_def)

lemma finish_synced: "synced s \<Longrightarrow> synced (finish now s)"
  by (rule finish_keeps) simp_all

lemma history_body_frame [simp]:
  "sel (history_body r s) = sel s" "ready (history_body r s) = ready s"
  "hist_loaded (history_body r s) = hist_loaded s" "data_ver (history_body r s) = data_ver s"
  "ival (history_body r s) = ival s" "effect_deps (history_body r s) = effect_deps s"
  "ref_data (history_body r s) = ref_data s" "cdata (history_body r s) = cdata s"
  "no_more (history_body r s) = no_more s" "fetching (history_body r s) = fetching s"
proof -
  have tick: "f (fold (\<lambda>(p, t). apply_tick p t) ts u) = f u"
    if "\<And>p t u. f (apply_tick p t u) = f u" for f :: "pc \<Rightarrow> 'x" and ts u
    using that by (induction ts arbitrary: u) auto
  show "sel (history_body r s) = sel s" "ready (history_body r s) = ready s"
  "hist_loaded (history_body r s) = hist_loaded s" "data_ver (history_body r s) = data_ver s"
  "ival (history_body r s) = ival s" "effect_deps (history_body r s) = effect_deps s"
  "ref_data (history_body r s) = ref_data s" "cdata (history_body r s) = cdata s"
  "no_more (history_body r s) = no_more s" "fetching (history_body r s) = fetching s"
    by (cases r; simp add: history_body_def Let_def tick [of sel] tick [of ready] tick [of hist_loaded]
        tick [of data_ver] tick [of ival] tick [of effect_deps] tick [of ref_data] tick [of cdata]
        tick [of no_more] tick [of fetching] apply_tick_def enqueue_def update_chart_data_def chart_do_def)+
qed


section \<open>Reachable states\<close>

inductive mounted :: "pc \<Rightarrow> bool" where
  "mounted (receive_props now st initial_pc)"

definition settled :: "pc \<Rightarrow> bool" where
  "settled s \<longleftrightarrow> queue s = [] \<and> synced s \<and> pc_ok s"

lemma initial_ok: "pc_ok initial_pc"
  by (simp add: pc_ok_def chart_matches_def refs_match_def guard_matches_def initial_pc_def
      ready_next_def loading_next_def mores_def)

lemma receive_props_settled: "pc_ok s \<Longrightarrow> settled (receive_props now st s)"
  by (simp add: settled_def receive_props_def finish_synced finish_ok commit_ok select_ok)

lemma enqueue_synced [simp]: "synced (enqueue us s) = synced s"
  by (rule synced_cong) simp_all

lemma synced_updates [simp]:
  "synced (s\<lparr>inflight := q\<rparr>) = synced s" "synced (s\<lparr>fetching := f\<rparr>) = synced s"
  by (rule synced_cong; simp)+

lemma load_more_synced: "synced (load_more t i s) = synced s"
proof -
  have "synced (s\<lparr>fetching := f, inflight := q\<rparr>) = synced s" for f q by (rule synced_cong; simp)
  then show ?thesis by (simp add: load_more_def split: option.split)
qed

lemma body_synced:
  "synced (history_body r (s\<lparr>inflight := q\<rparr>)) = synced s"
  "synced (more_body cur r (s\<lparr>inflight := q\<rparr>)) = synced s"
  by (rule synced_cong; simp)+

lemma chart_step_settled:
  assumes "settled s" and "chart_step s t" shows "settled t"
  using assms(2)
proof (cases rule: chart_step.cases)
  case (props now st)
  then show ?thesis using assms(1) by (simp add: settled_def [of s] receive_props_settled)
next
  case (interval now i)
  then show ?thesis using assms(1)
    by (simp add: settled_def set_chart_interval_def finish_ok finish_synced)
next
  case (range now r)
  then show ?thesis using assms(1)
    by (auto simp: settled_def visible_range_def range_change_def load_more_synced load_more_ok
        intro!: finish_ok finish_synced split: option.splits)
next
  case (response k now r)
  then show ?thesis using assms(1)
    by (auto simp: settled_def respond_def Let_def body_ok body_synced
        intro!: finish_ok finish_synced split: request.splits)
qed

interpretation machine: stepwise chart_step mounted settled
proof
  show "mounted s \<Longrightarrow> settled s" for s
    by (auto elim!: mounted.cases simp: receive_props_settled initial_ok)
qed (rule chart_step_settled)

lemma settledD:
  assumes "settled s"
  shows "queue s = []" and "effect_deps s = Some (deps_of s)"
    and "chart_for s = map_option (\<lambda>st. (s_ticker st, ival s)) (sel s)"
    and "ready s = (sel s \<noteq> None)" and "ref_ival s = ival s" and "ref_hist s = hist_loaded s"
    and "ref_data s = [] \<or> ref_data s = cdata s"
    and "length (filter is_more (inflight s)) = (if fetching s then 1 else 0)"
    and "loading_more s = fetching s"
  using assms
  by (auto simp: settled_def synced_def pc_ok_def chart_matches_def refs_match_def guard_matches_def
      deps_of_def mores_def option.map_comp comp_def)

lemma settled_chart: "settled s \<Longrightarrow> (chart s = None) = (sel s = None)"
  using settledD(3) [of s] by (metis chart_for_None map_option_is_None)

lemma settled_range:
  assumes "settled s"
  shows "ref_data s = [] \<Longrightarrow> visible_range now r s = s" and "sel s = None \<Longrightarrow> visible_range now r s = s"
  using settledD(1) [OF assms] settled_chart [OF assms]
  by (auto simp: visible_range_def range_change_def split: option.splits)

section \<open>Properties of PriceChart\<close>

text \<open>C21. Rendering terminates: whatever updates are queued and whatever state the component is in,
  five commits empty the queue, and allowing more of them changes nothing.\<close>

theorem finish_settles: "queue (finish now s) = [] \<and> settle (5 + n) now s = finish now s"
  using settle_more [of "Suc n" now s] by (simp add: finish_eq settle_four)

text \<open>The states a mounted component can be in.\<close>

definition reachable_pc :: "pc \<Rightarrow> bool" where
  "reachable_pc s \<longleftrightarrow> (\<exists>s0. mounted s0 \<and> chart_step\<^sup>*\<^sup>* s0 s)"

lemma reachable_settled: "reachable_pc s \<Longrightarrow> settled s"
  by (auto simp: reachable_pc_def intro: machine.inv_reach)

lemma reachable_mount: "reachable_pc (receive_props now st initial_pc)"
  by (auto simp: reachable_pc_def intro: mounted.intros)

lemma reachable_step: "reachable_pc s \<Longrightarrow> chart_step s t \<Longrightarrow> reachable_pc t"
  by (auto simp: reachable_pc_def intro: rtranclp.rtrancl_into_rtrancl)

text \<open>A stock for the witnesses.\<close>

definition demo_stock :: stock where
  "demo_stock = \<lparr>s_id = js ''1'', s_ticker = js ''005930'', s_name = js ''Samsung'', s_price = js ''0'',
     s_change = js ''0.5'', s_changeAmount = js ''350'', s_status = js ''active''\<rparr>"

end
