(* ===== verification/ChartRuns.thy ===== *)
theory ChartRuns imports ChartMachine begin

section \<open>PriceChart: what each event does to the data and the requests\<close>

text \<open>
  Functional lemmas about whole events of the machine of \<open>ChartMachine\<close>: which requests a selection
  sends, what a price, a history response and a page response do to the data on screen.
\<close>

subsection \<open>Requests\<close>

lemma chart_enqueue [simp]: "chart (enqueue us s) = chart s"
  by (simp add: enqueue_def)

lemma inflight_simps [simp]:
  "inflight (enqueue us s) = inflight s" "inflight (chart_do c s) = inflight s"
  "inflight (cleanup_chart s) = inflight s" "inflight (init_chart s) = inflight s"
  "inflight (realtime_effect now s) = inflight s"
  "inflight (update_chart_data xs s) = inflight s" "inflight (apply_tick p t s) = inflight s"
  by (simp_all add: effect_defs update_chart_data_def split: option.splits)

abbreviation reloads :: "pc \<Rightarrow> bool" where
  "reloads s \<equiv> changed s (\<lambda>d. (d_ticker d, d_ival d, d_ready d))"

lemma run_effects_inflight:
  "inflight (run_effects now s) = inflight s @
     (case sel s of
        Some st \<Rightarrow> if reloads s \<and> ready s then [HistoryReq (s_ticker st) (ival s)] else []
      | None \<Rightarrow> [])"
  by (simp add: run_effects_def Let_def history_effect_def split: option.splits)

lemma settle_inflight: "synced s \<Longrightarrow> queue_within 2 s \<Longrightarrow> inflight (settle n now s) = inflight s"
proof (induction n arbitrary: s)
  case (Suc n)
  have "ival (render s) = ival s" "ready (render s) = ready s"
    using Suc.prems(2) by (simp_all only: render_quiet queue_within_mono [of 2 s 3])
  then have "\<not> reloads (render s)"
    using Suc.prems(1) by (simp add: changed_def synced_def deps_of_def)
  then have "inflight (commit now s) = inflight s"
    by (simp add: commit_def run_effects_inflight split: option.split)
  moreover have "queue_within 2 (commit now s)"
    by (rule queue_within_mono [OF commit_within [OF Suc.prems(1), of 1]])
      (use Suc.prems(2) in \<open>simp_all add: numeral_2_eq_2\<close>)
  ultimately show ?case using Suc.IH [of "commit now s"] by simp
qed simp

lemma switch_requests:
  assumes "sel t = Some st" and "switched (render t)"
  shows "inflight (settle 4 now (commit now t)) = inflight t @ [HistoryReq (s_ticker st) (ival (render t))]"
proof -
  let ?s1 = "commit now t" and ?req = "HistoryReq (s_ticker st) (ival (render t))"
  let ?s2 = "commit now ?s1"
  have rl: "reloads (render t)" using assms(2) by (auto simp: changed_def split: option.splits)
  have f: "sel ?s1 = Some st" "ready ?s1 = ready_next t" "ival ?s1 = ival (render t)" "ready_next ?s1"
    using assms by (simp_all add: commit_def run_effects_next)
  have i1: "inflight ?s1 = inflight t @ (if ready ?s1 then [?req] else [])"
    using assms(1) rl by (simp add: commit_def run_effects_inflight)
  show ?thesis
  proof (cases "queue ?s1 = []")
    case True
    then have "ready ?s1" using f(4) by simp
    with True i1 show ?thesis by simp
  next
    case False
    have iv: "ival (render ?s1) = ival ?s1" by (rule render_quiet) simp
    have "effect_deps (render ?s1) = Some (deps_of ?s1)"
      using commit_synced [of now t] by (simp add: synced_def)
    then have "reloads (render ?s1) = (\<not> ready ?s1)"
      using f iv by (auto simp: changed_def deps_of_def)
    then have "inflight ?s2 = inflight ?s1 @ (if ready ?s1 then [] else [?req])"
      using f iv by (simp add: commit_def [of now ?s1] run_effects_inflight)
    moreover have "queue_within 2 ?s2"
      by (rule commit_within) (simp_all add: numeral_3_eq_3 [symmetric])
    ultimately have "inflight (settle 3 now ?s2) = inflight t @ [?req]"
      using i1 by (simp add: settle_inflight split: if_splits)
    then show ?thesis using False by (simp add: numeral_eq_Suc)
  qed
qed

lemma selected_switched:
  assumes "settled s" and "map_option s_ticker (sel s) \<noteq> Some (s_ticker st)"
  shows "switched (render (s\<lparr>sel := Some st\<rparr>))"
    and "ival (render (s\<lparr>sel := Some st\<rparr>)) = ival s"
proof -
  have r: "render (s\<lparr>sel := Some st\<rparr>) = s\<lparr>sel := Some st\<rparr>"
    using settledD(1) [OF assms(1)] by (simp add: render_def)
  show "ival (render (s\<lparr>sel := Some st\<rparr>)) = ival s" by (simp add: r)
  show "switched (render (s\<lparr>sel := Some st\<rparr>))"
    using settledD(2) [OF assms(1)] assms(2) by (auto simp: r changed_def deps_of_def)
qed

lemma select_requests:
  assumes "settled s" and "map_option s_ticker (sel s) \<noteq> Some (s_ticker st)"
  shows "inflight (receive_props now (Some st) s) = inflight s @ [HistoryReq (s_ticker st) (ival s)]"
  using switch_requests [of "s\<lparr>sel := Some st\<rparr>" st now] selected_switched [OF assms]
  by (simp add: receive_props_def finish_eq)

lemma ival_switched:
  assumes "settled s" and "i \<noteq> ival s"
  shows "switched (render (enqueue [SetIval i] s))" and "ival (render (enqueue [SetIval i] s)) = i"
proof -
  have r: "render (enqueue [SetIval i] s) = s\<lparr>queue := [], ival := i\<rparr>"
    using settledD(1) [OF assms(1)] by (simp add: render_def enqueue_def)
  show "ival (render (enqueue [SetIval i] s)) = i" by (simp add: r)
  show "switched (render (enqueue [SetIval i] s))"
    using settledD(2) [OF assms(1)] assms(2) by (simp add: r changed_def deps_of_def)
qed

lemma interval_first_commit:
  assumes "settled s"
  shows "set_chart_interval now i s = settle 4 now (commit now (enqueue [SetIval i] s))"
proof -
  have "queue (enqueue [SetIval i] s) \<noteq> []" by (simp add: enqueue_def)
  then show ?thesis by (simp add: set_chart_interval_def finish_def numeral_eq_Suc)
qed

lemma interval_requests:
  assumes "settled s" and "i \<noteq> ival s" and "sel s = Some st"
  shows "inflight (set_chart_interval now i s) = inflight s @ [HistoryReq (s_ticker st) i]"
  using switch_requests [of "enqueue [SetIval i] s" st now] ival_switched [OF assms(1,2)] assms(3)
  by (simp add: interval_first_commit [OF assms(1)])


subsection \<open>After a switch there is no data to page through\<close>

fun data_upd :: "upd \<Rightarrow> bool" where
  "data_upd (SetData xs) = True"
| "data_upd (TickData d ts p) = True"
| "data_upd u = False"

lemma apply_upd_data [simp]:
  "\<not> data_upd u \<Longrightarrow> data_ver (apply_upd u s) = data_ver s" "\<not> data_upd u \<Longrightarrow> cdata (apply_upd u s) = cdata s"
  by (cases u; simp)+

definition no_data :: "pc \<Rightarrow> bool" where
  "no_data s \<longleftrightarrow> \<not> list_ex data_upd (queue s)"

lemma render_no_data:
  assumes "no_data s"
  shows "data_ver (render s) = data_ver s" and "cdata (render s) = cdata s"
proof -
  have "\<And>u t. u \<in> set (queue s) \<Longrightarrow> data_ver (apply_upd u t) = data_ver t \<and> cdata (apply_upd u t) = cdata t"
    using assms by (simp add: list_ex_iff no_data_def)
  then show "data_ver (render s) = data_ver s" "cdata (render s) = cdata s"
    unfolding render_def by (simp_all add: fold_keeps [where f = data_ver] fold_keeps [where f = cdata])
qed

lemma no_data_effects [simp]:
  "no_data (cleanup_chart s) = no_data s" "no_data (init_chart s) = no_data s"
  "no_data (when_do b f s) = (if b then no_data (f s) else no_data s)"
  "sel s \<noteq> None \<Longrightarrow> no_data (history_effect s) = no_data s"
  "ref_data s = [] \<Longrightarrow> no_data (realtime_effect now s) = no_data s"
  "no_data (s\<lparr>ref_data := x\<rparr>) = no_data s" "no_data (s\<lparr>ref_ival := i\<rparr>) = no_data s"
  "no_data (s\<lparr>ref_hist := h\<rparr>) = no_data s" "no_data (s\<lparr>effect_deps := d\<rparr>) = no_data s"
  "no_data (s\<lparr>sel := st\<rparr>) = no_data s" "queue s = [] \<Longrightarrow> no_data s"
  "no_data (enqueue us s) = (\<not> list_ex data_upd us \<and> no_data s)"
  by (auto simp: no_data_def effect_defs when_do_def split: option.splits)

lemma run_effects_no_data:
  assumes "no_data s" and "sel s \<noteq> None" and "\<not> changed s d_ver"
    and "ref_data s = [] \<or> switched s \<and> chart s \<noteq> None"
  shows "no_data (run_effects now s) \<and> ref_data (run_effects now s) = []"
  using assms by (auto simp: run_effects_refs) (auto simp: run_effects_def Let_def)

definition empty_handed :: "pc \<Rightarrow> bool" where
  "empty_handed s \<longleftrightarrow> synced s \<and> sel s \<noteq> None \<and> ref_data s = [] \<and> no_data s"

lemma version_unchanged: "effect_deps s = Some d \<Longrightarrow> d_ver d = data_ver s \<Longrightarrow> no_data s \<Longrightarrow> \<not> changed (render s) d_ver"
  by (simp add: changed_def deps_of_def render_no_data)

lemma commit_empty_handed: "empty_handed s \<Longrightarrow> empty_handed (commit now s)"
  using run_effects_no_data [of "render s" now] version_unchanged [of s "deps_of s"]
  by (simp add: empty_handed_def synced_def commit_def deps_of_def)

lemma commit_switch_empty_handed:
  assumes "effect_deps s = Some d" "d_ver d = data_ver s" and "no_data s" and "sel s \<noteq> None"
    and "ref_data s = [] \<or> switched (render s) \<and> chart s \<noteq> None"
  shows "empty_handed (commit now s) \<and> cdata (commit now s) = cdata s"
  using assms run_effects_no_data [of "render s" now] version_unchanged [OF assms(1-3)] commit_synced [of now s]
  by (simp add: empty_handed_def commit_def render_no_data)

lemma commit_empty_cdata: "empty_handed s \<Longrightarrow> cdata (commit now s) = cdata s"
  by (simp add: empty_handed_def commit_def render_no_data)

lemma settle_empty_handed: "empty_handed s \<Longrightarrow> empty_handed (settle n now s) \<and> cdata (settle n now s) = cdata s"
  by (induction n arbitrary: s) (simp_all add: commit_empty_handed commit_empty_cdata)

lemma deps_of_select: "d_ver (deps_of s) = data_ver s"
  by (simp add: deps_of_def)

lemma select_empties:
  assumes "settled s" and "map_option s_ticker (sel s) \<noteq> Some (s_ticker st)" and "sel s \<noteq> None"
  shows "ref_data (receive_props now (Some st) s) = [] \<and> cdata (receive_props now (Some st) s) = cdata s"
proof -
  have "empty_handed (commit now (s\<lparr>sel := Some st\<rparr>)) \<and> cdata (commit now (s\<lparr>sel := Some st\<rparr>)) = cdata s"
    using commit_switch_empty_handed [of "s\<lparr>sel := Some st\<rparr>" "deps_of s" now] settledD(1,2) [OF assms(1)]
      selected_switched [OF assms(1,2)] settled_chart [OF assms(1)] assms(3)
    by (simp add: deps_of_select)
  then show ?thesis
    using settle_empty_handed [of "commit now (s\<lparr>sel := Some st\<rparr>)" 4 now]
    by (simp add: receive_props_def finish_eq empty_handed_def)
qed

lemma interval_empties:
  assumes "settled s" and "i \<noteq> ival s" and "sel s \<noteq> None"
  shows "ref_data (set_chart_interval now i s) = [] \<and> cdata (set_chart_interval now i s) = cdata s"
proof -
  let ?t = "enqueue [SetIval i] s"
  have "empty_handed (commit now ?t) \<and> cdata (commit now ?t) = cdata s"
    using commit_switch_empty_handed [of ?t "deps_of s" now] settledD(1,2) [OF assms(1)]
      ival_switched [OF assms(1,2)] settled_chart [OF assms(1)] assms(3)
    by (simp add: deps_of_select)
  then show ?thesis
    using settle_empty_handed [of "commit now ?t" 4 now]
    by (simp add: interval_first_commit [OF assms(1)] empty_handed_def)
qed


subsection \<open>What has been drawn\<close>

text \<open>The calls made on the chart object since it was created; none without one.\<close>

definition calls_of :: "pc \<Rightarrow> chart_call list" where
  "calls_of s = (case chart s of None \<Rightarrow> [] | Some ch \<Rightarrow> ch_calls ch)"

lemma calls_of_simps [simp]:
  "calls_of (enqueue us s) = calls_of s"
  "calls_of (chart_do c s) = (if chart s = None then [] else calls_of s @ [c])"
  "chart s = None \<Longrightarrow> calls_of s = []"
  "calls_of (s\<lparr>cdata := xs\<rparr>) = calls_of s" "calls_of (s\<lparr>data_ver := n\<rparr>) = calls_of s"
  "calls_of (s\<lparr>queue := q\<rparr>) = calls_of s" "calls_of (s\<lparr>tick_buffer := tb\<rparr>) = calls_of s"
  "calls_of (s\<lparr>inflight := rs\<rparr>) = calls_of s" "calls_of (s\<lparr>hist_loaded := b\<rparr>) = calls_of s"
  "calls_of (s\<lparr>sel := st\<rparr>) = calls_of s"
  by (auto simp: calls_of_def chart_do_def enqueue_def split: option.split)

lemma calls_of_cong: "chart s = chart t \<Longrightarrow> calls_of s = calls_of t"
  by (simp add: calls_of_def)

lemma run_effects_same_chart:
  assumes "\<not> switched s" and "\<not> reloads s"
  shows "chart (run_effects now s) = chart s"
  using assms by (simp add: run_effects_def Let_def when_do_def)

text \<open>Ticks played one after the other on a list of candles: the candles they leave and the bars the
  chart is given.\<close>

fun play :: "bool \<Rightarrow> (rat \<times> int) list \<Rightarrow> candle list \<Rightarrow> candle list \<times> bar list" where
  "play daily [] h = (h, [])"
| "play daily ((p, ts) # tks) h = (case tick_update daily ts p h of
       (h1, None) \<Rightarrow> play daily tks h
     | (h1, Some b) \<Rightarrow> (let (h2, bs) = play daily tks h1 in (h2, b # bs)))"

lemma play_append:
  "play d (xs @ ys) h = (let (h1, bs) = play d xs h; (h2, cs) = play d ys h1 in (h2, bs @ cs))"
  by (induction d xs h rule: play.induct) (simp_all add: Let_def split: prod.split option.split)

lemma play_single:
  "play d [(p, ts)] h = (case tick_update d ts p h of (h1, None) \<Rightarrow> (h, []) | (h1, Some b) \<Rightarrow> (h1, [b]))"
  by (simp split: prod.split option.split)

abbreviation tick_upds :: "bool \<Rightarrow> (rat \<times> int) list \<Rightarrow> upd list" where
  "tick_upds d \<equiv> map (\<lambda>(p, ts). TickData d ts p)"

lemma fold_ticks:
  "let t = fold apply_upd (tick_upds d tks) s; (h, bs) = play d tks (cdata s) in
     cdata t = h \<and> calls_of t = (if chart s = None then [] else calls_of s @ map UpdateBar bs)
     \<and> data_ver s \<le> data_ver t \<and> hist_loaded t = hist_loaded s \<and> ready t = ready s \<and> ival t = ival s"
proof (induction tks arbitrary: s)
  case (Cons a tks)
  obtain p ts where a: "a = (p, ts)" by (cases a)
  obtain h1 ob where u: "tick_update d ts p (cdata s) = (h1, ob)" by (cases "tick_update d ts p (cdata s)")
  let ?s = "apply_upd (TickData d ts p) s"
  show ?case
    using Cons.IH [of ?s] u
    by (cases ob) (auto simp: a Let_def case_prod_beta)
qed auto

subsection \<open>Prices\<close>

text \<open>The selected stock's price as a tick: it must parse and not be zero.\<close>

definition price_of :: "pc \<Rightarrow> rat option" where
  "price_of s = (case sel s of
       None \<Rightarrow> None
     | Some st \<Rightarrow> (case parse_float (s_price st) of
           None \<Rightarrow> None
         | Some p \<Rightarrow> if p = 0 then None else Some p))"

definition buffered :: "int \<Rightarrow> pc \<Rightarrow> (rat \<times> int) list" where
  "buffered now s = (case price_of s of
       None \<Rightarrow> []
     | Some p \<Rightarrow> if hist_loaded s then [] else [(p, now)])"

lemma realtime_buffer: "tick_buffer (realtime_effect now s) = tick_buffer s @ buffered now s"
  by (simp add: realtime_effect_def buffered_def price_of_def apply_tick_def enqueue_def split: option.splits)

lemma buffered_cong: "sel s = sel t \<Longrightarrow> hist_loaded s = hist_loaded t \<Longrightarrow> buffered now s = buffered now t"
  by (simp add: buffered_def price_of_def split: option.split)

text \<open>What the price effect queues: nothing unless the price parses, is not zero, the history is loaded
  and the chart has data.\<close>

definition price_ticks :: "int \<Rightarrow> pc \<Rightarrow> upd list" where
  "price_ticks now s = (case sel s of
       None \<Rightarrow> []
     | Some st \<Rightarrow>
         (case parse_float (s_price st) of
            None \<Rightarrow> []
          | Some p \<Rightarrow>
              if p = 0 \<or> \<not> hist_loaded s \<or> chart s = None \<or> ref_data s = [] then []
              else [TickData (is_daily (ref_ival s)) now p]))"

lemma realtime_queue: "queue (realtime_effect now s) = queue s @ price_ticks now s"
  by (simp add: realtime_effect_def price_ticks_def apply_tick_def enqueue_def split: option.splits)

abbreviation repriced :: "pc \<Rightarrow> bool" where
  "repriced s \<equiv> changed s (\<lambda>d. (d_price d, d_hist d))"

lemma price_ticks_eq:
  "price_ticks now s = (case price_of s of
       None \<Rightarrow> []
     | Some p \<Rightarrow> if \<not> hist_loaded s \<or> chart s = None \<or> ref_data s = [] then []
         else [TickData (is_daily (ref_ival s)) now p])"
  by (auto simp: price_ticks_def price_of_def split: option.splits)

lemma tick_buffer_simps [simp]:
  "tick_buffer (enqueue us s) = tick_buffer s" "tick_buffer (chart_do c s) = tick_buffer s"
  "tick_buffer (cleanup_chart s) = tick_buffer s" "tick_buffer (init_chart s) = tick_buffer s"
  "tick_buffer (history_effect s) = tick_buffer s" "tick_buffer (update_chart_data xs s) = tick_buffer s"
  by (simp_all add: effect_defs update_chart_data_def split: option.splits)

lemma run_effects_buffer:
  "tick_buffer (run_effects now s) = tick_buffer s @ (if repriced s then buffered now s else [])"
proof -
  have b: "buffered now (history_effect u) = buffered now u" "buffered now (init_chart u) = buffered now u"
    "buffered now (cleanup_chart u) = buffered now u" "buffered now (u\<lparr>ref_hist := h\<rparr>) = buffered now u"
    "buffered now (u\<lparr>ref_ival := i\<rparr>) = buffered now u" "buffered now (u\<lparr>ref_data := x\<rparr>) = buffered now u" for u h i x
    by (rule buffered_cong; simp)+
  show ?thesis by (simp add: run_effects_def Let_def when_do_def realtime_buffer b)
qed

lemma price_ticks_cong:
  assumes "sel s = sel t" "hist_loaded s = hist_loaded t" "(chart s = None) = (chart t = None)"
    "ref_data s = ref_data t" "ref_ival s = ref_ival t"
  shows "price_ticks now s = price_ticks now t"
  using assms by (simp add: price_ticks_def split: option.split)

lemma run_effects_quiet:
  assumes "\<not> switched s" and "\<not> reloads s"
  shows "queue (run_effects now s) =
    queue s @ (if repriced s then price_ticks now (run_effects now s) else [])"
proof -
  have p: "price_ticks now (run_effects now s) =
      price_ticks now (when_do (changed s d_hist) (\<lambda>s. s\<lparr>ref_hist := hist_loaded s\<rparr>)
        (when_do (changed s d_ival) (\<lambda>s. s\<lparr>ref_ival := ival s\<rparr>)
          (when_do (changed s d_ver) (\<lambda>s. s\<lparr>ref_data := cdata s\<rparr>) s)))"
    using assms by (intro price_ticks_cong) (simp_all add: run_effects_refs run_effects_chart)
  show ?thesis
    using assms unfolding p by (simp add: run_effects_def Let_def when_do_def realtime_queue)
qed

lemma settle_tick:
  assumes "synced s" and "queue s = [TickData d ts p]"
  shows "cdata (settle (Suc n) now s) = fst (play d [(p, ts)] (cdata s))
    \<and> calls_of (settle (Suc n) now s) =
        (if chart s = None then [] else calls_of s @ map UpdateBar (snd (play d [(p, ts)] (cdata s))))
    \<and> tick_buffer (settle (Suc n) now s) = tick_buffer s
    \<and> inflight (settle (Suc n) now s) = inflight s"
proof -
  have w: "queue_within 1 s" using assms(2) by (simp add: queue_within_def)
  then have "queue (commit now s) = []"
    using commit_within [OF assms(1), of 0] by simp
  moreover have "inflight (commit now s) = inflight s"
    using settle_inflight [OF assms(1), of 1 now] w assms(2) by (simp add: queue_within_mono [of 1 s 2])
  moreover
  have keep: "ival (render s) = ival s" "ready (render s) = ready s" "hist_loaded (render s) = hist_loaded s"
    using w by (simp_all only: render_quiet queue_within_mono [of 1 s 3] queue_within_mono [of 1 s 2])
  then have sw: "\<not> switched (render s)" "\<not> reloads (render s)" "\<not> repriced (render s)"
    using assms(1) by (simp_all add: changed_def synced_def deps_of_def)
  have "render s = fold apply_upd (tick_upds d [(p, ts)]) (s\<lparr>queue := []\<rparr>)" by (simp add: render_def assms(2))
  with fold_ticks [of d "[(p, ts)]" "s\<lparr>queue := []\<rparr>"]
  have "cdata (render s) = fst (play d [(p, ts)] (cdata s))"
    "calls_of (render s) = (if chart s = None then [] else calls_of s @ map UpdateBar (snd (play d [(p, ts)] (cdata s))))"
    by (auto simp: Let_def case_prod_beta)
  moreover have "calls_of (commit now s) = calls_of (render s)"
    using sw by (simp add: commit_def calls_of_cong [OF run_effects_same_chart])
  ultimately show ?thesis using assms(2) sw(3) by (simp add: commit_def run_effects_buffer)
qed

lemma no_more_simps [simp]:
  "no_more (enqueue us s) = no_more s" "no_more (update_chart_data xs s) = no_more s"
  "no_more (when_do b f s) = (if b then no_more (f s) else no_more s)"
  "no_more (history_effect s) = no_more s" "no_more (realtime_effect now s) = no_more s"
  by (simp_all add: effect_defs update_chart_data_def when_do_def split: option.splits)

lemma run_effects_no_more: "\<not> switched s \<Longrightarrow> no_more (run_effects now s) = no_more s"
  by (simp add: run_effects_def Let_def)

lemma render_no_more [simp]: "no_more (render s) = no_more s"
proof -
  have "no_more (apply_upd u t) = no_more t" for u t
    by (cases u) (simp_all add: chart_do_def split: prod.splits option.splits)
  then show ?thesis by (simp add: render_def fold_keeps [where f = no_more])
qed

text \<open>Commits that do not rebuild the chart keep the data ref in step with the data, and keep the history
  flag and the guards when nothing queued changes them.\<close>

lemma commit_sync_data:
  assumes "synced s" and "queue_within 3 s" and "ref_data s = cdata s"
  shows "ref_data (commit now s) = cdata (commit now s) \<and> no_more (commit now s) = no_more s"
proof -
  have "ival (render s) = ival s" by (rule render_quiet(1) [OF assms(2)])
  then have sw: "\<not> switched (render s)" using assms(1) by (simp add: changed_def synced_def deps_of_def)
  have "changed (render s) d_ver \<or> cdata (render s) = cdata s"
    using render_version [of s] assms(1) by (auto simp: changed_def synced_def deps_of_def)
  then show ?thesis using sw assms(3) by (auto simp: commit_def run_effects_refs run_effects_no_more)
qed

lemma settle_sync_data:
  assumes "synced s" and "queue_within 3 s" and "ref_data s = cdata s"
  shows "ref_data (settle n now s) = cdata (settle n now s) \<and> no_more (settle n now s) = no_more s"
  using assms
proof (induction n arbitrary: s)
  case (Suc n)
  then show ?case using commit_sync_data [OF Suc.prems, of now] by simp
qed simp

lemma settle_hist: "synced s \<Longrightarrow> queue_within 1 s \<Longrightarrow> hist_loaded (settle n now s) = hist_loaded s"
proof (induction n arbitrary: s)
  case (Suc n)
  have "hist_loaded (commit now s) = hist_loaded s"
    using render_quiet(3) [OF Suc.prems(2)] by (simp add: commit_def)
  moreover have "queue_within 1 (commit now s)"
    by (rule queue_within_mono [OF commit_within [OF Suc.prems(1), of 0]]) (use Suc.prems(2) in simp_all)
  ultimately show ?case using Suc.IH [of "commit now s"] by simp
qed simp

lemma settle_ival: "queue_within 3 s \<Longrightarrow> ival (settle n now s) = ival s"
proof (induction n arbitrary: s)
  case (Suc n)
  have "ival (commit now s) = ival s" using render_quiet(1) [OF Suc.prems] by (simp add: commit_def)
  then show ?case using Suc.IH [of "commit now s"] by simp
qed simp

lemma settle_sel [simp]: "sel (settle n now s) = sel s"
proof (induction n arbitrary: s)
  case (Suc n)
  then show ?case by (simp add: commit_def)
qed simp

lemma settle_fetching [simp]: "fetching (settle n now s) = fetching s"
proof (induction n arbitrary: s)
  case (Suc n)
  then show ?case by (simp add: commit_def)
qed simp

text \<open>What a settling run does after a commit that neither rebuilds the chart nor reloads: the price is
  played once when the commit's price effect queued it.\<close>

lemma price_ticks_cases:
  obtains "price_ticks now s = []" | d p where "price_ticks now s = [TickData d now p]"
proof -
  have "price_ticks now s = [] \<or> (\<exists>d p. price_ticks now s = [TickData d now p])"
    by (simp add: price_ticks_def split: option.split)
  then show thesis using that by blast
qed

definition played :: "int \<Rightarrow> pc \<Rightarrow> (rat \<times> int) list" where
  "played now s = (case price_of s of
       None \<Rightarrow> []
     | Some p \<Rightarrow> if \<not> hist_loaded s \<or> chart s = None \<or> ref_data s = [] then [] else [(p, now)])"

lemma price_ticks_played: "price_ticks now s = tick_upds (is_daily (ref_ival s)) (played now s)"
  by (auto simp: price_ticks_eq played_def split: option.splits)

lemma played_cases:
  obtains "played now s = []" | p where "played now s = [(p, now)]"
proof -
  have "played now s = [] \<or> (\<exists>p. played now s = [(p, now)])"
    by (simp add: played_def split: option.split)
  then show thesis using that by blast
qed

lemma settle_played:
  assumes "synced s" and "queue s = price_ticks now t" and "chart s \<noteq> None \<or> chart t = None"
  shows "let (h, bs) = play (is_daily (ref_ival t)) (played now t) (cdata s) in
      cdata (settle (Suc n) now s) = h
    \<and> calls_of (settle (Suc n) now s) = calls_of s @ map UpdateBar bs
    \<and> tick_buffer (settle (Suc n) now s) = tick_buffer s
    \<and> inflight (settle (Suc n) now s) = inflight s"
proof (cases rule: played_cases [of now t])
  case 1
  then have "queue s = []" using assms(2) by (simp add: price_ticks_played)
  with 1 show ?thesis by simp
next
  case (2 p)
  then have q: "queue s = [TickData (is_daily (ref_ival t)) now p]" using assms(2) by (simp add: price_ticks_played)
  have "chart s \<noteq> None" using 2 assms(3) by (auto simp: played_def split: option.splits if_splits)
  with settle_tick [OF assms(1) q, of n now] 2 show ?thesis
    by (simp add: Let_def case_prod_beta del: settle.simps)
qed

text \<open>The parent passes the same stock with a new price.\<close>

lemma price_change:
  assumes "settled s" and "sel s = Some old" and "s_ticker st = s_ticker old" and "s_price st \<noteq> s_price old"
  defines "t \<equiv> s\<lparr>sel := Some st\<rparr>"
  shows "let (h, bs) = play (is_daily (ival s)) (played now t) (cdata s) in
      cdata (receive_props now (Some st) s) = h
    \<and> calls_of (receive_props now (Some st) s) = calls_of s @ map UpdateBar bs
    \<and> tick_buffer (receive_props now (Some st) s) = tick_buffer s @ buffered now t
    \<and> inflight (receive_props now (Some st) s) = inflight s"
proof -
  have r: "render t = t" using settledD(1) [OF assms(1)] by (simp add: render_def t_def)
  have d: "effect_deps t = Some (deps_of s)" using settledD(2) [OF assms(1)] by (simp add: t_def)
  have sw: "\<not> switched t" "\<not> reloads t" "\<not> changed t d_ver" "\<not> changed t d_ival" "repriced t"
    using d assms(2-4) by (simp_all add: changed_def deps_of_def t_def)
  have "price_ticks now (run_effects now t) = price_ticks now t"
    using sw by (intro price_ticks_cong) (simp_all add: run_effects_refs run_effects_chart)
  then have q: "queue (commit now t) = price_ticks now t"
    using run_effects_quiet [OF sw(1,2), of now] sw(5) settledD(1) [OF assms(1)] by (simp add: commit_def r) (simp add: t_def)
  have c: "chart (commit now t) = chart t" using sw by (simp add: commit_def r run_effects_same_chart)
  have k: "inflight (commit now t) = inflight s" "cdata (commit now t) = cdata s" "calls_of (commit now t) = calls_of s"
    "tick_buffer (commit now t) = tick_buffer s @ buffered now t"
    using sw calls_of_cong [OF c] by (simp_all add: commit_def r run_effects_inflight run_effects_buffer) (simp_all add: t_def)
  have "ref_ival t = ival s" using settledD(5) [OF assms(1)] by (simp add: t_def)
  moreover have "receive_props now (Some st) s = settle 4 now (commit now t)"
    by (simp add: receive_props_def finish_eq t_def)
  moreover have "chart (commit now t) \<noteq> None \<or> chart t = None" using c by auto
  ultimately show ?thesis
    using settle_played [OF commit_synced q, of 3] k
    by (simp add: numeral_eq_Suc del: settle.simps)
qed


subsection \<open>Responses\<close>

text \<open>The buffered ticks a history response replays; without a chart or while the data ref is empty,
  \<open>applyTick\<close> drops them.\<close>

definition replayed :: "pc \<Rightarrow> candle list \<Rightarrow> (rat \<times> int) list" where
  "replayed s h = (if chart s = None \<or> ref_data s = [] then [] else pending_ticks h (tick_buffer s))"

lemma enqueue_simps [simp]:
  "enqueue us (enqueue vs s) = enqueue (vs @ us) s" "queue (enqueue us s) = queue s @ us"
  "queue (chart_do c s) = queue s"
  by (simp_all add: enqueue_def chart_do_def)

lemma fold_apply_tick:
  "fold (\<lambda>(p, t). apply_tick p t) ts s =
     (if chart s = None \<or> ref_data s = [] then s else enqueue (tick_upds (is_daily (ref_ival s)) ts) s)"
proof (induction ts arbitrary: s)
  case Nil
  then show ?case by (simp add: enqueue_def)
next
  case (Cons a ts)
  then show ?case by (cases a) (auto simp: apply_tick_def)
qed

lemma history_body_eq:
  "history_body (Ok h) s =
     (enqueue (SetData h # tick_upds (is_daily (ref_ival s)) (replayed s h) @ [SetHist True])
        (chart_do FitContent (update_chart_data h s)))\<lparr>tick_buffer := []\<rparr>"
proof -
  have e: "chart_do c (enqueue us u) = enqueue us (chart_do c u)" "update_chart_data h (enqueue us u) = enqueue us (update_chart_data h u)"
    "enqueue us (u\<lparr>tick_buffer := tb\<rparr>) = (enqueue us u)\<lparr>tick_buffer := tb\<rparr>" for c us u tb
    by (simp_all add: enqueue_def chart_do_def update_chart_data_def)
  have "(chart (update_chart_data h s) = None) = (chart s = None)"
    by (simp add: update_chart_data_def)
  then show ?thesis
    by (simp add: history_body_def Let_def e fold_apply_tick replayed_def)
qed

lemma history_body_queue:
  "queue (history_body (Ok h) s) =
     queue s @ SetData h # tick_upds (is_daily (ref_ival s)) (replayed s h) @ [SetHist True]"
  "tick_buffer (history_body (Ok h) s) = []"
  "calls_of (history_body (Ok h) s) =
     (if chart s = None then [] else calls_of s @ [SetBars (final_data (ref_ival s) h), FitContent])"
  by (simp_all add: history_body_eq) (simp_all add: update_chart_data_def)

lemma history_chart_for [simp]: "chart_for (history_body r s) = chart_for s"
proof -
  have "chart_for (fold (\<lambda>(p, t). apply_tick p t) ts u) = chart_for u" for ts u
    by (induction ts arbitrary: u) (auto simp: apply_tick_def)
  moreover have "chart_for (u\<lparr>tick_buffer := tb\<rparr>) = chart_for u" for u tb by (simp add: chart_for_def)
  ultimately show ?thesis by (cases r) (simp_all add: history_body_def Let_def)
qed

lemma history_ref_ival [simp]: "ref_ival (history_body r s) = ref_ival s"
proof -
  have "ref_ival (fold (\<lambda>(p, t). apply_tick p t) ts u) = ref_ival u" for ts u
    by (induction ts arbitrary: u) (auto simp: apply_tick_def)
  then show ?thesis by (cases r) (simp_all add: history_body_def Let_def)
qed

lemma history_inflight [simp]: "inflight (history_body r s) = inflight s"
proof -
  have "inflight (fold (\<lambda>(p, t). apply_tick p t) ts u) = inflight u" for ts u
    by (induction ts arbitrary: u) auto
  then show ?thesis by (cases r) (simp_all add: history_body_def Let_def)
qed

text \<open>The ticks that end up on top of a history response: the buffered ones it replays, and the selected
  stock's current price when the history flag was down and there are candles.\<close>

definition history_ticks :: "int \<Rightarrow> pc \<Rightarrow> candle list \<Rightarrow> (rat \<times> int) list" where
  "history_ticks now s h =
     (let old = replayed s h in
      old @ (case price_of s of
          None \<Rightarrow> []
        | Some p \<Rightarrow> if hist_loaded s \<or> fst (play (is_daily (ival s)) old h) = [] then [] else [(p, now)]))"

lemma settled_updates:
  assumes "settled s" and "inflight s ! k = HistoryReq t i" and "k < length (inflight s)"
  shows "settled (s\<lparr>inflight := remove_nth k (inflight s)\<rparr>)"
proof -
  have "filter is_more (remove_nth k (inflight s))
      = filter is_more (take k (inflight s) @ inflight s ! k # drop (Suc k) (inflight s))"
    by (simp add: remove_nth_def assms(2))
  then have "filter is_more (remove_nth k (inflight s)) = filter is_more (inflight s)"
    by (simp only: id_take_nth_drop [OF assms(3), symmetric])
  then have "guard_matches (s\<lparr>inflight := remove_nth k (inflight s)\<rparr>)"
    using assms(1) by (simp add: settled_def pc_ok_def guard_matches_def mores_def)
  then have "pc_ok (s\<lparr>inflight := remove_nth k (inflight s)\<rparr>)"
    using assms(1) by - (rule guard_other [of _ s], simp_all add: settled_def)
  then show ?thesis using assms(1) by (simp add: settled_def)
qed

lemma history_render:
  assumes "settled s" and "queue b = SetData h # tick_upds d ts @ [SetHist True]" and "(chart b = None) = (chart s = None)"
    and "data_ver b = data_ver s" and "ival b = ival s" and "ready b = ready s"
  shows "let (h1, bs) = play d ts h; r = render b in
      cdata r = h1 \<and> calls_of r = (if chart b = None then [] else calls_of b @ map UpdateBar bs)
      \<and> data_ver s < data_ver r \<and> hist_loaded r \<and> ready r = ready s \<and> ival r = ival s"
proof -
  have "render b = apply_upd (SetHist True) (fold apply_upd (tick_upds d ts) (apply_upd (SetData h) (b\<lparr>queue := []\<rparr>)))"
    by (simp add: render_def assms(2))
  with fold_ticks [of d ts "apply_upd (SetData h) (b\<lparr>queue := []\<rparr>)"] assms(3-6) show ?thesis
    by (auto simp: Let_def case_prod_beta)
qed

lemma history_response:
  assumes "settled s" and "k < length (inflight s)" and "inflight s ! k = HistoryReq t i"
  shows "let (shown, bars) = play (is_daily (ival s)) (history_ticks now s h) h; s' = respond now k (Ok h) s in
      cdata s' = shown \<and> ref_data s' = shown \<and> hist_loaded s' \<and> tick_buffer s' = []
      \<and> inflight s' = remove_nth k (inflight s) \<and> sel s' = sel s \<and> ival s' = ival s
      \<and> fetching s' = fetching s \<and> no_more s' = no_more s
      \<and> calls_of s' = (if sel s = None then []
           else calls_of s @ SetBars (final_data (ival s) h) # FitContent # map UpdateBar bars)"
proof -
  let ?s = "s\<lparr>inflight := remove_nth k (inflight s)\<rparr>" and ?d = "is_daily (ival s)"
  let ?b = "history_body (Ok h) ?s"
  let ?r = "render ?b"
  have s: "settled ?s" by (rule settled_updates [OF assms(1,3,2)])
  have iv: "ref_ival s = ival s" by (rule settledD(5) [OF assms(1)])
  have rp: "replayed ?s h = replayed s h" by (simp add: replayed_def)
  have ch: "(chart ?b = None) = (chart s = None)"
    using history_chart_for [of "Ok h" ?s] by (metis chart_for_None guard_updates(5))
  have q: "queue ?b = SetData h # tick_upds ?d (replayed s h) @ [SetHist True]"
    using settledD(1) [OF s] iv by (simp add: history_body_queue rp)
  obtain h1 bs1 where p1: "play ?d (replayed s h) h = (h1, bs1)" by (cases "play ?d (replayed s h) h")
  have r: "cdata ?r = h1" "data_ver s < data_ver ?r" "hist_loaded ?r" "ready ?r = ready s" "ival ?r = ival s"
    "calls_of ?r = (if chart s = None then [] else
       calls_of s @ SetBars (final_data (ival s) h) # FitContent # map UpdateBar bs1)"
    using history_render [OF assms(1) q ch] ch iv
    by (simp_all add: p1 Let_def history_body_queue)
  have d: "effect_deps ?r = Some (deps_of s)" using settledD(2) [OF assms(1)] by simp
  have sw: "\<not> switched ?r" "\<not> reloads ?r" "changed ?r d_ver" "\<not> changed ?r d_ival"
    "repriced ?r = (\<not> hist_loaded s)"
    using d r by (simp_all add: changed_def deps_of_def)
  let ?w = "s\<lparr>ref_data := h1, hist_loaded := True\<rparr>" and ?c = "commit now ?b"
  have "price_ticks now (run_effects now ?r) = price_ticks now ?w"
    using sw r settledD(1) [OF assms(1)] ch iv
    by (intro price_ticks_cong) (simp_all add: run_effects_refs run_effects_chart)
  then have q2: "queue ?c = (if hist_loaded s then [] else price_ticks now ?w)"
    using run_effects_quiet [OF sw(1,2), of now] sw(5) by (simp add: commit_def)
  have buf: "buffered now ?r = []" using r(3) by (simp add: buffered_def split: option.split)
  have rc: "chart ?c = chart ?r" using sw by (simp add: commit_def run_effects_same_chart)
  have c: "cdata ?c = h1" "inflight ?c = remove_nth k (inflight s)" "tick_buffer ?c = []" "calls_of ?c = calls_of ?r"
    using sw(2) r(1) buf calls_of_cong [OF rc]
    by (simp_all add: commit_def run_effects_inflight run_effects_buffer history_body_queue split: option.split)
  have f: "finish now ?b = settle 3 now ?c" by (simp add: finish_eq q numeral_eq_Suc)
  have e: "respond now k (Ok h) s = finish now ?b" using assms(2,3) by (simp add: respond_def Let_def)
  have iw: "ref_ival ?w = ival s" using iv by simp
  have pw: "history_ticks now s h = replayed s h @ (if hist_loaded s then [] else played now ?w)"
    using settled_chart [OF assms(1)]
    by (auto simp: history_ticks_def Let_def played_def price_of_def p1 split: option.splits)
  obtain h2 bs2 where p2: "play ?d (if hist_loaded s then [] else played now ?w) h1 = (h2, bs2)"
    by (cases "play ?d (if hist_loaded s then [] else played now ?w) h1")
  have pa: "play ?d (history_ticks now s h) h = (h2, bs1 @ bs2)" by (simp add: pw play_append p1 p2)
  have g1: "cdata (settle 3 now ?c) = h2 \<and> calls_of (settle 3 now ?c) = calls_of ?c @ map UpdateBar bs2
      \<and> tick_buffer (settle 3 now ?c) = [] \<and> inflight (settle 3 now ?c) = remove_nth k (inflight s)"
  proof (cases "hist_loaded s")
    case True
    then show ?thesis using q2 c p2 by simp
  next
    case False
    then have "queue ?c = price_ticks now ?w" using q2 by simp
    moreover have "chart ?c \<noteq> None \<or> chart ?w = None"
      using ch by (auto simp: rc)
    ultimately show ?thesis
      using settle_played [OF commit_synced, of now ?b now ?w 2] c p2 False
      by (simp add: iw numeral_3_eq_3 numeral_2_eq_2 del: settle.simps)
  qed
  have "queue_within 1 ?c"
    by (cases rule: price_ticks_cases [of now ?w]) (simp_all add: queue_within_def q2)
  then have g2: "hist_loaded (settle 3 now ?c)"
    using settle_hist [OF commit_synced] r(3) by (simp add: commit_def)
  have g3: "ref_data (settle 3 now ?c) = cdata (settle 3 now ?c) \<and> no_more (settle 3 now ?c) = no_more s"
    using settle_sync_data [OF commit_synced commit_within_3, of now ?b 3 now] sw r
    by (simp add: commit_def run_effects_refs run_effects_no_more)
  have g4: "fetching (settle 3 now ?c) = fetching s" "sel (settle 3 now ?c) = sel s" by (simp_all add: commit_def)
  have g5: "ival (settle 3 now ?c) = ival s"
    using settle_ival [OF commit_within_3] r(5) by (simp add: commit_def)
  have g6: "calls_of ?c @ map UpdateBar bs2 = (if sel s = None then []
           else calls_of s @ SetBars (final_data (ival s) h) # FitContent # map UpdateBar (bs1 @ bs2))"
  proof (cases "sel s = None")
    case True
    then have "chart s = None" using settled_chart [OF assms(1)] by simp
    moreover from this have "played now ?w = []" by (simp add: played_def split: option.split)
    then have "bs2 = []" using p2 by (cases "hist_loaded s") simp_all
    ultimately show ?thesis using True c(4) r(6) by simp
  next
    case False
    then show ?thesis using settled_chart [OF assms(1)] c(4) r(6) by (simp del: not_None_eq)
  qed
  show ?thesis
    unfolding pa e f Let_def using g1 g2 g3 g4 g5 g6 by simp
qed


lemma quiet_finish:
  assumes "synced b" and "queue_within 1 b"
  shows "finish now b = (if queue b = [] then b else commit now b)"
proof (cases "queue b = []")
  case False
  have "queue (commit now b) = []" using commit_within [OF assms(1), of 0 now] assms(2) by simp
  then show ?thesis using False by (simp add: finish_eq numeral_eq_Suc)
qed simp

definition page_result :: "candle list \<Rightarrow> candle list \<Rightarrow> candle list option" where
  "page_result page cur =
     (if page \<noteq> [] \<and> length cur < length (merge_older page cur) then Some (merge_older page cur) else None)"

lemma more_body_queue:
  "queue (more_body cur (Ok page) s) = queue s @
     (case page_result page cur of Some xs \<Rightarrow> [SetData xs] | None \<Rightarrow> []) @ [SetLoading False]"
  "no_more (more_body cur (Ok page) s) = (no_more s \<or> page_result page cur = None)"
  by (simp_all add: more_body_def Let_def page_result_def enqueue_def update_chart_data_def chart_do_def)

lemma more_inflight [simp]: "inflight (more_body cur r s) = inflight s"
  by (cases r) (simp_all add: more_body_def Let_def)

lemma more_response:
  assumes "settled s" and "k < length (inflight s)" and "inflight s ! k = MoreReq t i cur e"
  shows "cdata (respond now k (Ok page) s) = (case page_result page cur of Some xs \<Rightarrow> xs | None \<Rightarrow> cdata s)
    \<and> no_more (respond now k (Ok page) s) = (no_more s \<or> page_result page cur = None)
    \<and> inflight (respond now k (Ok page) s) = remove_nth k (inflight s)"
proof -
  let ?s = "s\<lparr>inflight := remove_nth k (inflight s)\<rparr>"
  let ?b = "more_body cur (Ok page) ?s"
  have q: "queue ?b = (case page_result page cur of Some xs \<Rightarrow> [SetData xs] | None \<Rightarrow> []) @ [SetLoading False]"
    using settledD(1) [OF assms(1)] by (simp add: more_body_queue)
  have w: "queue_within 1 ?b" by (cases "page_result page cur") (simp_all add: queue_within_def q)
  have sy: "synced ?b" using assms(1) by (simp add: body_synced settled_def)
  have q2: "queue ?b \<noteq> []" by (simp add: q)
  have f: "respond now k (Ok page) s = commit now ?b"
    using assms(2,3) quiet_finish [OF sy w, of now] q2 by (simp add: respond_def Let_def)
  have "ival (render ?b) = ival ?b" "ready (render ?b) = ready ?b"
    using w by (simp_all only: render_quiet queue_within_mono [of 1 ?b 3] queue_within_mono [of 1 ?b 2])
  then have sw: "\<not> switched (render ?b)" "\<not> reloads (render ?b)"
    using sy by (simp_all add: changed_def synced_def deps_of_def)
  have c: "cdata (render ?b) = (case page_result page cur of Some xs \<Rightarrow> xs | None \<Rightarrow> cdata s)"
    by (simp add: render_def q split: option.split)
  have "inflight (commit now ?b) = remove_nth k (inflight s)"
    using sw(2) by (simp add: commit_def run_effects_inflight split: option.split)
  moreover have "no_more (commit now ?b) = (no_more s \<or> page_result page cur = None)"
    using sw(1) by (simp add: commit_def run_effects_no_more more_body_queue)
  moreover have "cdata (commit now ?b) = (case page_result page cur of Some xs \<Rightarrow> xs | None \<Rightarrow> cdata s)"
    using c by (simp add: commit_def)
  ultimately show ?thesis by (simp only: f)
qed


subsection \<open>Scrolling\<close>

lemma scroll_requests:
  assumes "settled s" and "sel s = Some st" and "hist_loaded s" and "\<not> fetching s" and "\<not> no_more s"
    and "ref_data s = cdata s" and "earliest_point (cdata s) = Some e" and "frm < max ((till - frm) * (1 / 2)) 50"
  shows "inflight (visible_range now (Some (frm, till)) s)
    = inflight s @ [MoreReq (s_ticker st) (ival s) (cdata s) (end_date_str (ival s) e)]"
proof -
  have c: "cdata s \<noteq> []" using assms(7) by (cases "cdata s") auto
  obtain ch where ch: "chart s = Some ch" using settled_chart [OF assms(1)] assms(2) by auto
  then have cf: "ch_ticker ch = s_ticker st" "ch_interval ch = ival s"
    using settledD(3) [OF assms(1)] assms(2) by (simp_all add: chart_for_def)
  let ?t = "s\<lparr>fetching := True,
      inflight := inflight s @ [MoreReq (s_ticker st) (ival s) (cdata s) (end_date_str (ival s) e)]\<rparr>"
  have r: "range_change frm till s = enqueue [SetLoading True] ?t"
    using assms c ch cf settledD(6) [OF assms(1)]
    by (simp add: range_change_def load_more_def)
  have sy: "synced (enqueue [SetLoading True] ?t)"
    using assms(1) load_more_synced [of "s_ticker st" "ival s" s] r assms(3-8) ch cf c
      settledD(6) [OF assms(1)] by (simp add: settled_def load_more_def)
  have w: "queue_within 1 (enqueue [SetLoading True] ?t)"
    using settledD(1) [OF assms(1)] by (simp add: queue_within_def enqueue_def)
  have "inflight (finish now (enqueue [SetLoading True] ?t)) = inflight (enqueue [SetLoading True] ?t)"
    unfolding finish_eq by (rule settle_inflight [OF sy queue_within_mono [OF w]]) simp
  then show ?thesis by (simp add: visible_range_def r)
qed

subsection \<open>From a switch until a history answer\<close>

text \<open>The history flag is down or about to be lowered, and nothing queued raises it.\<close>

definition no_raise :: "pc \<Rightarrow> bool" where
  "no_raise s \<longleftrightarrow> SetHist True \<notin> set (queue s)"

definition flag_down :: "pc \<Rightarrow> bool" where
  "flag_down s \<longleftrightarrow> no_raise s \<and> (hist_loaded s \<longrightarrow> SetHist False \<in> set (queue s))"

lemma no_raise_simps [simp]:
  "no_raise (enqueue us s) = (SetHist True \<notin> set us \<and> no_raise s)" "no_raise (chart_do c s) = no_raise s"
  "no_raise (s\<lparr>ref_data := x\<rparr>) = no_raise s" "no_raise (s\<lparr>ref_ival := i\<rparr>) = no_raise s"
  "no_raise (s\<lparr>ref_hist := b\<rparr>) = no_raise s" "no_raise (s\<lparr>effect_deps := d\<rparr>) = no_raise s"
  "no_raise (s\<lparr>tick_buffer := tb\<rparr>) = no_raise s" "no_raise (s\<lparr>sel := st\<rparr>) = no_raise s"
  "no_raise (s\<lparr>inflight := q\<rparr>) = no_raise s" "no_raise (s\<lparr>fetching := b\<rparr>) = no_raise s"
  "no_raise (s\<lparr>no_more := b\<rparr>) = no_raise s" "no_raise (s\<lparr>chart := c'\<rparr>) = no_raise s"
  "queue s = [] \<Longrightarrow> no_raise s"
  by (auto simp: no_raise_def)

lemma no_raise_effects [simp]:
  "no_raise (cleanup_chart s) = no_raise s" "no_raise (init_chart s) = no_raise s"
  "no_raise (history_effect s) = no_raise s" "no_raise (realtime_effect now s) = no_raise s"
  "no_raise (when_do b f s) = (if b then no_raise (f s) else no_raise s)"
  by (simp_all add: cleanup_chart_def init_chart_def history_effect_def realtime_effect_def apply_tick_def
      when_do_def split: option.split)

lemma run_effects_no_raise [simp]: "no_raise (run_effects now s) = no_raise s"
  by (simp add: run_effects_def Let_def)

lemma fold_lowers:
  "SetHist True \<notin> set us \<Longrightarrow> (hist_loaded t \<longrightarrow> SetHist False \<in> set us) \<Longrightarrow> \<not> hist_loaded (fold apply_upd us t)"
proof (induction us arbitrary: t)
  case (Cons u us)
  have "hist_loaded (apply_upd u t) \<longrightarrow> SetHist False \<in> set us"
    using Cons.prems by (cases u) (auto split: prod.split option.split)
  with Cons show ?case by simp
qed simp

lemma render_lowers: "flag_down s \<Longrightarrow> \<not> hist_loaded (render s)"
  using fold_lowers [of "queue s" "s\<lparr>queue := []\<rparr>"] by (simp add: flag_down_def no_raise_def render_def)

lemma commit_flag_down: "flag_down s \<Longrightarrow> flag_down (commit now s)"
  using render_lowers [of s] by (simp add: flag_down_def commit_def)

lemma settle_flag_down: "flag_down s \<Longrightarrow> flag_down (settle n now s)"
  by (induction n arbitrary: s) (simp_all add: commit_flag_down)

lemma finish_flag_down: "flag_down s \<Longrightarrow> flag_down (finish now s)"
  by (simp add: finish_eq settle_flag_down)

lemma reload_lowers:
  assumes "reloads s" and "sel s = Some st" and "ready s"
  shows "SetHist False \<in> set (queue (run_effects now s))"
proof -
  have h: "SetHist False \<in> set (queue (history_effect u))" if "sel u = Some st" "ready u" for u
    using that by (simp add: history_effect_def)
  have "SetHist False \<in> set (queue (realtime_effect now u))" if "SetHist False \<in> set (queue u)" for u
    using that by (simp add: realtime_queue)
  with assms h show ?thesis by (simp add: run_effects_def Let_def when_do_def)
qed

lemma switch_lowers:
  assumes "sel t = Some st" and "switched (render t)"
  shows "flag_down (settle 4 now (commit now t))"
proof -
  let ?s1 = "commit now t"
  have n: "no_raise ?s1" by (simp add: commit_def)
  have rl: "reloads (render t)" using assms(2) by (auto simp: changed_def split: option.splits)
  have f: "sel ?s1 = Some st" "ready ?s1 = ready (render t)" "ready_next ?s1"
    using assms by (simp_all add: commit_def run_effects_next)
  show ?thesis
  proof (cases "ready (render t)")
    case True
    then have "SetHist False \<in> set (queue ?s1)"
      using reload_lowers [OF rl] assms(1) by (simp add: commit_def)
    with n have "flag_down ?s1" by (simp add: flag_down_def)
    then show ?thesis by (rule settle_flag_down)
  next
    case False
    let ?s2 = "commit now ?s1"
    have q: "queue ?s1 \<noteq> []" using f(2,3) False by auto
    have "effect_deps (render ?s1) = Some (deps_of ?s1)"
      using commit_synced [of now t] by (simp add: synced_def)
    then have "reloads (render ?s1)" using f False by (simp add: changed_def deps_of_def)
    from reload_lowers [OF this, of st now] have "flag_down ?s2"
      using f by (simp add: commit_def [of now ?s1] flag_down_def)
    then show ?thesis using q settle_flag_down [of ?s2 3 now] by (simp add: numeral_eq_Suc)
  qed
qed

text \<open>Another ticker, or another interval while a stock is selected.\<close>

inductive switch :: "pc \<Rightarrow> pc \<Rightarrow> bool" where
  ticker: "map_option s_ticker (sel s) \<noteq> Some (s_ticker st) \<Longrightarrow> switch s (receive_props now (Some st) s)"
| interval: "i \<noteq> ival s \<Longrightarrow> sel s \<noteq> None \<Longrightarrow> switch s (set_chart_interval now i s)"

text \<open>Every event but the answer to a history request.\<close>

inductive unanswered :: "pc \<Rightarrow> pc \<Rightarrow> bool" where
  props: "unanswered s (receive_props now st s)"
| interval: "unanswered s (set_chart_interval now i s)"
| range: "unanswered s (visible_range now r s)"
| page: "k < length (inflight s) \<Longrightarrow> is_more (inflight s ! k) \<Longrightarrow> unanswered s (respond now k r s)"

lemma switch_step: "switch s t \<Longrightarrow> chart_step s t"
  by (auto elim!: switch.cases intro: chart_step.intros)

lemma unanswered_step: "unanswered s t \<Longrightarrow> chart_step s t"
  by (auto elim!: unanswered.cases intro: chart_step.intros)

lemma switch_flag_down:
  assumes "settled s" and "switch s t"
  shows "flag_down t"
  using assms(2)
proof (cases rule: switch.cases)
  case (ticker st now)
  then show ?thesis
    using switch_lowers [of "s\<lparr>sel := Some st\<rparr>" st now] selected_switched [OF assms(1)]
    by (simp add: receive_props_def finish_eq)
next
  case (interval i now)
  then show ?thesis
    using switch_lowers [of "enqueue [SetIval i] s" _ now] ival_switched [OF assms(1)]
    by (auto simp: interval_first_commit [OF assms(1)])
qed

lemma commit_mores [simp]: "mores (commit now s) = mores s" "mores (s\<lparr>sel := st\<rparr>) = mores s"
  by (simp add: commit_def) (simp add: mores_def)

lemma finish_mores [simp]: "mores (finish now s) = mores s"
proof -
  have "mores (settle n now s) = mores s" for n
    by (induction n arbitrary: s) simp_all
  then show ?thesis by (simp add: finish_def)
qed

lemma scroll_ignored:
  assumes "settled s" and "\<not> hist_loaded s"
  shows "visible_range now r s = s"
  using settledD(1,6) [OF assms(1)] assms(2)
  by (simp add: visible_range_def range_change_def load_more_def split: option.split)

lemma unanswered_keeps:
  assumes "settled s" and "flag_down s" and "unanswered s t"
  shows "flag_down t \<and> mores t \<in> {[], mores s}"
  using assms(3)
proof (cases rule: unanswered.cases)
  case (props now st)
  have "flag_down (s\<lparr>sel := st\<rparr>)" using assms(2) by (simp add: flag_down_def)
  then show ?thesis unfolding props
    by (simp add: receive_props_def finish_flag_down commit_flag_down)
next
  case (interval now i)
  have "flag_down (enqueue [SetIval i] s)" using assms(2) by (simp add: flag_down_def)
  then show ?thesis unfolding interval by (simp add: set_chart_interval_def finish_flag_down)
next
  case (range now r)
  have "\<not> hist_loaded s" using assms(1,2) by (auto simp: flag_down_def settled_def)
  then show ?thesis unfolding range using assms(2) by (simp add: scroll_ignored [OF assms(1)])
next
  case (page k now r)
  then obtain tk i cur e where m: "inflight s ! k = MoreReq tk i cur e" by (cases "inflight s ! k") auto
  have q: "SetHist b \<in> set (queue (more_body cur r u)) \<longleftrightarrow> SetHist b \<in> set (queue u)" for b u
    by (cases r) (auto simp: more_body_def Let_def update_chart_data_def)
  then have "flag_down (more_body cur r (s\<lparr>inflight := x\<rparr>))" for x
    using assms(2) by (simp add: flag_down_def no_raise_def q)
  moreover have "filter is_more (remove_nth k (inflight s)) = []"
    using settledD(8) [OF assms(1)] remove_nth_filter [OF page(2), of is_more] page(3)
    by (cases "fetching s") simp_all
  ultimately show ?thesis unfolding page
    using page(2) m by (simp add: respond_def Let_def finish_flag_down)
qed

section \<open>Properties of PriceChart, event by event\<close>

text \<open>The witnesses' runs: a selected stock, its history loaded, the first page requested.\<close>

definition demo_candle :: candle where
  "demo_candle = \<lparr>c_time = 1699920000, c_open = 2, c_high = 4, c_low = 1, c_close = 3, c_volume = 10\<rparr>"

definition demo_mount :: pc where
  "demo_mount = receive_props 1700000000000 (Some demo_stock) initial_pc"

definition demo_loaded :: pc where
  "demo_loaded = respond 1700000100000 0 (Ok [demo_candle]) demo_mount"

definition demo_paging :: pc where
  "demo_paging = visible_range 1700000200000 (Some (10, 90)) demo_loaded"

lemma demo_zero: "parse_float (s_price demo_stock) = Some 0"
  by (simp add: demo_stock_def parse_float_def parse_signed_def parse_unsigned_def trim_start_def is_space_def
      is_digit_def span_digits_def digits_value_def parse_exponent_def scale10_def)

text \<open>One round of effects as a composition, which evaluates step by step on a concrete state.\<close>

lemma run_effects_seq:
  "run_effects now s =
     (when_do (repriced s) (realtime_effect now) (when_do (reloads s) history_effect
       (when_do (switched s) init_chart (when_do (changed s d_hist) (\<lambda>s. s\<lparr>ref_hist := hist_loaded s\<rparr>)
         (when_do (changed s d_ival) (\<lambda>s. s\<lparr>ref_ival := ival s\<rparr>)
           (when_do (changed s d_ver) (\<lambda>s. s\<lparr>ref_data := cdata s\<rparr>)
             (when_do (switched s \<and> chart s \<noteq> None) cleanup_chart s)))))))\<lparr>effect_deps := Some (deps_of s)\<rparr>"
  by (simp add: run_effects_def Let_def) (simp add: run_effects_def Let_def deps_of_def)

lemma settle_numeral:
  "settle (numeral k) now s = (if queue s = [] then s else settle (pred_numeral k) now (commit now s))"
  by (simp add: numeral_eq_Suc)

lemmas run_eval = commit_def render_def run_effects_seq when_do_def changed_def deps_of_def effect_defs
  initial_pc_def finish_def settle_numeral

lemma demo_mount_eval:
  "sel demo_mount = Some demo_stock" "inflight demo_mount = [HistoryReq (s_ticker demo_stock) I1d]"
  "tick_buffer demo_mount = []" "hist_loaded demo_mount = False" "ref_data demo_mount = []"
  "fetching demo_mount = False" "no_more demo_mount = False" "ival demo_mount = I1d"
  by (simp_all add: demo_mount_def receive_props_def run_eval demo_zero)

lemma demo_mount_reachable: "reachable_pc demo_mount"
  unfolding demo_mount_def by (rule reachable_mount)

lemma demo_ticks: "history_ticks now demo_mount h = []"
  by (simp add: history_ticks_def replayed_def demo_mount_eval price_of_def demo_zero)

lemma demo_loaded_facts:
  "reachable_pc demo_loaded" "cdata demo_loaded = [demo_candle]" "ref_data demo_loaded = [demo_candle]"
  "hist_loaded demo_loaded" "\<not> fetching demo_loaded" "\<not> no_more demo_loaded" "inflight demo_loaded = []"
  "sel demo_loaded = Some demo_stock" "ival demo_loaded = I1d"
  using history_response [OF reachable_settled [OF demo_mount_reachable], where k = 0 and t = "s_ticker demo_stock" and i = I1d
      and h = "[demo_candle]" and now = 1700000100000]
    reachable_step [OF demo_mount_reachable chart_step.response [of 0 demo_mount 1700000100000 "Ok [demo_candle]"]]
  by (simp_all add: demo_mount_eval demo_loaded_def remove_nth_def demo_ticks Let_def)


lemma visible_range_keeps:
  assumes "settled s"
  shows "sel (visible_range now r s) = sel s \<and> ival (visible_range now r s) = ival s"
proof (cases r)
  case (Some p)
  obtain frm till where p: "p = (frm, till)" by (cases p)
  have "queue_within 3 (range_change frm till s)" "sel (range_change frm till s) = sel s"
    "ival (range_change frm till s) = ival s"
    using settledD(1) [OF assms]
    by (auto simp: range_change_def load_more_def queue_within_def split: option.split)
  then show ?thesis by (simp add: Some p visible_range_def finish_eq settle_ival)
qed (simp add: visible_range_def)

lemma demo_paging_facts:
  "reachable_pc demo_paging"
  "inflight demo_paging = [MoreReq (s_ticker demo_stock) I1d [demo_candle] (end_date_str I1d demo_candle)]"
  "sel demo_paging = Some demo_stock" "ival demo_paging = I1d"
  using scroll_requests [OF reachable_settled [OF demo_loaded_facts(1)], of demo_stock demo_candle 10 90 1700000200000]
    reachable_step [OF demo_loaded_facts(1) chart_step.range [of demo_loaded 1700000200000 "Some (10, 90)"]]
    visible_range_keeps [OF reachable_settled [OF demo_loaded_facts(1)]]
  by (simp_all add: demo_loaded_facts demo_paging_def)

text \<open>C20. After any sequence of events on a mounted chart (props, interval clicks, scrolling, responses
  in any order), a chart object exists exactly when a stock is selected and belongs to that ticker and
  interval, the ready flag agrees, the refs hold the rendered interval and history flag, and the data
  ref is the rendered data or empty.\<close>

theorem chart_mirrors_selection:
  assumes "reachable_pc s"
  shows "queue s = [] \<and> chart_for s = map_option (\<lambda>st. (s_ticker st, ival s)) (sel s)
    \<and> ready s = (sel s \<noteq> None) \<and> ref_ival s = ival s \<and> ref_hist s = hist_loaded s
    \<and> ref_data s \<in> {[], cdata s}"
  using settledD [OF reachable_settled [OF assms]] by auto

theorem chart_mirrors_selection_witness:
  "chart_for demo_paging = map_option (\<lambda>st. (s_ticker st, ival demo_paging)) (sel demo_paging)"
  using chart_mirrors_selection [OF demo_paging_facts(1)] by simp

text \<open>C7. At most one page request is open at a time: the guard \<open>isFetchingRef\<close> is up exactly while
  one \<open>loadMore\<close> request is in flight, and the loading indicator shows exactly then.\<close>

theorem one_page_request:
  assumes "reachable_pc s"
  shows "length (filter is_more (inflight s)) = (if fetching s then 1 else 0) \<and> loading_more s = fetching s"
  using settledD [OF reachable_settled [OF assms]] by simp

theorem one_page_request_witness: "fetching demo_paging \<and> loading_more demo_paging"
  using one_page_request [OF demo_paging_facts(1)] by (simp add: demo_paging_facts split: if_splits)

text \<open>C23. Selecting another ticker, or another interval while a stock is selected, sends exactly one
  history request, for that ticker and interval; the requests already open stay open.\<close>

theorem one_history_request:
  assumes "reachable_pc s"
  shows "(map_option s_ticker (sel s) \<noteq> Some (s_ticker st) \<longrightarrow>
      inflight (receive_props now (Some st) s) = inflight s @ [HistoryReq (s_ticker st) (ival s)])
    \<and> (sel s = Some st \<and> i \<noteq> ival s \<longrightarrow>
      inflight (set_chart_interval now i s) = inflight s @ [HistoryReq (s_ticker st) i])"
  using select_requests [OF reachable_settled [OF assms]] interval_requests [OF reachable_settled [OF assms]]
  by blast

theorem one_history_request_witness:
  "inflight (set_chart_interval 1700000300000 I1m demo_loaded) = [HistoryReq (s_ticker demo_stock) I1m]"
  using one_history_request [OF demo_loaded_facts(1), where st = demo_stock and i = I1m and now = 1700000300000]
  by (simp add: demo_loaded_facts)

text \<open>C22. From a switch of ticker or interval until a history answer, no page is asked for: whatever happens
  meanwhile (prices, scrolling, answers to older page requests, further switches), scrolling does nothing
  and the only page request that can be open is one from before the switch. The history flag is what
  stops it: an answer to such an older page request fills the data ref again. Right after the switch that
  ref is empty while the old candles are still on screen.\<close>

theorem no_page_after_switch:
  assumes "reachable_pc s" and "switch s s1" and "unanswered\<^sup>*\<^sup>* s1 t"
  shows "visible_range now r t = t \<and> \<not> hist_loaded t
    \<and> filter is_more (inflight t) \<in> {[], filter is_more (inflight s)}
    \<and> (sel s \<noteq> None \<longrightarrow> ref_data s1 = [] \<and> cdata s1 = cdata s)"
proof -
  note st = reachable_settled [OF assms(1)]
  have m1: "mores s1 = mores s"
    using assms(2) by (cases rule: switch.cases) (simp_all add: receive_props_def set_chart_interval_def)
  from assms(3) have "settled t \<and> flag_down t \<and> mores t \<in> {[], mores s}"
  proof (induction rule: rtranclp_induct)
    case base
    show ?case using chart_step_settled [OF st switch_step] switch_flag_down [OF st] assms(2) m1 by simp
  next
    case (step y z)
    then show ?case
      using unanswered_keeps [of y z] chart_step_settled [OF _ unanswered_step, of y z] by auto
  qed
  moreover from this have "\<not> hist_loaded t" by (auto simp: flag_down_def settled_def)
  moreover have "sel s \<noteq> None \<longrightarrow> ref_data s1 = [] \<and> cdata s1 = cdata s"
    using assms(2) by (cases rule: switch.cases) (simp_all add: select_empties [OF st] interval_empties [OF st])
  ultimately show ?thesis by (simp add: scroll_ignored mores_def)
qed

theorem no_page_after_switch_witness:
  "visible_range 1700000400000 (Some (0, 80))
     (respond 1700000350000 0 (Ok [demo_candle\<lparr>c_time := 1600000000\<rparr>]) (set_chart_interval 1700000300000 I1m demo_paging))
   = respond 1700000350000 0 (Ok [demo_candle\<lparr>c_time := 1600000000\<rparr>]) (set_chart_interval 1700000300000 I1m demo_paging)"
proof -
  have i: "inflight (set_chart_interval 1700000300000 I1m demo_paging)
      = inflight demo_paging @ [HistoryReq (s_ticker demo_stock) I1m]"
    using interval_requests [OF reachable_settled [OF demo_paging_facts(1)]] demo_paging_facts by simp
  have "switch demo_paging (set_chart_interval 1700000300000 I1m demo_paging)"
    by (rule switch.interval) (simp_all add: demo_paging_facts)
  moreover have "unanswered (set_chart_interval 1700000300000 I1m demo_paging)
      (respond 1700000350000 0 (Ok [demo_candle\<lparr>c_time := 1600000000\<rparr>]) (set_chart_interval 1700000300000 I1m demo_paging))"
    by (rule unanswered.page) (simp_all add: i demo_paging_facts)
  ultimately show ?thesis using no_page_after_switch [OF demo_paging_facts(1)] by blast
qed


text \<open>C24. A history response is drawn whatever ticker and interval it was asked for: no check against the
  current selection is made, so the last response wins. Its candles become the data, and the data ref is
  in step; on top of them come the buffered ticks later than the last candle, which are replayed only
  while the data ref still holds candles from before, and then the selected stock's current price if the
  history flag was down. The chart is given the bars of the history, the view is fitted, and every tick
  that changes the data updates its bar. The flag ends up, the buffer empty and the request closed.\<close>

theorem last_history_wins:
  assumes "reachable_pc s" and "k < length (inflight s)" and "inflight s ! k = HistoryReq t i"
  shows "let (shown, bars) = play (is_daily (ival s)) (history_ticks now s h) h; s' = respond now k (Ok h) s in
      cdata s' = shown \<and> ref_data s' = shown \<and> hist_loaded s' \<and> tick_buffer s' = []
      \<and> sel s' = sel s \<and> ival s' = ival s \<and> inflight s' = remove_nth k (inflight s)
      \<and> calls_of s' = (if sel s = None then []
           else calls_of s @ SetBars (final_data (ival s) h) # FitContent # map UpdateBar bars)"
  using history_response [OF reachable_settled [OF assms(1)] assms(2,3), of now h]
  by (simp add: Let_def case_prod_beta)

theorem last_history_wins_witness:
  "cdata (respond 5 0 (Ok [demo_candle]) demo_mount) = [demo_candle]
    \<and> calls_of (respond 5 0 (Ok [demo_candle]) demo_mount) =
        calls_of demo_mount @ [SetBars (final_data I1d [demo_candle]), FitContent]"
  using last_history_wins [OF demo_mount_reachable, where k = 0 and t = "s_ticker demo_stock" and i = I1d
      and now = 5 and h = "[demo_candle]"]
  by (simp add: demo_mount_eval demo_ticks Let_def)

text \<open>The ticks buffered while the history loads are never drawn: as long as the data ref is empty,
  the history response gives the same state whatever was buffered.\<close>

theorem buffered_ticks_lost:
  assumes "ref_data s = []" and "inflight s ! k = HistoryReq t i"
  shows "k < length (inflight s) \<longrightarrow>
    respond now k (Ok h) (s\<lparr>tick_buffer := ticks\<rparr>) = respond now k (Ok h) (s\<lparr>tick_buffer := []\<rparr>)"
proof -
  have f: "fold (\<lambda>(p, t). apply_tick p t) ts u = u" if "ref_data u = []" for ts u
    using that by (induction ts) (auto simp: apply_tick_def)
  have "history_body (Ok h) (u\<lparr>tick_buffer := ticks, inflight := q\<rparr>)
      = history_body (Ok h) (u\<lparr>tick_buffer := [], inflight := q\<rparr>)" if "ref_data u = []" for u q
    using that by (simp add: history_body_def Let_def f)
      (simp add: enqueue_def update_chart_data_def chart_do_def)
  from this [of s "remove_nth k (inflight s)"] show ?thesis
    using assms by (simp add: respond_def Let_def)
qed

theorem buffered_ticks_lost_witness:
  "respond 5 0 (Ok [demo_candle]) (demo_mount\<lparr>tick_buffer := [(9, 1800000000000)]\<rparr>)
    = respond 5 0 (Ok [demo_candle]) (demo_mount\<lparr>tick_buffer := []\<rparr>)"
  using buffered_ticks_lost [where s = demo_mount and k = 0 and t = "s_ticker demo_stock" and i = I1d
      and now = 5 and h = "[demo_candle]" and ticks = "[(9, 1800000000000)]"]
  by (simp add: demo_mount_eval)

text \<open>A new price of the selected stock updates the data by one \<open>tick_update\<close> at the current time
  when the price parses, is not zero, the history is loaded and there are candles; otherwise the data
  stays as it is, so an empty chart never gets a first candle from live prices. No request is sent.\<close>

theorem live_price:
  assumes "reachable_pc s" and "sel s = Some old" and "s_ticker st = s_ticker old" and "s_price st \<noteq> s_price old"
  shows "cdata (receive_props now (Some st) s) =
      (case parse_float (s_price st) of
         Some p \<Rightarrow> if p \<noteq> 0 \<and> hist_loaded s \<and> ref_data s \<noteq> []
                   then fst (play (is_daily (ival s)) [(p, now)] (cdata s)) else cdata s
       | None \<Rightarrow> cdata s)
    \<and> inflight (receive_props now (Some st) s) = inflight s"
  using price_change [OF reachable_settled [OF assms(1)] assms(2-4), of now]
    settled_chart [OF reachable_settled [OF assms(1)]] assms(2)
  by (auto simp: played_def price_of_def case_prod_beta Let_def split: option.splits)

theorem live_price_witness:
  "cdata (receive_props 1700000200000 (Some (demo_stock\<lparr>s_price := js ''x''\<rparr>)) demo_loaded) = [demo_candle]"
proof -
  have "parse_float (js ''x'') = None"
    by (simp add: parse_float_def parse_signed_def parse_unsigned_def trim_start_def is_space_def
        is_digit_def span_digits_def)
  then show ?thesis
    using live_price [OF demo_loaded_facts(1,8), where st = "demo_stock\<lparr>s_price := js ''x''\<rparr>" and now = 1700000200000]
    by (simp add: demo_loaded_facts demo_stock_def)
qed



text \<open>C26. Near the left edge of the loaded bars, scrolling asks for exactly one page: the candles before
  the earliest one loaded, for the chart's own ticker and interval.\<close>

theorem scroll_loads_page:
  assumes "reachable_pc s" and "sel s = Some st" and "hist_loaded s" and "\<not> fetching s" and "\<not> no_more s"
    and "ref_data s = cdata s" and "earliest_point (cdata s) = Some e" and "frm < max ((till - frm) * (1 / 2)) 50"
  shows "inflight (visible_range now (Some (frm, till)) s)
    = inflight s @ [MoreReq (s_ticker st) (ival s) (cdata s) (end_date_str (ival s) e)]"
  by (rule scroll_requests [OF reachable_settled [OF assms(1)] assms(2-8)])

theorem scroll_loads_page_witness:
  "inflight (visible_range 7 (Some (20, 90)) demo_loaded)
    = [MoreReq (s_ticker demo_stock) I1d [demo_candle] (end_date_str I1d demo_candle)]"
  using scroll_loads_page [OF demo_loaded_facts(1,8,4-6), of demo_candle 20 90 7]
  by (simp add: demo_loaded_facts)

end
