(* ===== verification/ChartLive.thy ===== *)
theory ChartLive imports ChartRuns begin

section \<open>PriceChart does not stay in a loading state\<close>

text \<open>
  While the history flag of a selected stock is down, a history request is open; an answer of any kind
  raises the flag. So when the server has answered everything, nothing is left that says it loads.
\<close>

subsection \<open>Commits that neither rebuild the chart nor reload\<close>

lemma quiet_commit:
  assumes "\<not> switched (render b)" and "\<not> reloads (render b)"
  shows "hist_loaded (settle n now (commit now b)) = hist_loaded (render b)
    \<and> inflight (settle n now (commit now b)) = inflight b"
proof -
  have q: "queue (commit now b) = (if repriced (render b) then price_ticks now (run_effects now (render b)) else [])"
    using run_effects_quiet [OF assms, of now] by (simp add: commit_def)
  have w: "queue_within 1 (commit now b)"
    by (cases rule: price_ticks_cases [of now "run_effects now (render b)"]) (simp_all add: queue_within_def q)
  have "inflight (commit now b) = inflight b"
    using assms(2) by (simp add: commit_def run_effects_inflight split: option.split)
  then show ?thesis
    using settle_hist [OF commit_synced w] settle_inflight [OF commit_synced queue_within_mono [OF w]]
    by (simp add: commit_def)
qed

lemma quiet_run:
  assumes "synced b" and "queue_within 2 b"
  shows "hist_loaded (finish now b) = hist_loaded (render b) \<and> inflight (finish now b) = inflight b"
proof (cases "queue b = []")
  case True
  then have "render b = b" by (simp add: render_def)
  with True show ?thesis by simp
next
  case False
  have "ival (render b) = ival b" "ready (render b) = ready b"
    using assms(2) by (simp_all only: render_quiet queue_within_mono [of 2 b 3])
  then have "\<not> switched (render b)" "\<not> reloads (render b)"
    using assms(1) by (simp_all add: changed_def synced_def deps_of_def)
  from quiet_commit [OF this, of 3 now] False show ?thesis by (simp add: finish_eq numeral_eq_Suc)
qed

subsection \<open>The flag or a request\<close>

definition history_open :: "pc \<Rightarrow> bool" where
  "history_open s \<longleftrightarrow> (\<exists>t i. HistoryReq t i \<in> set (inflight s))"

definition awaited :: "pc \<Rightarrow> bool" where
  "awaited s \<longleftrightarrow> settled s \<and> (sel s = None \<or> hist_loaded s \<or> history_open s)"

lemma sel_finish [simp]: "sel (finish now s) = sel s"
  by (simp add: finish_eq)

lemma history_answered:
  assumes "settled s" and "k < length (inflight s)" and "inflight s ! k = HistoryReq t i"
  shows "hist_loaded (respond now k r s) \<and> inflight (respond now k r s) = remove_nth k (inflight s)"
proof -
  let ?b = "history_body r (s\<lparr>inflight := remove_nth k (inflight s)\<rparr>)"
  have "synced ?b" using assms(1) by (simp add: body_synced settled_def)
  moreover have "queue_within 2 ?b"
  proof -
    have *: "queue_within 2 (fold (\<lambda>(p, t). apply_tick p t) ts u)" if "queue_within 2 u" for ts u
      using that by (induction ts arbitrary: u) (auto simp: apply_tick_def)
    have "queue_within 2 (s\<lparr>inflight := q\<rparr>)" for q
      using settledD(1) [OF assms(1)] by (simp add: queue_within_def)
    moreover have "queue_within 2 (u\<lparr>tick_buffer := []\<rparr>) = queue_within 2 u" "queue_within 2 (update_chart_data h u) = queue_within 2 u" for u h
      by (simp_all add: queue_within_def update_chart_data_def chart_do_def)
    ultimately show ?thesis by (cases r) (simp_all add: history_body_def Let_def *)
  qed
  moreover have "hist_loaded (render (enqueue [SetHist True] u))" for u
    by (simp add: render_def enqueue_def)
  then have "hist_loaded (render ?b)" by (simp add: history_body_def)
  ultimately show ?thesis
    using quiet_run [of ?b now] assms(2,3) by (simp add: respond_def Let_def)
qed

lemma page_answered:
  assumes "settled s" and "k < length (inflight s)" and "inflight s ! k = MoreReq t i cur e"
  shows "hist_loaded (respond now k r s) = hist_loaded s \<and> inflight (respond now k r s) = remove_nth k (inflight s)"
proof -
  let ?b = "more_body cur r (s\<lparr>inflight := remove_nth k (inflight s)\<rparr>)"
  have sy: "synced ?b" using assms(1) by (simp add: body_synced settled_def)
  have w: "queue_within 1 ?b"
    using settledD(1) [OF assms(1)]
    by (cases r) (simp_all add: more_body_def Let_def queue_within_def enqueue_def update_chart_data_def chart_do_def)
  then have "hist_loaded (render ?b) = hist_loaded ?b" by (rule render_quiet)
  moreover have "hist_loaded ?b = hist_loaded s"
    by (cases r) (simp_all add: more_body_def Let_def update_chart_data_def)
  ultimately show ?thesis
    using quiet_run [OF sy queue_within_mono [OF w]] assms(2,3) by (simp add: respond_def Let_def)
qed

lemma in_remove_nth: "x \<in> set xs \<Longrightarrow> k < length xs \<Longrightarrow> x \<noteq> xs ! k \<Longrightarrow> x \<in> set (remove_nth k xs)"
proof -
  assume a: "x \<in> set xs" "k < length xs" "x \<noteq> xs ! k"
  have "set xs = set (take k xs @ xs ! k # drop (Suc k) xs)"
    using a(2) by (simp only: id_take_nth_drop [symmetric])
  then show ?thesis using a(1,3) by (auto simp: remove_nth_def)
qed

lemma length_remove_nth [simp]: "k < length xs \<Longrightarrow> length (remove_nth k xs) = length xs - 1"
  by (simp add: remove_nth_def)

lemma response_progress:
  assumes "settled s" and "k < length (inflight s)"
  shows "inflight (respond now k r s) = remove_nth k (inflight s)" and "sel (respond now k r s) = sel s"
proof -
  show "inflight (respond now k r s) = remove_nth k (inflight s)"
    using history_answered [OF assms] page_answered [OF assms] by (cases "inflight s ! k") simp_all
  show "sel (respond now k r s) = sel s"
    using assms(2) by (simp add: respond_def Let_def split: request.split)
qed

text \<open>Every event keeps the flag up or a history request open.\<close>

lemma props_awaited:
  assumes "awaited s" shows "awaited (receive_props now st s)"
proof -
  have s: "settled s" using assms by (simp add: awaited_def)
  have t: "settled (receive_props now st s)" by (rule chart_step_settled [OF s chart_step.props])
  have sel: "sel (receive_props now st s) = st" by (simp add: receive_props_def commit_def)
  show ?thesis
  proof (cases st)
    case None
    with t sel show ?thesis by (simp add: awaited_def)
  next
    case (Some new)
    show ?thesis
    proof (cases "map_option s_ticker (sel s) = Some (s_ticker new)")
      case False
      from select_requests [OF s this, of now] t Some show ?thesis by (auto simp: awaited_def history_open_def)
    next
      case True
      let ?t = "s\<lparr>sel := Some new\<rparr>"
      have r: "render ?t = ?t" using settledD(1) [OF s] by (simp add: render_def)
      have "\<not> switched ?t" "\<not> reloads ?t"
        using settledD(2) [OF s] True by (simp_all add: changed_def deps_of_def)
      then have "hist_loaded (receive_props now st s) = hist_loaded s
          \<and> inflight (receive_props now st s) = inflight s"
        using quiet_commit [of ?t 4 now] Some by (simp add: r receive_props_def finish_eq)
      with t True assms show ?thesis by (auto simp: awaited_def history_open_def)
    qed
  qed
qed

lemma interval_awaited:
  assumes "awaited s" shows "awaited (set_chart_interval now i s)"
proof -
  have s: "settled s" using assms by (simp add: awaited_def)
  have t: "settled (set_chart_interval now i s)" by (rule chart_step_settled [OF s chart_step.interval])
  have sel: "sel (set_chart_interval now i s) = sel s" by (simp add: set_chart_interval_def)
  show ?thesis
  proof (cases "i = ival s")
    case True
    have r: "render (enqueue [SetIval i] s) = s"
      using settledD(1) [OF s] True by (simp add: render_def enqueue_def)
    have "\<not> switched s" "\<not> reloads s" using settledD(2) [OF s] by (simp_all add: changed_def)
    then have "hist_loaded (set_chart_interval now i s) = hist_loaded s
        \<and> inflight (set_chart_interval now i s) = inflight s"
      using quiet_commit [of "enqueue [SetIval i] s" 4 now] by (simp add: r interval_first_commit [OF s])
    with t sel assms show ?thesis by (simp add: awaited_def history_open_def)
  next
    case False
    show ?thesis
    proof (cases "sel s")
      case (Some st)
      from interval_requests [OF s False this, of now] t show ?thesis by (auto simp: awaited_def history_open_def)
    qed (use t sel in \<open>simp add: awaited_def\<close>)
  qed
qed

lemma load_more_requests:
  "hist_loaded (load_more t i s) = hist_loaded s \<and> sel (load_more t i s) = sel s \<and>
   (\<exists>q. inflight (load_more t i s) = inflight s @ q) \<and> (queue s = [] \<longrightarrow> queue_within 1 (load_more t i s))"
  by (auto simp: load_more_def queue_within_def enqueue_def split: option.split)

lemma range_awaited:
  assumes "awaited s" shows "awaited (visible_range now r s)"
proof -
  have s: "settled s" using assms by (simp add: awaited_def)
  have t: "settled (visible_range now r s)" by (rule chart_step_settled [OF s chart_step.range])
  show ?thesis
  proof (cases r)
    case (Some p)
    obtain frm till where p: "p = (frm, till)" by (cases p)
    let ?b = "range_change frm till s"
    have b: "?b = s \<or> (\<exists>t i. ?b = load_more t i s)" by (auto simp: range_change_def split: option.split)
    have w: "queue_within 1 ?b" and keep: "hist_loaded ?b = hist_loaded s" "sel ?b = sel s"
      "\<exists>q. inflight ?b = inflight s @ q"
      using b load_more_requests [of _ _ s] settledD(1) [OF s] by (auto simp: queue_within_def)
    have "synced ?b" using b s by (auto simp: settled_def load_more_synced)
    from quiet_run [OF this queue_within_mono [OF w], of now] render_quiet(3) [OF w] keep
    have "hist_loaded (finish now ?b) = hist_loaded s" "sel (finish now ?b) = sel s"
      "\<exists>q. inflight (finish now ?b) = inflight s @ q" by simp_all
    with t assms Some p show ?thesis by (auto simp: awaited_def history_open_def visible_range_def)
  qed (use assms in \<open>simp add: visible_range_def\<close>)
qed

lemma response_awaited:
  assumes "awaited s" and k: "k < length (inflight s)" shows "awaited (respond now k r s)"
proof -
  have s: "settled s" using assms(1) by (simp add: awaited_def)
  have t: "settled (respond now k r s)" by (rule chart_step_settled [OF s chart_step.response [OF k]])
  show ?thesis
  proof (cases "inflight s ! k")
    case (HistoryReq tk i)
    from history_answered [OF s k this] t show ?thesis by (simp add: awaited_def)
  next
    case (MoreReq tk i cur e)
    then have "history_open s \<Longrightarrow> HistoryReq a b \<in> set (inflight s) \<Longrightarrow> HistoryReq a b \<in> set (remove_nth k (inflight s))" for a b
      using in_remove_nth [OF _ k, of "HistoryReq a b"] by simp
    then have "history_open s \<Longrightarrow> history_open (respond now k r s)"
      using page_answered [OF s k MoreReq] by (auto simp: history_open_def)
    with t assms(1) page_answered [OF s k MoreReq] response_progress(2) [OF s k] show ?thesis
      by (auto simp: awaited_def)
  qed
qed

lemma mounted_awaited: "mounted s \<Longrightarrow> awaited s"
proof (erule mounted.cases)
  fix now st assume e: "s = receive_props now st initial_pc"
  have t: "settled s" unfolding e by (rule receive_props_settled [OF initial_ok])
  show "awaited s"
  proof (cases st)
    case None
    with t show ?thesis by (simp add: e awaited_def receive_props_def commit_def)
  next
    case (Some new)
    have "switched (render (initial_pc\<lparr>sel := Some new\<rparr>))" by (simp add: changed_def initial_pc_def)
    from switch_requests [OF _ this, of new now] t Some show ?thesis
      by (auto simp: e awaited_def history_open_def receive_props_def finish_eq)
  qed
qed

interpretation live: stepwise chart_step mounted awaited
proof
  show "awaited s \<Longrightarrow> chart_step s t \<Longrightarrow> awaited t" for s t
    by (auto elim!: chart_stepE simp: props_awaited interval_awaited range_awaited response_awaited)
qed (rule mounted_awaited)

subsection \<open>The server answers everything\<close>

text \<open>Answers in any order: each names a time, which of the open requests it is for, and what it says.\<close>

fun answer_all :: "(int \<times> nat \<times> response) list \<Rightarrow> pc \<Rightarrow> pc" where
  "answer_all [] s = s"
| "answer_all ((now, k, r) # as) s = answer_all as (respond now (k mod length (inflight s)) r s)"

lemma answer_all_awaited:
  "awaited s \<Longrightarrow> awaited (answer_all as s) \<and> sel (answer_all as s) = sel s
    \<and> length (inflight (answer_all as s)) = length (inflight s) - length as"
proof (induction as arbitrary: s)
  case (Cons a as)
  obtain now k r where a: "a = (now, k, r)" by (cases a)
  let ?k = "k mod length (inflight s)"
  show ?case
  proof (cases "inflight s = []")
    case True
    then have "respond now ?k r s = s" by (simp add: respond_def)
    with Cons True show ?thesis by (simp add: a)
  next
    case False
    then have k: "?k < length (inflight s)" by simp
    have "settled s" using Cons.prems by (simp add: awaited_def)
    with response_progress [OF this k] Cons.IH [OF response_awaited [OF Cons.prems k]] k show ?thesis
      by (simp add: a)
  qed
qed simp

text \<open>C1. Nothing stays loading: from any reachable state, once the server has answered the open
  requests, in any order and with any answers, failures included, no request is open, the page guard
  and the loading indicator are down, and the history flag of a selected stock is up.\<close>

theorem answered_not_loading:
  assumes "reachable_pc s" and "length (inflight s) \<le> length as"
  shows "inflight (answer_all as s) = [] \<and> \<not> fetching (answer_all as s) \<and> \<not> loading_more (answer_all as s)
    \<and> sel (answer_all as s) = sel s \<and> (sel s = None \<or> hist_loaded (answer_all as s))"
proof -
  have "awaited s" using assms(1) by (auto simp: reachable_pc_def intro: live.inv_reach)
  from answer_all_awaited [OF this, of as] assms(2)
  have a: "awaited (answer_all as s)" "sel (answer_all as s) = sel s" "inflight (answer_all as s) = []"
    by simp_all
  moreover have "settled (answer_all as s)" using a(1) by (simp add: awaited_def)
  ultimately show ?thesis using settledD(8,9) [of "answer_all as s"] by (auto simp: awaited_def history_open_def)
qed

theorem answered_not_loading_witness:
  "\<not> loading_more (answer_all [(1700000300000, 4, Failed)] demo_paging)"
  using answered_not_loading [OF demo_paging_facts(1), of "[(1700000300000, 4, Failed)]"]
  by (simp add: demo_paging_facts)

end
