(* ===== verification/App.thy ===== *)
theory App imports Dashboard ChartLive begin

section \<open>The dashboard page together with its chart\<close>

text \<open>
  \<open>app/page.tsx\<close> renders \<open>PriceChart\<close> with its own \<open>selectedStock\<close>. The page renders its layout, the chart
  included, once \<open>loading\<close> is down. An event of the page ends with a render, which hands the selection to
  the chart; the chart has events of its own, which the page does not see.
\<close>

record app =
  page :: dash
  price_chart :: pc

definition render_chart :: "int \<Rightarrow> app \<Rightarrow> app" where
  "render_chart now a = a\<lparr>price_chart := receive_props now (selectedStock (page a)) (price_chart a)\<rparr>"

definition page_event :: "int \<Rightarrow> event \<Rightarrow> app \<Rightarrow> app" where
  "page_event now e a = render_chart now (a\<lparr>page := handle e (page a)\<rparr>)"

datatype chart_event =
    IntervalClicked interval
  | RangeReported "(rat \<times> rat) option"
  | Answered nat response

fun chart_handle :: "int \<Rightarrow> chart_event \<Rightarrow> pc \<Rightarrow> pc" where
  "chart_handle now (IntervalClicked i) s = set_chart_interval now i s"
| "chart_handle now (RangeReported r) s = visible_range now r s"
| "chart_handle now (Answered k r) s = respond now k r s"

definition chart_event :: "int \<Rightarrow> chart_event \<Rightarrow> app \<Rightarrow> app" where
  "chart_event now e a = a\<lparr>price_chart := chart_handle now e (price_chart a)\<rparr>"

definition mount_app :: "int \<Rightarrow> browser \<Rightarrow> app" where
  "mount_app now b = render_chart now \<lparr>page = mount_dash (initial_dash b), price_chart = initial_pc\<rparr>"

inductive app_mounted :: "app \<Rightarrow> bool" where
  "\<not> loading (page (mount_app now b)) \<Longrightarrow> app_mounted (mount_app now b)"

inductive app_step :: "app \<Rightarrow> app \<Rightarrow> bool" where
  page: "app_step a (page_event now e a)"
| chart: "app_step a (chart_event now e a)"

inductive_cases app_stepE: "app_step a b"

section \<open>Lemmas\<close>

text \<open>A render with the ticker and the price the chart already has is not seen by its effects.\<close>

lemma same_props:
  assumes "settled s" and "map_option s_ticker st = map_option s_ticker (sel s)"
    and "map_option s_price st = map_option s_price (sel s)"
  shows "receive_props now st s = s\<lparr>sel := st\<rparr>"
proof -
  let ?t = "s\<lparr>sel := st\<rparr>"
  have r: "render ?t = ?t" using settledD(1) [OF assms(1)] by (simp add: render_def)
  have d: "deps_of ?t = deps_of s" "effect_deps ?t = Some (deps_of s)"
    using assms(2,3) settledD(2) [OF assms(1)] by (simp_all add: deps_of_def)
  then have "\<not> switched ?t" "\<not> changed ?t d_ver" "\<not> changed ?t d_ival" "\<not> changed ?t d_hist"
    "\<not> reloads ?t" "\<not> repriced ?t" by (simp_all add: changed_def)
  then have "run_effects now ?t = ?t\<lparr>effect_deps := Some (deps_of ?t)\<rparr>"
    by (simp only: run_effects_seq when_do_def simp_thms if_False)
  also have "\<dots> = ?t" unfolding d(1) using d(2) by (cases s) simp
  finally have "commit now ?t = ?t" by (simp add: commit_def r)
  then show ?thesis using settledD(1) [OF assms(1)] by (simp add: receive_props_def)
qed

subsection \<open>Without a selection\<close>

fun clearing :: "upd \<Rightarrow> bool" where
  "clearing (SetData xs) = (xs = [])"
| "clearing (SetReady b) = (\<not> b)"
| "clearing (SetHist b) = (\<not> b)"
| "clearing u = False"

definition blank :: "pc \<Rightarrow> bool" where
  "blank s \<longleftrightarrow> sel s = None \<and> chart s = None \<and> list_all clearing (queue s)"

definition empty_screen :: "pc \<Rightarrow> bool" where
  "empty_screen s \<longleftrightarrow> cdata s = [] \<and> \<not> hist_loaded s"

lemma clearing_render:
  "list_all clearing us \<Longrightarrow> empty_screen s \<Longrightarrow> empty_screen (fold apply_upd us s)"
proof (induction us arbitrary: s)
  case (Cons u us)
  have "empty_screen (apply_upd u s)" using Cons.prems by (cases u) (simp_all add: empty_screen_def)
  with Cons show ?case by simp
qed simp

lemma blank_commit:
  assumes "blank s" shows "blank (commit now s) \<and> inflight (commit now s) = inflight s"
proof -
  have c: "chart (render s) = None" "sel (render s) = None" using assms by (simp_all add: blank_def)
  have "list_all clearing (queue (run_effects now (render s)))"
    using c by (simp add: run_effects_def Let_def when_do_def init_chart_def realtime_effect_def
        history_effect_def chart_do_def enqueue_def)
  moreover have "chart (run_effects now (render s)) = None" using c by (simp add: run_effects_chart)
  ultimately show ?thesis using c by (simp add: blank_def commit_def run_effects_inflight)
qed

lemma blank_empty: "blank s \<Longrightarrow> empty_screen s \<Longrightarrow> empty_screen (commit now s)"
  using clearing_render [of "queue s" "s\<lparr>queue := []\<rparr>"]
  by (simp add: blank_def commit_def render_def) (simp add: empty_screen_def)

lemma blank_settle:
  "blank s \<Longrightarrow> empty_screen s \<Longrightarrow>
    blank (settle n now s) \<and> empty_screen (settle n now s) \<and> inflight (settle n now s) = inflight s"
  by (induction n arbitrary: s) (simp_all add: blank_commit blank_empty)

lemma deselect:
  assumes "settled s" and "sel s = Some old"
  shows "cdata (receive_props now None s) = [] \<and> \<not> hist_loaded (receive_props now None s)
    \<and> chart (receive_props now None s) = None \<and> inflight (receive_props now None s) = inflight s"
proof -
  note f = settledD(1,2) [OF assms(1)]
  have c: "chart s \<noteq> None" using settled_chart [OF assms(1)] assms(2) by simp
  let ?s1 = "commit now (s\<lparr>sel := None\<rparr>)"
  let ?s2 = "commit now ?s1"
  have r: "render (s\<lparr>sel := None\<rparr>) = s\<lparr>sel := None\<rparr>" using f(1) by (simp add: render_def)
  have sw: "switched (s\<lparr>sel := None\<rparr>)" "reloads (s\<lparr>sel := None\<rparr>)"
    using f(2) assms(2) by (simp_all add: changed_def deps_of_def)
  have q1: "queue ?s1 = [SetReady False, SetHist False, SetData []]"
    using sw c f(1) unfolding commit_def r run_effects_seq
    by (simp add: when_do_def cleanup_chart_def init_chart_def history_effect_def realtime_effect_def enqueue_def chart_do_def)
  have b1: "blank ?s1" "inflight ?s1 = inflight s"
    using sw q1 by (simp_all add: blank_def) (simp_all add: commit_def r run_effects_chart run_effects_inflight)
  have b2: "blank ?s2" "inflight ?s2 = inflight s" using blank_commit [OF b1(1)] b1(2) by simp_all
  have "empty_screen ?s2" by (simp add: empty_screen_def commit_def [of now ?s1] render_def q1)
  then have "blank (settle 3 now ?s2) \<and> empty_screen (settle 3 now ?s2) \<and> inflight (settle 3 now ?s2) = inflight s"
    using blank_settle [OF b2(1), of 3 now] b2(2) by simp
  moreover have "receive_props now None s = settle 3 now ?s2"
    by (simp add: receive_props_def finish_eq settle_numeral q1)
  ultimately show ?thesis by (simp add: blank_def empty_screen_def)
qed


subsection \<open>Steps of the whole page\<close>

text \<open>The chart's events are steps of its machine and keep the selection.\<close>

lemma chart_handle_kept:
  assumes "settled s" shows "settled (chart_handle now e s) \<and> sel (chart_handle now e s) = sel s"
proof (cases e)
  case (IntervalClicked i)
  then show ?thesis using chart_step_settled [OF assms chart_step.interval]
    by (simp add: set_chart_interval_def)
next
  case (RangeReported r)
  have "sel (visible_range now r s) = sel s"
    by (simp add: visible_range_def range_change_def load_more_def split: option.splits prod.splits)
  then show ?thesis using RangeReported chart_step_settled [OF assms chart_step.range] by simp
next
  case (Answered k r)
  then show ?thesis
    using chart_step_settled [OF assms chart_step.response] response_progress(2) [OF assms]
    by (cases "k < length (inflight s)") (simp_all add: respond_def assms)
qed

definition app_ok :: "app \<Rightarrow> bool" where
  "app_ok a \<longleftrightarrow> settled (price_chart a) \<and> sel (price_chart a) = selectedStock (page a)
     \<and> streaming (page a)"

lemma render_chart_ok:
  assumes "pc_ok (price_chart a)" and "streaming (page a)" shows "app_ok (render_chart now a)"
  using receive_props_settled [OF assms(1)] assms(2)
  by (simp add: app_ok_def render_chart_def) (simp add: receive_props_def commit_def)

lemma app_step_ok:
  assumes "app_ok a" and "app_step a b" shows "app_ok b"
  using assms(2)
proof (cases rule: app_step.cases)
  case (page now e)
  have "streaming (handle e (app.page a))" using assms(1) by (simp add: handle_frame app_ok_def)
  with page assms(1) show ?thesis
    by (simp add: page_event_def app_ok_def [of a] settled_def render_chart_ok)
next
  case (chart now e)
  with assms(1) show ?thesis by (simp add: chart_event_def app_ok_def chart_handle_kept)
qed

lemma mount_streams: "\<not> loading (mount_dash (initial_dash b)) \<Longrightarrow> streaming (mount_dash (initial_dash b))"
  by (auto simp: mount_dash_def initial_dash_def Let_def search_effect_def fetch_subscriptions_def
      send_def streaming_def split: option.splits if_splits)

interpretation dashboard_app: stepwise app_step app_mounted app_ok
proof
  show "app_mounted a \<Longrightarrow> app_ok a" for a
    by (erule app_mounted.cases)
      (simp add: mount_app_def, rule render_chart_ok, simp_all add: initial_ok render_chart_def mount_streams)
qed (rule app_step_ok)

definition reachable_app :: "app \<Rightarrow> bool" where
  "reachable_app a \<longleftrightarrow> (\<exists>a0. app_mounted a0 \<and> app_step\<^sup>*\<^sup>* a0 a)"

lemma reachable_app_ok: "reachable_app a \<Longrightarrow> app_ok a"
  by (auto simp: reachable_app_def intro: dashboard_app.inv_reach)

lemma reachable_app_mount: "\<not> loading (page (mount_app now b)) \<Longrightarrow> reachable_app (mount_app now b)"
  by (auto simp: reachable_app_def intro: app_mounted.intros)

lemma reachable_app_step: "reachable_app a \<Longrightarrow> app_step a b \<Longrightarrow> reachable_app b"
  by (auto simp: reachable_app_def intro: rtranclp.rtrancl_into_rtrancl)

lemma page_parts [simp]:
  "page (page_event now e a) = handle e (page a)" "page (chart_event now ce a) = page a"
  "price_chart (page_event now e a) = receive_props now (selectedStock (handle e (page a))) (price_chart a)"
  "price_chart (chart_event now ce a) = chart_handle now ce (price_chart a)"
  by (simp_all add: page_event_def chart_event_def render_chart_def)

lemma reachable_appD:
  assumes "reachable_app a"
  shows "settled (price_chart a)" and "sel (price_chart a) = selectedStock (page a)" and "event_source (page a) \<noteq> None"
  using reachable_app_ok [OF assms] by (simp_all add: app_ok_def streaming_def)

section \<open>A run for the witnesses\<close>

definition demo_item :: stock_item where
  "demo_item = \<lparr>it_ticker = js ''A'', it_name = js ''Alpha'', it_price = None, it_currentPrice = None\<rparr>"

definition demo_app :: app where
  "demo_app = page_event 1 (Replied 0 (Items [demo_item])) (mount_app 0 (demo_browser\<lparr>storage := Some (js ''Bearer t'')\<rparr>))"

definition demo_chosen :: app where
  "demo_chosen = page_event 2 (RowClicked (subscription_row demo_item)) demo_app"

definition demo_shown_app :: app where
  "demo_shown_app = chart_event 1700000100000 (Answered 0 (Ok [demo_candle])) demo_chosen"

definition demo_removing :: app where
  "demo_removing = page_event 1700000200000 (RemoveClicked (subscription_row demo_item)) demo_shown_app"

lemma demo_page:
  "stocks (page demo_app) = [subscription_row demo_item]" "selectedStock (page demo_app) = None"
  "open_requests (page demo_app) = []" "selectedStock (page demo_chosen) = Some (subscription_row demo_item)"
  "stocks (page demo_chosen) = [subscription_row demo_item]" "open_requests (page demo_chosen) = []"
  "page demo_shown_app = page demo_chosen"
  "selectedStock (page demo_removing) = Some (subscription_row demo_item)"
  "open_requests (page demo_removing) = [UnsubscribeReq (auth_header (page demo_chosen)) (js ''A'')]"
  by (simp_all add: demo_app_def demo_chosen_def demo_shown_app_def demo_removing_def mount_app_def render_chart_def
      mount_dash_def initial_dash_def Let_def search_effect_def fetch_subscriptions_def send_def reply_def
      select_stock_def handle_unsubscribe_def) (simp_all add: subscription_row_def demo_item_def)

lemma demo_reachable:
  "reachable_app demo_app" "reachable_app demo_chosen" "reachable_app demo_shown_app" "reachable_app demo_removing"
proof -
  have "\<not> loading (page (mount_app 0 (demo_browser\<lparr>storage := Some (js ''Bearer t'')\<rparr>)))"
    by (simp add: mount_app_def render_chart_def mount_dash_def initial_dash_def Let_def search_effect_def
        fetch_subscriptions_def send_def)
  from reachable_app_mount [OF this] show 1: "reachable_app demo_app"
    unfolding demo_app_def by (rule reachable_app_step [OF _ app_step.page])
  from 1 show 2: "reachable_app demo_chosen" unfolding demo_chosen_def by (rule reachable_app_step [OF _ app_step.page])
  from 2 show 3: "reachable_app demo_shown_app" unfolding demo_shown_app_def by (rule reachable_app_step [OF _ app_step.chart])
  from 3 show "reachable_app demo_removing" unfolding demo_removing_def by (rule reachable_app_step [OF _ app_step.page])
qed

lemma demo_row_zero: "parse_float (s_price (subscription_row demo_item)) = Some 0"
  using demo_zero by (simp add: demo_stock_def subscription_row_def demo_item_def)

lemma mount_unselected:
  "receive_props now None initial_pc = initial_pc\<lparr>effect_deps := Some \<lparr>d_ver = 1, d_ival = I1d, d_hist = False,
     d_ticker = None, d_ready = False, d_price = None\<rparr>, data_ver := 1\<rparr>"
  by (simp add: receive_props_def run_eval)

lemma demo_first_chart: "price_chart demo_app = receive_props 0 None initial_pc"
proof -
  have p: "selectedStock (page (mount_app 0 b)) = None" for b
    by (simp add: mount_app_def render_chart_def mount_dash_def initial_dash_def Let_def search_effect_def
        fetch_subscriptions_def send_def split: option.split)
  have "selectedStock (page demo_app) = None" by (rule demo_page)
  moreover have "price_chart (mount_app 0 b) = receive_props 0 None initial_pc" for b
    using p [of b] by (simp add: mount_app_def render_chart_def)
  moreover have "receive_props 1 None (receive_props 0 None initial_pc) = receive_props 0 None initial_pc"
    by (subst same_props, rule receive_props_settled [OF initial_ok], unfold mount_unselected)
      (simp_all add: initial_pc_def)
  ultimately show ?thesis by (simp add: demo_app_def page_parts del: handle.simps)
qed

lemma demo_chosen_chart:
  "inflight (price_chart demo_chosen) = [HistoryReq (js ''A'') I1d]" "ref_data (price_chart demo_chosen) = []"
  "hist_loaded (price_chart demo_chosen) = False" "ival (price_chart demo_chosen) = I1d"
proof -
  have p: "selectedStock (handle (RowClicked (subscription_row demo_item)) (page demo_app)) = Some (subscription_row demo_item)"
    using demo_page(1) by (simp add: select_stock_def)
  have c: "price_chart demo_chosen = receive_props 2 (Some (subscription_row demo_item)) (receive_props 0 None initial_pc)"
    by (simp only: demo_chosen_def page_parts p demo_first_chart)
  have t: "s_ticker (subscription_row demo_item) = js ''A''" by (simp add: subscription_row_def demo_item_def)
  show "inflight (price_chart demo_chosen) = [HistoryReq (js ''A'') I1d]" "ref_data (price_chart demo_chosen) = []"
    "hist_loaded (price_chart demo_chosen) = False" "ival (price_chart demo_chosen) = I1d"
    unfolding c mount_unselected by (simp_all add: receive_props_def run_eval demo_row_zero t)
qed

lemma demo_shown_chart:
  "hist_loaded (price_chart demo_shown_app)" "ref_data (price_chart demo_shown_app) = [demo_candle]"
  "cdata (price_chart demo_shown_app) = [demo_candle]" "ival (price_chart demo_shown_app) = I1d"
  "inflight (price_chart demo_shown_app) = []"
proof -
  note c = demo_chosen_chart and s = reachable_appD(1,2) [OF demo_reachable(2)]
  have "history_ticks now (price_chart demo_chosen) [demo_candle] = []" for now
    using s(2) by (simp add: history_ticks_def replayed_def c price_of_def demo_page demo_row_zero)
  then show "hist_loaded (price_chart demo_shown_app)" "ref_data (price_chart demo_shown_app) = [demo_candle]"
    "cdata (price_chart demo_shown_app) = [demo_candle]" "ival (price_chart demo_shown_app) = I1d"
    "inflight (price_chart demo_shown_app) = []"
    using history_response [OF s(1), where k = 0 and t = "js ''A''" and i = I1d and h = "[demo_candle]" and now = 1700000100000]
    by (simp_all add: c demo_shown_app_def remove_nth_def Let_def)
qed

section \<open>Properties of the page with its chart\<close>

text \<open>C3. In every reachable state of the page the chart shows the page's selection: a chart object exists
  exactly when a row is selected, for that row's ticker and the chart's interval.\<close>

theorem chart_shows_selection:
  assumes "reachable_app a"
  shows "sel (price_chart a) = selectedStock (page a)
    \<and> chart_for (price_chart a) = map_option (\<lambda>st. (s_ticker st, ival (price_chart a))) (selectedStock (page a))"
  using settledD(3) [OF reachable_appD(1) [OF assms]] reachable_appD(2) [OF assms] by simp

theorem chart_shows_selection_witness:
  "chart_for (price_chart demo_removing) = Some (js ''A'', ival (price_chart demo_removing))"
  using chart_shows_selection [OF demo_reachable(4)] demo_page(8)
  by (simp add: subscription_row_def demo_item_def)

text \<open>C14. A click on a row of another ticker selects it and sends exactly one history request, for that ticker
  and the interval of the chart, after the requests already open.\<close>

theorem row_click_loads_history:
  assumes "reachable_app a" and "st \<in> set (stocks (page a))"
    and "map_option s_ticker (selectedStock (page a)) \<noteq> Some (s_ticker st)"
  shows "selectedStock (page (page_event now (RowClicked st) a)) = Some st
    \<and> inflight (price_chart (page_event now (RowClicked st) a)) =
        inflight (price_chart a) @ [HistoryReq (s_ticker st) (ival (price_chart a))]"
proof -
  note s = reachable_appD [OF assms(1)]
  have "map_option s_ticker (sel (price_chart a)) \<noteq> Some (s_ticker st)" using assms(3) s(2) by simp
  from select_requests [OF s(1) this, of now] assms(2) show ?thesis by (simp add: select_stock_def)
qed

theorem row_click_loads_history_witness:
  "selectedStock (page (page_event 9 (RowClicked (subscription_row demo_item)) demo_app)) = Some (subscription_row demo_item)"
  using row_click_loads_history [OF demo_reachable(1), of "subscription_row demo_item" 9] by (simp only: demo_page) simp

text \<open>The number a tick brings to the chart of a stock, if any: the tick must be about that stock, change its
  price text, and its text must start with a number other than zero.\<close>

definition tick_price :: "tick \<Rightarrow> stock \<Rightarrow> rat option" where
  "tick_price tk st =
     (if tk_ticker tk \<noteq> s_ticker st \<or> js_string (tk_price tk) = s_price st then None
      else case parse_float (js_string (tk_price tk)) of
          None \<Rightarrow> None
        | Some x \<Rightarrow> if x = 0 then None else Some x)"

text \<open>C2. What a tick of the event stream does to the chart of the selected stock, in every state and for every
  price a message can carry, a text or a number. A tick of another stock, one that repeats the shown
  price text, or one without a price other than zero changes nothing, so it opens no candle either. Any
  other is one tick at the current time: while the history loads it is buffered; once it is loaded, the
  tick is applied to the candles and the bar it changes is updated on the chart, except that a chart
  without candles stays empty. No tick sends a request.\<close>

theorem tick_reaches_chart:
  assumes "reachable_app a" and "selectedStock (page a) = Some st"
  shows "let c = price_chart a; c' = price_chart (page_event now (Tick tk) a);
             new = (case tick_price tk st of None \<Rightarrow> [] | Some x \<Rightarrow> [(x, now)]);
             (h, bars) = play (is_daily (ival c)) (if hist_loaded c \<and> ref_data c \<noteq> [] then new else []) (cdata c)
         in cdata c' = h \<and> calls_of c' = calls_of c @ map UpdateBar bars
          \<and> tick_buffer c' = tick_buffer c @ (if hist_loaded c then [] else new)
          \<and> inflight c' = inflight c"
proof -
  note s = reachable_appD [OF assms(1)]
  let ?st = "apply_stock_tick tk st" and ?c = "price_chart a"
  have e: "price_chart (page_event now (Tick tk) a) = receive_props now (Some ?st) ?c"
    using s(3) assms(2) by (auto simp: stock_tick_def)
  have sel: "sel ?c = Some st" using s(2) assms(2) by simp
  show ?thesis
  proof (cases "tk_ticker tk = s_ticker st \<and> js_string (tk_price tk) \<noteq> s_price st")
    case False
    then have "s_price ?st = s_price st" by (cases "tk_ticker tk = s_ticker st") (simp_all add: tick_values tick_other)
    then have "receive_props now (Some ?st) ?c = ?c\<lparr>sel := Some ?st\<rparr>"
      using same_props [OF s(1), of "Some ?st" now] sel by simp
    moreover have "tick_price tk st = None" using False by (auto simp: tick_price_def)
    ultimately show ?thesis by (simp add: e Let_def del: page_parts)
  next
    case True
    then have p: "s_price ?st = js_string (tk_price tk)" by (simp add: tick_values)
    let ?t = "?c\<lparr>sel := Some ?st\<rparr>"
    have x: "price_of ?t = tick_price tk st"
      using True by (simp add: price_of_def tick_price_def p split: option.split)
    have "chart ?c \<noteq> None" using settled_chart [OF s(1)] sel by simp
    then have "played now ?t = (if hist_loaded ?c \<and> ref_data ?c \<noteq> []
          then case tick_price tk st of None \<Rightarrow> [] | Some x \<Rightarrow> [(x, now)] else [])"
      "buffered now ?t = (if hist_loaded ?c then [] else case tick_price tk st of None \<Rightarrow> [] | Some x \<Rightarrow> [(x, now)])"
      by (simp_all add: played_def buffered_def x del: not_None_eq split: option.split)
    then show ?thesis
      using price_change [OF s(1) sel, of ?st now] True p by (simp add: e Let_def case_prod_beta del: page_parts)
  qed
qed

theorem tick_reaches_chart_witness:
  "let tk = \<lparr>tk_ticker = js ''A'', tk_price = JStr (js ''12.5''), tk_changeRate = JStr (js ''-8.87''),
       tk_changeAmount = JStr (js ''-29000'')\<rparr>;
       (h, bars) = play True [(25 / 2, 1700000300000)] [demo_candle];
       c = price_chart (page_event 1700000300000 (Tick tk) demo_shown_app)
   in cdata c = h \<and> calls_of c = calls_of (price_chart demo_shown_app) @ map UpdateBar bars"
proof -
  have "parse_float (js ''12.5'') = Some (25 / 2)"
    by (simp add: parse_float_def parse_signed_def parse_unsigned_def trim_start_def is_space_def
      is_digit_def span_digits_def digits_value_def parse_exponent_def scale10_def)
  then have "tick_price \<lparr>tk_ticker = js ''A'', tk_price = JStr (js ''12.5''), tk_changeRate = r, tk_changeAmount = m\<rparr>
      (subscription_row demo_item) = Some (25 / 2)" for r m
    by (simp add: tick_price_def js_string_def subscription_row_def demo_item_def)
  with tick_reaches_chart [OF demo_reachable(3), of "subscription_row demo_item" 1700000300000
      "\<lparr>tk_ticker = js ''A'', tk_price = JStr (js ''12.5''), tk_changeRate = JStr (js ''-8.87''),
        tk_changeAmount = JStr (js ''-29000'')\<rparr>"]
  show ?thesis
    by (simp add: demo_page demo_shown_chart is_daily_def Let_def case_prod_beta del: page_parts play.simps)
qed

text \<open>C15. Unsubscribing the charted stock removes the chart and its candles once the server agrees. The
  chart's requests stay open: a history answer that arrives then becomes the chart's data although
  nothing is selected.\<close>

theorem unsubscribing_clears_chart:
  assumes "reachable_app a" and "k < length (open_requests (page a))"
    and "open_requests (page a) ! k = UnsubscribeReq auth (s_ticker st)" and "selectedStock (page a) = Some st"
  shows "selectedStock (page (page_event now (Replied k Done) a)) = None
    \<and> chart (price_chart (page_event now (Replied k Done) a)) = None
    \<and> cdata (price_chart (page_event now (Replied k Done) a)) = []
    \<and> inflight (price_chart (page_event now (Replied k Done) a)) = inflight (price_chart a)
    \<and> (j < length (inflight (price_chart a)) \<and> inflight (price_chart a) ! j = HistoryReq t i \<longrightarrow>
        cdata (price_chart (chart_event now (Answered j (Ok h)) (page_event now (Replied k Done) a))) = h)"
proof -
  note s = reachable_appD [OF assms(1)]
  let ?c = "receive_props now None (price_chart a)"
  have sel: "selectedStock (handle (Replied k Done) (page a)) = None"
    using assms(2-4) by (simp add: reply_def unsubscribed_def)
  have d: "cdata ?c = [] \<and> \<not> hist_loaded ?c \<and> chart ?c = None \<and> inflight ?c = inflight (price_chart a)"
    by (rule deselect [OF s(1)]) (use s(2) assms(4) in simp)
  have c: "settled ?c" "sel ?c = None"
    using chart_step_settled [OF s(1) chart_step.props] by (simp_all add: receive_props_def commit_def)
  have late: "cdata (respond now j (Ok h) ?c) = h"
    if "j < length (inflight (price_chart a))" "inflight (price_chart a) ! j = HistoryReq t i"
    using history_response [OF c(1), of j t i now h] that d c(2)
    by (simp add: history_ticks_def replayed_def price_of_def Let_def)
  show ?thesis using sel d late by (simp del: handle.simps)
qed

theorem unsubscribing_clears_chart_witness:
  "cdata (price_chart (page_event 1700000300000 (Replied 0 Done) demo_removing)) = []"
  using unsubscribing_clears_chart [OF demo_reachable(4), of 0 "auth_header (page demo_chosen)" "subscription_row demo_item" 1700000300000]
  by (simp add: demo_page subscription_row_def demo_item_def del: page_parts)

end
