(* ===== verification/Toast.thy ===== *)
theory Toast imports Prelude begin

section \<open>The toast store (hooks/use-toast.ts)\<close>

text \<open>
  The module state of the hook: the id counter, the toasts in memory, the removal timers with the time
  they are due, the subscribed hooks and the mounted hook instances. A toast is an object, a map that
  keeps the insertion order of its keys, so that spreading one over another is \<open>put_all\<close>. A hook
  instance is named by a number, which stands for its \<open>setState\<close>; a version counts the dispatches, so
  that two state objects are the same object when their versions are equal. A property may hold
  \<open>undefined\<close>: the property is then there, and spreading it over another object overrides. Of elements,
  numbers and the caller's own functions only a name is kept.
\<close>

datatype tval =
    TStr jstr
  | TBool bool
  | TNode jstr
  | TNull
  | TUndefined
  | TDismissOnClose jstr
  | TCallback jstr

type_synonym toast = "(jstr, tval) omap"

definition k_id :: jstr where "k_id = js ''id''"
definition k_open :: jstr where "k_open = js ''open''"
definition k_on_open_change :: jstr where "k_on_open_change = js ''onOpenChange''"

lemma keys_distinct [simp]:
  "k_id \<noteq> k_open" "k_open \<noteq> k_id" "k_id \<noteq> k_on_open_change" "k_on_open_change \<noteq> k_id"
  "k_open \<noteq> k_on_open_change" "k_on_open_change \<noteq> k_open"
  by (simp_all add: k_id_def k_open_def k_on_open_change_def)

definition is_object :: "toast \<Rightarrow> bool" where
  "is_object t \<longleftrightarrow> distinct (map fst t)"

definition toast_id :: "toast \<Rightarrow> tval option" where
  "toast_id t = map_of t k_id"

definition TOAST_LIMIT :: nat where "TOAST_LIMIT = 1"
definition TOAST_REMOVE_DELAY :: int where "TOAST_REMOVE_DELAY = 1000000"
definition MAX_SAFE_INTEGER :: nat where "MAX_SAFE_INTEGER = 2 ^ 53 - 1"

datatype action =
    ADD_TOAST toast
  | UPDATE_TOAST toast
  | DISMISS_TOAST "jstr option"
  | REMOVE_TOAST "jstr option"

record hook =
  h_state :: "toast list"
  h_version :: nat
  h_effect :: "nat option"

record store =
  counter :: nat
  toasts :: "toast list"
  version :: nat
  timers :: "(jstr \<times> int) list"
  listeners :: "nat list"
  hooks :: "(nat, hook) omap"

definition initial_store :: store where
  "initial_store = \<lparr>counter = 0, toasts = [], version = 0, timers = [], listeners = [], hooks = []\<rparr>"

subsection \<open>The reducer and its side effect\<close>

definition gen_id :: "store \<Rightarrow> jstr \<times> store" where
  "gen_id s = (let c = (counter s + 1) mod MAX_SAFE_INTEGER in (nat_str c, s\<lparr>counter := c\<rparr>))"

definition add_to_remove_queue :: "int \<Rightarrow> jstr \<Rightarrow> store \<Rightarrow> store" where
  "add_to_remove_queue now i s =
     (if i \<in> fst ` set (timers s) then s
      else s\<lparr>timers := timers s @ [(i, now + TOAST_REMOVE_DELAY)]\<rparr>)"

text \<open>The ids of the toasts in a list; every toast of the store has a string id.\<close>

definition ids_of :: "toast list \<Rightarrow> jstr list" where
  "ids_of ts = List.map_filter (\<lambda>t. case toast_id t of Some (TStr i) \<Rightarrow> Some i | _ \<Rightarrow> None) ts"

definition queue_removals :: "int \<Rightarrow> jstr option \<Rightarrow> store \<Rightarrow> store" where
  "queue_removals now i s =
     (if i \<noteq> None \<and> i \<noteq> Some [] then add_to_remove_queue now (the i) s
      else fold (add_to_remove_queue now) (ids_of (toasts s)) s)"

fun reducer :: "toast list \<Rightarrow> action \<Rightarrow> toast list" where
  "reducer ts (ADD_TOAST t) = take TOAST_LIMIT (t # ts)"
| "reducer ts (UPDATE_TOAST p) = map (\<lambda>t. if toast_id t = toast_id p then put_all p t else t) ts"
| "reducer ts (DISMISS_TOAST i) =
     map (\<lambda>t. if toast_id t = map_option TStr i \<or> i = None then put k_open (TBool False) t else t) ts"
| "reducer ts (REMOVE_TOAST None) = []"
| "reducer ts (REMOVE_TOAST (Some i)) = filter (\<lambda>t. toast_id t \<noteq> Some (TStr i)) ts"

text \<open>Every listener's \<open>setState\<close> receives the new state.\<close>

definition notify :: "store \<Rightarrow> store" where
  "notify s = s\<lparr>hooks := map (\<lambda>(i, h). (i, if i \<in> set (listeners s)
     then h\<lparr>h_state := toasts s, h_version := version s\<rparr> else h)) (hooks s)\<rparr>"

definition dispatch :: "int \<Rightarrow> action \<Rightarrow> store \<Rightarrow> store" where
  "dispatch now a s =
     (let s1 = (case a of DISMISS_TOAST i \<Rightarrow> queue_removals now i s | _ \<Rightarrow> s)
      in notify (s1\<lparr>toasts := reducer (toasts s) a, version := Suc (version s)\<rparr>))"

subsection \<open>The functions of the module\<close>

definition new_toast :: "jstr \<Rightarrow> toast \<Rightarrow> toast" where
  "new_toast i props = put k_on_open_change (TDismissOnClose i) (put k_open (TBool True) (put k_id (TStr i) props))"

definition toast :: "int \<Rightarrow> toast \<Rightarrow> store \<Rightarrow> jstr \<times> store" where
  "toast now props s = (let (i, s') = gen_id s in (i, dispatch now (ADD_TOAST (new_toast i props)) s'))"

definition update :: "int \<Rightarrow> jstr \<Rightarrow> toast \<Rightarrow> store \<Rightarrow> store" where
  "update now i props s = dispatch now (UPDATE_TOAST (put k_id (TStr i) props)) s"

definition dismiss :: "int \<Rightarrow> jstr option \<Rightarrow> store \<Rightarrow> store" where
  "dismiss now i s = dispatch now (DISMISS_TOAST i) s"

text \<open>Radix reports that a toast opened or closed: the handler stored in the toast runs. A handler of the caller
  that an update put there is not the store's and does nothing to it by itself.\<close>

definition open_change :: "int \<Rightarrow> bool \<Rightarrow> toast \<Rightarrow> store \<Rightarrow> store" where
  "open_change now b t s = (case map_of t k_on_open_change of
       Some (TDismissOnClose i) \<Rightarrow> if \<not> b then dismiss now (Some i) s else s
     | _ \<Rightarrow> s)"

text \<open>A removal timer that is due runs.\<close>

definition timer_fires :: "int \<Rightarrow> jstr \<Rightarrow> store \<Rightarrow> store" where
  "timer_fires now i s =
     dispatch now (REMOVE_TOAST (Some i)) (s\<lparr>timers := filter (\<lambda>(j, due). j \<noteq> i) (timers s)\<rparr>)"

subsection \<open>The hook\<close>

definition mount_hook :: "nat \<Rightarrow> store \<Rightarrow> store" where
  "mount_hook i s =
     (if i \<in> fst ` set (hooks s) then s
      else s\<lparr>hooks := hooks s @ [(i, \<lparr>h_state = toasts s, h_version = version s, h_effect = None\<rparr>)]\<rparr>)"

text \<open>The effect of \<open>useToast\<close> runs again when the state object changed: first its cleanup.\<close>

definition hook_effect :: "nat \<Rightarrow> store \<Rightarrow> store" where
  "hook_effect i s = (case map_of (hooks s) i of
       None \<Rightarrow> s
     | Some h \<Rightarrow>
         if h_effect h = Some (h_version h) then s
         else s\<lparr>listeners := (if h_effect h = None then listeners s else remove1 i (listeners s)) @ [i],
                hooks := put i (h\<lparr>h_effect := Some (h_version h)\<rparr>) (hooks s)\<rparr>)"

definition unmount_hook :: "nat \<Rightarrow> store \<Rightarrow> store" where
  "unmount_hook i s =
     s\<lparr>listeners := remove1 i (listeners s), hooks := filter (\<lambda>(j, h). j \<noteq> i) (hooks s)\<rparr>"

inductive toast_step :: "store \<Rightarrow> store \<Rightarrow> bool" where
  add: "is_object props \<Longrightarrow> toast_step s (snd (toast now props s))"
| update: "is_object props \<Longrightarrow> toast_step s (update now i props s)"
| dismiss: "toast_step s (dismiss now i s)"
| open_change: "t \<in> set (toasts s) \<Longrightarrow> toast_step s (open_change now b t s)"
| timer: "(i, due) \<in> set (timers s) \<Longrightarrow> due \<le> now \<Longrightarrow> toast_step s (timer_fires now i s)"
| mount: "toast_step s (mount_hook i s)"
| hook_effect: "toast_step s (hook_effect i s)"
| unmount: "toast_step s (unmount_hook i s)"

inductive_cases toast_stepE: "toast_step s t"


section \<open>Lemmas\<close>

lemma map_of_put_all_object: "is_object p \<Longrightarrow> map_of (put_all p t) k = (case map_of p k of Some v \<Rightarrow> Some v | None \<Rightarrow> map_of t k)"
proof -
  assume "is_object p"
  then have "map_of (rev p) = map_of p"
    by (simp add: is_object_def map_of_inject_set rev_map [symmetric])
  then show ?thesis by (simp add: map_of_put_all map_add_def)
qed

lemma object_put [simp]: "is_object t \<Longrightarrow> is_object (put k v t)"
  by (simp add: is_object_def)

lemma object_put_all [simp]: "is_object t \<Longrightarrow> is_object (put_all p t)"
  by (simp add: is_object_def)

text \<open>A toast of the store: an object with a string id.\<close>

definition toast_ok :: "toast \<Rightarrow> bool" where
  "toast_ok t \<longleftrightarrow> is_object t \<and> (\<exists>i. toast_id t = Some (TStr i))"

lemma new_toast_ok: "is_object props \<Longrightarrow> toast_ok (new_toast i props)"
  by (simp add: toast_ok_def new_toast_def toast_id_def)

lemma new_toast_keys [simp]:
  "toast_id (new_toast i props) = Some (TStr i)" "map_of (new_toast i props) k_open = Some (TBool True)"
  "map_of (new_toast i props) k_on_open_change = Some (TDismissOnClose i)"
  by (simp_all add: new_toast_def toast_id_def)

definition action_ok :: "action \<Rightarrow> bool" where
  "action_ok a = (case a of ADD_TOAST t \<Rightarrow> toast_ok t | UPDATE_TOAST p \<Rightarrow> toast_ok p | _ \<Rightarrow> True)"

lemma reducer_ok:
  assumes "list_all toast_ok ts" and "action_ok a"
  shows "list_all toast_ok (reducer ts a)"
proof (cases "(ts, a)" rule: reducer.cases)
  case (1 ts' t)
  then show ?thesis using assms by (cases ts) (auto simp: action_ok_def TOAST_LIMIT_def)
next
  case (2 ts' p)
  then have "toast_ok (put_all p t)" if "toast_ok t" for t
    using that assms(2) by (auto simp: action_ok_def toast_ok_def toast_id_def map_of_put_all_object split: option.split)
  then show ?thesis using 2 assms(1) by (auto simp: list_all_iff)
next
  case (3 ts' i)
  then show ?thesis using assms by (cases i) (auto simp: list_all_iff toast_ok_def toast_id_def)
qed (use assms in \<open>auto simp: list_all_iff\<close>)

lemma reducer_length: "length (reducer ts a) \<le> max 1 (length ts)"
  by (cases "(ts, a)" rule: reducer.cases) (auto simp: TOAST_LIMIT_def intro: le_trans [OF length_filter_le])

lemma add_to_remove_queue_simps [simp]:
  "fst ` set (timers (add_to_remove_queue now i s)) = insert i (fst ` set (timers s))"
  "distinct (map fst (timers s)) \<Longrightarrow> distinct (map fst (timers (add_to_remove_queue now i s)))"
  "toasts (add_to_remove_queue now i s) = toasts s" "version (add_to_remove_queue now i s) = version s"
  "hooks (add_to_remove_queue now i s) = hooks s" "listeners (add_to_remove_queue now i s) = listeners s"
  "counter (add_to_remove_queue now i s) = counter s"
  by (auto simp: add_to_remove_queue_def)

lemma fold_queue_simps [simp]:
  "fst ` set (timers (fold (add_to_remove_queue now) is s)) = set is \<union> fst ` set (timers s)"
  "distinct (map fst (timers s)) \<Longrightarrow> distinct (map fst (timers (fold (add_to_remove_queue now) is s)))"
  "toasts (fold (add_to_remove_queue now) is s) = toasts s"
  "version (fold (add_to_remove_queue now) is s) = version s"
  "hooks (fold (add_to_remove_queue now) is s) = hooks s"
  "listeners (fold (add_to_remove_queue now) is s) = listeners s"
  "counter (fold (add_to_remove_queue now) is s) = counter s"
  by (induction "is" arbitrary: s) (auto simp del: add_to_remove_queue_simps(1) simp: add_to_remove_queue_simps(1))

lemma queue_removals_simps [simp]:
  "distinct (map fst (timers s)) \<Longrightarrow> distinct (map fst (timers (queue_removals now i s)))"
  "toasts (queue_removals now i s) = toasts s" "version (queue_removals now i s) = version s"
  "hooks (queue_removals now i s) = hooks s" "listeners (queue_removals now i s) = listeners s"
  "counter (queue_removals now i s) = counter s"
  by (simp_all add: queue_removals_def)

lemma notify_simps [simp]:
  "toasts (notify s) = toasts s" "timers (notify s) = timers s" "version (notify s) = version s"
  "listeners (notify s) = listeners s" "counter (notify s) = counter s"
  "map fst (hooks (notify s)) = map fst (hooks s)"
  by (simp_all add: notify_def comp_def case_prod_beta)

lemma map_of_notify:
  "map_of (hooks (notify s)) i = map_option (\<lambda>h. if i \<in> set (listeners s)
     then h\<lparr>h_state := toasts s, h_version := version s\<rparr> else h) (map_of (hooks s) i)"
proof -
  have "map_of (map (\<lambda>(i, h). (i, g i h)) xs) i = map_option (g i) (map_of xs i)" for g and xs :: "(nat, hook) omap"
    by (induction xs) auto
  then show ?thesis by (simp add: notify_def)
qed

lemma dispatch_simps [simp]:
  "toasts (dispatch now a s) = reducer (toasts s) a" "version (dispatch now a s) = Suc (version s)"
  "listeners (dispatch now a s) = listeners s" "counter (dispatch now a s) = counter s"
  "map fst (hooks (dispatch now a s)) = map fst (hooks s)"
  "timers (dispatch now a s) = (case a of DISMISS_TOAST i \<Rightarrow> timers (queue_removals now i s) | _ \<Rightarrow> timers s)"
  by (simp_all add: dispatch_def Let_def split: action.split)

lemma map_of_dispatch:
  "map_of (hooks (dispatch now a s)) i = map_option (\<lambda>h. if i \<in> set (listeners s)
     then h\<lparr>h_state := reducer (toasts s) a, h_version := Suc (version s)\<rparr> else h) (map_of (hooks s) i)"
  by (cases a; cases "map_of (hooks s) i"; simp add: dispatch_def Let_def map_of_notify)

text \<open>The invariant of the store.\<close>

declare map_of_eq_Some_iff [simp del]

definition hook_ok :: "store \<Rightarrow> nat \<Rightarrow> hook \<Rightarrow> bool" where
  "hook_ok s i h \<longleftrightarrow> (i \<in> set (listeners s) \<longleftrightarrow> h_effect h \<noteq> None) \<and> h_version h \<le> version s
     \<and> (h_version h = version s \<longrightarrow> h_state h = toasts s)"

definition store_ok :: "store \<Rightarrow> bool" where
  "store_ok s \<longleftrightarrow> length (toasts s) \<le> 1 \<and> list_all toast_ok (toasts s) \<and> distinct (map fst (timers s))
     \<and> distinct (map fst (hooks s)) \<and> distinct (listeners s)
     \<and> set (listeners s) \<subseteq> fst ` set (hooks s)
     \<and> (\<forall>i h. map_of (hooks s) i = Some h \<longrightarrow> hook_ok s i h)"

lemma dispatch_ok:
  assumes "store_ok s" and "action_ok a"
  shows "store_ok (dispatch now a s)"
proof -
  have "length (reducer (toasts s) a) \<le> 1"
    using reducer_length [of "toasts s" a] assms(1) by (simp add: store_ok_def)
  moreover have "fst ` set (hooks (dispatch now a s)) = fst ` set (hooks s)"
    by (metis dispatch_simps(5) list.set_map)
  moreover have "hook_ok (dispatch now a s) i h" if m: "map_of (hooks (dispatch now a s)) i = Some h" for i h
  proof -
    obtain h0 where h0: "map_of (hooks s) i = Some h0" using m by (auto simp: map_of_dispatch)
    then have "hook_ok s i h0" using assms(1) by (simp add: store_ok_def)
    then show ?thesis using m h0
      by (auto simp: map_of_dispatch hook_ok_def split: if_splits)
  qed
  ultimately show ?thesis
    using assms reducer_ok [of "toasts s" a] by (auto simp: store_ok_def split: action.split)
qed


lemma set_timers_ok: "store_ok s \<Longrightarrow> distinct (map fst ts) \<Longrightarrow> store_ok (s\<lparr>timers := ts\<rparr>)"
  by (simp add: store_ok_def hook_ok_def)

lemma set_counter_ok: "store_ok s \<Longrightarrow> store_ok (s\<lparr>counter := c\<rparr>)"
  by (simp add: store_ok_def hook_ok_def)

lemma mount_ok:
  assumes "store_ok s" shows "store_ok (mount_hook i s)"
proof (cases "i \<in> fst ` set (hooks s)")
  case False
  then have "i \<notin> set (listeners s)" using assms by (auto simp: store_ok_def)
  then show ?thesis using assms False
    by (auto simp: mount_hook_def store_ok_def hook_ok_def map_add_def split: option.splits if_splits)
qed (simp add: mount_hook_def assms)

lemma hook_effect_ok:
  assumes "store_ok s" shows "store_ok (hook_effect i s)"
proof (cases "map_of (hooks s) i")
  case (Some h)
  have "hook_ok s i h" "i \<in> fst ` set (hooks s)"
    using assms Some by (auto simp: store_ok_def dest: map_of_SomeD intro: rev_image_eqI)
  then show ?thesis using assms Some
    by (auto simp: hook_effect_def store_ok_def hook_ok_def)
qed (simp add: hook_effect_def assms)

lemma unmount_ok:
  assumes "store_ok s" shows "store_ok (unmount_hook i s)"
proof -
  have "map_of (filter (\<lambda>(j, h). j \<noteq> i) xs) k = (if k = i then None else map_of xs k)" for k and xs :: "(nat, hook) omap"
    by (induction xs) auto
  moreover have "fst ` set (filter (\<lambda>(j, h). j \<noteq> i) xs) = fst ` set xs - {i}" for xs :: "(nat, hook) omap"
    by (induction xs) auto
  moreover have "distinct (map fst xs) \<Longrightarrow> distinct (map fst (filter (\<lambda>(j, h). j \<noteq> i) xs))"
    for xs :: "(nat, hook) omap"
    by (auto simp: distinct_map intro: inj_on_subset)
  ultimately show ?thesis using assms
    by (auto simp: unmount_hook_def store_ok_def hook_ok_def simp del: set_filter)
qed

lemma toast_step_ok:
  assumes "store_ok s" and "toast_step s t" shows "store_ok t"
  using assms(2)
proof cases
  case (add props now)
  then show ?thesis using assms(1)
    by (simp add: toast_def gen_id_def Let_def case_prod_beta dispatch_ok set_counter_ok action_ok_def new_toast_ok)
next
  case (update props now i)
  then show ?thesis using assms(1) by (simp add: update_def dispatch_ok action_ok_def toast_ok_def toast_id_def)
next
  case (dismiss now i)
  then show ?thesis using assms(1) by (simp add: dismiss_def dispatch_ok action_ok_def)
next
  case (open_change x now b)
  then show ?thesis using assms(1)
    by (simp add: open_change_def dismiss_def dispatch_ok action_ok_def split: option.split tval.split)
next
  case (timer i due now)
  have "distinct (map fst (filter (\<lambda>(j, due). j \<noteq> i) (timers s)))"
    using assms(1) by (auto simp: store_ok_def distinct_map intro: inj_on_subset)
  then show ?thesis using assms(1) timer
    by (simp add: timer_fires_def dispatch_ok action_ok_def set_timers_ok)
qed (use assms(1) in \<open>simp_all add: mount_ok hook_effect_ok unmount_ok\<close>)

definition is_initial :: "store \<Rightarrow> bool" where
  "is_initial s \<longleftrightarrow> s = initial_store"

interpretation toaster: stepwise toast_step is_initial store_ok
proof
  show "is_initial s \<Longrightarrow> store_ok s" for s by (simp add: is_initial_def initial_store_def store_ok_def)
qed (rule toast_step_ok)


section \<open>Properties of the toast store\<close>

definition reachable_store :: "store \<Rightarrow> bool" where
  "reachable_store s \<longleftrightarrow> toast_step\<^sup>*\<^sup>* initial_store s"

lemma reachable_ok: "reachable_store s \<Longrightarrow> store_ok s"
  by (auto simp: reachable_store_def is_initial_def intro: toaster.inv_reach)

lemma reachable_store_step: "reachable_store s \<Longrightarrow> toast_step s t \<Longrightarrow> reachable_store t"
  by (auto simp: reachable_store_def intro: rtranclp.rtrancl_into_rtrancl)

lemma reachable_initial: "reachable_store initial_store"
  by (simp add: reachable_store_def)

text \<open>A run for the witnesses: a hook mounts and subscribes, two toasts are shown, the second is dismissed.\<close>

definition demo_store :: store where
  "demo_store = dismiss 5 (Some (js ''2'')) (snd (toast 2 [(js ''title'', TNode (js ''b''))]
     (snd (toast 1 [(js ''title'', TNode (js ''a''))] (hook_effect 7 (mount_hook 7 initial_store))))))"

lemma reachable_demo: "reachable_store demo_store"
  unfolding demo_store_def
  by (intro reachable_store_step [OF _ toast_step.dismiss] reachable_store_step [OF _ toast_step.add]
      reachable_store_step [OF _ toast_step.hook_effect] reachable_store_step [OF _ toast_step.mount] reachable_initial)
    (simp_all add: is_object_def)

text \<open>C34. In every state the module can reach at most one toast is shown, every toast is an object with a
  string id, no id has two removal timers, and the listeners are exactly the hooks whose effect has
  run, each once.\<close>

theorem store_invariant:
  assumes "reachable_store s"
  shows "length (toasts s) \<le> TOAST_LIMIT \<and> list_all toast_ok (toasts s)
    \<and> distinct (map fst (timers s)) \<and> distinct (listeners s)
    \<and> set (listeners s) = {i. \<exists>h. map_of (hooks s) i = Some h \<and> h_effect h \<noteq> None}"
proof -
  have "store_ok s" by (rule reachable_ok [OF assms])
  moreover have "\<exists>h. map_of (hooks s) i = Some h" if "i \<in> set (listeners s)" for i
    using that \<open>store_ok s\<close> by (metis store_ok_def subsetD list.set_map map_of_eq_None_iff not_Some_eq)
  ultimately show ?thesis
    by (auto simp: store_ok_def hook_ok_def TOAST_LIMIT_def)
qed

theorem store_invariant_witness: "length (toasts demo_store) \<le> 1 \<and> distinct (map fst (timers demo_store))"
  using store_invariant [OF reachable_demo] by (simp add: TOAST_LIMIT_def)

fun draw_ids :: "nat \<Rightarrow> store \<Rightarrow> jstr list" where
  "draw_ids 0 s = []"
| "draw_ids (Suc k) s = (let (i, s') = gen_id s in i # draw_ids k s')"

lemma draw_ids_eq: "draw_ids k s = map (\<lambda>j. nat_str ((counter s + j) mod MAX_SAFE_INTEGER)) [1..<Suc k]"
proof (induction k arbitrary: s)
  case (Suc k)
  have "[1..<Suc (Suc k)] = 1 # map Suc [1..<Suc k]"
    by (metis One_nat_def map_Suc_upt upt_rec zero_less_Suc Suc_less_eq)
  then show ?case
    using Suc.IH [of "snd (gen_id s)"]
    by (simp add: gen_id_def Let_def comp_def mod_simps del: upt_Suc)
qed simp

lemma mod_shift_inj:
  fixes c m k :: nat
  assumes "k \<le> m" shows "inj_on (\<lambda>j. (c + j) mod m) {1..<Suc k}"
proof -
  have "x = y" if "(c + x) mod m = (c + y) mod m" "x \<le> y" "y < x + m" for x y
  proof (rule ccontr)
    assume "x \<noteq> y"
    moreover have "m dvd c + y - (c + x)"
      using that by (subst mod_eq_dvd_iff_nat [symmetric]) simp_all
    ultimately show False using that by (auto dest: dvd_imp_le)
  qed
  note le = this
  show ?thesis
  proof (rule inj_onI)
    fix x y assume r: "x \<in> {1..<Suc k}" "y \<in> {1..<Suc k}" and e: "(c + x) mod m = (c + y) mod m"
    from r assms have "y < x + m" "x < y + m" by auto
    then show "x = y" using le [OF e] le [OF e [symmetric]] by (cases "x \<le> y") auto
  qed
qed

text \<open>C36. The ids of consecutive toasts differ: any run of up to \<open>MAX_SAFE_INTEGER\<close> of them has no
  repetition, wherever the counter stands, also across its wrap-around.\<close>

theorem toast_ids_distinct:
  assumes "k \<le> MAX_SAFE_INTEGER"
  shows "distinct (draw_ids k s)"
proof -
  have "distinct (map (\<lambda>j. (counter s + j) mod MAX_SAFE_INTEGER) [1..<Suc k])"
    using mod_shift_inj [OF assms, of "counter s"] by (simp only: distinct_map distinct_upt set_upt simp_thms)
  then have "distinct (map nat_str (map (\<lambda>j. (counter s + j) mod MAX_SAFE_INTEGER) [1..<Suc k]))"
    by (subst distinct_map) (simp only: inj_on_def nat_str_inject simp_thms ball_simps Ball_def)
  then show ?thesis by (simp only: draw_ids_eq map_map comp_def)
qed

theorem toast_ids_distinct_witness:
  "distinct (draw_ids 3 (initial_store\<lparr>counter := 9007199254740989\<rparr>))"
  by (rule toast_ids_distinct) (simp add: MAX_SAFE_INTEGER_def)

text \<open>C35. Dismissing a toast closes exactly the toasts with its id and starts one removal timer for it,
  \<open>TOAST_REMOVE_DELAY\<close> from now; dismissing it again does not move the timer. When the timer fires,
  the timer and every toast with that id are gone and the others are as they were.\<close>

theorem dismiss_lifecycle:
  assumes "i \<noteq> []"
  defines "i' \<equiv> Some (TStr i)"
  shows "toasts (dismiss now (Some i) s) = map (\<lambda>t. if toast_id t = i' then put k_open (TBool False) t else t) (toasts s)
    \<and> timers (dismiss now (Some i) s) =
        (if i \<in> fst ` set (timers s) then timers s else timers s @ [(i, now + TOAST_REMOVE_DELAY)])
    \<and> timers (dismiss now' (Some i) (dismiss now (Some i) s)) = timers (dismiss now (Some i) s)
    \<and> toasts (timer_fires t i (dismiss now (Some i) s)) = filter (\<lambda>t. toast_id t \<noteq> i') (toasts s)
    \<and> i \<notin> fst ` set (timers (timer_fires t i (dismiss now (Some i) s)))"
proof -
  have "filter (\<lambda>t. toast_id t \<noteq> i') (map (\<lambda>t. if toast_id t = i' then put k_open (TBool False) t else t) ts)
      = filter (\<lambda>t. toast_id t \<noteq> i') ts" for ts
    by (induction ts) (auto simp: toast_id_def)
  then show ?thesis using assms(1)
    by (auto simp: dismiss_def timer_fires_def queue_removals_def add_to_remove_queue_def i'_def)
qed

theorem dismiss_lifecycle_witness:
  "toasts (timer_fires 1000005 (js ''2'') (dismiss 5 (Some (js ''2'')) demo_store))
    = filter (\<lambda>t. toast_id t \<noteq> Some (TStr (js ''2''))) (toasts demo_store)"
  using dismiss_lifecycle [of "js ''2''" 5 demo_store 5 1000005] by simp

text \<open>C37. Showing a toast replaces whatever was shown by the new toast, open, under a fresh id, with a close
  handler that dismisses that id; its other properties are the caller's. No timer is started or stopped.\<close>

theorem toast_shows_newest:
  "let (i, s') = toast now props s in
     \<exists>t. toasts s' = [t] \<and> toast_id t = Some (TStr i) \<and> map_of t k_open = Some (TBool True)
       \<and> map_of t k_on_open_change = Some (TDismissOnClose i) \<and> timers s' = timers s
       \<and> list_all (\<lambda>k. map_of t k = map_of props k) (removeAll k_id (removeAll k_open (removeAll k_on_open_change ks)))"
proof -
  have "map_of (new_toast i props) k = map_of props k" if "k \<notin> {k_id, k_open, k_on_open_change}" for i k
    using that by (simp add: new_toast_def)
  then show ?thesis
    by (auto simp: toast_def gen_id_def Let_def TOAST_LIMIT_def list_all_iff case_prod_beta)
qed

text \<open>C39. A dispatch reaches every subscribed hook: after it each hook whose effect has run holds the
  toasts in memory.\<close>

theorem subscribers_in_sync:
  assumes "reachable_store s"
  shows "list_all (\<lambda>(i, h). h_effect h = None \<or> h_state h = toasts (dispatch now a s)) (hooks (dispatch now a s))"
  unfolding list_all_iff
proof (safe)
  fix i h assume m: "(i, h) \<in> set (hooks (dispatch now a s))" and n: "h_state h \<noteq> toasts (dispatch now a s)"
  have ok: "store_ok s" by (rule reachable_ok [OF assms])
  then have "distinct (map fst (hooks (dispatch now a s)))" by (simp add: store_ok_def)
  then have "map_of (hooks (dispatch now a s)) i = Some h" using m by simp
  then obtain h0 where h0: "map_of (hooks s) i = Some h0"
      "h = (if i \<in> set (listeners s) then h0\<lparr>h_state := reducer (toasts s) a, h_version := Suc (version s)\<rparr> else h0)"
    by (auto simp: map_of_dispatch)
  moreover have "hook_ok s i h0" using ok h0(1) by (simp add: store_ok_def)
  ultimately show "h_effect h = None" using n by (auto simp: hook_ok_def split: if_splits)
qed

theorem subscribers_in_sync_witness:
  "list_all (\<lambda>(i, h). h_effect h = None \<or> h_state h = toasts (dispatch 9 (REMOVE_TOAST None) demo_store))
    (hooks (dispatch 9 (REMOVE_TOAST None) demo_store))"
  by (rule subscribers_in_sync [OF reachable_demo])


text \<open>A hook that has rendered but whose effect has not run yet misses a dispatch: it keeps the toasts
  from before, and its effect subscribes without catching up.\<close>

theorem late_subscriber_misses:
  assumes "i \<notin> fst ` set (hooks s)" and "i \<notin> set (listeners s)"
  shows "map_option h_state (map_of (hooks (hook_effect i (dispatch now a (mount_hook i s)))) i) = Some (toasts s)"
proof -
  have "map_of (hooks s) i = None" using assms(1) by (simp add: map_of_eq_None_iff)
  then have m: "map_of (hooks (mount_hook i s)) i = Some \<lparr>h_state = toasts s, h_version = version s, h_effect = None\<rparr>"
    using assms(1) by (simp add: mount_hook_def map_add_def)
  have "listeners (mount_hook i s) = listeners s" by (simp add: mount_hook_def)
  then have "map_of (hooks (dispatch now a (mount_hook i s))) i = map_of (hooks (mount_hook i s)) i"
    using assms(2) m by (simp add: map_of_dispatch)
  then show ?thesis using m by (simp add: hook_effect_def)
qed

theorem late_subscriber_misses_witness:
  "map_option h_state (map_of (hooks (hook_effect 7 (dispatch 1 (ADD_TOAST (new_toast (js ''1'') []))
     (mount_hook 7 initial_store)))) 7) = Some []"
  using late_subscriber_misses [of 7 initial_store 1 "ADD_TOAST (new_toast (js ''1'') [])"]
  by (simp add: initial_store_def)

section \<open>The types of the toasts\<close>

text \<open>
  \<open>ToasterToast\<close> of the source: an id, which is required, and optional properties, each of which may be
  left out or be \<open>undefined\<close>. \<open>title\<close> and \<open>description\<close> are nodes, \<open>action\<close> is an element, \<open>variant\<close> one of the
  two names of \<open>toastVariants\<close> or \<open>null\<close>; the further properties of the primitive are left open. A caller
  passes some of the properties, each of its type; the id is not the caller's to choose.
\<close>

definition k_title :: jstr where "k_title = js ''title''"
definition k_description :: jstr where "k_description = js ''description''"
definition k_action :: jstr where "k_action = js ''action''"
definition k_variant :: jstr where "k_variant = js ''variant''"

fun is_node :: "tval \<Rightarrow> bool" where
  "is_node (TDismissOnClose i) = False"
| "is_node (TCallback f) = False"
| "is_node v = True"

fun is_handler :: "tval \<Rightarrow> bool" where
  "is_handler (TDismissOnClose i) = True"
| "is_handler (TCallback f) = True"
| "is_handler v = False"

definition field_ok :: "jstr \<Rightarrow> tval \<Rightarrow> bool" where
  "field_ok k v =
     (if k = k_id then (case v of TStr i \<Rightarrow> True | _ \<Rightarrow> False)
      else v = TUndefined \<or>
        (if k = k_open then (case v of TBool b \<Rightarrow> True | _ \<Rightarrow> False)
         else if k = k_on_open_change then is_handler v
         else if k = k_title \<or> k = k_description then is_node v
         else if k = k_action then (case v of TNode n \<Rightarrow> True | _ \<Rightarrow> False)
         else if k = k_variant then v \<in> {TStr (js ''default''), TStr (js ''destructive''), TNull}
         else True))"

definition props_conform :: "toast \<Rightarrow> bool" where
  "props_conform p \<longleftrightarrow> is_object p \<and> list_all (\<lambda>(k, v). k = k_id \<or> field_ok k v) p"

definition conforms :: "toast \<Rightarrow> bool" where
  "conforms t \<longleftrightarrow> is_object t \<and> list_all (\<lambda>(k, v). field_ok k v) t
     \<and> {k_id, k_open, k_on_open_change} \<subseteq> fst ` set t"

inductive typed_step :: "store \<Rightarrow> store \<Rightarrow> bool" where
  add: "props_conform props \<Longrightarrow> typed_step s (snd (toast now props s))"
| update: "props_conform props \<Longrightarrow> typed_step s (update now i props s)"
| dismiss: "typed_step s (dismiss now i s)"
| open_change: "t \<in> set (toasts s) \<Longrightarrow> typed_step s (open_change now b t s)"
| timer: "(i, due) \<in> set (timers s) \<Longrightarrow> due \<le> now \<Longrightarrow> typed_step s (timer_fires now i s)"
| mount: "typed_step s (mount_hook i s)"
| hook_effect: "typed_step s (hook_effect i s)"
| unmount: "typed_step s (unmount_hook i s)"

lemma field_ok_simps [simp]:
  "field_ok k_id v \<longleftrightarrow> (\<exists>i. v = TStr i)" "field_ok k_open v \<longleftrightarrow> v = TUndefined \<or> (\<exists>b. v = TBool b)"
  "field_ok k_on_open_change v \<longleftrightarrow> v = TUndefined \<or> is_handler v"
  by (auto simp: field_ok_def split: tval.splits)

lemma object_entries:
  assumes "is_object p"
  shows "list_all (\<lambda>(k, v). P k v) p \<longleftrightarrow> (\<forall>k v. map_of p k = Some v \<longrightarrow> P k v)"
proof -
  have "map_of p k = Some v \<longleftrightarrow> (k, v) \<in> set p" for k v
    using assms by (simp add: is_object_def map_of_eq_Some_iff)
  then show ?thesis by (fastforce simp: list_all_iff)
qed

lemma props_conform_iff:
  "props_conform p \<longleftrightarrow> is_object p \<and> (\<forall>k v. map_of p k = Some v \<longrightarrow> k = k_id \<or> field_ok k v)"
  using object_entries [of p "\<lambda>k v. k = k_id \<or> field_ok k v"] by (auto simp: props_conform_def)

lemma conforms_iff:
  "conforms t \<longleftrightarrow> is_object t \<and> (\<forall>k v. map_of t k = Some v \<longrightarrow> field_ok k v)
     \<and> (\<forall>k\<in>{k_id, k_open, k_on_open_change}. map_of t k \<noteq> None)"
proof (cases "is_object t")
  case True
  from object_entries [OF True, of field_ok] True show ?thesis
    by (auto simp: conforms_def map_of_eq_None_iff)
qed (simp add: conforms_def)

lemma conform_put [simp]: "props_conform p \<Longrightarrow> k = k_id \<or> field_ok k v \<Longrightarrow> props_conform (put k v p)"
  by (auto simp: props_conform_iff)

lemma conforms_put: "conforms t \<Longrightarrow> field_ok k v \<Longrightarrow> conforms (put k v t)"
  by (auto simp: conforms_iff simp del: not_None_eq)

lemma conforms_put_all: "conforms t \<Longrightarrow> props_conform p \<Longrightarrow> map_of p k_id \<in> {None, Some (TStr i)} \<Longrightarrow> conforms (put_all p t)"
  by (fastforce simp: conforms_iff props_conform_iff map_of_put_all_object split: option.splits)

lemma conforms_new: "props_conform p \<Longrightarrow> conforms (new_toast i p)"
  by (auto simp: conforms_iff props_conform_iff new_toast_def split: if_splits)

definition action_conforms :: "action \<Rightarrow> bool" where
  "action_conforms a = (case a of ADD_TOAST t \<Rightarrow> conforms t | UPDATE_TOAST p \<Rightarrow> props_conform p \<and> (\<exists>i. map_of p k_id = Some (TStr i)) | _ \<Rightarrow> True)"

lemma reducer_conforms:
  assumes "list_all conforms ts" and "action_conforms a"
  shows "list_all conforms (reducer ts a)"
proof (cases "(ts, a)" rule: reducer.cases)
  case (1 ts' t)
  then show ?thesis using assms by (cases ts) (auto simp: action_conforms_def TOAST_LIMIT_def)
next
  case (2 ts' p)
  then show ?thesis using assms by (auto simp: list_all_iff action_conforms_def conforms_put_all)
next
  case (3 ts' i)
  then show ?thesis using assms by (auto simp: list_all_iff intro!: conforms_put)
qed (use assms in \<open>auto simp: list_all_iff\<close>)

definition toasts_typed :: "store \<Rightarrow> bool" where
  "toasts_typed s \<longleftrightarrow> list_all conforms (toasts s)"

lemma toasts_typed_frame [simp]:
  "toasts_typed (s\<lparr>counter := c\<rparr>) = toasts_typed s" "toasts_typed (s\<lparr>timers := ts\<rparr>) = toasts_typed s"
  "toasts_typed (mount_hook i s) = toasts_typed s" "toasts_typed (hook_effect i s) = toasts_typed s"
  "toasts_typed (unmount_hook i s) = toasts_typed s"
  by (simp_all add: toasts_typed_def mount_hook_def hook_effect_def unmount_hook_def split: option.split)

lemma dispatch_typed: "toasts_typed s \<Longrightarrow> action_conforms a \<Longrightarrow> toasts_typed (dispatch now a s)"
  by (simp add: toasts_typed_def reducer_conforms)

interpretation typing: stepwise typed_step is_initial toasts_typed
proof
  fix s t assume "toasts_typed s" and "typed_step s t"
  from this(2,1) show "toasts_typed t"
    by (cases rule: typed_step.cases)
      (simp_all add: toast_def gen_id_def Let_def update_def dismiss_def open_change_def timer_fires_def
        dispatch_typed action_conforms_def conforms_new split: option.split tval.split)
qed (simp add: is_initial_def initial_store_def toasts_typed_def)

text \<open>C38. Type soundness of the store: while callers pass properties of the declared types, every toast it
  ever holds conforms to \<open>ToasterToast\<close>, whatever updates are spread over it, and has its id, its open flag and
  its close handler as properties. An update may leave the flag \<open>undefined\<close>, since the type allows it, and
  only then is a toast in the store whose flag is not a truth value.\<close>

theorem toasts_conform:
  assumes "typed_step\<^sup>*\<^sup>* initial_store s" and "t \<in> set (toasts s)"
  shows "conforms t \<and> (\<exists>i. map_of t k_id = Some (TStr i))
    \<and> map_of t k_open \<in> {Some (TBool True), Some (TBool False), Some TUndefined}"
proof -
  have c: "conforms t"
    using typing.inv_reach [OF assms(1)] assms(2) by (simp add: is_initial_def toasts_typed_def list_all_iff)
  then obtain v w where v: "map_of t k_id = Some v" "map_of t k_open = Some w" by (auto simp: conforms_iff)
  with c have "field_ok k_id v" "field_ok k_open w" unfolding conforms_iff by blast+
  with v c show ?thesis by auto
qed

theorem toasts_conform_witness:
  "conforms (put_all [(k_open, TUndefined), (k_id, TStr (js ''1''))] (new_toast (js ''1'') [(k_title, TNode (js ''a''))]))"
proof -
  let ?s1 = "snd (toast 1 [(k_title, TNode (js ''a''))] initial_store)"
  let ?s2 = "update 2 (js ''1'') [(k_open, TUndefined)] ?s1"
  have k: "k_title \<notin> {k_id, k_open, k_on_open_change}"
    by (simp add: k_title_def k_id_def k_open_def k_on_open_change_def)
  have "props_conform [(k_title, TNode (js ''a''))]" "props_conform [(k_open, TUndefined)]"
    using k by (simp_all add: props_conform_def is_object_def) (simp add: field_ok_def)
  then have "typed_step initial_store ?s1" "typed_step ?s1 ?s2" by (simp_all add: typed_step.add typed_step.update)
  then have "typed_step\<^sup>*\<^sup>* initial_store ?s2" by simp
  moreover have pid: "toast_id [(k_open, TUndefined), (k_id, TStr (js ''1''))] = Some (TStr (js ''1''))"
    by (simp add: toast_id_def)
  have "toasts ?s1 = [new_toast (js ''1'') [(k_title, TNode (js ''a''))]]"
    by (simp add: toast_def gen_id_def Let_def TOAST_LIMIT_def initial_store_def MAX_SAFE_INTEGER_def nat_str_small)
  then have "put_all [(k_open, TUndefined), (k_id, TStr (js ''1''))] (new_toast (js ''1'') [(k_title, TNode (js ''a''))])
      \<in> set (toasts ?s2)"
    using pid by (simp add: update_def)
  ultimately show ?thesis using toasts_conform by blast
qed

end
