(* ===== verification/Jsx.thy ===== *)
theory Jsx imports Prelude begin

section \<open>Elements, properties and events\<close>

text \<open>
  What a component of the web application returns: a list of nodes, empty for \<open>null\<close>. An element has a tag
  and properties in the order they were written, its children among them under \<open>children\<close>, as React
  has it. Components of this repository are functions from properties to nodes, applied where they are
  used; components of libraries (icons, Radix primitives, the chart library) stay elements with the
  library's name. The class merging \<open>cn\<close> rests on and the variant function \<open>cva\<close> are library functions: a
  record \<open>ui\<close> of them is a parameter of every component. A component or a formatter that is handed to a library
  is passed by its name, \<open>PRef\<close>. A handler is a function from what it reads of
  the event to the actions it performs; the flag says that it stops the event from bubbling.
\<close>

datatype tag = Host string | Lib string

datatype 'a pval =
    PStr jstr
  | PNum rat
  | PBool bool
  | PNull
  | PUndef
  | PFun bool "jstr \<Rightarrow> 'a list"
  | PNodes "'a node list"
  | PObj "(string \<times> 'a pval) list"
  | PArr "'a pval list"
  | PRef string
and 'a node =
    Text jstr
  | Elem tag "(string \<times> 'a pval) list"

type_synonym 'a props = "(string \<times> 'a pval) list"

record cva_spec =
  cva_base :: jstr
  cva_variants :: "(string \<times> (string \<times> jstr) list) list"
  cva_defaults :: "(string \<times> string) list"

record 'a ui =
  ui_cn :: "'a pval list \<Rightarrow> jstr"
  ui_cva :: "cva_spec \<Rightarrow> (string \<times> 'a pval) list \<Rightarrow> jstr"

type_synonym 'a component = "'a ui \<Rightarrow> 'a props \<Rightarrow> 'a node list"

subsection \<open>JavaScript values\<close>

fun truthy :: "'a pval \<Rightarrow> bool" where
  "truthy (PStr s) = (s \<noteq> [])"
| "truthy (PNum q) = (q \<noteq> 0)"
| "truthy (PBool b) = b"
| "truthy PNull = False"
| "truthy PUndef = False"
| "truthy _ = True"

definition js_and :: "'a pval \<Rightarrow> 'a pval \<Rightarrow> 'a pval" where
  "js_and a b = (if truthy a then b else a)"

definition js_or :: "'a pval \<Rightarrow> 'a pval \<Rightarrow> 'a pval" where
  "js_or a b = (if truthy a then a else b)"

definition nullish :: "'a pval \<Rightarrow> bool" where
  "nullish a = (case a of PNull \<Rightarrow> True | PUndef \<Rightarrow> True | _ \<Rightarrow> False)"

definition js_coalesce :: "'a pval \<Rightarrow> 'a pval \<Rightarrow> 'a pval" where
  "js_coalesce a b = (if nullish a then b else a)"

definition js_not :: "'a pval \<Rightarrow> 'a pval" where
  "js_not a = PBool (\<not> truthy a)"

text \<open>\<open>===\<close> on primitive values\<close>

fun js_eq :: "'a pval \<Rightarrow> 'a pval \<Rightarrow> bool" where
  "js_eq (PStr s) (PStr t) = (s = t)"
| "js_eq (PNum p) (PNum q) = (p = q)"
| "js_eq (PBool b) (PBool c) = (b = c)"
| "js_eq PNull PNull = True"
| "js_eq PUndef PUndef = True"
| "js_eq _ _ = False"

definition is_str :: "'a pval \<Rightarrow> bool" where
  "is_str a = (case a of PStr _ \<Rightarrow> True | _ \<Rightarrow> False)"

definition is_arr :: "'a pval \<Rightarrow> bool" where
  "is_arr a = (case a of PArr _ \<Rightarrow> True | _ \<Rightarrow> False)"

definition items :: "'a pval \<Rightarrow> 'a pval list" where
  "items a = (case a of PArr vs \<Rightarrow> vs | _ \<Rightarrow> [])"

text \<open>\<open>a[i]\<close> of an array\<close>

definition arr_at :: "'a pval \<Rightarrow> 'a pval \<Rightarrow> 'a pval" where
  "arr_at a i = (case i of
       PNum q \<Rightarrow> if 0 \<le> q \<and> q < of_nat (length (items a)) \<and> of_int \<lfloor>q\<rfloor> = q then items a ! nat \<lfloor>q\<rfloor> else PUndef
     | _ \<Rightarrow> PUndef)"

definition num_of :: "'a pval \<Rightarrow> rat" where
  "num_of a = (case a of PNum q \<Rightarrow> q | _ \<Rightarrow> 0)"

text \<open>The text of a value in a template; of numbers only whole ones are used.\<close>

definition as_text :: "'a pval \<Rightarrow> jstr" where
  "as_text a = (case a of
       PStr s \<Rightarrow> s
     | PNum q \<Rightarrow> int_str \<lfloor>q\<rfloor>
     | PBool b \<Rightarrow> if b then js ''true'' else js ''false''
     | PNull \<Rightarrow> js ''null''
     | PUndef \<Rightarrow> js ''undefined''
     | _ \<Rightarrow> js ''[object Object]'')"

text \<open>Two handlers run after the other.\<close>

definition both :: "'a pval \<Rightarrow> 'a pval \<Rightarrow> 'a pval" where
  "both a b = (case (a, b) of
       (PFun s f, PFun t g) \<Rightarrow> PFun (s \<or> t) (\<lambda>v. f v @ g v)
     | (PFun s f, _) \<Rightarrow> PFun s f
     | (_, _) \<Rightarrow> b)"

definition pget :: "string \<Rightarrow> 'a props \<Rightarrow> 'a pval" where
  "pget k ps = (case map_of ps k of None \<Rightarrow> PUndef | Some v \<Rightarrow> v)"

text \<open>A property of a value; \<open>a?.k\<close> where \<open>a\<close> may be nullish.\<close>

definition member :: "'a pval \<Rightarrow> string \<Rightarrow> 'a pval" where
  "member a k = (case a of PObj ps \<Rightarrow> pget k ps | _ \<Rightarrow> PUndef)"

text \<open>A destructured property with a default.\<close>

definition pget_or :: "string \<Rightarrow> 'a pval \<Rightarrow> 'a props \<Rightarrow> 'a pval" where
  "pget_or k d ps = (case pget k ps of PUndef \<Rightarrow> d | v \<Rightarrow> v)"

definition rest_of :: "string list \<Rightarrow> 'a props \<Rightarrow> 'a props" where
  "rest_of ks ps = filter (\<lambda>(k, v). k \<notin> set ks) ps"

text \<open>The properties a value contributes when it is spread.\<close>

definition spread :: "'a pval \<Rightarrow> 'a props" where
  "spread a = (case a of PObj ps \<Rightarrow> ps | _ \<Rightarrow> [])"

definition obj :: "'a props list \<Rightarrow> 'a pval" where
  "obj parts = PObj (put_all (concat parts) [])"

abbreviation attr :: "string \<Rightarrow> 'a pval \<Rightarrow> 'a props" where
  "attr k v \<equiv> [(k, v)]"

abbreviation cs :: "string \<Rightarrow> 'a pval" where
  "cs s \<equiv> PStr (js s)"

subsection \<open>Elements\<close>

text \<open>What a value shows as a child.\<close>

fun child :: "'a pval \<Rightarrow> 'a node list" where
  "child (PStr s) = (if s = [] then [] else [Text s])"
| "child (PNodes ns) = ns"
| "child (PArr vs) = concat (map child vs)"
| "child (PNum q) = [Text (as_text (PNum q :: 'a pval))]"
| "child _ = []"

definition attrs :: "'a props list \<Rightarrow> 'a node list list \<Rightarrow> 'a props" where
  "attrs parts kids =
     (let ps = put_all (concat parts) []
      in if kids = [] then ps else put ''children'' (PNodes (concat kids)) ps)"

definition elem :: "tag \<Rightarrow> 'a props list \<Rightarrow> 'a node list list \<Rightarrow> 'a node list" where
  "elem t parts kids = [Elem t (attrs parts kids)]"

abbreviation host :: "string \<Rightarrow> 'a props list \<Rightarrow> 'a node list list \<Rightarrow> 'a node list" where
  "host s \<equiv> elem (Host s)"

abbreviation lib :: "string \<Rightarrow> 'a props list \<Rightarrow> 'a node list list \<Rightarrow> 'a node list" where
  "lib s \<equiv> elem (Lib s)"

definition tx :: "string \<Rightarrow> 'a node list" where
  "tx s = [Text (js s)]"

definition kids_of :: "'a node \<Rightarrow> 'a node list" where
  "kids_of n = (case n of Text s \<Rightarrow> [] | Elem t ps \<Rightarrow> child (pget ''children'' ps))"

subsection \<open>Events\<close>

text \<open>
  The nodes from the root down to a target, given by positions; the click handlers of a chain from the
  target outwards, until one stops the event. A disabled host element delivers no click. What a handler
  reads of a change is the new text; of a click, whether the target lies in a button (\<open>button\<close>).
\<close>

fun descend :: "'a node list \<Rightarrow> nat list \<Rightarrow> 'a node list" where
  "descend ns [] = []"
| "descend ns (i # p) = (if i < length ns then ns ! i # descend (kids_of (ns ! i)) p else [])"

lemma descend_append:
  "descend (ns @ ms) (j # p) =
     (if j < length ns then descend ns (j # p) else descend ms ((j - length ns) # p))"
  by (auto simp: nth_append)

definition handler :: "string \<Rightarrow> 'a node \<Rightarrow> (bool \<times> (jstr \<Rightarrow> 'a list)) option" where
  "handler k n = (case n of
       Text s \<Rightarrow> None
     | Elem t ps \<Rightarrow> (case pget k ps of PFun stops f \<Rightarrow> Some (stops, f) | _ \<Rightarrow> None))"

definition disabled :: "'a node \<Rightarrow> bool" where
  "disabled n = (case n of Elem (Host t) ps \<Rightarrow> truthy (pget ''disabled'' ps) | _ \<Rightarrow> False)"

fun bubble :: "string \<Rightarrow> jstr \<Rightarrow> 'a node list \<Rightarrow> 'a list" where
  "bubble k v [] = []"
| "bubble k v (n # ns) = (case handler k n of
       None \<Rightarrow> bubble k v ns
     | Some (stops, f) \<Rightarrow> f v @ (if stops then [] else bubble k v ns))"

definition is_button :: "'a node \<Rightarrow> bool" where
  "is_button n = (case n of Elem (Host t) ps \<Rightarrow> t = ''button'' | _ \<Rightarrow> False)"

definition closest_button :: "'a node list \<Rightarrow> jstr" where
  "closest_button chain = (if list_ex is_button chain then js ''button'' else [])"

definition click :: "'a node list \<Rightarrow> nat list \<Rightarrow> 'a list" where
  "click ns p =
     (let chain = rev (descend ns p)
      in if list_ex disabled chain then [] else bubble ''onClick'' (closest_button chain) chain)"

definition fire :: "string \<Rightarrow> jstr \<Rightarrow> 'a node \<Rightarrow> 'a list" where
  "fire k v n = (case handler k n of None \<Rightarrow> [] | Some (stops, f) \<Rightarrow> f v)"

text \<open>A property of an element on the page\<close>

definition node_prop :: "string \<Rightarrow> 'a node \<Rightarrow> 'a pval" where
  "node_prop k n = (case n of Text s \<Rightarrow> PUndef | Elem t ps \<Rightarrow> pget k ps)"

section \<open>Lemmas\<close>

lemma node_prop_Elem [simp]: "node_prop k (Elem t ps) = pget k ps"
  by (simp add: node_prop_def)

lemma js_inject [simp]: "js s = js t \<longleftrightarrow> s = t"
  unfolding js_def by (rule inj_map_eq_map) (simp add: inj_def)

declare js_Cons [simp del] js_Nil [simp del]

lemma js_empty [simp]: "js s = [] \<longleftrightarrow> s = []" "[] = js s \<longleftrightarrow> s = []"
  by (auto simp: js_def)

lemma pget_put_all: "pget k (put_all kvs []) = (case map_of (rev kvs) k of None \<Rightarrow> PUndef | Some v \<Rightarrow> v)"
  by (simp add: pget_def map_of_put_all)

lemma pget_attrs:
  "pget k (attrs parts kids) =
     (if k = ''children'' \<and> kids \<noteq> [] then PNodes (concat kids)
      else case map_of (rev (concat parts)) k of None \<Rightarrow> PUndef | Some v \<Rightarrow> v)"
  by (simp add: attrs_def Let_def pget_def map_of_put_all)

lemma kids_of_elem: "kids_of (Elem t (attrs parts kids)) =
    (if kids \<noteq> [] then concat kids else child (pget ''children'' (attrs parts [])))"
  by (simp add: kids_of_def pget_attrs)

lemma map_of_rest: "map_of (rest_of ks ps) k = (if k \<in> set ks then None else map_of ps k)"
  by (induction ps) (auto simp: rest_of_def)

lemma map_of_rev_rest: "map_of (rev (rest_of ks ps)) k = (if k \<in> set ks then None else map_of (rev ps) k)"
proof -
  have "rev (rest_of ks ps) = rest_of ks (rev ps)" by (simp add: rest_of_def rev_filter)
  then show ?thesis by (simp add: map_of_rest)
qed

subsection \<open>Trees without click handlers\<close>

text \<open>A click anywhere in a silent part of the page only reaches what is around it.\<close>

definition silent :: "'a node list \<Rightarrow> bool" where
  "silent ns \<longleftrightarrow> (\<forall>p. \<forall>n\<in>set (descend ns p). handler ''onClick'' n = None \<and> \<not> disabled n)"

lemma silent_iff:
  "silent ns \<longleftrightarrow> (\<forall>n\<in>set ns. handler ''onClick'' n = None \<and> \<not> disabled n \<and> silent (kids_of n))"
proof
  assume s: "silent ns"
  show "\<forall>n\<in>set ns. handler ''onClick'' n = None \<and> \<not> disabled n \<and> silent (kids_of n)"
  proof
    fix n assume "n \<in> set ns"
    then obtain i where "i < length ns" "ns ! i = n" by (auto simp: in_set_conv_nth)
    then have "descend ns (i # p) = n # descend (kids_of n) p" for p by simp
    with s show "handler ''onClick'' n = None \<and> \<not> disabled n \<and> silent (kids_of n)"
      unfolding silent_def by (metis list.set_intros)
  qed
next
  assume a: "\<forall>n\<in>set ns. handler ''onClick'' n = None \<and> \<not> disabled n \<and> silent (kids_of n)"
  show "silent ns" unfolding silent_def
  proof (rule allI)
    fix p show "\<forall>n\<in>set (descend ns p). handler ''onClick'' n = None \<and> \<not> disabled n"
      using a by (cases p) (auto simp: silent_def dest: bspec [OF _ nth_mem])
  qed
qed

lemma silent_Nil [simp]: "silent []"
  unfolding silent_iff [of "[]"] by simp

lemma silent_Cons [simp]:
  "silent (n # ns) \<longleftrightarrow> handler ''onClick'' n = None \<and> \<not> disabled n \<and> silent (kids_of n) \<and> silent ns"
  unfolding silent_iff [of "n # ns"] silent_iff [of ns] by auto

lemma silent_append [simp]: "silent (xs @ ys) \<longleftrightarrow> silent xs \<and> silent ys"
  unfolding silent_iff [of "xs @ ys"] silent_iff [of xs] silent_iff [of ys] by auto

lemma silent_Text [simp]: "handler k (Text s) = None" "\<not> disabled (Text s)" "kids_of (Text s) = []"
  by (simp_all add: handler_def disabled_def kids_of_def)

lemma silent_shown [simp]: "silent (child (PStr s))" by simp

text \<open>What a click on an element of the source looks at\<close>

definition own_handler :: "'a pval \<Rightarrow> (bool \<times> (jstr \<Rightarrow> 'a list)) option" where
  "own_handler v = (case v of PFun stops f \<Rightarrow> Some (stops, f) | _ \<Rightarrow> None)"

lemma handler_elem: "handler k (Elem t (attrs parts kids)) = own_handler (pget k (attrs parts kids))"
  by (simp add: handler_def own_handler_def)

lemma disabled_elem: "disabled (Elem t (attrs parts kids)) =
    (case t of Host s \<Rightarrow> truthy (pget ''disabled'' (attrs parts kids)) | Lib s \<Rightarrow> False)"
  by (simp add: disabled_def split: tag.split)

lemmas click_eval = handler_elem disabled_elem kids_of_elem pget_attrs own_handler_def

lemma bubble_silent:
  assumes "\<forall>n\<in>set ns. handler k n = None"
  shows "bubble k v (ns @ ms) = bubble k v ms"
  using assms by (induction ns) auto

lemma silent_bubble: "silent ns \<Longrightarrow> bubble ''onClick'' v (rev (descend ns p) @ ms) = bubble ''onClick'' v ms"
  by (rule bubble_silent) (auto simp: silent_def)

lemma silent_enabled: "silent ns \<Longrightarrow> \<not> list_ex disabled (descend ns p)"
  by (auto simp: silent_def list_ex_iff)

end
