(* ===== verification/UiBase.thy ===== *)
theory UiBase imports Jsx begin

section \<open>Basic controls (components/ui)\<close>

text \<open>
  Each component of the files below is the function from its properties to what it renders: the
  properties it destructures, with their defaults, the remaining ones spread where the source spreads
  them, and the class lists passed to the merging function in the source's order.
\<close>

subsection \<open>components/ui/button.tsx\<close>

definition buttonVariants :: cva_spec where
  "buttonVariants =
     \<lparr>cva_base = (js ''inline-flex items-center justify-center gap-2 whitespace-nowrap rounded-md text-sm font-medium transition-all disabled:pointer-events-none disabled:opacity-50 [&_svg]:pointer-events-none [&_svg:not([class*='size-'])]:size-4 shrink-0 [&_svg]:shrink-0 outline-none focus-visible:border-ring focus-visible:ring-ring/50 focus-visible:ring-[3px] aria-invalid:ring-destructive/20 dark:aria-invalid:ring-destructive/40 aria-invalid:border-destructive''),
      cva_variants = [(''variant'', [(''default'', js ''bg-primary text-primary-foreground hover:bg-primary/90''),
        (''destructive'', js ''bg-destructive text-white hover:bg-destructive/90 focus-visible:ring-destructive/20 dark:focus-visible:ring-destructive/40 dark:bg-destructive/60''),
        (''outline'', js ''border bg-background shadow-xs hover:bg-accent hover:text-accent-foreground dark:bg-input/30 dark:border-input dark:hover:bg-input/50''),
        (''secondary'', js ''bg-secondary text-secondary-foreground hover:bg-secondary/80''),
        (''ghost'', js ''hover:bg-accent hover:text-accent-foreground dark:hover:bg-accent/50''),
        (''link'', js ''text-primary underline-offset-4 hover:underline'')]),
       (''size'', [(''default'', js ''h-9 px-4 py-2 has-[>svg]:px-3''),
        (''sm'', js ''h-8 rounded-md gap-1.5 px-3 has-[>svg]:px-2.5''),
        (''lg'', js ''h-10 rounded-md px-6 has-[>svg]:px-4''),
        (''icon'', js ''size-9''),
        (''icon-sm'', js ''size-8''),
        (''icon-lg'', js ''size-10'')])],
      cva_defaults = [(''variant'', ''default''), (''size'', ''default'')]\<rparr>"

definition Button :: "'a component" where
  "Button L ps =
     (let className = pget ''className'' ps;
          variant = pget ''variant'' ps;
          size1 = pget ''size'' ps;
          asChild = pget_or ''asChild'' (PBool False) ps;
          props = rest_of [''className'', ''variant'', ''size'', ''asChild''] ps
      in let Comp = (if truthy asChild then Lib ''Slot'' else Host ''button'') in
        elem Comp
          [attr ''data-slot'' (cs ''button''),
           attr ''className'' (PStr (ui_cn L
                 [PStr (ui_cva L buttonVariants
                      [(''variant'', variant),
                       (''size'', size1),
                       (''className'', className)])])),
           props] [])"

subsection \<open>components/ui/input.tsx\<close>

definition Input :: "'a component" where
  "Input L ps =
     (let className = pget ''className'' ps;
          type1 = pget ''type'' ps;
          props = rest_of [''className'', ''type''] ps
      in host ''input''
          [attr ''type'' type1,
           attr ''data-slot'' (cs ''input''),
           attr ''className'' (PStr (ui_cn L
                 [cs
                    ''file:text-foreground placeholder:text-muted-foreground selection:bg-primary selection:text-primary-foreground dark:bg-input/30 border-input h-9 w-full min-w-0 rounded-md border bg-transparent px-3 py-1 text-base shadow-xs transition-[color,box-shadow] outline-none file:inline-flex file:h-7 file:border-0 file:bg-transparent file:text-sm file:font-medium disabled:pointer-events-none disabled:cursor-not-allowed disabled:opacity-50 md:text-sm'',
                  cs ''focus-visible:border-ring focus-visible:ring-ring/50 focus-visible:ring-[3px]'',
                  cs
                    ''aria-invalid:ring-destructive/20 dark:aria-invalid:ring-destructive/40 aria-invalid:border-destructive'',
                  className])),
           props] [])"

subsection \<open>components/ui/label.tsx\<close>

definition Label :: "'a component" where
  "Label L ps =
     (let className = pget ''className'' ps;
          props = rest_of [''className''] ps
      in lib ''LabelPrimitive.Root''
          [attr ''data-slot'' (cs ''label''),
           attr ''className'' (PStr (ui_cn L
                 [cs
                    ''flex items-center gap-2 text-sm leading-none font-medium select-none group-data-[disabled=true]:pointer-events-none group-data-[disabled=true]:opacity-50 peer-disabled:cursor-not-allowed peer-disabled:opacity-50'',
                  className])),
           props] [])"

subsection \<open>components/ui/separator.tsx\<close>

definition Separator :: "'a component" where
  "Separator L ps =
     (let className = pget ''className'' ps;
          orientation = pget_or ''orientation'' (cs ''horizontal'') ps;
          decorative = pget_or ''decorative'' (PBool True) ps;
          props = rest_of [''className'', ''orientation'', ''decorative''] ps
      in lib ''SeparatorPrimitive.Root''
          [attr ''data-slot'' (cs ''separator''),
           attr ''decorative'' decorative,
           attr ''orientation'' orientation,
           attr ''className'' (PStr (ui_cn L
                 [cs
                    ''bg-border shrink-0 data-[orientation=horizontal]:h-px data-[orientation=horizontal]:w-full data-[orientation=vertical]:h-full data-[orientation=vertical]:w-px'',
                  className])),
           props] [])"

subsection \<open>components/ui/skeleton.tsx\<close>

definition Skeleton :: "'a component" where
  "Skeleton L ps =
     (let className = pget ''className'' ps;
          props = rest_of [''className''] ps
      in host ''div''
          [attr ''data-slot'' (cs ''skeleton''),
           attr ''className'' (PStr (ui_cn L [cs ''bg-accent animate-pulse rounded-md'', className])),
           props] [])"

subsection \<open>components/ui/textarea.tsx\<close>

definition Textarea :: "'a component" where
  "Textarea L ps =
     (let className = pget ''className'' ps;
          props = rest_of [''className''] ps
      in host ''textarea''
          [attr ''data-slot'' (cs ''textarea''),
           attr ''className'' (PStr (ui_cn L
                 [cs
                    ''border-input placeholder:text-muted-foreground focus-visible:border-ring focus-visible:ring-ring/50 aria-invalid:ring-destructive/20 dark:aria-invalid:ring-destructive/40 aria-invalid:border-destructive dark:bg-input/30 flex field-sizing-content min-h-16 w-full rounded-md border bg-transparent px-3 py-2 text-base shadow-xs transition-[color,box-shadow] outline-none focus-visible:ring-[3px] disabled:cursor-not-allowed disabled:opacity-50 md:text-sm'',
                  className])),
           props] [])"

subsection \<open>components/ui/spinner.tsx\<close>

definition Spinner :: "'a component" where
  "Spinner L ps =
     (let className = pget ''className'' ps;
          props = rest_of [''className''] ps
      in lib ''Loader2Icon''
          [attr ''role'' (cs ''status''),
           attr ''aria-label'' (cs ''Loading''),
           attr ''className'' (PStr (ui_cn L [cs ''size-4 animate-spin'', className])),
           props] [])"

subsection \<open>components/ui/kbd.tsx\<close>

definition Kbd :: "'a component" where
  "Kbd L ps =
     (let className = pget ''className'' ps;
          props = rest_of [''className''] ps
      in host ''kbd''
          [attr ''data-slot'' (cs ''kbd''),
           attr ''className'' (PStr (ui_cn L
                 [cs
                    ''bg-muted w-fit text-muted-foreground pointer-events-none inline-flex h-5 min-w-5 items-center justify-center gap-1 rounded-sm px-1 font-sans text-xs font-medium select-none'',
                  cs ''[&_svg:not([class*='size-'])]:size-3'',
                  cs
                    ''[[data-slot=tooltip-content]_&]:bg-background/20 [[data-slot=tooltip-content]_&]:text-background dark:[[data-slot=tooltip-content]_&]:bg-background/10'',
                  className])),
           props] [])"

definition KbdGroup :: "'a component" where
  "KbdGroup L ps =
     (let className = pget ''className'' ps;
          props = rest_of [''className''] ps
      in host ''kbd''
          [attr ''data-slot'' (cs ''kbd-group''),
           attr ''className'' (PStr (ui_cn L [cs ''inline-flex items-center gap-1'', className])),
           props] [])"

subsection \<open>components/ui/badge.tsx\<close>

definition badgeVariants :: cva_spec where
  "badgeVariants =
     \<lparr>cva_base = (js ''inline-flex items-center justify-center rounded-md border px-2 py-0.5 text-xs font-medium w-fit whitespace-nowrap shrink-0 [&>svg]:size-3 gap-1 [&>svg]:pointer-events-none focus-visible:border-ring focus-visible:ring-ring/50 focus-visible:ring-[3px] aria-invalid:ring-destructive/20 dark:aria-invalid:ring-destructive/40 aria-invalid:border-destructive transition-[color,box-shadow] overflow-hidden''),
      cva_variants = [(''variant'', [(''default'', js ''border-transparent bg-primary text-primary-foreground [a&]:hover:bg-primary/90''),
        (''secondary'', js ''border-transparent bg-secondary text-secondary-foreground [a&]:hover:bg-secondary/90''),
        (''destructive'', js ''border-transparent bg-destructive text-white [a&]:hover:bg-destructive/90 focus-visible:ring-destructive/20 dark:focus-visible:ring-destructive/40 dark:bg-destructive/60''),
        (''outline'', js ''text-foreground [a&]:hover:bg-accent [a&]:hover:text-accent-foreground'')])],
      cva_defaults = [(''variant'', ''default'')]\<rparr>"

definition Badge :: "'a component" where
  "Badge L ps =
     (let className = pget ''className'' ps;
          variant = pget ''variant'' ps;
          asChild = pget_or ''asChild'' (PBool False) ps;
          props = rest_of [''className'', ''variant'', ''asChild''] ps
      in let Comp = (if truthy asChild then Lib ''Slot'' else Host ''span'') in
        elem Comp
          [attr ''data-slot'' (cs ''badge''),
           attr ''className'' (PStr (ui_cn L [PStr (ui_cva L badgeVariants [(''variant'', variant)]), className])),
           props] [])"

subsection \<open>components/ui/card.tsx\<close>

definition Card :: "'a component" where
  "Card L ps =
     (let className = pget ''className'' ps;
          props = rest_of [''className''] ps
      in host ''div''
          [attr ''data-slot'' (cs ''card''),
           attr ''className'' (PStr (ui_cn L
                 [cs ''bg-card text-card-foreground flex flex-col gap-6 rounded-xl border py-6 shadow-sm'',
                  className])),
           props] [])"

definition CardHeader :: "'a component" where
  "CardHeader L ps =
     (let className = pget ''className'' ps;
          props = rest_of [''className''] ps
      in host ''div''
          [attr ''data-slot'' (cs ''card-header''),
           attr ''className'' (PStr (ui_cn L
                 [cs
                    ''@container/card-header grid auto-rows-min grid-rows-[auto_auto] items-start gap-2 px-6 has-data-[slot=card-action]:grid-cols-[1fr_auto] [.border-b]:pb-6'',
                  className])),
           props] [])"

definition CardTitle :: "'a component" where
  "CardTitle L ps =
     (let className = pget ''className'' ps;
          props = rest_of [''className''] ps
      in host ''div''
          [attr ''data-slot'' (cs ''card-title''),
           attr ''className'' (PStr (ui_cn L [cs ''leading-none font-semibold'', className])),
           props] [])"

definition CardDescription :: "'a component" where
  "CardDescription L ps =
     (let className = pget ''className'' ps;
          props = rest_of [''className''] ps
      in host ''div''
          [attr ''data-slot'' (cs ''card-description''),
           attr ''className'' (PStr (ui_cn L [cs ''text-muted-foreground text-sm'', className])),
           props] [])"

definition CardAction :: "'a component" where
  "CardAction L ps =
     (let className = pget ''className'' ps;
          props = rest_of [''className''] ps
      in host ''div''
          [attr ''data-slot'' (cs ''card-action''),
           attr ''className'' (PStr (ui_cn L [cs ''col-start-2 row-span-2 row-start-1 self-start justify-self-end'', className])),
           props] [])"

definition CardContent :: "'a component" where
  "CardContent L ps =
     (let className = pget ''className'' ps;
          props = rest_of [''className''] ps
      in host ''div''
          [attr ''data-slot'' (cs ''card-content''),
           attr ''className'' (PStr (ui_cn L [cs ''px-6'', className])),
           props] [])"

definition CardFooter :: "'a component" where
  "CardFooter L ps =
     (let className = pget ''className'' ps;
          props = rest_of [''className''] ps
      in host ''div''
          [attr ''data-slot'' (cs ''card-footer''),
           attr ''className'' (PStr (ui_cn L [cs ''flex items-center px-6 [.border-t]:pt-6'', className])),
           props] [])"

subsection \<open>components/ui/switch.tsx\<close>

definition Switch :: "'a component" where
  "Switch L ps =
     (let className = pget ''className'' ps;
          props = rest_of [''className''] ps
      in lib ''SwitchPrimitive.Root''
          [attr ''data-slot'' (cs ''switch''),
           attr ''className'' (PStr (ui_cn L
                 [cs
                    ''peer data-[state=checked]:bg-primary data-[state=unchecked]:bg-input focus-visible:border-ring focus-visible:ring-ring/50 dark:data-[state=unchecked]:bg-input/80 inline-flex h-[1.15rem] w-8 shrink-0 items-center rounded-full border border-transparent shadow-xs transition-all outline-none focus-visible:ring-[3px] disabled:cursor-not-allowed disabled:opacity-50'',
                  className])),
           props]
          [lib ''SwitchPrimitive.Thumb''
             [attr ''data-slot'' (cs ''switch-thumb''),
              attr ''className'' (cs
                  ''bg-background dark:data-[state=unchecked]:bg-foreground dark:data-[state=checked]:bg-primary-foreground pointer-events-none block size-4 rounded-full ring-0 transition-transform data-[state=checked]:translate-x-[calc(100%-2px)] data-[state=unchecked]:translate-x-0'')]
             []])"

subsection \<open>components/ui/checkbox.tsx\<close>

definition Checkbox :: "'a component" where
  "Checkbox L ps =
     (let className = pget ''className'' ps;
          props = rest_of [''className''] ps
      in lib ''CheckboxPrimitive.Root''
          [attr ''data-slot'' (cs ''checkbox''),
           attr ''className'' (PStr (ui_cn L
                 [cs
                    ''peer border-input dark:bg-input/30 data-[state=checked]:bg-primary data-[state=checked]:text-primary-foreground dark:data-[state=checked]:bg-primary data-[state=checked]:border-primary focus-visible:border-ring focus-visible:ring-ring/50 aria-invalid:ring-destructive/20 dark:aria-invalid:ring-destructive/40 aria-invalid:border-destructive size-4 shrink-0 rounded-[4px] border shadow-xs transition-shadow outline-none focus-visible:ring-[3px] disabled:cursor-not-allowed disabled:opacity-50'',
                  className])),
           props]
          [lib ''CheckboxPrimitive.Indicator''
             [attr ''data-slot'' (cs ''checkbox-indicator''),
              attr ''className'' (cs ''flex items-center justify-center text-current transition-none'')]
             [lib ''CheckIcon'' [attr ''className'' (cs ''size-3.5'')] []]])"

subsection \<open>components/ui/radio-group.tsx\<close>

definition RadioGroup :: "'a component" where
  "RadioGroup L ps =
     (let className = pget ''className'' ps;
          props = rest_of [''className''] ps
      in lib ''RadioGroupPrimitive.Root''
          [attr ''data-slot'' (cs ''radio-group''),
           attr ''className'' (PStr (ui_cn L [cs ''grid gap-3'', className])),
           props] [])"

definition RadioGroupItem :: "'a component" where
  "RadioGroupItem L ps =
     (let className = pget ''className'' ps;
          props = rest_of [''className''] ps
      in lib ''RadioGroupPrimitive.Item''
          [attr ''data-slot'' (cs ''radio-group-item''),
           attr ''className'' (PStr (ui_cn L
                 [cs
                    ''border-input text-primary focus-visible:border-ring focus-visible:ring-ring/50 aria-invalid:ring-destructive/20 dark:aria-invalid:ring-destructive/40 aria-invalid:border-destructive dark:bg-input/30 aspect-square size-4 shrink-0 rounded-full border shadow-xs transition-[color,box-shadow] outline-none focus-visible:ring-[3px] disabled:cursor-not-allowed disabled:opacity-50'',
                  className])),
           props]
          [lib ''RadioGroupPrimitive.Indicator''
             [attr ''data-slot'' (cs ''radio-group-indicator''),
              attr ''className'' (cs ''relative flex items-center justify-center'')]
             [lib ''CircleIcon''
                [attr ''className'' (cs ''fill-primary absolute top-1/2 left-1/2 size-2 -translate-x-1/2 -translate-y-1/2'')]
                []]])"

subsection \<open>components/ui/avatar.tsx\<close>

definition Avatar :: "'a component" where
  "Avatar L ps =
     (let className = pget ''className'' ps;
          props = rest_of [''className''] ps
      in lib ''AvatarPrimitive.Root''
          [attr ''data-slot'' (cs ''avatar''),
           attr ''className'' (PStr (ui_cn L [cs ''relative flex size-8 shrink-0 overflow-hidden rounded-full'', className])),
           props] [])"

definition AvatarImage :: "'a component" where
  "AvatarImage L ps =
     (let className = pget ''className'' ps;
          props = rest_of [''className''] ps
      in lib ''AvatarPrimitive.Image''
          [attr ''data-slot'' (cs ''avatar-image''),
           attr ''className'' (PStr (ui_cn L [cs ''aspect-square size-full'', className])),
           props] [])"

definition AvatarFallback :: "'a component" where
  "AvatarFallback L ps =
     (let className = pget ''className'' ps;
          props = rest_of [''className''] ps
      in lib ''AvatarPrimitive.Fallback''
          [attr ''data-slot'' (cs ''avatar-fallback''),
           attr ''className'' (PStr (ui_cn L
                 [cs ''bg-muted flex size-full items-center justify-center rounded-full'',
                  className])),
           props] [])"

subsection \<open>components/ui/aspect-ratio.tsx\<close>

definition AspectRatio :: "'a component" where
  "AspectRatio L ps =
     (let props = rest_of [] ps
      in lib ''AspectRatioPrimitive.Root'' [attr ''data-slot'' (cs ''aspect-ratio''), props] [])"

subsection \<open>components/ui/toggle.tsx\<close>

definition toggleVariants :: cva_spec where
  "toggleVariants =
     \<lparr>cva_base = (js ''inline-flex items-center justify-center gap-2 rounded-md text-sm font-medium hover:bg-muted hover:text-muted-foreground disabled:pointer-events-none disabled:opacity-50 data-[state=on]:bg-accent data-[state=on]:text-accent-foreground [&_svg]:pointer-events-none [&_svg:not([class*='size-'])]:size-4 [&_svg]:shrink-0 focus-visible:border-ring focus-visible:ring-ring/50 focus-visible:ring-[3px] outline-none transition-[color,box-shadow] aria-invalid:ring-destructive/20 dark:aria-invalid:ring-destructive/40 aria-invalid:border-destructive whitespace-nowrap''),
      cva_variants = [(''variant'', [(''default'', js ''bg-transparent''),
        (''outline'', js ''border border-input bg-transparent shadow-xs hover:bg-accent hover:text-accent-foreground'')]),
       (''size'', [(''default'', js ''h-9 px-2 min-w-9''),
        (''sm'', js ''h-8 px-1.5 min-w-8''),
        (''lg'', js ''h-10 px-2.5 min-w-10'')])],
      cva_defaults = [(''variant'', ''default''), (''size'', ''default'')]\<rparr>"

definition Toggle :: "'a component" where
  "Toggle L ps =
     (let className = pget ''className'' ps;
          variant = pget ''variant'' ps;
          size1 = pget ''size'' ps;
          props = rest_of [''className'', ''variant'', ''size''] ps
      in lib ''TogglePrimitive.Root''
          [attr ''data-slot'' (cs ''toggle''),
           attr ''className'' (PStr (ui_cn L
                 [PStr (ui_cva L toggleVariants
                      [(''variant'', variant),
                       (''size'', size1),
                       (''className'', className)])])),
           props] [])"

subsection \<open>components/ui/toggle-group.tsx\<close>

definition ToggleGroup :: "'a component" where
  "ToggleGroup L ps =
     (let className = pget ''className'' ps;
          variant = pget ''variant'' ps;
          size1 = pget ''size'' ps;
          children = pget ''children'' ps;
          props = rest_of [''className'', ''variant'', ''size'', ''children''] ps
      in lib ''ToggleGroupPrimitive.Root''
          [attr ''data-slot'' (cs ''toggle-group''),
           attr ''data-variant'' variant,
           attr ''data-size'' size1,
           attr ''className'' (PStr (ui_cn L
                 [cs
                    ''group/toggle-group flex w-fit items-center rounded-md data-[variant=outline]:shadow-xs'',
                  className])),
           props]
          [lib ''ToggleGroupContext.Provider''
             [attr ''value'' (obj [attr ''variant'' variant, attr ''size'' size1])] [child children]])"

definition ToggleGroupItem :: "'a pval \<Rightarrow> 'a component" where
  "ToggleGroupItem context1 L ps =
     (let className = pget ''className'' ps;
          children = pget ''children'' ps;
          variant = pget ''variant'' ps;
          size1 = pget ''size'' ps;
          props = rest_of [''className'', ''children'', ''variant'', ''size''] ps
      in lib ''ToggleGroupPrimitive.Item''
          [attr ''data-slot'' (cs ''toggle-group-item''),
           attr ''data-variant'' (js_or (member context1 ''variant'') variant),
           attr ''data-size'' (js_or (member context1 ''size'') size1),
           attr ''className'' (PStr (ui_cn L
                 [PStr (ui_cva L toggleVariants
                      [(''variant'', js_or (member context1 ''variant'') variant),
                       (''size'', js_or (member context1 ''size'') size1)]),
                  cs
                    ''min-w-0 flex-1 shrink-0 rounded-none shadow-none first:rounded-l-md last:rounded-r-md focus:z-10 focus-visible:z-10 data-[variant=outline]:border-l-0 data-[variant=outline]:first:border-l'',
                  className])),
           props] [child children])"

subsection \<open>components/ui/progress.tsx\<close>

definition Progress :: "'a component" where
  "Progress L ps =
     (let className = pget ''className'' ps;
          value1 = pget ''value'' ps;
          props = rest_of [''className'', ''value''] ps
      in lib ''ProgressPrimitive.Root''
          [attr ''data-slot'' (cs ''progress''),
           attr ''className'' (PStr (ui_cn L [cs ''bg-primary/20 relative h-2 w-full overflow-hidden rounded-full'', className])),
           props]
          [lib ''ProgressPrimitive.Indicator''
             [attr ''data-slot'' (cs ''progress-indicator''),
              attr ''className'' (cs ''bg-primary h-full w-full flex-1 transition-all''),
              attr ''style'' (obj
                  [attr ''transform'' (PStr ((js ''translateX(-'') @ as_text (PNum (100 - num_of (js_or value1 (PNum 0))) :: 'a pval)
                         @ (js ''%)'')))])] []])"

subsection \<open>components/ui/slider.tsx\<close>

definition Slider :: "'a component" where
  "Slider L ps =
     (let className = pget ''className'' ps;
          defaultValue = pget ''defaultValue'' ps;
          value1 = pget ''value'' ps;
          min1 = pget_or ''min'' (PNum 0) ps;
          max1 = pget_or ''max'' (PNum 100) ps;
          props = rest_of [''className'', ''defaultValue'', ''value'', ''min'', ''max''] ps
      in let values1 = (if is_arr value1 then value1 else if is_arr defaultValue then defaultValue else PArr
            [min1,
             max1]) in
        lib ''SliderPrimitive.Root''
          [attr ''data-slot'' (cs ''slider''),
           attr ''defaultValue'' defaultValue,
           attr ''value'' value1,
           attr ''min'' min1,
           attr ''max'' max1,
           attr ''className'' (PStr (ui_cn L
                 [cs
                    ''relative flex w-full touch-none items-center select-none data-[disabled]:opacity-50 data-[orientation=vertical]:h-full data-[orientation=vertical]:min-h-44 data-[orientation=vertical]:w-auto data-[orientation=vertical]:flex-col'',
                  className])),
           props]
          [lib ''SliderPrimitive.Track''
             [attr ''data-slot'' (cs ''slider-track''),
              attr ''className'' (cs
                  ''bg-muted relative grow overflow-hidden rounded-full data-[orientation=horizontal]:h-1.5 data-[orientation=horizontal]:w-full data-[orientation=vertical]:h-full data-[orientation=vertical]:w-1.5'')]
             [lib ''SliderPrimitive.Range''
                [attr ''data-slot'' (cs ''slider-range''),
                 attr ''className'' (cs
                     ''bg-primary absolute data-[orientation=horizontal]:h-full data-[orientation=vertical]:w-full'')]
                []],
           concat (map (\<lambda>index. lib ''SliderPrimitive.Thumb''
                 [attr ''data-slot'' (cs ''slider-thumb''),
                  attr ''key'' (PNum (of_nat index)),
                  attr ''className'' (cs
                      ''border-primary ring-ring/50 block size-4 shrink-0 rounded-full border bg-white shadow-sm transition-[color,box-shadow] hover:ring-4 focus-visible:ring-4 focus-visible:outline-hidden disabled:pointer-events-none disabled:opacity-50'')]
                 []) [0..<length (items values1)])])"

end
