(* ===== verification/UiOverlay.thy ===== *)
theory UiOverlay imports UiBase begin

section \<open>Overlays (components/ui)\<close>

text \<open>
  Each component of the files below is the function from its properties to what it renders: the
  properties it destructures, with their defaults, the remaining ones spread where the source spreads
  them, and the class lists passed to the merging function in the source's order.
\<close>

subsection \<open>components/ui/dialog.tsx\<close>

definition Dialog :: "'a component" where
  "Dialog L ps =
     (let props = rest_of [] ps
      in lib ''DialogPrimitive.Root'' [attr ''data-slot'' (cs ''dialog''), props] [])"

definition DialogTrigger :: "'a component" where
  "DialogTrigger L ps =
     (let props = rest_of [] ps
      in lib ''DialogPrimitive.Trigger'' [attr ''data-slot'' (cs ''dialog-trigger''), props] [])"

definition DialogPortal :: "'a component" where
  "DialogPortal L ps =
     (let props = rest_of [] ps
      in lib ''DialogPrimitive.Portal'' [attr ''data-slot'' (cs ''dialog-portal''), props] [])"

definition DialogClose :: "'a component" where
  "DialogClose L ps =
     (let props = rest_of [] ps
      in lib ''DialogPrimitive.Close'' [attr ''data-slot'' (cs ''dialog-close''), props] [])"

definition DialogOverlay :: "'a component" where
  "DialogOverlay L ps =
     (let className = pget ''className'' ps;
          props = rest_of [''className''] ps
      in lib ''DialogPrimitive.Overlay''
          [attr ''data-slot'' (cs ''dialog-overlay''),
           attr ''className'' (PStr (ui_cn L
                 [cs
                    ''data-[state=open]:animate-in data-[state=closed]:animate-out data-[state=closed]:fade-out-0 data-[state=open]:fade-in-0 fixed inset-0 z-50 bg-black/50'',
                  className])),
           props] [])"

definition DialogContent :: "'a component" where
  "DialogContent L ps =
     (let className = pget ''className'' ps;
          children = pget ''children'' ps;
          showCloseButton = pget_or ''showCloseButton'' (PBool True) ps;
          props = rest_of [''className'', ''children'', ''showCloseButton''] ps
      in DialogPortal L (attrs [attr ''data-slot'' (cs ''dialog-portal'')]
            [DialogOverlay L (attrs [] []),
             lib ''DialogPrimitive.Content''
               [attr ''data-slot'' (cs ''dialog-content''),
                attr ''className'' (PStr (ui_cn L
                      [cs
                         ''bg-background data-[state=open]:animate-in data-[state=closed]:animate-out data-[state=closed]:fade-out-0 data-[state=open]:fade-in-0 data-[state=closed]:zoom-out-95 data-[state=open]:zoom-in-95 fixed top-[50%] left-[50%] z-50 grid w-full max-w-[calc(100%-2rem)] translate-x-[-50%] translate-y-[-50%] gap-4 rounded-lg border p-6 shadow-lg duration-200 sm:max-w-lg'',
                       className])),
                props]
               [child children,
                child (js_and showCloseButton (PNodes (lib ''DialogPrimitive.Close''
                        [attr ''data-slot'' (cs ''dialog-close''),
                         attr ''className'' (cs
                             ''ring-offset-background focus:ring-ring data-[state=open]:bg-accent data-[state=open]:text-muted-foreground absolute top-4 right-4 rounded-xs opacity-70 transition-opacity hover:opacity-100 focus:ring-2 focus:ring-offset-2 focus:outline-hidden disabled:pointer-events-none [&_svg]:pointer-events-none [&_svg]:shrink-0 [&_svg:not([class*='size-'])]:size-4'')]
                        [lib ''XIcon'' [] [],
                         host ''span'' [attr ''className'' (cs ''sr-only'')] [tx ''Close'']])))]]))"

definition DialogHeader :: "'a component" where
  "DialogHeader L ps =
     (let className = pget ''className'' ps;
          props = rest_of [''className''] ps
      in host ''div''
          [attr ''data-slot'' (cs ''dialog-header''),
           attr ''className'' (PStr (ui_cn L [cs ''flex flex-col gap-2 text-center sm:text-left'', className])),
           props] [])"

definition DialogFooter :: "'a component" where
  "DialogFooter L ps =
     (let className = pget ''className'' ps;
          props = rest_of [''className''] ps
      in host ''div''
          [attr ''data-slot'' (cs ''dialog-footer''),
           attr ''className'' (PStr (ui_cn L [cs ''flex flex-col-reverse gap-2 sm:flex-row sm:justify-end'', className])),
           props] [])"

definition DialogTitle :: "'a component" where
  "DialogTitle L ps =
     (let className = pget ''className'' ps;
          props = rest_of [''className''] ps
      in lib ''DialogPrimitive.Title''
          [attr ''data-slot'' (cs ''dialog-title''),
           attr ''className'' (PStr (ui_cn L [cs ''text-lg leading-none font-semibold'', className])),
           props] [])"

definition DialogDescription :: "'a component" where
  "DialogDescription L ps =
     (let className = pget ''className'' ps;
          props = rest_of [''className''] ps
      in lib ''DialogPrimitive.Description''
          [attr ''data-slot'' (cs ''dialog-description''),
           attr ''className'' (PStr (ui_cn L [cs ''text-muted-foreground text-sm'', className])),
           props] [])"

subsection \<open>components/ui/alert-dialog.tsx\<close>

definition AlertDialog :: "'a component" where
  "AlertDialog L ps =
     (let props = rest_of [] ps
      in lib ''AlertDialogPrimitive.Root'' [attr ''data-slot'' (cs ''alert-dialog''), props] [])"

definition AlertDialogTrigger :: "'a component" where
  "AlertDialogTrigger L ps =
     (let props = rest_of [] ps
      in lib ''AlertDialogPrimitive.Trigger'' [attr ''data-slot'' (cs ''alert-dialog-trigger''), props] [])"

definition AlertDialogPortal :: "'a component" where
  "AlertDialogPortal L ps =
     (let props = rest_of [] ps
      in lib ''AlertDialogPrimitive.Portal'' [attr ''data-slot'' (cs ''alert-dialog-portal''), props] [])"

definition AlertDialogOverlay :: "'a component" where
  "AlertDialogOverlay L ps =
     (let className = pget ''className'' ps;
          props = rest_of [''className''] ps
      in lib ''AlertDialogPrimitive.Overlay''
          [attr ''data-slot'' (cs ''alert-dialog-overlay''),
           attr ''className'' (PStr (ui_cn L
                 [cs
                    ''data-[state=open]:animate-in data-[state=closed]:animate-out data-[state=closed]:fade-out-0 data-[state=open]:fade-in-0 fixed inset-0 z-50 bg-black/50'',
                  className])),
           props] [])"

definition AlertDialogContent :: "'a component" where
  "AlertDialogContent L ps =
     (let className = pget ''className'' ps;
          props = rest_of [''className''] ps
      in AlertDialogPortal L (attrs []
            [AlertDialogOverlay L (attrs [] []),
             lib ''AlertDialogPrimitive.Content''
               [attr ''data-slot'' (cs ''alert-dialog-content''),
                attr ''className'' (PStr (ui_cn L
                      [cs
                         ''bg-background data-[state=open]:animate-in data-[state=closed]:animate-out data-[state=closed]:fade-out-0 data-[state=open]:fade-in-0 data-[state=closed]:zoom-out-95 data-[state=open]:zoom-in-95 fixed top-[50%] left-[50%] z-50 grid w-full max-w-[calc(100%-2rem)] translate-x-[-50%] translate-y-[-50%] gap-4 rounded-lg border p-6 shadow-lg duration-200 sm:max-w-lg'',
                       className])),
                props] []]))"

definition AlertDialogHeader :: "'a component" where
  "AlertDialogHeader L ps =
     (let className = pget ''className'' ps;
          props = rest_of [''className''] ps
      in host ''div''
          [attr ''data-slot'' (cs ''alert-dialog-header''),
           attr ''className'' (PStr (ui_cn L [cs ''flex flex-col gap-2 text-center sm:text-left'', className])),
           props] [])"

definition AlertDialogFooter :: "'a component" where
  "AlertDialogFooter L ps =
     (let className = pget ''className'' ps;
          props = rest_of [''className''] ps
      in host ''div''
          [attr ''data-slot'' (cs ''alert-dialog-footer''),
           attr ''className'' (PStr (ui_cn L [cs ''flex flex-col-reverse gap-2 sm:flex-row sm:justify-end'', className])),
           props] [])"

definition AlertDialogTitle :: "'a component" where
  "AlertDialogTitle L ps =
     (let className = pget ''className'' ps;
          props = rest_of [''className''] ps
      in lib ''AlertDialogPrimitive.Title''
          [attr ''data-slot'' (cs ''alert-dialog-title''),
           attr ''className'' (PStr (ui_cn L [cs ''text-lg font-semibold'', className])),
           props] [])"

definition AlertDialogDescription :: "'a component" where
  "AlertDialogDescription L ps =
     (let className = pget ''className'' ps;
          props = rest_of [''className''] ps
      in lib ''AlertDialogPrimitive.Description''
          [attr ''data-slot'' (cs ''alert-dialog-description''),
           attr ''className'' (PStr (ui_cn L [cs ''text-muted-foreground text-sm'', className])),
           props] [])"

definition AlertDialogAction :: "'a component" where
  "AlertDialogAction L ps =
     (let className = pget ''className'' ps;
          props = rest_of [''className''] ps
      in lib ''AlertDialogPrimitive.Action''
          [attr ''className'' (PStr (ui_cn L [PStr (ui_cva L buttonVariants []), className])),
           props] [])"

definition AlertDialogCancel :: "'a component" where
  "AlertDialogCancel L ps =
     (let className = pget ''className'' ps;
          props = rest_of [''className''] ps
      in lib ''AlertDialogPrimitive.Cancel''
          [attr ''className'' (PStr (ui_cn L [PStr (ui_cva L buttonVariants [(''variant'', cs ''outline'')]), className])),
           props] [])"

subsection \<open>components/ui/sheet.tsx\<close>

definition Sheet :: "'a component" where
  "Sheet L ps =
     (let props = rest_of [] ps
      in lib ''SheetPrimitive.Root'' [attr ''data-slot'' (cs ''sheet''), props] [])"

definition SheetTrigger :: "'a component" where
  "SheetTrigger L ps =
     (let props = rest_of [] ps
      in lib ''SheetPrimitive.Trigger'' [attr ''data-slot'' (cs ''sheet-trigger''), props] [])"

definition SheetClose :: "'a component" where
  "SheetClose L ps =
     (let props = rest_of [] ps
      in lib ''SheetPrimitive.Close'' [attr ''data-slot'' (cs ''sheet-close''), props] [])"

definition SheetPortal :: "'a component" where
  "SheetPortal L ps =
     (let props = rest_of [] ps
      in lib ''SheetPrimitive.Portal'' [attr ''data-slot'' (cs ''sheet-portal''), props] [])"

definition SheetOverlay :: "'a component" where
  "SheetOverlay L ps =
     (let className = pget ''className'' ps;
          props = rest_of [''className''] ps
      in lib ''SheetPrimitive.Overlay''
          [attr ''data-slot'' (cs ''sheet-overlay''),
           attr ''className'' (PStr (ui_cn L
                 [cs
                    ''data-[state=open]:animate-in data-[state=closed]:animate-out data-[state=closed]:fade-out-0 data-[state=open]:fade-in-0 fixed inset-0 z-50 bg-black/50'',
                  className])),
           props] [])"

definition SheetContent :: "'a component" where
  "SheetContent L ps =
     (let className = pget ''className'' ps;
          children = pget ''children'' ps;
          side1 = pget_or ''side'' (cs ''right'') ps;
          props = rest_of [''className'', ''children'', ''side''] ps
      in SheetPortal L (attrs []
            [SheetOverlay L (attrs [] []),
             lib ''SheetPrimitive.Content''
               [attr ''data-slot'' (cs ''sheet-content''),
                attr ''className'' (PStr (ui_cn L
                      [cs
                         ''bg-background data-[state=open]:animate-in data-[state=closed]:animate-out fixed z-50 flex flex-col gap-4 shadow-lg transition ease-in-out data-[state=closed]:duration-300 data-[state=open]:duration-500'',
                       js_and (PBool (js_eq side1 (cs ''right''))) (cs
                           ''data-[state=closed]:slide-out-to-right data-[state=open]:slide-in-from-right inset-y-0 right-0 h-full w-3/4 border-l sm:max-w-sm''),
                       js_and (PBool (js_eq side1 (cs ''left''))) (cs
                           ''data-[state=closed]:slide-out-to-left data-[state=open]:slide-in-from-left inset-y-0 left-0 h-full w-3/4 border-r sm:max-w-sm''),
                       js_and (PBool (js_eq side1 (cs ''top''))) (cs
                           ''data-[state=closed]:slide-out-to-top data-[state=open]:slide-in-from-top inset-x-0 top-0 h-auto border-b''),
                       js_and (PBool (js_eq side1 (cs ''bottom''))) (cs
                           ''data-[state=closed]:slide-out-to-bottom data-[state=open]:slide-in-from-bottom inset-x-0 bottom-0 h-auto border-t''),
                       className])),
                props]
               [child children,
                lib ''SheetPrimitive.Close''
                  [attr ''className'' (cs
                       ''ring-offset-background focus:ring-ring data-[state=open]:bg-secondary absolute top-4 right-4 rounded-xs opacity-70 transition-opacity hover:opacity-100 focus:ring-2 focus:ring-offset-2 focus:outline-hidden disabled:pointer-events-none'')]
                  [lib ''XIcon'' [attr ''className'' (cs ''size-4'')] [],
                   host ''span'' [attr ''className'' (cs ''sr-only'')] [tx ''Close'']]]]))"

definition SheetHeader :: "'a component" where
  "SheetHeader L ps =
     (let className = pget ''className'' ps;
          props = rest_of [''className''] ps
      in host ''div''
          [attr ''data-slot'' (cs ''sheet-header''),
           attr ''className'' (PStr (ui_cn L [cs ''flex flex-col gap-1.5 p-4'', className])),
           props] [])"

definition SheetFooter :: "'a component" where
  "SheetFooter L ps =
     (let className = pget ''className'' ps;
          props = rest_of [''className''] ps
      in host ''div''
          [attr ''data-slot'' (cs ''sheet-footer''),
           attr ''className'' (PStr (ui_cn L [cs ''mt-auto flex flex-col gap-2 p-4'', className])),
           props] [])"

definition SheetTitle :: "'a component" where
  "SheetTitle L ps =
     (let className = pget ''className'' ps;
          props = rest_of [''className''] ps
      in lib ''SheetPrimitive.Title''
          [attr ''data-slot'' (cs ''sheet-title''),
           attr ''className'' (PStr (ui_cn L [cs ''text-foreground font-semibold'', className])),
           props] [])"

definition SheetDescription :: "'a component" where
  "SheetDescription L ps =
     (let className = pget ''className'' ps;
          props = rest_of [''className''] ps
      in lib ''SheetPrimitive.Description''
          [attr ''data-slot'' (cs ''sheet-description''),
           attr ''className'' (PStr (ui_cn L [cs ''text-muted-foreground text-sm'', className])),
           props] [])"

subsection \<open>components/ui/drawer.tsx\<close>

definition Drawer :: "'a component" where
  "Drawer L ps =
     (let props = rest_of [] ps
      in lib ''DrawerPrimitive.Root'' [attr ''data-slot'' (cs ''drawer''), props] [])"

definition DrawerTrigger :: "'a component" where
  "DrawerTrigger L ps =
     (let props = rest_of [] ps
      in lib ''DrawerPrimitive.Trigger'' [attr ''data-slot'' (cs ''drawer-trigger''), props] [])"

definition DrawerPortal :: "'a component" where
  "DrawerPortal L ps =
     (let props = rest_of [] ps
      in lib ''DrawerPrimitive.Portal'' [attr ''data-slot'' (cs ''drawer-portal''), props] [])"

definition DrawerClose :: "'a component" where
  "DrawerClose L ps =
     (let props = rest_of [] ps
      in lib ''DrawerPrimitive.Close'' [attr ''data-slot'' (cs ''drawer-close''), props] [])"

definition DrawerOverlay :: "'a component" where
  "DrawerOverlay L ps =
     (let className = pget ''className'' ps;
          props = rest_of [''className''] ps
      in lib ''DrawerPrimitive.Overlay''
          [attr ''data-slot'' (cs ''drawer-overlay''),
           attr ''className'' (PStr (ui_cn L
                 [cs
                    ''data-[state=open]:animate-in data-[state=closed]:animate-out data-[state=closed]:fade-out-0 data-[state=open]:fade-in-0 fixed inset-0 z-50 bg-black/50'',
                  className])),
           props] [])"

definition DrawerContent :: "'a component" where
  "DrawerContent L ps =
     (let className = pget ''className'' ps;
          children = pget ''children'' ps;
          props = rest_of [''className'', ''children''] ps
      in DrawerPortal L (attrs [attr ''data-slot'' (cs ''drawer-portal'')]
            [DrawerOverlay L (attrs [] []),
             lib ''DrawerPrimitive.Content''
               [attr ''data-slot'' (cs ''drawer-content''),
                attr ''className'' (PStr (ui_cn L
                      [cs ''group/drawer-content bg-background fixed z-50 flex h-auto flex-col'',
                       cs
                         ''data-[vaul-drawer-direction=top]:inset-x-0 data-[vaul-drawer-direction=top]:top-0 data-[vaul-drawer-direction=top]:mb-24 data-[vaul-drawer-direction=top]:max-h-[80vh] data-[vaul-drawer-direction=top]:rounded-b-lg data-[vaul-drawer-direction=top]:border-b'',
                       cs
                         ''data-[vaul-drawer-direction=bottom]:inset-x-0 data-[vaul-drawer-direction=bottom]:bottom-0 data-[vaul-drawer-direction=bottom]:mt-24 data-[vaul-drawer-direction=bottom]:max-h-[80vh] data-[vaul-drawer-direction=bottom]:rounded-t-lg data-[vaul-drawer-direction=bottom]:border-t'',
                       cs
                         ''data-[vaul-drawer-direction=right]:inset-y-0 data-[vaul-drawer-direction=right]:right-0 data-[vaul-drawer-direction=right]:w-3/4 data-[vaul-drawer-direction=right]:border-l data-[vaul-drawer-direction=right]:sm:max-w-sm'',
                       cs
                         ''data-[vaul-drawer-direction=left]:inset-y-0 data-[vaul-drawer-direction=left]:left-0 data-[vaul-drawer-direction=left]:w-3/4 data-[vaul-drawer-direction=left]:border-r data-[vaul-drawer-direction=left]:sm:max-w-sm'',
                       className])),
                props]
               [host ''div''
                  [attr ''className'' (cs
                       ''bg-muted mx-auto mt-4 hidden h-2 w-[100px] shrink-0 rounded-full group-data-[vaul-drawer-direction=bottom]/drawer-content:block'')]
                  [],
                child children]]))"

definition DrawerHeader :: "'a component" where
  "DrawerHeader L ps =
     (let className = pget ''className'' ps;
          props = rest_of [''className''] ps
      in host ''div''
          [attr ''data-slot'' (cs ''drawer-header''),
           attr ''className'' (PStr (ui_cn L
                 [cs
                    ''flex flex-col gap-0.5 p-4 group-data-[vaul-drawer-direction=bottom]/drawer-content:text-center group-data-[vaul-drawer-direction=top]/drawer-content:text-center md:gap-1.5 md:text-left'',
                  className])),
           props] [])"

definition DrawerFooter :: "'a component" where
  "DrawerFooter L ps =
     (let className = pget ''className'' ps;
          props = rest_of [''className''] ps
      in host ''div''
          [attr ''data-slot'' (cs ''drawer-footer''),
           attr ''className'' (PStr (ui_cn L [cs ''mt-auto flex flex-col gap-2 p-4'', className])),
           props] [])"

definition DrawerTitle :: "'a component" where
  "DrawerTitle L ps =
     (let className = pget ''className'' ps;
          props = rest_of [''className''] ps
      in lib ''DrawerPrimitive.Title''
          [attr ''data-slot'' (cs ''drawer-title''),
           attr ''className'' (PStr (ui_cn L [cs ''text-foreground font-semibold'', className])),
           props] [])"

definition DrawerDescription :: "'a component" where
  "DrawerDescription L ps =
     (let className = pget ''className'' ps;
          props = rest_of [''className''] ps
      in lib ''DrawerPrimitive.Description''
          [attr ''data-slot'' (cs ''drawer-description''),
           attr ''className'' (PStr (ui_cn L [cs ''text-muted-foreground text-sm'', className])),
           props] [])"

subsection \<open>components/ui/popover.tsx\<close>

definition Popover :: "'a component" where
  "Popover L ps =
     (let props = rest_of [] ps
      in lib ''PopoverPrimitive.Root'' [attr ''data-slot'' (cs ''popover''), props] [])"

definition PopoverTrigger :: "'a component" where
  "PopoverTrigger L ps =
     (let props = rest_of [] ps
      in lib ''PopoverPrimitive.Trigger'' [attr ''data-slot'' (cs ''popover-trigger''), props] [])"

definition PopoverContent :: "'a component" where
  "PopoverContent L ps =
     (let className = pget ''className'' ps;
          align = pget_or ''align'' (cs ''center'') ps;
          sideOffset = pget_or ''sideOffset'' (PNum 4) ps;
          props = rest_of [''className'', ''align'', ''sideOffset''] ps
      in lib ''PopoverPrimitive.Portal'' []
          [lib ''PopoverPrimitive.Content''
             [attr ''data-slot'' (cs ''popover-content''),
              attr ''align'' align,
              attr ''sideOffset'' sideOffset,
              attr ''className'' (PStr (ui_cn L
                    [cs
                       ''bg-popover text-popover-foreground data-[state=open]:animate-in data-[state=closed]:animate-out data-[state=closed]:fade-out-0 data-[state=open]:fade-in-0 data-[state=closed]:zoom-out-95 data-[state=open]:zoom-in-95 data-[side=bottom]:slide-in-from-top-2 data-[side=left]:slide-in-from-right-2 data-[side=right]:slide-in-from-left-2 data-[side=top]:slide-in-from-bottom-2 z-50 w-72 origin-(--radix-popover-content-transform-origin) rounded-md border p-4 shadow-md outline-hidden'',
                     className])),
              props] []])"

definition PopoverAnchor :: "'a component" where
  "PopoverAnchor L ps =
     (let props = rest_of [] ps
      in lib ''PopoverPrimitive.Anchor'' [attr ''data-slot'' (cs ''popover-anchor''), props] [])"

subsection \<open>components/ui/hover-card.tsx\<close>

definition HoverCard :: "'a component" where
  "HoverCard L ps =
     (let props = rest_of [] ps
      in lib ''HoverCardPrimitive.Root'' [attr ''data-slot'' (cs ''hover-card''), props] [])"

definition HoverCardTrigger :: "'a component" where
  "HoverCardTrigger L ps =
     (let props = rest_of [] ps
      in lib ''HoverCardPrimitive.Trigger'' [attr ''data-slot'' (cs ''hover-card-trigger''), props] [])"

definition HoverCardContent :: "'a component" where
  "HoverCardContent L ps =
     (let className = pget ''className'' ps;
          align = pget_or ''align'' (cs ''center'') ps;
          sideOffset = pget_or ''sideOffset'' (PNum 4) ps;
          props = rest_of [''className'', ''align'', ''sideOffset''] ps
      in lib ''HoverCardPrimitive.Portal'' [attr ''data-slot'' (cs ''hover-card-portal'')]
          [lib ''HoverCardPrimitive.Content''
             [attr ''data-slot'' (cs ''hover-card-content''),
              attr ''align'' align,
              attr ''sideOffset'' sideOffset,
              attr ''className'' (PStr (ui_cn L
                    [cs
                       ''bg-popover text-popover-foreground data-[state=open]:animate-in data-[state=closed]:animate-out data-[state=closed]:fade-out-0 data-[state=open]:fade-in-0 data-[state=closed]:zoom-out-95 data-[state=open]:zoom-in-95 data-[side=bottom]:slide-in-from-top-2 data-[side=left]:slide-in-from-right-2 data-[side=right]:slide-in-from-left-2 data-[side=top]:slide-in-from-bottom-2 z-50 w-64 origin-(--radix-hover-card-content-transform-origin) rounded-md border p-4 shadow-md outline-hidden'',
                     className])),
              props] []])"

subsection \<open>components/ui/tooltip.tsx\<close>

definition TooltipProvider :: "'a component" where
  "TooltipProvider L ps =
     (let delayDuration = pget_or ''delayDuration'' (PNum 0) ps;
          props = rest_of [''delayDuration''] ps
      in lib ''TooltipPrimitive.Provider''
          [attr ''data-slot'' (cs ''tooltip-provider''),
           attr ''delayDuration'' delayDuration,
           props] [])"

definition Tooltip :: "'a component" where
  "Tooltip L ps =
     (let props = rest_of [] ps
      in TooltipProvider L (attrs [] [lib ''TooltipPrimitive.Root'' [attr ''data-slot'' (cs ''tooltip''), props] []]))"

definition TooltipTrigger :: "'a component" where
  "TooltipTrigger L ps =
     (let props = rest_of [] ps
      in lib ''TooltipPrimitive.Trigger'' [attr ''data-slot'' (cs ''tooltip-trigger''), props] [])"

definition TooltipContent :: "'a component" where
  "TooltipContent L ps =
     (let className = pget ''className'' ps;
          sideOffset = pget_or ''sideOffset'' (PNum 0) ps;
          children = pget ''children'' ps;
          props = rest_of [''className'', ''sideOffset'', ''children''] ps
      in lib ''TooltipPrimitive.Portal'' []
          [lib ''TooltipPrimitive.Content''
             [attr ''data-slot'' (cs ''tooltip-content''),
              attr ''sideOffset'' sideOffset,
              attr ''className'' (PStr (ui_cn L
                    [cs
                       ''bg-foreground text-background animate-in fade-in-0 zoom-in-95 data-[state=closed]:animate-out data-[state=closed]:fade-out-0 data-[state=closed]:zoom-out-95 data-[side=bottom]:slide-in-from-top-2 data-[side=left]:slide-in-from-right-2 data-[side=right]:slide-in-from-left-2 data-[side=top]:slide-in-from-bottom-2 z-50 w-fit origin-(--radix-tooltip-content-transform-origin) rounded-md px-3 py-1.5 text-xs text-balance'',
                     className])),
              props]
             [child children,
              lib ''TooltipPrimitive.Arrow''
                [attr ''className'' (cs
                     ''bg-foreground fill-foreground z-50 size-2.5 translate-y-[calc(-50%_-_2px)] rotate-45 rounded-[2px]'')]
                []]])"

subsection \<open>components/ui/toast.tsx\<close>

definition ToastProvider :: "'a component" where
  "ToastProvider L ps = [Elem (Lib ''ToastPrimitives.Provider'') ps]"

definition ToastViewport :: "'a component" where
  "ToastViewport L ps =
     (let className = pget ''className'' ps;
          ref1 = pget ''ref'' ps;
          props = rest_of [''className'', ''ref''] ps
      in lib ''ToastPrimitives.Viewport''
          [attr ''ref'' ref1,
           attr ''className'' (PStr (ui_cn L
                 [cs
                    ''fixed top-0 z-[100] flex max-h-screen w-full flex-col-reverse p-4 sm:bottom-0 sm:right-0 sm:top-auto sm:flex-col md:max-w-[420px]'',
                  className])),
           props] [])"

definition toastVariants :: cva_spec where
  "toastVariants =
     \<lparr>cva_base = (js ''group pointer-events-auto relative flex w-full items-center justify-between space-x-4 overflow-hidden rounded-md border p-6 pr-8 shadow-lg transition-all data-[swipe=cancel]:translate-x-0 data-[swipe=end]:translate-x-[var(--radix-toast-swipe-end-x)] data-[swipe=move]:translate-x-[var(--radix-toast-swipe-move-x)] data-[swipe=move]:transition-none data-[state=open]:animate-in data-[state=closed]:animate-out data-[swipe=end]:animate-out data-[state=closed]:fade-out-80 data-[state=closed]:slide-out-to-right-full data-[state=open]:slide-in-from-top-full data-[state=open]:sm:slide-in-from-bottom-full''),
      cva_variants = [(''variant'', [(''default'', js ''border bg-background text-foreground''),
        (''destructive'', js ''destructive group border-destructive bg-destructive text-destructive-foreground'')])],
      cva_defaults = [(''variant'', ''default'')]\<rparr>"

definition Toast :: "'a component" where
  "Toast L ps =
     (let className = pget ''className'' ps;
          variant = pget ''variant'' ps;
          ref1 = pget ''ref'' ps;
          props = rest_of [''className'', ''variant'', ''ref''] ps
      in lib ''ToastPrimitives.Root''
          [attr ''ref'' ref1,
           attr ''className'' (PStr (ui_cn L [PStr (ui_cva L toastVariants [(''variant'', variant)]), className])),
           props] [])"

definition ToastAction :: "'a component" where
  "ToastAction L ps =
     (let className = pget ''className'' ps;
          ref1 = pget ''ref'' ps;
          props = rest_of [''className'', ''ref''] ps
      in lib ''ToastPrimitives.Action''
          [attr ''ref'' ref1,
           attr ''className'' (PStr (ui_cn L
                 [cs
                    ''inline-flex h-8 shrink-0 items-center justify-center rounded-md border bg-transparent px-3 text-sm font-medium ring-offset-background transition-colors hover:bg-secondary focus:outline-none focus:ring-2 focus:ring-ring focus:ring-offset-2 disabled:pointer-events-none disabled:opacity-50 group-[.destructive]:border-muted/40 group-[.destructive]:hover:border-destructive/30 group-[.destructive]:hover:bg-destructive group-[.destructive]:hover:text-destructive-foreground group-[.destructive]:focus:ring-destructive'',
                  className])),
           props] [])"

definition ToastClose :: "'a component" where
  "ToastClose L ps =
     (let className = pget ''className'' ps;
          ref1 = pget ''ref'' ps;
          props = rest_of [''className'', ''ref''] ps
      in lib ''ToastPrimitives.Close''
          [attr ''ref'' ref1,
           attr ''className'' (PStr (ui_cn L
                 [cs
                    ''absolute right-2 top-2 rounded-md p-1 text-foreground/50 opacity-0 transition-opacity hover:text-foreground focus:opacity-100 focus:outline-none focus:ring-2 group-hover:opacity-100 group-[.destructive]:text-red-300 group-[.destructive]:hover:text-red-50 group-[.destructive]:focus:ring-red-400 group-[.destructive]:focus:ring-offset-red-600'',
                  className])),
           attr ''toast-close'' (PStr []),
           props] [lib ''X'' [attr ''className'' (cs ''h-4 w-4'')] []])"

definition ToastTitle :: "'a component" where
  "ToastTitle L ps =
     (let className = pget ''className'' ps;
          ref1 = pget ''ref'' ps;
          props = rest_of [''className'', ''ref''] ps
      in lib ''ToastPrimitives.Title''
          [attr ''ref'' ref1,
           attr ''className'' (PStr (ui_cn L [cs ''text-sm font-semibold'', className])),
           props] [])"

definition ToastDescription :: "'a component" where
  "ToastDescription L ps =
     (let className = pget ''className'' ps;
          ref1 = pget ''ref'' ps;
          props = rest_of [''className'', ''ref''] ps
      in lib ''ToastPrimitives.Description''
          [attr ''ref'' ref1,
           attr ''className'' (PStr (ui_cn L [cs ''text-sm opacity-90'', className])),
           props] [])"

subsection \<open>components/ui/sonner.tsx\<close>

text \<open>The theme is the one \<open>next-themes\<close> gives, undefined outside of its provider.\<close>

definition Toaster :: "'a pval \<Rightarrow> 'a component" where
  "Toaster theme L ps =
     lib ''Sonner''
       [attr ''theme'' (case theme of PUndef \<Rightarrow> cs ''system'' | t \<Rightarrow> t),
        attr ''className'' (cs ''toaster group''),
        attr ''style'' (obj [attr ''--normal-bg'' (cs ''var(--popover)''),
          attr ''--normal-text'' (cs ''var(--popover-foreground)''), attr ''--normal-border'' (cs ''var(--border)'')]),
        ps] []"

end
