(* ===== verification/UiSidebar.thy ===== *)
theory UiSidebar imports UiOverlay begin

section \<open>The sidebar (components/ui/sidebar.tsx)\<close>

text \<open>
  Each component of the files below is the function from its properties to what it renders: the
  properties it destructures, with their defaults, the remaining ones spread where the source spreads
  them, and the class lists passed to the merging function in the source's order.
  The components read the context of the provider, an object that is their first argument; its state
  and operations are in \<open>SidebarState\<close>.
\<close>

subsection \<open>components/ui/sidebar.tsx\<close>

definition sidebarContext :: "bool \<Rightarrow> bool \<Rightarrow> bool \<Rightarrow> 'a pval \<Rightarrow> 'a pval \<Rightarrow> 'a pval \<Rightarrow> 'a pval" where
  "sidebarContext open1 isMobile openMobile setOpen setOpenMobile toggleSidebar =
     obj [attr ''state'' (if open1 then cs ''expanded'' else cs ''collapsed''), attr ''open'' (PBool open1),
       attr ''setOpen'' setOpen, attr ''isMobile'' (PBool isMobile), attr ''openMobile'' (PBool openMobile),
       attr ''setOpenMobile'' setOpenMobile, attr ''toggleSidebar'' toggleSidebar]"

text \<open>The context is the one the provider's state gives (\<open>sidebarContext\<close>).\<close>

definition SidebarProvider :: "'a pval \<Rightarrow> 'a component" where
  "SidebarProvider ctx L ps =
     (let className = pget ''className'' ps;
          style1 = pget ''style'' ps;
          children = pget ''children'' ps;
          props = rest_of [''defaultOpen'', ''open'', ''onOpenChange'', ''className'', ''style'', ''children''] ps
      in lib ''SidebarContext.Provider'' [attr ''value'' ctx]
          [TooltipProvider L (attrs [attr ''delayDuration'' (PNum 0)]
            [host ''div'' [attr ''data-slot'' (cs ''sidebar-wrapper''),
               attr ''style'' (obj [attr ''--sidebar-width'' (cs ''16rem''), attr ''--sidebar-width-icon'' (cs ''3rem''), spread style1]),
               attr ''className'' (PStr (ui_cn L [cs ''group/sidebar-wrapper has-data-[variant=inset]:bg-sidebar flex min-h-svh w-full'', className])),
               props]
               [child children]])])"

definition Sidebar :: "'a pval \<Rightarrow> 'a component" where
  "Sidebar ctx L ps =
     (let side1 = pget_or ''side'' (cs ''left'') ps;
          variant = pget_or ''variant'' (cs ''sidebar'') ps;
          collapsible = pget_or ''collapsible'' (cs ''offcanvas'') ps;
          className = pget ''className'' ps;
          children = pget ''children'' ps;
          props = rest_of [''side'', ''variant'', ''collapsible'', ''className'', ''children''] ps
      in if js_eq collapsible (cs ''none'') then host ''div''
          [attr ''data-slot'' (cs ''sidebar''),
           attr ''className'' (PStr (ui_cn L
                 [cs ''bg-sidebar text-sidebar-foreground flex h-full w-(--sidebar-width) flex-col'',
                  className])),
           props] [child children] else
        if truthy (member ctx ''isMobile'') then Sheet L (attrs
            [attr ''open'' (member ctx ''openMobile''),
             attr ''onOpenChange'' (member ctx ''setOpenMobile''),
             props]
            [SheetContent L (attrs
                 [attr ''data-sidebar'' (cs ''sidebar''),
                  attr ''data-slot'' (cs ''sidebar''),
                  attr ''data-mobile'' (cs ''true''),
                  attr ''className'' (cs ''bg-sidebar text-sidebar-foreground w-(--sidebar-width) p-0 [&>button]:hidden''),
                  attr ''style'' (obj [attr ''--sidebar-width'' (cs ''18rem'')]),
                  attr ''side'' side1]
                 [SheetHeader L (attrs [attr ''className'' (cs ''sr-only'')]
                      [SheetTitle L (attrs [] [tx ''Sidebar'']),
                       SheetDescription L (attrs [] [tx ''Displays the mobile sidebar.''])]),
                  host ''div'' [attr ''className'' (cs ''flex h-full w-full flex-col'')] [child children]])])
          else
        host ''div''
          [attr ''className'' (cs ''group peer text-sidebar-foreground hidden md:block''),
           attr ''data-state'' (member ctx ''state''),
           attr ''data-collapsible'' (if js_eq (member ctx ''state'') (cs ''collapsed'') then collapsible else PStr []),
           attr ''data-variant'' variant,
           attr ''data-side'' side1,
           attr ''data-slot'' (cs ''sidebar'')]
          [host ''div''
             [attr ''data-slot'' (cs ''sidebar-gap''),
              attr ''className'' (PStr (ui_cn L
                    [cs
                       ''relative w-(--sidebar-width) bg-transparent transition-[width] duration-200 ease-linear'',
                     cs ''group-data-[collapsible=offcanvas]:w-0'',
                     cs ''group-data-[side=right]:rotate-180'',
                     if (js_eq variant (cs ''floating'')) \<or> (js_eq variant (cs ''inset'')) then cs
                       ''group-data-[collapsible=icon]:w-[calc(var(--sidebar-width-icon)+(--spacing(4)))]''
                       else cs ''group-data-[collapsible=icon]:w-(--sidebar-width-icon)'']))] [],
           host ''div''
             [attr ''data-slot'' (cs ''sidebar-container''),
              attr ''className'' (PStr (ui_cn L
                    [cs
                       ''fixed inset-y-0 z-10 hidden h-svh w-(--sidebar-width) transition-[left,right,width] duration-200 ease-linear md:flex'',
                     if js_eq side1 (cs ''left'') then cs
                       ''left-0 group-data-[collapsible=offcanvas]:left-[calc(var(--sidebar-width)*-1)]''
                       else cs
                       ''right-0 group-data-[collapsible=offcanvas]:right-[calc(var(--sidebar-width)*-1)]'',
                     if (js_eq variant (cs ''floating'')) \<or> (js_eq variant (cs ''inset'')) then cs
                       ''p-2 group-data-[collapsible=icon]:w-[calc(var(--sidebar-width-icon)+(--spacing(4))+2px)]''
                       else cs
                       ''group-data-[collapsible=icon]:w-(--sidebar-width-icon) group-data-[side=left]:border-r group-data-[side=right]:border-l'',
                     className])),
              props]
             [host ''div''
                [attr ''data-sidebar'' (cs ''sidebar''),
                 attr ''data-slot'' (cs ''sidebar-inner''),
                 attr ''className'' (cs
                     ''bg-sidebar group-data-[variant=floating]:border-sidebar-border flex h-full w-full flex-col group-data-[variant=floating]:rounded-lg group-data-[variant=floating]:border group-data-[variant=floating]:shadow-sm'')]
                [child children]]])"

definition SidebarTrigger :: "'a pval \<Rightarrow> 'a component" where
  "SidebarTrigger ctx L ps =
     (let className = pget ''className'' ps;
          onClick = pget ''onClick'' ps;
          props = rest_of [''className'', ''onClick''] ps
      in Button L (attrs
            [attr ''data-sidebar'' (cs ''trigger''),
             attr ''data-slot'' (cs ''sidebar-trigger''),
             attr ''variant'' (cs ''ghost''),
             attr ''size'' (cs ''icon''),
             attr ''className'' (PStr (ui_cn L [cs ''size-7'', className])),
             attr ''onClick'' (both onClick (member ctx ''toggleSidebar'')),
             props]
            [lib ''PanelLeftIcon'' [] [],
             host ''span'' [attr ''className'' (cs ''sr-only'')] [tx ''Toggle Sidebar'']]))"

definition SidebarRail :: "'a pval \<Rightarrow> 'a component" where
  "SidebarRail ctx L ps =
     (let className = pget ''className'' ps;
          props = rest_of [''className''] ps
      in host ''button''
          [attr ''data-sidebar'' (cs ''rail''),
           attr ''data-slot'' (cs ''sidebar-rail''),
           attr ''aria-label'' (cs ''Toggle Sidebar''),
           attr ''tabIndex'' (PNum (- 1)),
           attr ''onClick'' (member ctx ''toggleSidebar''),
           attr ''title'' (cs ''Toggle Sidebar''),
           attr ''className'' (PStr (ui_cn L
                 [cs
                    ''hover:after:bg-sidebar-border absolute inset-y-0 z-20 hidden w-4 -translate-x-1/2 transition-all ease-linear group-data-[side=left]:-right-4 group-data-[side=right]:left-0 after:absolute after:inset-y-0 after:left-1/2 after:w-[2px] sm:flex'',
                  cs ''in-data-[side=left]:cursor-w-resize in-data-[side=right]:cursor-e-resize'',
                  cs
                    ''[[data-side=left][data-state=collapsed]_&]:cursor-e-resize [[data-side=right][data-state=collapsed]_&]:cursor-w-resize'',
                  cs
                    ''hover:group-data-[collapsible=offcanvas]:bg-sidebar group-data-[collapsible=offcanvas]:translate-x-0 group-data-[collapsible=offcanvas]:after:left-full'',
                  cs ''[[data-side=left][data-collapsible=offcanvas]_&]:-right-2'',
                  cs ''[[data-side=right][data-collapsible=offcanvas]_&]:-left-2'',
                  className])),
           props] [])"

definition SidebarInset :: "'a component" where
  "SidebarInset L ps =
     (let className = pget ''className'' ps;
          props = rest_of [''className''] ps
      in host ''main''
          [attr ''data-slot'' (cs ''sidebar-inset''),
           attr ''className'' (PStr (ui_cn L
                 [cs ''bg-background relative flex w-full flex-1 flex-col'',
                  cs
                    ''md:peer-data-[variant=inset]:m-2 md:peer-data-[variant=inset]:ml-0 md:peer-data-[variant=inset]:rounded-xl md:peer-data-[variant=inset]:shadow-sm md:peer-data-[variant=inset]:peer-data-[state=collapsed]:ml-2'',
                  className])),
           props] [])"

definition SidebarInput :: "'a component" where
  "SidebarInput L ps =
     (let className = pget ''className'' ps;
          props = rest_of [''className''] ps
      in Input L (attrs
            [attr ''data-slot'' (cs ''sidebar-input''),
             attr ''data-sidebar'' (cs ''input''),
             attr ''className'' (PStr (ui_cn L [cs ''bg-background h-8 w-full shadow-none'', className])),
             props] []))"

definition SidebarHeader :: "'a component" where
  "SidebarHeader L ps =
     (let className = pget ''className'' ps;
          props = rest_of [''className''] ps
      in host ''div''
          [attr ''data-slot'' (cs ''sidebar-header''),
           attr ''data-sidebar'' (cs ''header''),
           attr ''className'' (PStr (ui_cn L [cs ''flex flex-col gap-2 p-2'', className])),
           props] [])"

definition SidebarFooter :: "'a component" where
  "SidebarFooter L ps =
     (let className = pget ''className'' ps;
          props = rest_of [''className''] ps
      in host ''div''
          [attr ''data-slot'' (cs ''sidebar-footer''),
           attr ''data-sidebar'' (cs ''footer''),
           attr ''className'' (PStr (ui_cn L [cs ''flex flex-col gap-2 p-2'', className])),
           props] [])"

definition SidebarSeparator :: "'a component" where
  "SidebarSeparator L ps =
     (let className = pget ''className'' ps;
          props = rest_of [''className''] ps
      in Separator L (attrs
            [attr ''data-slot'' (cs ''sidebar-separator''),
             attr ''data-sidebar'' (cs ''separator''),
             attr ''className'' (PStr (ui_cn L [cs ''bg-sidebar-border mx-2 w-auto'', className])),
             props] []))"

definition SidebarContent :: "'a component" where
  "SidebarContent L ps =
     (let className = pget ''className'' ps;
          props = rest_of [''className''] ps
      in host ''div''
          [attr ''data-slot'' (cs ''sidebar-content''),
           attr ''data-sidebar'' (cs ''content''),
           attr ''className'' (PStr (ui_cn L
                 [cs
                    ''flex min-h-0 flex-1 flex-col gap-2 overflow-auto group-data-[collapsible=icon]:overflow-hidden'',
                  className])),
           props] [])"

definition SidebarGroup :: "'a component" where
  "SidebarGroup L ps =
     (let className = pget ''className'' ps;
          props = rest_of [''className''] ps
      in host ''div''
          [attr ''data-slot'' (cs ''sidebar-group''),
           attr ''data-sidebar'' (cs ''group''),
           attr ''className'' (PStr (ui_cn L [cs ''relative flex w-full min-w-0 flex-col p-2'', className])),
           props] [])"

definition SidebarGroupLabel :: "'a component" where
  "SidebarGroupLabel L ps =
     (let className = pget ''className'' ps;
          asChild = pget_or ''asChild'' (PBool False) ps;
          props = rest_of [''className'', ''asChild''] ps
      in let Comp = (if truthy asChild then Lib ''Slot'' else Host ''div'') in
        elem Comp
          [attr ''data-slot'' (cs ''sidebar-group-label''),
           attr ''data-sidebar'' (cs ''group-label''),
           attr ''className'' (PStr (ui_cn L
                 [cs
                    ''text-sidebar-foreground/70 ring-sidebar-ring flex h-8 shrink-0 items-center rounded-md px-2 text-xs font-medium outline-hidden transition-[margin,opacity] duration-200 ease-linear focus-visible:ring-2 [&>svg]:size-4 [&>svg]:shrink-0'',
                  cs ''group-data-[collapsible=icon]:-mt-8 group-data-[collapsible=icon]:opacity-0'',
                  className])),
           props] [])"

definition SidebarGroupAction :: "'a component" where
  "SidebarGroupAction L ps =
     (let className = pget ''className'' ps;
          asChild = pget_or ''asChild'' (PBool False) ps;
          props = rest_of [''className'', ''asChild''] ps
      in let Comp = (if truthy asChild then Lib ''Slot'' else Host ''button'') in
        elem Comp
          [attr ''data-slot'' (cs ''sidebar-group-action''),
           attr ''data-sidebar'' (cs ''group-action''),
           attr ''className'' (PStr (ui_cn L
                 [cs
                    ''text-sidebar-foreground ring-sidebar-ring hover:bg-sidebar-accent hover:text-sidebar-accent-foreground absolute top-3.5 right-3 flex aspect-square w-5 items-center justify-center rounded-md p-0 outline-hidden transition-transform focus-visible:ring-2 [&>svg]:size-4 [&>svg]:shrink-0'',
                  cs ''after:absolute after:-inset-2 md:after:hidden'',
                  cs ''group-data-[collapsible=icon]:hidden'',
                  className])),
           props] [])"

definition SidebarGroupContent :: "'a component" where
  "SidebarGroupContent L ps =
     (let className = pget ''className'' ps;
          props = rest_of [''className''] ps
      in host ''div''
          [attr ''data-slot'' (cs ''sidebar-group-content''),
           attr ''data-sidebar'' (cs ''group-content''),
           attr ''className'' (PStr (ui_cn L [cs ''w-full text-sm'', className])),
           props] [])"

definition SidebarMenu :: "'a component" where
  "SidebarMenu L ps =
     (let className = pget ''className'' ps;
          props = rest_of [''className''] ps
      in host ''ul''
          [attr ''data-slot'' (cs ''sidebar-menu''),
           attr ''data-sidebar'' (cs ''menu''),
           attr ''className'' (PStr (ui_cn L [cs ''flex w-full min-w-0 flex-col gap-1'', className])),
           props] [])"

definition SidebarMenuItem :: "'a component" where
  "SidebarMenuItem L ps =
     (let className = pget ''className'' ps;
          props = rest_of [''className''] ps
      in host ''li''
          [attr ''data-slot'' (cs ''sidebar-menu-item''),
           attr ''data-sidebar'' (cs ''menu-item''),
           attr ''className'' (PStr (ui_cn L [cs ''group/menu-item relative'', className])),
           props] [])"

definition sidebarMenuButtonVariants :: cva_spec where
  "sidebarMenuButtonVariants =
     \<lparr>cva_base = (js ''peer/menu-button flex w-full items-center gap-2 overflow-hidden rounded-md p-2 text-left text-sm outline-hidden ring-sidebar-ring transition-[width,height,padding] hover:bg-sidebar-accent hover:text-sidebar-accent-foreground focus-visible:ring-2 active:bg-sidebar-accent active:text-sidebar-accent-foreground disabled:pointer-events-none disabled:opacity-50 group-has-data-[sidebar=menu-action]/menu-item:pr-8 aria-disabled:pointer-events-none aria-disabled:opacity-50 data-[active=true]:bg-sidebar-accent data-[active=true]:font-medium data-[active=true]:text-sidebar-accent-foreground data-[state=open]:hover:bg-sidebar-accent data-[state=open]:hover:text-sidebar-accent-foreground group-data-[collapsible=icon]:size-8! group-data-[collapsible=icon]:p-2! [&>span:last-child]:truncate [&>svg]:size-4 [&>svg]:shrink-0''),
      cva_variants = [(''variant'', [(''default'', js ''hover:bg-sidebar-accent hover:text-sidebar-accent-foreground''),
        (''outline'', js ''bg-background shadow-[0_0_0_1px_hsl(var(--sidebar-border))] hover:bg-sidebar-accent hover:text-sidebar-accent-foreground hover:shadow-[0_0_0_1px_hsl(var(--sidebar-accent))]'')]),
       (''size'', [(''default'', js ''h-8 text-sm''),
        (''sm'', js ''h-7 text-xs''),
        (''lg'', js ''h-12 text-sm group-data-[collapsible=icon]:p-0!'')])],
      cva_defaults = [(''variant'', ''default''), (''size'', ''default'')]\<rparr>"

definition SidebarMenuButton :: "'a pval \<Rightarrow> 'a component" where
  "SidebarMenuButton ctx L ps =
     (let asChild = pget_or ''asChild'' (PBool False) ps;
          isActive = pget_or ''isActive'' (PBool False) ps;
          variant = pget_or ''variant'' (cs ''default'') ps;
          size1 = pget_or ''size'' (cs ''default'') ps;
          tooltip = pget ''tooltip'' ps;
          className = pget ''className'' ps;
          props = rest_of [''asChild'', ''isActive'', ''variant'', ''size'', ''tooltip'', ''className''] ps
      in let Comp = (if truthy asChild then Lib ''Slot'' else Host ''button'') in
        let button = PNodes (elem Comp
            [attr ''data-slot'' (cs ''sidebar-menu-button''),
             attr ''data-sidebar'' (cs ''menu-button''),
             attr ''data-size'' size1,
             attr ''data-active'' isActive,
             attr ''className'' (PStr (ui_cn L
                   [PStr (ui_cva L sidebarMenuButtonVariants [(''variant'', variant), (''size'', size1)]),
                    className])),
             props] []) in
        if \<not> (truthy tooltip) then child button else
        let tooltip = (if is_str tooltip then obj [attr ''children'' tooltip] else tooltip) in
        Tooltip L (attrs []
            [TooltipTrigger L (attrs [attr ''asChild'' (PBool True)] [child button]),
             TooltipContent L (attrs
                 [attr ''side'' (cs ''right''),
                  attr ''align'' (cs ''center''),
                  attr ''hidden'' (js_or (PBool (\<not> (js_eq (member ctx ''state'') (cs ''collapsed'')))) (member ctx ''isMobile'')),
                  spread tooltip] [])]))"

definition SidebarMenuAction :: "'a component" where
  "SidebarMenuAction L ps =
     (let className = pget ''className'' ps;
          asChild = pget_or ''asChild'' (PBool False) ps;
          showOnHover = pget_or ''showOnHover'' (PBool False) ps;
          props = rest_of [''className'', ''asChild'', ''showOnHover''] ps
      in let Comp = (if truthy asChild then Lib ''Slot'' else Host ''button'') in
        elem Comp
          [attr ''data-slot'' (cs ''sidebar-menu-action''),
           attr ''data-sidebar'' (cs ''menu-action''),
           attr ''className'' (PStr (ui_cn L
                 [cs
                    ''text-sidebar-foreground ring-sidebar-ring hover:bg-sidebar-accent hover:text-sidebar-accent-foreground peer-hover/menu-button:text-sidebar-accent-foreground absolute top-1.5 right-1 flex aspect-square w-5 items-center justify-center rounded-md p-0 outline-hidden transition-transform focus-visible:ring-2 [&>svg]:size-4 [&>svg]:shrink-0'',
                  cs ''after:absolute after:-inset-2 md:after:hidden'',
                  cs ''peer-data-[size=sm]/menu-button:top-1'',
                  cs ''peer-data-[size=default]/menu-button:top-1.5'',
                  cs ''peer-data-[size=lg]/menu-button:top-2.5'',
                  cs ''group-data-[collapsible=icon]:hidden'',
                  js_and showOnHover (cs
                      ''peer-data-[active=true]/menu-button:text-sidebar-accent-foreground group-focus-within/menu-item:opacity-100 group-hover/menu-item:opacity-100 data-[state=open]:opacity-100 md:opacity-0''),
                  className])),
           props] [])"

definition SidebarMenuBadge :: "'a component" where
  "SidebarMenuBadge L ps =
     (let className = pget ''className'' ps;
          props = rest_of [''className''] ps
      in host ''div''
          [attr ''data-slot'' (cs ''sidebar-menu-badge''),
           attr ''data-sidebar'' (cs ''menu-badge''),
           attr ''className'' (PStr (ui_cn L
                 [cs
                    ''text-sidebar-foreground pointer-events-none absolute right-1 flex h-5 min-w-5 items-center justify-center rounded-md px-1 text-xs font-medium tabular-nums select-none'',
                  cs
                    ''peer-hover/menu-button:text-sidebar-accent-foreground peer-data-[active=true]/menu-button:text-sidebar-accent-foreground'',
                  cs ''peer-data-[size=sm]/menu-button:top-1'',
                  cs ''peer-data-[size=default]/menu-button:top-1.5'',
                  cs ''peer-data-[size=lg]/menu-button:top-2.5'',
                  cs ''group-data-[collapsible=icon]:hidden'',
                  className])),
           props] [])"

definition SidebarMenuSkeleton :: "'a pval \<Rightarrow> 'a component" where
  "SidebarMenuSkeleton width L ps =
     (let className = pget ''className'' ps;
          showIcon = pget_or ''showIcon'' (PBool False) ps;
          props = rest_of [''className'', ''showIcon''] ps
      in host ''div''
          [attr ''data-slot'' (cs ''sidebar-menu-skeleton''),
           attr ''data-sidebar'' (cs ''menu-skeleton''),
           attr ''className'' (PStr (ui_cn L [cs ''flex h-8 items-center gap-2 rounded-md px-2'', className])),
           props]
          [child (js_and showIcon (PNodes (Skeleton L (attrs
                     [attr ''className'' (cs ''size-4 rounded-md''),
                      attr ''data-sidebar'' (cs ''menu-skeleton-icon'')] [])))),
           Skeleton L (attrs
               [attr ''className'' (cs ''h-4 max-w-(--skeleton-width) flex-1''),
                attr ''data-sidebar'' (cs ''menu-skeleton-text''),
                attr ''style'' (obj [attr ''--skeleton-width'' width])] [])])"

definition SidebarMenuSub :: "'a component" where
  "SidebarMenuSub L ps =
     (let className = pget ''className'' ps;
          props = rest_of [''className''] ps
      in host ''ul''
          [attr ''data-slot'' (cs ''sidebar-menu-sub''),
           attr ''data-sidebar'' (cs ''menu-sub''),
           attr ''className'' (PStr (ui_cn L
                 [cs
                    ''border-sidebar-border mx-3.5 flex min-w-0 translate-x-px flex-col gap-1 border-l px-2.5 py-0.5'',
                  cs ''group-data-[collapsible=icon]:hidden'',
                  className])),
           props] [])"

definition SidebarMenuSubItem :: "'a component" where
  "SidebarMenuSubItem L ps =
     (let className = pget ''className'' ps;
          props = rest_of [''className''] ps
      in host ''li''
          [attr ''data-slot'' (cs ''sidebar-menu-sub-item''),
           attr ''data-sidebar'' (cs ''menu-sub-item''),
           attr ''className'' (PStr (ui_cn L [cs ''group/menu-sub-item relative'', className])),
           props] [])"

definition SidebarMenuSubButton :: "'a component" where
  "SidebarMenuSubButton L ps =
     (let asChild = pget_or ''asChild'' (PBool False) ps;
          size1 = pget_or ''size'' (cs ''md'') ps;
          isActive = pget_or ''isActive'' (PBool False) ps;
          className = pget ''className'' ps;
          props = rest_of [''asChild'', ''size'', ''isActive'', ''className''] ps
      in let Comp = (if truthy asChild then Lib ''Slot'' else Host ''a'') in
        elem Comp
          [attr ''data-slot'' (cs ''sidebar-menu-sub-button''),
           attr ''data-sidebar'' (cs ''menu-sub-button''),
           attr ''data-size'' size1,
           attr ''data-active'' isActive,
           attr ''className'' (PStr (ui_cn L
                 [cs
                    ''text-sidebar-foreground ring-sidebar-ring hover:bg-sidebar-accent hover:text-sidebar-accent-foreground active:bg-sidebar-accent active:text-sidebar-accent-foreground [&>svg]:text-sidebar-accent-foreground flex h-7 min-w-0 -translate-x-px items-center gap-2 overflow-hidden rounded-md px-2 outline-hidden focus-visible:ring-2 disabled:pointer-events-none disabled:opacity-50 aria-disabled:pointer-events-none aria-disabled:opacity-50 [&>span:last-child]:truncate [&>svg]:size-4 [&>svg]:shrink-0'',
                  cs
                    ''data-[active=true]:bg-sidebar-accent data-[active=true]:text-sidebar-accent-foreground'',
                  js_and (PBool (js_eq size1 (cs ''sm''))) (cs ''text-xs''),
                  js_and (PBool (js_eq size1 (cs ''md''))) (cs ''text-sm''),
                  cs ''group-data-[collapsible=icon]:hidden'',
                  className])),
           props] [])"

end
