(* ===== verification/SidebarState.thy ===== *)
theory SidebarState imports UiSidebar begin

section \<open>The state of the sidebar (components/ui/sidebar.tsx, hooks/use-mobile.ts)\<close>

text \<open>
  \<open>SidebarProvider\<close> keeps whether the panel is open, on wide and on narrow screens, and \<open>useIsMobile\<close> whether
  the screen is narrow. The functions it hands out are closures of the last render: an event runs any
  number of requests against the state of that render, \<open>c\<close> below, and React renders again afterwards. With
  \<open>onOpenChange\<close> given, the parent is told and decides; without it the provider's own state changes.
  Either way a cookie is written. Widths are whole CSS pixels.
\<close>

record panel =
  width :: int
  is_mobile :: "bool option"
  own_open :: bool
  open_prop :: "bool option"
  open_mobile :: bool
  has_parent :: bool
  reported :: "bool list"
  cookie :: "jstr option"

subsection \<open>hooks/use-mobile.ts\<close>

definition mobile_breakpoint :: int where
  "mobile_breakpoint = 768"

text \<open>The media query \<open>(max-width: 767px)\<close>\<close>

definition query_matches :: "int \<Rightarrow> bool" where
  "query_matches w = (w \<le> mobile_breakpoint - 1)"

definition on_change :: "panel \<Rightarrow> panel" where
  "on_change s = s\<lparr>is_mobile := Some (width s < mobile_breakpoint)\<rparr>"

definition mount_effect :: "panel \<Rightarrow> panel" where
  "mount_effect s = s\<lparr>is_mobile := Some (width s < mobile_breakpoint)\<rparr>"

text \<open>The listener hears of a new width only when the query's answer changes.\<close>

definition resize_to :: "int \<Rightarrow> panel \<Rightarrow> panel" where
  "resize_to w s =
     (let t = s\<lparr>width := w\<rparr>
      in if query_matches w \<noteq> query_matches (width s) then on_change t else t)"

text \<open>\<open>!!isMobile\<close>\<close>

definition useIsMobile :: "panel \<Rightarrow> bool" where
  "useIsMobile s = (is_mobile s = Some True)"

subsection \<open>SidebarProvider\<close>

definition initial_panel :: "bool \<Rightarrow> bool option \<Rightarrow> bool \<Rightarrow> int \<Rightarrow> panel" where
  "initial_panel defaultOpen openProp setOpenProp w =
     \<lparr>width = w, is_mobile = None, own_open = defaultOpen, open_prop = openProp, open_mobile = False,
      has_parent = setOpenProp, reported = [], cookie = None\<rparr>"

definition shown_open :: "panel \<Rightarrow> bool" where
  "shown_open s = (case open_prop s of Some b \<Rightarrow> b | None \<Rightarrow> own_open s)"

definition cookie_text :: "bool \<Rightarrow> jstr" where
  "cookie_text b = js ''sidebar_state='' @ (if b then js ''true'' else js ''false'')
     @ js ''; path=/; max-age='' @ int_str (60 * 60 * 24 * 7)"

text \<open>A value or a function of the open state of the render\<close>

definition setOpen :: "panel \<Rightarrow> bool + (bool \<Rightarrow> bool) \<Rightarrow> panel \<Rightarrow> panel" where
  "setOpen c v s =
     (let open_state = (case v of Inl b \<Rightarrow> b | Inr f \<Rightarrow> f (shown_open c));
          t = (if has_parent c then s\<lparr>reported := reported s @ [open_state]\<rparr> else s\<lparr>own_open := open_state\<rparr>)
      in t\<lparr>cookie := Some (cookie_text open_state)\<rparr>)"

definition toggleSidebar :: "panel \<Rightarrow> panel \<Rightarrow> panel" where
  "toggleSidebar c s =
     (if useIsMobile c then s\<lparr>open_mobile := \<not> open_mobile s\<rparr> else setOpen c (Inr Not) s)"

text \<open>The result says whether the browser's own action is prevented.\<close>

definition handleKeyDown :: "panel \<Rightarrow> jstr \<Rightarrow> bool \<Rightarrow> bool \<Rightarrow> panel \<Rightarrow> bool \<times> panel" where
  "handleKeyDown c key meta ctrl s =
     (if key = js ''b'' \<and> (meta \<or> ctrl) then (True, toggleSidebar c s) else (False, s))"

datatype request = Toggle | Set_open "bool + (bool \<Rightarrow> bool)" | Set_mobile bool | Key jstr bool bool

definition serve :: "panel \<Rightarrow> request \<Rightarrow> panel \<Rightarrow> panel" where
  "serve c r s = (case r of
       Toggle \<Rightarrow> toggleSidebar c s
     | Set_open v \<Rightarrow> setOpen c v s
     | Set_mobile b \<Rightarrow> s\<lparr>open_mobile := b\<rparr>
     | Key k meta ctrl \<Rightarrow> snd (handleKeyDown c k meta ctrl s))"

text \<open>One event of the page: requests against one render, a new width, or a new \<open>open\<close> property.\<close>

datatype panel_event = Requests "request list" | Resize int | Parent_renders "bool option"

definition panel_handle :: "panel_event \<Rightarrow> panel \<Rightarrow> panel" where
  "panel_handle e s = (case e of
       Requests rs \<Rightarrow> fold (serve s) rs s
     | Resize w \<Rightarrow> resize_to w s
     | Parent_renders p \<Rightarrow> s\<lparr>open_prop := p\<rparr>)"

definition panel_run :: "bool \<Rightarrow> bool option \<Rightarrow> bool \<Rightarrow> int \<Rightarrow> panel_event list \<Rightarrow> panel" where
  "panel_run defaultOpen openProp setOpenProp w es =
     fold panel_handle es (mount_effect (initial_panel defaultOpen openProp setOpenProp w))"

text \<open>What the components below read: the context of the current render.\<close>

definition panel_context :: "'a pval \<Rightarrow> 'a pval \<Rightarrow> 'a pval \<Rightarrow> panel \<Rightarrow> 'a pval" where
  "panel_context set_open set_open_mobile toggle s =
     sidebarContext (shown_open s) (useIsMobile s) (open_mobile s) set_open set_open_mobile toggle"

subsection \<open>Lemmas\<close>

lemmas serve_defs = serve_def toggleSidebar_def setOpen_def handleKeyDown_def Let_def

lemma serve_keeps [simp]:
  "width (serve c r s) = width s" "is_mobile (serve c r s) = is_mobile s"
  "has_parent (serve c r s) = has_parent s" "open_prop (serve c r s) = open_prop s"
  by (simp_all add: serve_defs split: request.split)

lemma serves_keep [simp]:
  "width (fold (serve c) rs s) = width s" "is_mobile (fold (serve c) rs s) = is_mobile s"
  "has_parent (fold (serve c) rs s) = has_parent s"
  by (induction rs arbitrary: s) simp_all

text \<open>The cookie, the provider's state and the reports to the parent say the same.\<close>

definition cookie_ok :: "bool \<Rightarrow> panel \<Rightarrow> bool" where
  "cookie_ok defaultOpen s =
     (if has_parent s
      then own_open s = defaultOpen
        \<and> cookie s = (if reported s = [] then None else Some (cookie_text (last (reported s))))
      else reported s = []
        \<and> (cookie s = None \<and> own_open s = defaultOpen \<or> cookie s = Some (cookie_text (own_open s))))"

lemma serve_cookie_ok: "has_parent c = has_parent s \<Longrightarrow> cookie_ok d s \<Longrightarrow> cookie_ok d (serve c r s)"
  by (simp add: cookie_ok_def serve_defs split: request.split if_splits)

lemma serves_cookie_ok: "has_parent c = has_parent s \<Longrightarrow> cookie_ok d s \<Longrightarrow> cookie_ok d (fold (serve c) rs s)"
  by (induction rs arbitrary: s) (simp_all add: serve_cookie_ok)

text \<open>Hearing only of changes of the query is enough to know the width class at all times.\<close>

definition panel_ok :: "bool \<Rightarrow> bool \<Rightarrow> panel \<Rightarrow> bool" where
  "panel_ok d h s \<longleftrightarrow> is_mobile s = Some (width s < mobile_breakpoint) \<and> has_parent s = h \<and> cookie_ok d s"

interpretation panel: stepwise "\<lambda>s t. \<exists>e. t = panel_handle e s"
    "\<lambda>s. \<exists>p w. s = mount_effect (initial_panel d p h w)" "panel_ok d h" for d h
proof unfold_locales
  fix s assume "\<exists>p w. s = mount_effect (initial_panel d p h w)"
  then show "panel_ok d h s" by (auto simp: panel_ok_def cookie_ok_def mount_effect_def initial_panel_def)
next
  fix s t assume ok: "panel_ok d h s" and "\<exists>e. t = panel_handle e s"
  then obtain e where t: "t = panel_handle e s" by blast
  show "panel_ok d h t"
  proof (cases e)
    case (Requests rs)
    then show ?thesis using ok by (simp add: t panel_ok_def panel_handle_def serves_cookie_ok)
  next
    case (Resize w)
    then show ?thesis
      using ok by (auto simp: t panel_ok_def panel_handle_def resize_to_def on_change_def query_matches_def
          Let_def cookie_ok_def)
  next
    case (Parent_renders p)
    then show ?thesis using ok by (simp add: t panel_ok_def panel_handle_def cookie_ok_def)
  qed
qed

lemma panel_run_ok: "panel_ok d h (panel_run d p h w es)"
proof -
  have "(\<lambda>s t. \<exists>e. t = panel_handle e s)\<^sup>*\<^sup>* s (fold panel_handle es s)" for s
    by (induction es arbitrary: s) (auto intro: converse_rtranclp_into_rtranclp)
  then show ?thesis unfolding panel_run_def by (rule panel.inv_reach) blast
qed

text \<open>Two toggles in one event open or close a wide panel once, and a narrow one twice.\<close>

lemma toggles_of_one_event:
  "useIsMobile s \<Longrightarrow> panel_handle (Requests [Toggle, Toggle]) s = s"
  "\<not> useIsMobile s \<Longrightarrow> \<not> has_parent s \<Longrightarrow>
     panel_handle (Requests [Toggle, Toggle]) s = panel_handle (Requests [Toggle]) s"
  by (simp_all add: panel_handle_def serve_defs)

text \<open>C30. After any events since the page was shown, the sidebar knows whether the screen is narrower than
  768 pixels, although it hears of a new width only when the media query's answer changes. With a parent
  that decides, the provider's own state is still the default and the cookie holds the value last
  reported to the parent; without one nothing is reported and the cookie, once written, holds the
  state the panel is in, so that the next visit can restore it.\<close>

theorem sidebar_state_known:
  "let s = panel_run d p h w es in
     useIsMobile s = (width s < 768)
     \<and> (if h then own_open s = d
          \<and> cookie s = (if reported s = [] then None else Some (cookie_text (last (reported s))))
        else reported s = []
          \<and> (cookie s = None \<and> own_open s = d \<or> cookie s = Some (cookie_text (own_open s))))"
  using panel_run_ok [of d h p w es]
  by (auto simp: panel_ok_def cookie_ok_def useIsMobile_def mobile_breakpoint_def Let_def)

end
