(* ===== verification/UiCarousel.thy ===== *)
theory UiCarousel imports UiBase begin

section \<open>The carousel (components/ui/carousel.tsx)\<close>

text \<open>
  Each component of the files below is the function from its properties to what it renders: the
  properties it destructures, with their defaults, the remaining ones spread where the source spreads
  them, and the class lists passed to the merging function in the source's order.
  The components inside a carousel read its context, an object that is their first argument.
\<close>

subsection \<open>components/ui/carousel.tsx\<close>

text \<open>The options for the library: the caller's, with the axis of the orientation.\<close>

definition carouselOptions :: "'a props \<Rightarrow> 'a pval" where
  "carouselOptions ps =
     (let orientation = pget_or ''orientation'' (cs ''horizontal'') ps
      in obj [spread (pget ''opts'' ps),
           attr ''axis'' (if js_eq orientation (cs ''horizontal'') then cs ''x'' else cs ''y'')])"

text \<open>The context of the carousel; its state and its operations are in \<open>CarouselState\<close>.\<close>

definition Carousel :: "'a pval \<Rightarrow> 'a pval \<Rightarrow> 'a component" where
  "Carousel ctx handleKeyDown L ps =
     (let className = pget ''className'' ps;
          children = pget ''children'' ps;
          props = rest_of [''orientation'', ''opts'', ''setApi'', ''plugins'', ''className'', ''children''] ps
      in lib ''CarouselContext.Provider'' [attr ''value'' ctx]
          [host ''div''
             [attr ''onKeyDownCapture'' handleKeyDown,
              attr ''className'' (PStr (ui_cn L [cs ''relative'', className])),
              attr ''role'' (cs ''region''),
              attr ''aria-roledescription'' (cs ''carousel''),
              attr ''data-slot'' (cs ''carousel''),
              props]
             [child children]])"

text \<open>The orientation in the context\<close>

definition carouselOrientation :: "'a props \<Rightarrow> 'a pval" where
  "carouselOrientation ps =
     js_or (pget_or ''orientation'' (cs ''horizontal'') ps)
       (if js_eq (member (pget ''opts'' ps) ''axis'') (cs ''y'') then cs ''vertical'' else cs ''horizontal'')"

definition CarouselContent :: "'a pval \<Rightarrow> 'a component" where
  "CarouselContent ctx L ps =
     (let className = pget ''className'' ps;
          props = rest_of [''className''] ps
      in host ''div''
          [attr ''ref'' (member ctx ''carouselRef''),
           attr ''className'' (cs ''overflow-hidden''),
           attr ''data-slot'' (cs ''carousel-content'')]
          [host ''div''
             [attr ''className'' (PStr (ui_cn L
                    [cs ''flex'',
                     if js_eq (member ctx ''orientation'') (cs ''horizontal'') then cs ''-ml-4'' else cs
                       ''-mt-4 flex-col'',
                     className])),
              props] []])"

definition CarouselItem :: "'a pval \<Rightarrow> 'a component" where
  "CarouselItem ctx L ps =
     (let className = pget ''className'' ps;
          props = rest_of [''className''] ps
      in host ''div''
          [attr ''role'' (cs ''group''),
           attr ''aria-roledescription'' (cs ''slide''),
           attr ''data-slot'' (cs ''carousel-item''),
           attr ''className'' (PStr (ui_cn L
                 [cs ''min-w-0 shrink-0 grow-0 basis-full'',
                  if js_eq (member ctx ''orientation'') (cs ''horizontal'') then cs ''pl-4'' else cs
                    ''pt-4'',
                  className])),
           props] [])"

definition CarouselPrevious :: "'a pval \<Rightarrow> 'a component" where
  "CarouselPrevious ctx L ps =
     (let className = pget ''className'' ps;
          variant = pget_or ''variant'' (cs ''outline'') ps;
          size1 = pget_or ''size'' (cs ''icon'') ps;
          props = rest_of [''className'', ''variant'', ''size''] ps
      in Button L (attrs
            [attr ''data-slot'' (cs ''carousel-previous''),
             attr ''variant'' variant,
             attr ''size'' size1,
             attr ''className'' (PStr (ui_cn L
                   [cs ''absolute size-8 rounded-full'',
                    if js_eq (member ctx ''orientation'') (cs ''horizontal'') then cs
                      ''top-1/2 -left-12 -translate-y-1/2'' else cs
                      ''-top-12 left-1/2 -translate-x-1/2 rotate-90'',
                    className])),
             attr ''disabled'' (PBool (\<not> (truthy (member ctx ''canScrollPrev'')))),
             attr ''onClick'' (member ctx ''scrollPrev''),
             props]
            [lib ''ArrowLeft'' [] [],
             host ''span'' [attr ''className'' (cs ''sr-only'')] [tx ''Previous slide'']]))"

definition CarouselNext :: "'a pval \<Rightarrow> 'a component" where
  "CarouselNext ctx L ps =
     (let className = pget ''className'' ps;
          variant = pget_or ''variant'' (cs ''outline'') ps;
          size1 = pget_or ''size'' (cs ''icon'') ps;
          props = rest_of [''className'', ''variant'', ''size''] ps
      in Button L (attrs
            [attr ''data-slot'' (cs ''carousel-next''),
             attr ''variant'' variant,
             attr ''size'' size1,
             attr ''className'' (PStr (ui_cn L
                   [cs ''absolute size-8 rounded-full'',
                    if js_eq (member ctx ''orientation'') (cs ''horizontal'') then cs
                      ''top-1/2 -right-12 -translate-y-1/2'' else cs
                      ''-bottom-12 left-1/2 -translate-x-1/2 rotate-90'',
                    className])),
             attr ''disabled'' (PBool (\<not> (truthy (member ctx ''canScrollNext'')))),
             attr ''onClick'' (member ctx ''scrollNext''),
             props]
            [lib ''ArrowRight'' [] [],
             host ''span'' [attr ''className'' (cs ''sr-only'')] [tx ''Next slide'']]))"

end
