(* ===== verification/CarouselState.thy ===== *)
theory CarouselState imports UiCarousel begin

section \<open>The state of the carousel (components/ui/carousel.tsx)\<close>

text \<open>
  \<open>Carousel\<close> gets an api object from the carousel library, \<open>None\<close> until the library is ready, and listens to
  it. The library is outside: an api object is a number, what the component asks of it is logged in
  order, and its answers come with the events. Of \<open>on\<close> and \<open>off\<close> the model uses what the library
  documents: \<open>on\<close> adds a listener, \<open>off\<close> removes it, and an event calls every listener added for it.
\<close>

datatype api_event = ReInit | Select

datatype api_call = On api_event | Off api_event | Scroll_prev | Scroll_next

record carousel =
  on_page :: bool
  c_api :: "nat option"
  can_scroll_prev :: bool
  can_scroll_next :: bool
  subscribed_to :: "nat option"
  has_set_api :: bool
  handed_out :: "nat list"
  calls :: "(nat \<times> api_call) list"
  runs_of :: "nat \<Rightarrow> nat"

definition initial_carousel :: "bool \<Rightarrow> carousel" where
  "initial_carousel setApi =
     \<lparr>on_page = True, c_api = None, can_scroll_prev = False, can_scroll_next = False, subscribed_to = None,
      has_set_api = setApi, handed_out = [], calls = [], runs_of = (\<lambda>_. 0)\<rparr>"

definition call :: "nat \<Rightarrow> api_call \<Rightarrow> carousel \<Rightarrow> carousel" where
  "call a c s = s\<lparr>calls := calls s @ [(a, c)]\<rparr>"

text \<open>\<open>onSelect\<close>, with the two answers of the library\<close>

definition onSelect :: "bool \<times> bool \<Rightarrow> carousel \<Rightarrow> carousel" where
  "onSelect ans s = s\<lparr>can_scroll_prev := fst ans, can_scroll_next := snd ans\<rparr>"

definition scrollPrev :: "carousel \<Rightarrow> carousel" where
  "scrollPrev s = (case c_api s of None \<Rightarrow> s | Some a \<Rightarrow> call a Scroll_prev s)"

definition scrollNext :: "carousel \<Rightarrow> carousel" where
  "scrollNext s = (case c_api s of None \<Rightarrow> s | Some a \<Rightarrow> call a Scroll_next s)"

text \<open>The flag says whether the browser's own action is prevented.\<close>

definition handleKeyDown :: "jstr \<Rightarrow> carousel \<Rightarrow> bool \<times> carousel" where
  "handleKeyDown key s =
     (if key = js ''ArrowLeft'' then (True, scrollPrev s)
      else if key = js ''ArrowRight'' then (True, scrollNext s)
      else (False, s))"

subsection \<open>Effects\<close>

definition set_api_effect :: "carousel \<Rightarrow> carousel" where
  "set_api_effect s = (case c_api s of
       None \<Rightarrow> s
     | Some a \<Rightarrow> if has_set_api s then s\<lparr>handed_out := handed_out s @ [a]\<rparr> else s)"

text \<open>The field \<open>runs_of\<close> counts how often the effect subscribed to an api object.\<close>

definition listen_effect :: "bool \<times> bool \<Rightarrow> carousel \<Rightarrow> carousel" where
  "listen_effect ans s = (case c_api s of
       None \<Rightarrow> s
     | Some a \<Rightarrow> (call a (On Select) (call a (On ReInit) (onSelect ans s)))
         \<lparr>subscribed_to := Some a, runs_of := (runs_of s)(a := Suc (runs_of s a))\<rparr>)"

definition listen_cleanup :: "carousel \<Rightarrow> carousel" where
  "listen_cleanup s = (case subscribed_to s of
       None \<Rightarrow> s
     | Some a \<Rightarrow> (call a (Off Select) s)\<lparr>subscribed_to := None\<rparr>)"

subsection \<open>Events\<close>

text \<open>
  The hook returns another api object or none; the parent passes another \<open>setApi\<close>; the library fires an
  event; a button or a key is pressed; the carousel is removed from the page. \<open>ans\<close> is what the api object
  answers to \<open>canScrollPrev\<close> and \<open>canScrollNext\<close> at that moment. Once it is removed, the carousel has no
  state, so that a listener left behind that sets it is without effect; the fields keep their last values.
\<close>

datatype carousel_event =
    Api_changes "nat option" "bool \<times> bool"
  | Set_api_changes
  | Api_fires nat api_event "bool \<times> bool"
  | Prev_clicked
  | Next_clicked
  | Key_down jstr
  | Unmount

text \<open>How many listeners the log of calls leaves for an event of an api object\<close>

fun listeners :: "nat \<Rightarrow> api_event \<Rightarrow> (nat \<times> api_call) list \<Rightarrow> nat" where
  "listeners a ev [] = 0"
| "listeners a ev ((b, c) # cs1) =
     (let n = listeners a ev cs1
      in if b \<noteq> a then n else if c = On ev then Suc n else if c = Off ev then 0 else n)"

definition registered :: "nat \<Rightarrow> api_event \<Rightarrow> carousel \<Rightarrow> nat" where
  "registered a ev s = listeners a ev (rev (calls s))"

fun mounted_handle :: "carousel_event \<Rightarrow> carousel \<Rightarrow> carousel" where
  "mounted_handle (Api_changes a ans) s =
     (if a = c_api s then s
      else listen_effect ans (set_api_effect ((listen_cleanup s)\<lparr>c_api := a\<rparr>)))"
| "mounted_handle Set_api_changes s = set_api_effect (s\<lparr>has_set_api := True\<rparr>)"
| "mounted_handle (Api_fires a ev ans) s = (if registered a ev s = 0 then s else onSelect ans s)"
| "mounted_handle Prev_clicked s = (if can_scroll_prev s then scrollPrev s else s)"
| "mounted_handle Next_clicked s = (if can_scroll_next s then scrollNext s else s)"
| "mounted_handle (Key_down k) s = snd (handleKeyDown k s)"
| "mounted_handle Unmount s = (listen_cleanup s)\<lparr>c_api := None, on_page := False\<rparr>"

definition carousel_handle :: "carousel_event \<Rightarrow> carousel \<Rightarrow> carousel" where
  "carousel_handle e s = (if on_page s then mounted_handle e s else s)"

text \<open>What the buttons read.\<close>

definition carousel_context ::
  "'a pval \<Rightarrow> 'a pval \<Rightarrow> 'a pval \<Rightarrow> 'a pval \<Rightarrow> 'a pval \<Rightarrow> 'a pval \<Rightarrow> carousel \<Rightarrow> 'a pval" where
  "carousel_context ref1 api1 opts1 orientation prev1 next1 s =
     obj [attr ''carouselRef'' ref1, attr ''api'' api1, attr ''opts'' opts1, attr ''orientation'' orientation, attr ''scrollPrev'' prev1, attr ''scrollNext'' next1,
       attr ''canScrollPrev'' (PBool (can_scroll_prev s)), attr ''canScrollNext'' (PBool (can_scroll_next s))]"

subsection \<open>Lemmas\<close>

lemmas carousel_defs = set_api_effect_def listen_effect_def listen_cleanup_def scrollPrev_def scrollNext_def
  onSelect_def handleKeyDown_def

lemma registered_call:
  "registered a ev (call b c s) =
     (if b \<noteq> a then registered a ev s
      else if c = On ev then Suc (registered a ev s) else if c = Off ev then 0 else registered a ev s)"
  by (simp add: registered_def call_def)

lemma registered_frame [simp]:
  "registered a ev (s\<lparr>c_api := x\<rparr>) = registered a ev s" "registered a ev (s\<lparr>handed_out := h\<rparr>) = registered a ev s"
  "registered a ev (s\<lparr>can_scroll_prev := b\<rparr>) = registered a ev s"
  "registered a ev (s\<lparr>can_scroll_next := b\<rparr>) = registered a ev s"
  "registered a ev (s\<lparr>subscribed_to := x\<rparr>) = registered a ev s" "registered a ev (s\<lparr>runs_of := f\<rparr>) = registered a ev s"
  "registered a ev (s\<lparr>has_set_api := b\<rparr>) = registered a ev s" "registered a ev (s\<lparr>on_page := b\<rparr>) = registered a ev s"
  by (simp_all add: registered_def)

lemma call_frame [simp]:
  "c_api (call a c s) = c_api s" "subscribed_to (call a c s) = subscribed_to s" "runs_of (call a c s) = runs_of s"
  "has_set_api (call a c s) = has_set_api s" "on_page (call a c s) = on_page s"
  by (simp_all add: call_def)

text \<open>
  The listener for \<open>select\<close> is registered exactly once with the api object in use and nowhere else; the one
  for \<open>reInit\<close> once more for every subscription, and never less.
\<close>

definition carousel_ok :: "carousel \<Rightarrow> bool" where
  "carousel_ok s \<longleftrightarrow> subscribed_to s = c_api s
     \<and> (\<forall>a. registered a Select s = (if c_api s = Some a then 1 else 0))
     \<and> (\<forall>a. registered a ReInit s = runs_of s a)
     \<and> (\<not> on_page s \<longrightarrow> c_api s = None)"

lemma carousel_ok_mounted: "carousel_ok s \<Longrightarrow> on_page s \<Longrightarrow> carousel_ok (mounted_handle e s)"
  by (cases e) (auto simp: carousel_ok_def carousel_defs registered_call split: option.split)

lemma carousel_ok_handle: "carousel_ok s \<Longrightarrow> carousel_ok (carousel_handle e s)"
  by (simp add: carousel_handle_def carousel_ok_mounted)

interpretation carousel: stepwise "\<lambda>s t. \<exists>e. t = carousel_handle e s" "\<lambda>s. \<exists>b. s = initial_carousel b" carousel_ok
  by unfold_locales (auto simp: carousel_ok_handle, auto simp: carousel_ok_def initial_carousel_def registered_def)

definition carousel_run :: "bool \<Rightarrow> carousel_event list \<Rightarrow> carousel" where
  "carousel_run setApi es = fold carousel_handle es (initial_carousel setApi)"

lemma carousel_run_ok: "carousel_ok (carousel_run b es)"
proof -
  have "(\<lambda>s t. \<exists>e. t = carousel_handle e s)\<^sup>*\<^sup>* s (fold carousel_handle es s)" for s
    by (induction es arbitrary: s) (auto intro: converse_rtranclp_into_rtranclp)
  then show ?thesis unfolding carousel_run_def by (rule carousel.inv_reach) blast
qed

text \<open>C31. After any events, the carousel listens to \<open>select\<close> of exactly the api object it uses, once, and to
  none after it left the page. Its listeners for \<open>reInit\<close> are never taken back: every subscription to an
  api object leaves one more, also after another object replaced it and after the carousel left the page.
  So as long as the carousel is on the page, a \<open>reInit\<close> of any object it ever subscribed to overwrites the
  two flags; after that no event changes anything.\<close>

theorem carousel_listeners:
  "let s = carousel_run b es; t = carousel_handle Unmount s; u = carousel_handle (Api_fires a ReInit (p, n)) s in
     registered a Select s = (if c_api s = Some a then 1 else 0)
     \<and> registered a ReInit s = runs_of s a
     \<and> (can_scroll_prev u, can_scroll_next u) =
         (if on_page s \<and> runs_of s a \<noteq> 0 then (p, n) else (can_scroll_prev s, can_scroll_next s))
     \<and> registered a Select t = 0
     \<and> registered a ReInit t = registered a ReInit s
     \<and> carousel_handle e t = t"
proof -
  let ?s = "carousel_run b es"
  have ok: "carousel_ok ?s" "carousel_ok (carousel_handle Unmount ?s)"
    by (simp_all only: carousel_run_ok carousel_ok_handle)
  have runs: "runs_of (carousel_handle Unmount ?s) = runs_of ?s" "\<not> on_page (carousel_handle Unmount ?s)"
    by (auto simp: carousel_handle_def listen_cleanup_def call_def split: option.split)
  have none: "c_api (carousel_handle Unmount ?s) = None" using ok(2) runs(2) by (simp add: carousel_ok_def)
  have "\<not> on_page ?s \<Longrightarrow> carousel_handle Unmount ?s = ?s" by (simp add: carousel_handle_def)
  then show ?thesis using ok runs none
    by (auto simp: carousel_ok_def Let_def carousel_handle_def onSelect_def simp del: mounted_handle.simps(7))
qed

end
