(* ===== verification/UiCalendar.thy ===== *)
theory UiCalendar imports UiBase begin

section \<open>The calendar (components/ui/calendar.tsx)\<close>

text \<open>
  Each component of the files below is the function from its properties to what it renders: the
  properties it destructures, with their defaults, the remaining ones spread where the source spreads
  them, and the class lists passed to the merging function in the source's order.
  The calendar library (react-day-picker) is outside: its default class names are the first argument; the
  browser's text of a date is a function.
\<close>

subsection \<open>components/ui/calendar.tsx\<close>

text \<open>The formatter of months is the browser's short name of the month; the caller's formatters replace it.\<close>

definition calendar_formatters :: "'a props \<Rightarrow> 'a pval" where
  "calendar_formatters ps = obj [attr ''formatMonthDropdown'' (PRef ''shortMonthName''), spread (pget ''formatters'' ps)]"

text \<open>The components the calendar hands to the library; the caller's replace them by name.\<close>

definition Root :: "'a component" where
  "Root L ps =
     (let className = pget ''className'' ps; rootRef = pget ''rootRef'' ps;
          props = rest_of [''className'', ''rootRef''] ps
      in host ''div'' [attr ''data-slot'' (cs ''calendar''), attr ''ref'' rootRef,
          attr ''className'' (PStr (ui_cn L [className])), props] [])"

definition Chevron :: "'a component" where
  "Chevron L ps =
     (let className = pget ''className'' ps; orientation = pget ''orientation'' ps;
          props = rest_of [''className'', ''orientation''] ps;
          parts = [attr ''className'' (PStr (ui_cn L [cs ''size-4'', className])), props]
      in if js_eq orientation (cs ''left'') then lib ''ChevronLeftIcon'' parts []
         else if js_eq orientation (cs ''right'') then lib ''ChevronRightIcon'' parts []
         else lib ''ChevronDownIcon'' parts [])"

definition WeekNumber :: "'a component" where
  "WeekNumber L ps =
     (let children = pget ''children'' ps; props = rest_of [''children''] ps
      in host ''td'' [props]
          [host ''div'' [attr ''className'' (cs ''flex size-(--cell-size) items-center justify-center text-center'')]
            [child children]])"

definition CalendarDayButton :: "'a pval \<Rightarrow> ('a pval \<Rightarrow> jstr) \<Rightarrow> 'a component" where
  "CalendarDayButton defaultClassNames date_text L ps =
     (let className = pget ''className'' ps;
          day = pget ''day'' ps;
          modifiers = pget ''modifiers'' ps;
          props = rest_of [''className'', ''day'', ''modifiers''] ps
      in Button L (attrs
            [attr ''ref'' PUndef,
             attr ''variant'' (cs ''ghost''),
             attr ''size'' (cs ''icon''),
             attr ''data-day'' (PStr (date_text (member day ''date''))),
             attr ''data-selected-single'' (js_and (js_and (js_and (member modifiers ''selected'') (PBool (\<not> (truthy (member modifiers ''range_start'')))))
                   (PBool (\<not> (truthy (member modifiers ''range_end''))))) (PBool (\<not> (truthy (member modifiers ''range_middle''))))),
             attr ''data-range-start'' (member modifiers ''range_start''),
             attr ''data-range-end'' (member modifiers ''range_end''),
             attr ''data-range-middle'' (member modifiers ''range_middle''),
             attr ''className'' (PStr (ui_cn L
                   [cs
                      ''data-[selected-single=true]:bg-primary data-[selected-single=true]:text-primary-foreground data-[range-middle=true]:bg-accent data-[range-middle=true]:text-accent-foreground data-[range-start=true]:bg-primary data-[range-start=true]:text-primary-foreground data-[range-end=true]:bg-primary data-[range-end=true]:text-primary-foreground group-data-[focused=true]/day:border-ring group-data-[focused=true]/day:ring-ring/50 dark:hover:text-accent-foreground flex aspect-square size-auto w-full min-w-(--cell-size) flex-col gap-1 leading-none font-normal group-data-[focused=true]/day:relative group-data-[focused=true]/day:z-10 group-data-[focused=true]/day:ring-[3px] data-[range-end=true]:rounded-md data-[range-end=true]:rounded-r-md data-[range-middle=true]:rounded-none data-[range-start=true]:rounded-md data-[range-start=true]:rounded-l-md [&>span]:text-xs [&>span]:opacity-70'',
                    member defaultClassNames ''day'',
                    className])),
             props] []))"

definition calendar_components :: "'a props \<Rightarrow> 'a pval" where
  "calendar_components ps =
     obj [attr ''Root'' (PRef ''Root''), attr ''Chevron'' (PRef ''Chevron''), attr ''DayButton'' (PRef ''CalendarDayButton''),
       attr ''WeekNumber'' (PRef ''WeekNumber''), spread (pget ''components'' ps)]"

definition Calendar :: "'a pval \<Rightarrow> 'a component" where
  "Calendar defaultClassNames L ps =
     (let className = pget ''className'' ps;
          classNames = pget ''classNames'' ps;
          showOutsideDays = pget_or ''showOutsideDays'' (PBool True) ps;
          captionLayout = pget_or ''captionLayout'' (cs ''label'') ps;
          buttonVariant = pget_or ''buttonVariant'' (cs ''ghost'') ps;
          formatters = pget ''formatters'' ps;
          components = pget ''components'' ps;
          props = rest_of [''className'', ''classNames'', ''showOutsideDays'', ''captionLayout'', ''buttonVariant'', ''formatters'', ''components''] ps
      in lib ''DayPicker''
          [attr ''showOutsideDays'' showOutsideDays,
           attr ''className'' (PStr (ui_cn L
                 [cs
                    ''bg-background group/calendar p-3 [--cell-size:--spacing(8)] [[data-slot=card-content]_&]:bg-transparent [[data-slot=popover-content]_&]:bg-transparent'',
                  PStr (js ''rtl:**:[.rdp-button'' @ [92] @ js ''_next>svg]:rotate-180''),
                  PStr (js ''rtl:**:[.rdp-button'' @ [92] @ js ''_previous>svg]:rotate-180''),
                  className])),
           attr ''captionLayout'' captionLayout,
           attr ''formatters'' (calendar_formatters ps),
           attr ''classNames'' (obj
               [attr ''root'' (PStr (ui_cn L [cs ''w-fit'', member defaultClassNames ''root''])),
                attr ''months'' (PStr (ui_cn L
                      [cs ''flex gap-4 flex-col md:flex-row relative'',
                       member defaultClassNames ''months''])),
                attr ''month'' (PStr (ui_cn L [cs ''flex flex-col w-full gap-4'', member defaultClassNames ''month''])),
                attr ''nav'' (PStr (ui_cn L
                      [cs ''flex items-center gap-1 w-full absolute top-0 inset-x-0 justify-between'',
                       member defaultClassNames ''nav''])),
                attr ''button_previous'' (PStr (ui_cn L
                      [PStr (ui_cva L buttonVariants [(''variant'', buttonVariant)]),
                       cs ''size-(--cell-size) aria-disabled:opacity-50 p-0 select-none'',
                       member defaultClassNames ''button_previous''])),
                attr ''button_next'' (PStr (ui_cn L
                      [PStr (ui_cva L buttonVariants [(''variant'', buttonVariant)]),
                       cs ''size-(--cell-size) aria-disabled:opacity-50 p-0 select-none'',
                       member defaultClassNames ''button_next''])),
                attr ''month_caption'' (PStr (ui_cn L
                      [cs ''flex items-center justify-center h-(--cell-size) w-full px-(--cell-size)'',
                       member defaultClassNames ''month_caption''])),
                attr ''dropdowns'' (PStr (ui_cn L
                      [cs
                         ''w-full flex items-center text-sm font-medium justify-center h-(--cell-size) gap-1.5'',
                       member defaultClassNames ''dropdowns''])),
                attr ''dropdown_root'' (PStr (ui_cn L
                      [cs
                         ''relative has-focus:border-ring border border-input shadow-xs has-focus:ring-ring/50 has-focus:ring-[3px] rounded-md'',
                       member defaultClassNames ''dropdown_root''])),
                attr ''dropdown'' (PStr (ui_cn L
                      [cs ''absolute bg-popover inset-0 opacity-0'',
                       member defaultClassNames ''dropdown''])),
                attr ''caption_label'' (PStr (ui_cn L
                      [cs ''select-none font-medium'',
                       if js_eq captionLayout (cs ''label'') then cs ''text-sm'' else cs
                         ''rounded-md pl-2 pr-1 flex items-center gap-1 text-sm h-8 [&>svg]:text-muted-foreground [&>svg]:size-3.5'',
                       member defaultClassNames ''caption_label''])),
                attr ''table'' (cs ''w-full border-collapse''),
                attr ''weekdays'' (PStr (ui_cn L [cs ''flex'', member defaultClassNames ''weekdays''])),
                attr ''weekday'' (PStr (ui_cn L
                      [cs
                         ''text-muted-foreground rounded-md flex-1 font-normal text-[0.8rem] select-none'',
                       member defaultClassNames ''weekday''])),
                attr ''week'' (PStr (ui_cn L [cs ''flex w-full mt-2'', member defaultClassNames ''week''])),
                attr ''week_number_header'' (PStr (ui_cn L
                      [cs ''select-none w-(--cell-size)'',
                       member defaultClassNames ''week_number_header''])),
                attr ''week_number'' (PStr (ui_cn L
                      [cs ''text-[0.8rem] select-none text-muted-foreground'',
                       member defaultClassNames ''week_number''])),
                attr ''day'' (PStr (ui_cn L
                      [cs
                         ''relative w-full h-full p-0 text-center [&:first-child[data-selected=true]_button]:rounded-l-md [&:last-child[data-selected=true]_button]:rounded-r-md group/day aspect-square select-none'',
                       member defaultClassNames ''day''])),
                attr ''range_start'' (PStr (ui_cn L [cs ''rounded-l-md bg-accent'', member defaultClassNames ''range_start''])),
                attr ''range_middle'' (PStr (ui_cn L [cs ''rounded-none'', member defaultClassNames ''range_middle''])),
                attr ''range_end'' (PStr (ui_cn L [cs ''rounded-r-md bg-accent'', member defaultClassNames ''range_end''])),
                attr ''today'' (PStr (ui_cn L
                      [cs
                         ''bg-accent text-accent-foreground rounded-md data-[selected=true]:rounded-none'',
                       member defaultClassNames ''today''])),
                attr ''outside'' (PStr (ui_cn L
                      [cs ''text-muted-foreground aria-selected:text-muted-foreground'',
                       member defaultClassNames ''outside''])),
                attr ''disabled'' (PStr (ui_cn L
                      [cs ''text-muted-foreground opacity-50'',
                       member defaultClassNames ''disabled''])),
                attr ''hidden'' (PStr (ui_cn L [cs ''invisible'', member defaultClassNames ''hidden''])),
                spread classNames]),
           attr ''components'' (calendar_components ps),
           props] [])"

text \<open>The effect of a day: a focused day takes the focus, the actions \<open>focus\<close>.\<close>

definition focus_effect :: "'b list \<Rightarrow> 'a props \<Rightarrow> 'b list" where
  "focus_effect focus ps = (if truthy (member (pget ''modifiers'' ps) ''focused'') then focus else [])"

end
