(* ===== verification/Formats.thy ===== *)
theory Formats imports Jsx JsNumber begin

section \<open>Number and time formats of the views\<close>

text \<open>
  \<open>toFixed\<close> on exact values below \<open>1e21\<close> in magnitude: the nearest decimal, the larger of two. The formats
  that depend on the locale data and the time zone of the browser are a parameter, the record \<open>intl\<close>:
  \<open>toLocaleString\<close> of a number for a locale, \<open>None\<close> for the browser's own (and \<open>None\<close> for \<open>NaN\<close>), and
  \<open>toLocaleTimeString("ko-KR")\<close> with hours, minutes and seconds of two digits.
\<close>

record intl =
  in_number :: "jstr option \<Rightarrow> rat option \<Rightarrow> jstr"
  in_time :: "int \<Rightarrow> jstr"

definition ko_KR :: "jstr option" where
  "ko_KR = Some (js ''ko-KR'')"

definition to_fixed :: "nat \<Rightarrow> rat \<Rightarrow> jstr" where
  "to_fixed f x =
     (let n = nat \<lfloor>\<bar>x\<bar> * 10 ^ f + 1 / 2\<rfloor>;
          ds = nat_str n;
          m = replicate (Suc f - length ds) 48 @ ds;
          k = length m - f
      in (if x < 0 then [45] else []) @ take k m @ (if f = 0 then [] else 46 # drop k m))"

text \<open>The colours of a log entry\<close>

record entry_style =
  es_bg :: jstr
  es_border :: jstr
  es_icon :: jstr
  es_badge :: jstr

text \<open>A list with positions, as \<open>map((x, index) \<Rightarrow> \<dots>)\<close> sees it\<close>

definition indexed :: "'b list \<Rightarrow> (nat \<times> 'b) list" where
  "indexed xs = zip [0..<length xs] xs"

text \<open>A nonempty text as a child\<close>

abbreviation shown :: "jstr \<Rightarrow> 'a node list" where
  "shown s \<equiv> child (PStr s)"

text \<open>Library functions for the witnesses: the classes one after the other, the base of the variants, plain texts.\<close>

definition plain_ui :: "'a ui" where
  "plain_ui = \<lparr>ui_cn = (\<lambda>vs. concat (map (\<lambda>v. as_text v @ [32]) (filter truthy vs))), ui_cva = (\<lambda>spec ps. cva_base spec)\<rparr>"

definition plain_intl :: intl where
  "plain_intl = \<lparr>in_number = (\<lambda>locale q. case q of None \<Rightarrow> js ''NaN'' | Some v \<Rightarrow> to_fixed 0 v), in_time = int_str\<rparr>"

lemma to_fixed_samples:
  "to_fixed 2 (2345 / 1000) = js ''2.35''" "to_fixed 1 (- 1 / 100) = js ''-0.0''" "to_fixed 0 (99 / 2) = js ''50''"
  by (simp_all add: to_fixed_def js_eval Let_def js_Cons js_Nil)

end
