(* ===== verification/UiChart.thy ===== *)
theory UiChart imports UiBase Formats begin

section \<open>Charts of the component library (components/ui/chart.tsx)\<close>

text \<open>
  The container, the generated style sheet, the tooltip and the legend. A configuration, a payload and its
  items are objects; a key computed at run time is looked up among the object's own keys and those every
  object inherits, whose values are functions. Own keys are ASCII and not array indices, so that they keep
  the order they were written in. An item of the chart library always has an object under \<open>payload\<close>. The
  two formatters are functions of the caller, \<open>None\<close> when they are not given.
\<close>

subsection \<open>Objects\<close>

definition inherited_keys :: "string list" where
  "inherited_keys = [''constructor'', ''hasOwnProperty'', ''isPrototypeOf'', ''propertyIsEnumerable'', ''toLocaleString'',
     ''toString'', ''valueOf'', ''__proto__'', ''__defineGetter__'', ''__defineSetter__'', ''__lookupGetter__'',
     ''__lookupSetter__'']"

definition own_prop :: "jstr \<Rightarrow> 'a pval \<Rightarrow> 'a pval option" where
  "own_prop key a = (case a of PObj ps \<Rightarrow> map_of (map (\<lambda>(k, v). (js k, v)) ps) key | _ \<Rightarrow> None)"

definition is_object :: "'a pval \<Rightarrow> bool" where
  "is_object a = (case a of PObj _ \<Rightarrow> True | PArr _ \<Rightarrow> True | PNodes _ \<Rightarrow> True | _ \<Rightarrow> False)"

text \<open>\<open>key in a\<close> and \<open>a[key]\<close>\<close>

definition has_prop :: "jstr \<Rightarrow> 'a pval \<Rightarrow> bool" where
  "has_prop key a \<longleftrightarrow> own_prop key a \<noteq> None \<or> key \<in> set (map js inherited_keys)"

definition prop_of :: "jstr \<Rightarrow> 'a pval \<Rightarrow> 'a pval" where
  "prop_of key a = (case own_prop key a of
       Some v \<Rightarrow> v
     | None \<Rightarrow> if key \<in> set (map js inherited_keys) then PFun False (\<lambda>_. []) else PUndef)"

definition entries :: "'a pval \<Rightarrow> (string \<times> 'a pval) list" where
  "entries a = (case a of PObj ps \<Rightarrow> ps | _ \<Rightarrow> [])"

fun join :: "jstr \<Rightarrow> jstr list \<Rightarrow> jstr" where
  "join s [] = []"
| "join s [x] = x"
| "join s (x # y # xs) = x @ s @ join s (y # xs)"

subsection \<open>getPayloadConfigFromPayload\<close>

definition getPayloadConfigFromPayload :: "'a pval \<Rightarrow> 'a pval \<Rightarrow> jstr \<Rightarrow> 'a pval" where
  "getPayloadConfigFromPayload config payload key =
     (if \<not> is_object payload then PUndef
      else
        let payloadPayload = (if has_prop (js ''payload'') payload \<and> is_object (prop_of (js ''payload'') payload)
              then prop_of (js ''payload'') payload else PUndef);
            configLabelKey =
              (if has_prop key payload \<and> is_str (prop_of key payload) then as_text (prop_of key payload)
               else if truthy payloadPayload \<and> has_prop key payloadPayload \<and> is_str (prop_of key payloadPayload)
               then as_text (prop_of key payloadPayload)
               else key)
        in if has_prop configLabelKey config then prop_of configLabelKey config else prop_of key config)"

subsection \<open>ChartStyle\<close>

definition THEMES :: "(string \<times> string) list" where
  "THEMES = [(''light'', ''''), (''dark'', ''.dark'')]"

definition color_config :: "'a pval \<Rightarrow> (string \<times> 'a pval) list" where
  "color_config config =
     filter (\<lambda>(k, c). truthy (js_or (member c ''theme'') (member c ''color''))) (entries config)"

definition color_of :: "string \<Rightarrow> 'a pval \<Rightarrow> 'a pval" where
  "color_of theme itemConfig = js_or (member (member itemConfig ''theme'') theme) (member itemConfig ''color'')"

text \<open>A \<open>null\<close> is joined as an empty line.\<close>

definition color_line :: "string \<Rightarrow> string \<times> 'a pval \<Rightarrow> jstr" where
  "color_line theme = (\<lambda>(key, itemConfig).
     (let color = color_of theme itemConfig
      in if truthy color then js ''  --color-'' @ js key @ js '': '' @ as_text color @ js '';'' else []))"

definition theme_block :: "jstr \<Rightarrow> 'a pval \<Rightarrow> string \<times> string \<Rightarrow> jstr" where
  "theme_block id1 config = (\<lambda>(theme, prefix).
     [10] @ js prefix @ js '' [data-chart='' @ id1 @ js ''] {'' @ [10]
       @ join [10] (map (color_line theme) (color_config config)) @ [10] @ js ''}'' @ [10])"

definition chart_css :: "jstr \<Rightarrow> 'a pval \<Rightarrow> jstr" where
  "chart_css id1 config = join [10] (map (theme_block id1 config) THEMES)"

definition ChartStyle :: "jstr \<Rightarrow> 'a pval \<Rightarrow> 'a node list" where
  "ChartStyle id1 config =
     (if color_config config = [] then []
      else host ''style'' [attr ''dangerouslySetInnerHTML'' (obj [attr ''__html'' (PStr (chart_css id1 config))])] [])"

subsection \<open>ChartContainer\<close>

text \<open>\<open>uniqueId.replace(/:/g, '')\<close> removes every colon.\<close>

definition chart_id :: "'a pval \<Rightarrow> jstr \<Rightarrow> jstr" where
  "chart_id id1 uniqueId = js ''chart-'' @ as_text (js_or id1 (PStr (filter (\<lambda>c. c \<noteq> 58) uniqueId)))"

definition ChartContainer :: "jstr \<Rightarrow> 'a component" where
  "ChartContainer uniqueId L ps =
     (let id1 = pget ''id'' ps;
          className = pget ''className'' ps;
          children = pget ''children'' ps;
          config = pget ''config'' ps;
          props = rest_of [''id'', ''className'', ''children'', ''config''] ps;
          chartId = chart_id id1 uniqueId
      in lib ''ChartContext.Provider'' [attr ''value'' (obj [attr ''config'' config])]
          [host ''div''
             [attr ''data-slot'' (cs ''chart''),
              attr ''data-chart'' (PStr chartId),
              attr ''className'' (PStr (ui_cn L
                [cs ''[&_.recharts-cartesian-axis-tick_text]:fill-muted-foreground [&_.recharts-cartesian-grid_line[stroke='#ccc']]:stroke-border/50 [&_.recharts-curve.recharts-tooltip-cursor]:stroke-border [&_.recharts-polar-grid_[stroke='#ccc']]:stroke-border [&_.recharts-radial-bar-background-sector]:fill-muted [&_.recharts-rectangle.recharts-tooltip-cursor]:fill-muted [&_.recharts-reference-line_[stroke='#ccc']]:stroke-border flex aspect-video justify-center text-xs [&_.recharts-dot[stroke='#fff']]:stroke-transparent [&_.recharts-layer]:outline-hidden [&_.recharts-sector]:outline-hidden [&_.recharts-sector[stroke='#fff']]:stroke-transparent [&_.recharts-surface]:outline-hidden'',
                 className])),
              props]
             [ChartStyle chartId config,
              lib ''RechartsPrimitive.ResponsiveContainer'' [] [child children]]])"

definition ChartTooltip :: "'a component" where
  "ChartTooltip L ps = [Elem (Lib ''RechartsPrimitive.Tooltip'') ps]"

definition ChartLegend :: "'a component" where
  "ChartLegend L ps = [Elem (Lib ''RechartsPrimitive.Legend'') ps]"

subsection \<open>ChartTooltipContent\<close>

text \<open>\<open>a || b || c || 'value'\<close> in a template\<close>

definition first_key :: "'a pval list \<Rightarrow> jstr" where
  "first_key vs = as_text (foldr js_or vs (cs ''value''))"

definition icon_of :: "'a pval \<Rightarrow> 'a node list" where
  "icon_of a = (case a of PRef n \<Rightarrow> lib n [] [] | _ \<Rightarrow> [])"

text \<open>The label of the tooltip: \<open>PNull\<close> or nodes\<close>

definition tooltip_label ::
  "'a ui \<Rightarrow> 'a pval \<Rightarrow> ('a pval \<Rightarrow> 'a pval \<Rightarrow> 'a node list) option \<Rightarrow> 'a props \<Rightarrow> 'a pval" where
  "tooltip_label L config labelFormatter ps =
     (let payload = pget ''payload'' ps;
          label1 = pget ''label'' ps;
          labelKey = pget ''labelKey'' ps;
          class1 = attr ''className'' (PStr (ui_cn L [cs ''font-medium'', pget ''labelClassName'' ps]))
      in if truthy (pget_or ''hideLabel'' (PBool False) ps) \<or> items payload = [] then PNull
         else
           let item1 = items payload ! 0;
               key = first_key [labelKey, member item1 ''dataKey'', member item1 ''name''];
               itemConfig = getPayloadConfigFromPayload config item1 key;
               text1 = (if \<not> truthy labelKey \<and> is_str label1
                 then js_or (member (prop_of (as_text label1) config) ''label'') label1
                 else member itemConfig ''label'')
           in case labelFormatter of
                Some f \<Rightarrow> PNodes (host ''div'' [class1] [f text1 payload])
              | None \<Rightarrow> if \<not> truthy text1 then PNull else PNodes (host ''div'' [class1] [child text1]))"

definition locale_text :: "intl \<Rightarrow> 'a pval \<Rightarrow> 'a node list" where
  "locale_text I a = (case a of PNum q \<Rightarrow> shown (in_number I None (Some q)) | _ \<Rightarrow> child a)"

definition tooltip_row ::
  "intl \<Rightarrow> 'a ui \<Rightarrow> 'a pval \<Rightarrow> 'a pval \<Rightarrow> ('a pval \<Rightarrow> nat \<Rightarrow> 'a node list) option \<Rightarrow> 'a props \<Rightarrow> nat \<times> 'a pval \<Rightarrow> 'a node list" where
  "tooltip_row I L config tooltipLabel formatter ps = (\<lambda>(index, item1).
     (let indicator = pget_or ''indicator'' (cs ''dot'') ps;
          hideIndicator = pget_or ''hideIndicator'' (PBool False) ps;
          nestLabel = (length (items (pget ''payload'' ps)) = 1 \<and> \<not> js_eq indicator (cs ''dot''));
          key = first_key [pget ''nameKey'' ps, member item1 ''name'', member item1 ''dataKey''];
          itemConfig = getPayloadConfigFromPayload config item1 key;
          indicatorColor = js_or (js_or (pget ''color'' ps) (member (member item1 ''payload'') ''fill'')) (member item1 ''color'');
          value1 = member item1 ''value''
      in host ''div''
          [attr ''key'' (member item1 ''dataKey''),
           attr ''className'' (PStr (ui_cn L
             [cs ''[&>svg]:text-muted-foreground flex w-full flex-wrap items-stretch gap-2 [&>svg]:h-2.5 [&>svg]:w-2.5'',
              js_and (PBool (js_eq indicator (cs ''dot''))) (cs ''items-center'')]))]
          [if formatter \<noteq> None \<and> \<not> js_eq value1 PUndef \<and> truthy (member item1 ''name'')
           then the formatter item1 index
           else concat
             [if truthy (member itemConfig ''icon'') then icon_of (member itemConfig ''icon'')
              else if truthy hideIndicator then []
              else host ''div''
                [attr ''className'' (PStr (ui_cn L
                   [cs ''shrink-0 rounded-[2px] border-(--color-border) bg-(--color-bg)'',
                    obj [attr ''h-2.5 w-2.5'' (PBool (js_eq indicator (cs ''dot''))),
                      attr ''w-1'' (PBool (js_eq indicator (cs ''line''))),
                      attr ''w-0 border-[1.5px] border-dashed bg-transparent'' (PBool (js_eq indicator (cs ''dashed''))),
                      attr ''my-0.5'' (PBool (nestLabel \<and> js_eq indicator (cs ''dashed'')))]])),
                 attr ''style'' (obj [attr ''--color-bg'' indicatorColor, attr ''--color-border'' indicatorColor])] [],
              host ''div''
                [attr ''className'' (PStr (ui_cn L
                   [cs ''flex flex-1 justify-between leading-none'',
                    if nestLabel then cs ''items-end'' else cs ''items-center'']))]
                [host ''div'' [attr ''className'' (cs ''grid gap-1.5'')]
                   [if nestLabel then child tooltipLabel else [],
                    host ''span'' [attr ''className'' (cs ''text-muted-foreground'')]
                      [child (js_or (member itemConfig ''label'') (member item1 ''name''))]],
                 child (js_and value1 (PNodes (host ''span''
                   [attr ''className'' (cs ''text-foreground font-mono font-medium tabular-nums'')]
                   [locale_text I value1])))]]]))"

definition ChartTooltipContent ::
  "intl \<Rightarrow> 'a pval \<Rightarrow> ('a pval \<Rightarrow> 'a pval \<Rightarrow> 'a node list) option \<Rightarrow> ('a pval \<Rightarrow> nat \<Rightarrow> 'a node list) option \<Rightarrow> 'a component" where
  "ChartTooltipContent I config labelFormatter formatter L ps =
     (let payload = pget ''payload'' ps;
          indicator = pget_or ''indicator'' (cs ''dot'') ps;
          tooltipLabel = tooltip_label L config labelFormatter ps
      in if \<not> truthy (pget ''active'' ps) \<or> items payload = [] then []
         else
           let nestLabel = (length (items payload) = 1 \<and> \<not> js_eq indicator (cs ''dot''))
           in host ''div''
             [attr ''className'' (PStr (ui_cn L
               [cs ''border-border/50 bg-background grid min-w-[8rem] items-start gap-1.5 rounded-lg border px-2.5 py-1.5 text-xs shadow-xl'',
                pget ''className'' ps]))]
             [if nestLabel then [] else child tooltipLabel,
              host ''div'' [attr ''className'' (cs ''grid gap-1.5'')]
                [concat (map (tooltip_row I L config tooltipLabel formatter ps) (indexed (items payload)))]])"

subsection \<open>ChartLegendContent\<close>

definition legend_item :: "'a pval \<Rightarrow> 'a props \<Rightarrow> 'a pval \<Rightarrow> 'a node list" where
  "legend_item config ps item1 =
     (let key = first_key [pget ''nameKey'' ps, member item1 ''dataKey''];
          itemConfig = getPayloadConfigFromPayload config item1 key
      in host ''div''
          [attr ''key'' (member item1 ''value''),
           attr ''className'' (cs ''[&>svg]:text-muted-foreground flex items-center gap-1.5 [&>svg]:h-3 [&>svg]:w-3'')]
          [if truthy (member itemConfig ''icon'') \<and> \<not> truthy (pget_or ''hideIcon'' (PBool False) ps)
           then icon_of (member itemConfig ''icon'')
           else host ''div''
             [attr ''className'' (cs ''h-2 w-2 shrink-0 rounded-[2px]''),
              attr ''style'' (obj [attr ''backgroundColor'' (member item1 ''color'')])] [],
           child (member itemConfig ''label'')])"

definition ChartLegendContent :: "'a pval \<Rightarrow> 'a component" where
  "ChartLegendContent config L ps =
     (let payload = pget ''payload'' ps;
          verticalAlign = pget_or ''verticalAlign'' (cs ''bottom'') ps
      in if items payload = [] then []
         else host ''div''
          [attr ''className'' (PStr (ui_cn L
             [cs ''flex items-center justify-center gap-4'',
              if js_eq verticalAlign (cs ''top'') then cs ''pb-3'' else cs ''pt-3'', pget ''className'' ps]))]
          [concat (map (legend_item config ps) (items payload))])"

end
