(* ===== verification/UiMenu.thy ===== *)
theory UiMenu imports UiOverlay begin

section \<open>Menus (components/ui)\<close>

text \<open>
  Each component of the files below is the function from its properties to what it renders: the
  properties it destructures, with their defaults, the remaining ones spread where the source spreads
  them, and the class lists passed to the merging function in the source's order.
\<close>

subsection \<open>components/ui/dropdown-menu.tsx\<close>

definition DropdownMenu :: "'a component" where
  "DropdownMenu L ps =
     (let props = rest_of [] ps
      in lib ''DropdownMenuPrimitive.Root'' [attr ''data-slot'' (cs ''dropdown-menu''), props] [])"

definition DropdownMenuPortal :: "'a component" where
  "DropdownMenuPortal L ps =
     (let props = rest_of [] ps
      in lib ''DropdownMenuPrimitive.Portal'' [attr ''data-slot'' (cs ''dropdown-menu-portal''), props] [])"

definition DropdownMenuTrigger :: "'a component" where
  "DropdownMenuTrigger L ps =
     (let props = rest_of [] ps
      in lib ''DropdownMenuPrimitive.Trigger'' [attr ''data-slot'' (cs ''dropdown-menu-trigger''), props]
          [])"

definition DropdownMenuContent :: "'a component" where
  "DropdownMenuContent L ps =
     (let className = pget ''className'' ps;
          sideOffset = pget_or ''sideOffset'' (PNum 4) ps;
          props = rest_of [''className'', ''sideOffset''] ps
      in lib ''DropdownMenuPrimitive.Portal'' []
          [lib ''DropdownMenuPrimitive.Content''
             [attr ''data-slot'' (cs ''dropdown-menu-content''),
              attr ''sideOffset'' sideOffset,
              attr ''className'' (PStr (ui_cn L
                    [cs
                       ''bg-popover text-popover-foreground data-[state=open]:animate-in data-[state=closed]:animate-out data-[state=closed]:fade-out-0 data-[state=open]:fade-in-0 data-[state=closed]:zoom-out-95 data-[state=open]:zoom-in-95 data-[side=bottom]:slide-in-from-top-2 data-[side=left]:slide-in-from-right-2 data-[side=right]:slide-in-from-left-2 data-[side=top]:slide-in-from-bottom-2 z-50 max-h-(--radix-dropdown-menu-content-available-height) min-w-[8rem] origin-(--radix-dropdown-menu-content-transform-origin) overflow-x-hidden overflow-y-auto rounded-md border p-1 shadow-md'',
                     className])),
              props] []])"

definition DropdownMenuGroup :: "'a component" where
  "DropdownMenuGroup L ps =
     (let props = rest_of [] ps
      in lib ''DropdownMenuPrimitive.Group'' [attr ''data-slot'' (cs ''dropdown-menu-group''), props] [])"

definition DropdownMenuItem :: "'a component" where
  "DropdownMenuItem L ps =
     (let className = pget ''className'' ps;
          inset = pget ''inset'' ps;
          variant = pget_or ''variant'' (cs ''default'') ps;
          props = rest_of [''className'', ''inset'', ''variant''] ps
      in lib ''DropdownMenuPrimitive.Item''
          [attr ''data-slot'' (cs ''dropdown-menu-item''),
           attr ''data-inset'' inset,
           attr ''data-variant'' variant,
           attr ''className'' (PStr (ui_cn L
                 [cs
                    ''focus:bg-accent focus:text-accent-foreground data-[variant=destructive]:text-destructive data-[variant=destructive]:focus:bg-destructive/10 dark:data-[variant=destructive]:focus:bg-destructive/20 data-[variant=destructive]:focus:text-destructive data-[variant=destructive]:*:[svg]:!text-destructive [&_svg:not([class*='text-'])]:text-muted-foreground relative flex cursor-default items-center gap-2 rounded-sm px-2 py-1.5 text-sm outline-hidden select-none data-[disabled]:pointer-events-none data-[disabled]:opacity-50 data-[inset]:pl-8 [&_svg]:pointer-events-none [&_svg]:shrink-0 [&_svg:not([class*='size-'])]:size-4'',
                  className])),
           props] [])"

definition DropdownMenuCheckboxItem :: "'a component" where
  "DropdownMenuCheckboxItem L ps =
     (let className = pget ''className'' ps;
          children = pget ''children'' ps;
          checked = pget ''checked'' ps;
          props = rest_of [''className'', ''children'', ''checked''] ps
      in lib ''DropdownMenuPrimitive.CheckboxItem''
          [attr ''data-slot'' (cs ''dropdown-menu-checkbox-item''),
           attr ''className'' (PStr (ui_cn L
                 [cs
                    ''focus:bg-accent focus:text-accent-foreground relative flex cursor-default items-center gap-2 rounded-sm py-1.5 pr-2 pl-8 text-sm outline-hidden select-none data-[disabled]:pointer-events-none data-[disabled]:opacity-50 [&_svg]:pointer-events-none [&_svg]:shrink-0 [&_svg:not([class*='size-'])]:size-4'',
                  className])),
           attr ''checked'' checked,
           props]
          [host ''span''
             [attr ''className'' (cs ''pointer-events-none absolute left-2 flex size-3.5 items-center justify-center'')]
             [lib ''DropdownMenuPrimitive.ItemIndicator'' []
                [lib ''CheckIcon'' [attr ''className'' (cs ''size-4'')] []]],
           child children])"

definition DropdownMenuRadioGroup :: "'a component" where
  "DropdownMenuRadioGroup L ps =
     (let props = rest_of [] ps
      in lib ''DropdownMenuPrimitive.RadioGroup''
          [attr ''data-slot'' (cs ''dropdown-menu-radio-group''),
           props] [])"

definition DropdownMenuRadioItem :: "'a component" where
  "DropdownMenuRadioItem L ps =
     (let className = pget ''className'' ps;
          children = pget ''children'' ps;
          props = rest_of [''className'', ''children''] ps
      in lib ''DropdownMenuPrimitive.RadioItem''
          [attr ''data-slot'' (cs ''dropdown-menu-radio-item''),
           attr ''className'' (PStr (ui_cn L
                 [cs
                    ''focus:bg-accent focus:text-accent-foreground relative flex cursor-default items-center gap-2 rounded-sm py-1.5 pr-2 pl-8 text-sm outline-hidden select-none data-[disabled]:pointer-events-none data-[disabled]:opacity-50 [&_svg]:pointer-events-none [&_svg]:shrink-0 [&_svg:not([class*='size-'])]:size-4'',
                  className])),
           props]
          [host ''span''
             [attr ''className'' (cs ''pointer-events-none absolute left-2 flex size-3.5 items-center justify-center'')]
             [lib ''DropdownMenuPrimitive.ItemIndicator'' []
                [lib ''CircleIcon'' [attr ''className'' (cs ''size-2 fill-current'')] []]],
           child children])"

definition DropdownMenuLabel :: "'a component" where
  "DropdownMenuLabel L ps =
     (let className = pget ''className'' ps;
          inset = pget ''inset'' ps;
          props = rest_of [''className'', ''inset''] ps
      in lib ''DropdownMenuPrimitive.Label''
          [attr ''data-slot'' (cs ''dropdown-menu-label''),
           attr ''data-inset'' inset,
           attr ''className'' (PStr (ui_cn L [cs ''px-2 py-1.5 text-sm font-medium data-[inset]:pl-8'', className])),
           props] [])"

definition DropdownMenuSeparator :: "'a component" where
  "DropdownMenuSeparator L ps =
     (let className = pget ''className'' ps;
          props = rest_of [''className''] ps
      in lib ''DropdownMenuPrimitive.Separator''
          [attr ''data-slot'' (cs ''dropdown-menu-separator''),
           attr ''className'' (PStr (ui_cn L [cs ''bg-border -mx-1 my-1 h-px'', className])),
           props] [])"

definition DropdownMenuShortcut :: "'a component" where
  "DropdownMenuShortcut L ps =
     (let className = pget ''className'' ps;
          props = rest_of [''className''] ps
      in host ''span''
          [attr ''data-slot'' (cs ''dropdown-menu-shortcut''),
           attr ''className'' (PStr (ui_cn L [cs ''text-muted-foreground ml-auto text-xs tracking-widest'', className])),
           props] [])"

definition DropdownMenuSub :: "'a component" where
  "DropdownMenuSub L ps =
     (let props = rest_of [] ps
      in lib ''DropdownMenuPrimitive.Sub'' [attr ''data-slot'' (cs ''dropdown-menu-sub''), props] [])"

definition DropdownMenuSubTrigger :: "'a component" where
  "DropdownMenuSubTrigger L ps =
     (let className = pget ''className'' ps;
          inset = pget ''inset'' ps;
          children = pget ''children'' ps;
          props = rest_of [''className'', ''inset'', ''children''] ps
      in lib ''DropdownMenuPrimitive.SubTrigger''
          [attr ''data-slot'' (cs ''dropdown-menu-sub-trigger''),
           attr ''data-inset'' inset,
           attr ''className'' (PStr (ui_cn L
                 [cs
                    ''focus:bg-accent focus:text-accent-foreground data-[state=open]:bg-accent data-[state=open]:text-accent-foreground [&_svg:not([class*='text-'])]:text-muted-foreground flex cursor-default items-center gap-2 rounded-sm px-2 py-1.5 text-sm outline-hidden select-none data-[inset]:pl-8 [&_svg]:pointer-events-none [&_svg]:shrink-0 [&_svg:not([class*='size-'])]:size-4'',
                  className])),
           props]
          [child children,
           lib ''ChevronRightIcon'' [attr ''className'' (cs ''ml-auto size-4'')] []])"

definition DropdownMenuSubContent :: "'a component" where
  "DropdownMenuSubContent L ps =
     (let className = pget ''className'' ps;
          props = rest_of [''className''] ps
      in lib ''DropdownMenuPrimitive.SubContent''
          [attr ''data-slot'' (cs ''dropdown-menu-sub-content''),
           attr ''className'' (PStr (ui_cn L
                 [cs
                    ''bg-popover text-popover-foreground data-[state=open]:animate-in data-[state=closed]:animate-out data-[state=closed]:fade-out-0 data-[state=open]:fade-in-0 data-[state=closed]:zoom-out-95 data-[state=open]:zoom-in-95 data-[side=bottom]:slide-in-from-top-2 data-[side=left]:slide-in-from-right-2 data-[side=right]:slide-in-from-left-2 data-[side=top]:slide-in-from-bottom-2 z-50 min-w-[8rem] origin-(--radix-dropdown-menu-content-transform-origin) overflow-hidden rounded-md border p-1 shadow-lg'',
                  className])),
           props] [])"

subsection \<open>components/ui/context-menu.tsx\<close>

definition ContextMenu :: "'a component" where
  "ContextMenu L ps =
     (let props = rest_of [] ps
      in lib ''ContextMenuPrimitive.Root'' [attr ''data-slot'' (cs ''context-menu''), props] [])"

definition ContextMenuTrigger :: "'a component" where
  "ContextMenuTrigger L ps =
     (let props = rest_of [] ps
      in lib ''ContextMenuPrimitive.Trigger'' [attr ''data-slot'' (cs ''context-menu-trigger''), props] [])"

definition ContextMenuGroup :: "'a component" where
  "ContextMenuGroup L ps =
     (let props = rest_of [] ps
      in lib ''ContextMenuPrimitive.Group'' [attr ''data-slot'' (cs ''context-menu-group''), props] [])"

definition ContextMenuPortal :: "'a component" where
  "ContextMenuPortal L ps =
     (let props = rest_of [] ps
      in lib ''ContextMenuPrimitive.Portal'' [attr ''data-slot'' (cs ''context-menu-portal''), props] [])"

definition ContextMenuSub :: "'a component" where
  "ContextMenuSub L ps =
     (let props = rest_of [] ps
      in lib ''ContextMenuPrimitive.Sub'' [attr ''data-slot'' (cs ''context-menu-sub''), props] [])"

definition ContextMenuRadioGroup :: "'a component" where
  "ContextMenuRadioGroup L ps =
     (let props = rest_of [] ps
      in lib ''ContextMenuPrimitive.RadioGroup''
          [attr ''data-slot'' (cs ''context-menu-radio-group''),
           props] [])"

definition ContextMenuSubTrigger :: "'a component" where
  "ContextMenuSubTrigger L ps =
     (let className = pget ''className'' ps;
          inset = pget ''inset'' ps;
          children = pget ''children'' ps;
          props = rest_of [''className'', ''inset'', ''children''] ps
      in lib ''ContextMenuPrimitive.SubTrigger''
          [attr ''data-slot'' (cs ''context-menu-sub-trigger''),
           attr ''data-inset'' inset,
           attr ''className'' (PStr (ui_cn L
                 [cs
                    ''focus:bg-accent focus:text-accent-foreground data-[state=open]:bg-accent data-[state=open]:text-accent-foreground [&_svg:not([class*='text-'])]:text-muted-foreground flex cursor-default items-center rounded-sm px-2 py-1.5 text-sm outline-hidden select-none data-[inset]:pl-8 [&_svg]:pointer-events-none [&_svg]:shrink-0 [&_svg:not([class*='size-'])]:size-4'',
                  className])),
           props] [child children, lib ''ChevronRightIcon'' [attr ''className'' (cs ''ml-auto'')] []])"

definition ContextMenuSubContent :: "'a component" where
  "ContextMenuSubContent L ps =
     (let className = pget ''className'' ps;
          props = rest_of [''className''] ps
      in lib ''ContextMenuPrimitive.SubContent''
          [attr ''data-slot'' (cs ''context-menu-sub-content''),
           attr ''className'' (PStr (ui_cn L
                 [cs
                    ''bg-popover text-popover-foreground data-[state=open]:animate-in data-[state=closed]:animate-out data-[state=closed]:fade-out-0 data-[state=open]:fade-in-0 data-[state=closed]:zoom-out-95 data-[state=open]:zoom-in-95 data-[side=bottom]:slide-in-from-top-2 data-[side=left]:slide-in-from-right-2 data-[side=right]:slide-in-from-left-2 data-[side=top]:slide-in-from-bottom-2 z-50 min-w-[8rem] origin-(--radix-context-menu-content-transform-origin) overflow-hidden rounded-md border p-1 shadow-lg'',
                  className])),
           props] [])"

definition ContextMenuContent :: "'a component" where
  "ContextMenuContent L ps =
     (let className = pget ''className'' ps;
          props = rest_of [''className''] ps
      in lib ''ContextMenuPrimitive.Portal'' []
          [lib ''ContextMenuPrimitive.Content''
             [attr ''data-slot'' (cs ''context-menu-content''),
              attr ''className'' (PStr (ui_cn L
                    [cs
                       ''bg-popover text-popover-foreground data-[state=open]:animate-in data-[state=closed]:animate-out data-[state=closed]:fade-out-0 data-[state=open]:fade-in-0 data-[state=closed]:zoom-out-95 data-[state=open]:zoom-in-95 data-[side=bottom]:slide-in-from-top-2 data-[side=left]:slide-in-from-right-2 data-[side=right]:slide-in-from-left-2 data-[side=top]:slide-in-from-bottom-2 z-50 max-h-(--radix-context-menu-content-available-height) min-w-[8rem] origin-(--radix-context-menu-content-transform-origin) overflow-x-hidden overflow-y-auto rounded-md border p-1 shadow-md'',
                     className])),
              props] []])"

definition ContextMenuItem :: "'a component" where
  "ContextMenuItem L ps =
     (let className = pget ''className'' ps;
          inset = pget ''inset'' ps;
          variant = pget_or ''variant'' (cs ''default'') ps;
          props = rest_of [''className'', ''inset'', ''variant''] ps
      in lib ''ContextMenuPrimitive.Item''
          [attr ''data-slot'' (cs ''context-menu-item''),
           attr ''data-inset'' inset,
           attr ''data-variant'' variant,
           attr ''className'' (PStr (ui_cn L
                 [cs
                    ''focus:bg-accent focus:text-accent-foreground data-[variant=destructive]:text-destructive data-[variant=destructive]:focus:bg-destructive/10 dark:data-[variant=destructive]:focus:bg-destructive/20 data-[variant=destructive]:focus:text-destructive data-[variant=destructive]:*:[svg]:!text-destructive [&_svg:not([class*='text-'])]:text-muted-foreground relative flex cursor-default items-center gap-2 rounded-sm px-2 py-1.5 text-sm outline-hidden select-none data-[disabled]:pointer-events-none data-[disabled]:opacity-50 data-[inset]:pl-8 [&_svg]:pointer-events-none [&_svg]:shrink-0 [&_svg:not([class*='size-'])]:size-4'',
                  className])),
           props] [])"

definition ContextMenuCheckboxItem :: "'a component" where
  "ContextMenuCheckboxItem L ps =
     (let className = pget ''className'' ps;
          children = pget ''children'' ps;
          checked = pget ''checked'' ps;
          props = rest_of [''className'', ''children'', ''checked''] ps
      in lib ''ContextMenuPrimitive.CheckboxItem''
          [attr ''data-slot'' (cs ''context-menu-checkbox-item''),
           attr ''className'' (PStr (ui_cn L
                 [cs
                    ''focus:bg-accent focus:text-accent-foreground relative flex cursor-default items-center gap-2 rounded-sm py-1.5 pr-2 pl-8 text-sm outline-hidden select-none data-[disabled]:pointer-events-none data-[disabled]:opacity-50 [&_svg]:pointer-events-none [&_svg]:shrink-0 [&_svg:not([class*='size-'])]:size-4'',
                  className])),
           attr ''checked'' checked,
           props]
          [host ''span''
             [attr ''className'' (cs ''pointer-events-none absolute left-2 flex size-3.5 items-center justify-center'')]
             [lib ''ContextMenuPrimitive.ItemIndicator'' []
                [lib ''CheckIcon'' [attr ''className'' (cs ''size-4'')] []]],
           child children])"

definition ContextMenuRadioItem :: "'a component" where
  "ContextMenuRadioItem L ps =
     (let className = pget ''className'' ps;
          children = pget ''children'' ps;
          props = rest_of [''className'', ''children''] ps
      in lib ''ContextMenuPrimitive.RadioItem''
          [attr ''data-slot'' (cs ''context-menu-radio-item''),
           attr ''className'' (PStr (ui_cn L
                 [cs
                    ''focus:bg-accent focus:text-accent-foreground relative flex cursor-default items-center gap-2 rounded-sm py-1.5 pr-2 pl-8 text-sm outline-hidden select-none data-[disabled]:pointer-events-none data-[disabled]:opacity-50 [&_svg]:pointer-events-none [&_svg]:shrink-0 [&_svg:not([class*='size-'])]:size-4'',
                  className])),
           props]
          [host ''span''
             [attr ''className'' (cs ''pointer-events-none absolute left-2 flex size-3.5 items-center justify-center'')]
             [lib ''ContextMenuPrimitive.ItemIndicator'' []
                [lib ''CircleIcon'' [attr ''className'' (cs ''size-2 fill-current'')] []]],
           child children])"

definition ContextMenuLabel :: "'a component" where
  "ContextMenuLabel L ps =
     (let className = pget ''className'' ps;
          inset = pget ''inset'' ps;
          props = rest_of [''className'', ''inset''] ps
      in lib ''ContextMenuPrimitive.Label''
          [attr ''data-slot'' (cs ''context-menu-label''),
           attr ''data-inset'' inset,
           attr ''className'' (PStr (ui_cn L
                 [cs ''text-foreground px-2 py-1.5 text-sm font-medium data-[inset]:pl-8'',
                  className])),
           props] [])"

definition ContextMenuSeparator :: "'a component" where
  "ContextMenuSeparator L ps =
     (let className = pget ''className'' ps;
          props = rest_of [''className''] ps
      in lib ''ContextMenuPrimitive.Separator''
          [attr ''data-slot'' (cs ''context-menu-separator''),
           attr ''className'' (PStr (ui_cn L [cs ''bg-border -mx-1 my-1 h-px'', className])),
           props] [])"

definition ContextMenuShortcut :: "'a component" where
  "ContextMenuShortcut L ps =
     (let className = pget ''className'' ps;
          props = rest_of [''className''] ps
      in host ''span''
          [attr ''data-slot'' (cs ''context-menu-shortcut''),
           attr ''className'' (PStr (ui_cn L [cs ''text-muted-foreground ml-auto text-xs tracking-widest'', className])),
           props] [])"

subsection \<open>components/ui/menubar.tsx\<close>

definition Menubar :: "'a component" where
  "Menubar L ps =
     (let className = pget ''className'' ps;
          props = rest_of [''className''] ps
      in lib ''MenubarPrimitive.Root''
          [attr ''data-slot'' (cs ''menubar''),
           attr ''className'' (PStr (ui_cn L
                 [cs ''bg-background flex h-9 items-center gap-1 rounded-md border p-1 shadow-xs'',
                  className])),
           props] [])"

definition MenubarMenu :: "'a component" where
  "MenubarMenu L ps =
     (let props = rest_of [] ps
      in lib ''MenubarPrimitive.Menu'' [attr ''data-slot'' (cs ''menubar-menu''), props] [])"

definition MenubarGroup :: "'a component" where
  "MenubarGroup L ps =
     (let props = rest_of [] ps
      in lib ''MenubarPrimitive.Group'' [attr ''data-slot'' (cs ''menubar-group''), props] [])"

definition MenubarPortal :: "'a component" where
  "MenubarPortal L ps =
     (let props = rest_of [] ps
      in lib ''MenubarPrimitive.Portal'' [attr ''data-slot'' (cs ''menubar-portal''), props] [])"

definition MenubarRadioGroup :: "'a component" where
  "MenubarRadioGroup L ps =
     (let props = rest_of [] ps
      in lib ''MenubarPrimitive.RadioGroup'' [attr ''data-slot'' (cs ''menubar-radio-group''), props] [])"

definition MenubarTrigger :: "'a component" where
  "MenubarTrigger L ps =
     (let className = pget ''className'' ps;
          props = rest_of [''className''] ps
      in lib ''MenubarPrimitive.Trigger''
          [attr ''data-slot'' (cs ''menubar-trigger''),
           attr ''className'' (PStr (ui_cn L
                 [cs
                    ''focus:bg-accent focus:text-accent-foreground data-[state=open]:bg-accent data-[state=open]:text-accent-foreground flex items-center rounded-sm px-2 py-1 text-sm font-medium outline-hidden select-none'',
                  className])),
           props] [])"

definition MenubarContent :: "'a component" where
  "MenubarContent L ps =
     (let className = pget ''className'' ps;
          align = pget_or ''align'' (cs ''start'') ps;
          alignOffset = pget_or ''alignOffset'' (PNum (- 4)) ps;
          sideOffset = pget_or ''sideOffset'' (PNum 8) ps;
          props = rest_of [''className'', ''align'', ''alignOffset'', ''sideOffset''] ps
      in MenubarPortal L (attrs []
            [lib ''MenubarPrimitive.Content''
               [attr ''data-slot'' (cs ''menubar-content''),
                attr ''align'' align,
                attr ''alignOffset'' alignOffset,
                attr ''sideOffset'' sideOffset,
                attr ''className'' (PStr (ui_cn L
                      [cs
                         ''bg-popover text-popover-foreground data-[state=open]:animate-in data-[state=closed]:fade-out-0 data-[state=open]:fade-in-0 data-[state=closed]:zoom-out-95 data-[state=open]:zoom-in-95 data-[side=bottom]:slide-in-from-top-2 data-[side=left]:slide-in-from-right-2 data-[side=right]:slide-in-from-left-2 data-[side=top]:slide-in-from-bottom-2 z-50 min-w-[12rem] origin-(--radix-menubar-content-transform-origin) overflow-hidden rounded-md border p-1 shadow-md'',
                       className])),
                props] []]))"

definition MenubarItem :: "'a component" where
  "MenubarItem L ps =
     (let className = pget ''className'' ps;
          inset = pget ''inset'' ps;
          variant = pget_or ''variant'' (cs ''default'') ps;
          props = rest_of [''className'', ''inset'', ''variant''] ps
      in lib ''MenubarPrimitive.Item''
          [attr ''data-slot'' (cs ''menubar-item''),
           attr ''data-inset'' inset,
           attr ''data-variant'' variant,
           attr ''className'' (PStr (ui_cn L
                 [cs
                    ''focus:bg-accent focus:text-accent-foreground data-[variant=destructive]:text-destructive data-[variant=destructive]:focus:bg-destructive/10 dark:data-[variant=destructive]:focus:bg-destructive/20 data-[variant=destructive]:focus:text-destructive data-[variant=destructive]:*:[svg]:!text-destructive [&_svg:not([class*='text-'])]:text-muted-foreground relative flex cursor-default items-center gap-2 rounded-sm px-2 py-1.5 text-sm outline-hidden select-none data-[disabled]:pointer-events-none data-[disabled]:opacity-50 data-[inset]:pl-8 [&_svg]:pointer-events-none [&_svg]:shrink-0 [&_svg:not([class*='size-'])]:size-4'',
                  className])),
           props] [])"

definition MenubarCheckboxItem :: "'a component" where
  "MenubarCheckboxItem L ps =
     (let className = pget ''className'' ps;
          children = pget ''children'' ps;
          checked = pget ''checked'' ps;
          props = rest_of [''className'', ''children'', ''checked''] ps
      in lib ''MenubarPrimitive.CheckboxItem''
          [attr ''data-slot'' (cs ''menubar-checkbox-item''),
           attr ''className'' (PStr (ui_cn L
                 [cs
                    ''focus:bg-accent focus:text-accent-foreground relative flex cursor-default items-center gap-2 rounded-xs py-1.5 pr-2 pl-8 text-sm outline-hidden select-none data-[disabled]:pointer-events-none data-[disabled]:opacity-50 [&_svg]:pointer-events-none [&_svg]:shrink-0 [&_svg:not([class*='size-'])]:size-4'',
                  className])),
           attr ''checked'' checked,
           props]
          [host ''span''
             [attr ''className'' (cs ''pointer-events-none absolute left-2 flex size-3.5 items-center justify-center'')]
             [lib ''MenubarPrimitive.ItemIndicator'' []
                [lib ''CheckIcon'' [attr ''className'' (cs ''size-4'')] []]],
           child children])"

definition MenubarRadioItem :: "'a component" where
  "MenubarRadioItem L ps =
     (let className = pget ''className'' ps;
          children = pget ''children'' ps;
          props = rest_of [''className'', ''children''] ps
      in lib ''MenubarPrimitive.RadioItem''
          [attr ''data-slot'' (cs ''menubar-radio-item''),
           attr ''className'' (PStr (ui_cn L
                 [cs
                    ''focus:bg-accent focus:text-accent-foreground relative flex cursor-default items-center gap-2 rounded-xs py-1.5 pr-2 pl-8 text-sm outline-hidden select-none data-[disabled]:pointer-events-none data-[disabled]:opacity-50 [&_svg]:pointer-events-none [&_svg]:shrink-0 [&_svg:not([class*='size-'])]:size-4'',
                  className])),
           props]
          [host ''span''
             [attr ''className'' (cs ''pointer-events-none absolute left-2 flex size-3.5 items-center justify-center'')]
             [lib ''MenubarPrimitive.ItemIndicator'' []
                [lib ''CircleIcon'' [attr ''className'' (cs ''size-2 fill-current'')] []]],
           child children])"

definition MenubarLabel :: "'a component" where
  "MenubarLabel L ps =
     (let className = pget ''className'' ps;
          inset = pget ''inset'' ps;
          props = rest_of [''className'', ''inset''] ps
      in lib ''MenubarPrimitive.Label''
          [attr ''data-slot'' (cs ''menubar-label''),
           attr ''data-inset'' inset,
           attr ''className'' (PStr (ui_cn L [cs ''px-2 py-1.5 text-sm font-medium data-[inset]:pl-8'', className])),
           props] [])"

definition MenubarSeparator :: "'a component" where
  "MenubarSeparator L ps =
     (let className = pget ''className'' ps;
          props = rest_of [''className''] ps
      in lib ''MenubarPrimitive.Separator''
          [attr ''data-slot'' (cs ''menubar-separator''),
           attr ''className'' (PStr (ui_cn L [cs ''bg-border -mx-1 my-1 h-px'', className])),
           props] [])"

definition MenubarShortcut :: "'a component" where
  "MenubarShortcut L ps =
     (let className = pget ''className'' ps;
          props = rest_of [''className''] ps
      in host ''span''
          [attr ''data-slot'' (cs ''menubar-shortcut''),
           attr ''className'' (PStr (ui_cn L [cs ''text-muted-foreground ml-auto text-xs tracking-widest'', className])),
           props] [])"

definition MenubarSub :: "'a component" where
  "MenubarSub L ps =
     (let props = rest_of [] ps
      in lib ''MenubarPrimitive.Sub'' [attr ''data-slot'' (cs ''menubar-sub''), props] [])"

definition MenubarSubTrigger :: "'a component" where
  "MenubarSubTrigger L ps =
     (let className = pget ''className'' ps;
          inset = pget ''inset'' ps;
          children = pget ''children'' ps;
          props = rest_of [''className'', ''inset'', ''children''] ps
      in lib ''MenubarPrimitive.SubTrigger''
          [attr ''data-slot'' (cs ''menubar-sub-trigger''),
           attr ''data-inset'' inset,
           attr ''className'' (PStr (ui_cn L
                 [cs
                    ''focus:bg-accent focus:text-accent-foreground data-[state=open]:bg-accent data-[state=open]:text-accent-foreground flex cursor-default items-center rounded-sm px-2 py-1.5 text-sm outline-none select-none data-[inset]:pl-8'',
                  className])),
           props]
          [child children,
           lib ''ChevronRightIcon'' [attr ''className'' (cs ''ml-auto h-4 w-4'')] []])"

definition MenubarSubContent :: "'a component" where
  "MenubarSubContent L ps =
     (let className = pget ''className'' ps;
          props = rest_of [''className''] ps
      in lib ''MenubarPrimitive.SubContent''
          [attr ''data-slot'' (cs ''menubar-sub-content''),
           attr ''className'' (PStr (ui_cn L
                 [cs
                    ''bg-popover text-popover-foreground data-[state=open]:animate-in data-[state=closed]:animate-out data-[state=closed]:fade-out-0 data-[state=open]:fade-in-0 data-[state=closed]:zoom-out-95 data-[state=open]:zoom-in-95 data-[side=bottom]:slide-in-from-top-2 data-[side=left]:slide-in-from-right-2 data-[side=right]:slide-in-from-left-2 data-[side=top]:slide-in-from-bottom-2 z-50 min-w-[8rem] origin-(--radix-menubar-content-transform-origin) overflow-hidden rounded-md border p-1 shadow-lg'',
                  className])),
           props] [])"

subsection \<open>components/ui/select.tsx\<close>

definition Select :: "'a component" where
  "Select L ps =
     (let props = rest_of [] ps
      in lib ''SelectPrimitive.Root'' [attr ''data-slot'' (cs ''select''), props] [])"

definition SelectGroup :: "'a component" where
  "SelectGroup L ps =
     (let props = rest_of [] ps
      in lib ''SelectPrimitive.Group'' [attr ''data-slot'' (cs ''select-group''), props] [])"

definition SelectValue :: "'a component" where
  "SelectValue L ps =
     (let props = rest_of [] ps
      in lib ''SelectPrimitive.Value'' [attr ''data-slot'' (cs ''select-value''), props] [])"

definition SelectTrigger :: "'a component" where
  "SelectTrigger L ps =
     (let className = pget ''className'' ps;
          size1 = pget_or ''size'' (cs ''default'') ps;
          children = pget ''children'' ps;
          props = rest_of [''className'', ''size'', ''children''] ps
      in lib ''SelectPrimitive.Trigger''
          [attr ''data-slot'' (cs ''select-trigger''),
           attr ''data-size'' size1,
           attr ''className'' (PStr (ui_cn L
                 [cs
                    ''border-input data-[placeholder]:text-muted-foreground [&_svg:not([class*='text-'])]:text-muted-foreground focus-visible:border-ring focus-visible:ring-ring/50 aria-invalid:ring-destructive/20 dark:aria-invalid:ring-destructive/40 aria-invalid:border-destructive dark:bg-input/30 dark:hover:bg-input/50 flex w-fit items-center justify-between gap-2 rounded-md border bg-transparent px-3 py-2 text-sm whitespace-nowrap shadow-xs transition-[color,box-shadow] outline-none focus-visible:ring-[3px] disabled:cursor-not-allowed disabled:opacity-50 data-[size=default]:h-9 data-[size=sm]:h-8 *:data-[slot=select-value]:line-clamp-1 *:data-[slot=select-value]:flex *:data-[slot=select-value]:items-center *:data-[slot=select-value]:gap-2 [&_svg]:pointer-events-none [&_svg]:shrink-0 [&_svg:not([class*='size-'])]:size-4'',
                  className])),
           props]
          [child children,
           lib ''SelectPrimitive.Icon'' [attr ''asChild'' (PBool True)]
             [lib ''ChevronDownIcon'' [attr ''className'' (cs ''size-4 opacity-50'')] []]])"

definition SelectLabel :: "'a component" where
  "SelectLabel L ps =
     (let className = pget ''className'' ps;
          props = rest_of [''className''] ps
      in lib ''SelectPrimitive.Label''
          [attr ''data-slot'' (cs ''select-label''),
           attr ''className'' (PStr (ui_cn L [cs ''text-muted-foreground px-2 py-1.5 text-xs'', className])),
           props] [])"

definition SelectItem :: "'a component" where
  "SelectItem L ps =
     (let className = pget ''className'' ps;
          children = pget ''children'' ps;
          props = rest_of [''className'', ''children''] ps
      in lib ''SelectPrimitive.Item''
          [attr ''data-slot'' (cs ''select-item''),
           attr ''className'' (PStr (ui_cn L
                 [cs
                    ''focus:bg-accent focus:text-accent-foreground [&_svg:not([class*='text-'])]:text-muted-foreground relative flex w-full cursor-default items-center gap-2 rounded-sm py-1.5 pr-8 pl-2 text-sm outline-hidden select-none data-[disabled]:pointer-events-none data-[disabled]:opacity-50 [&_svg]:pointer-events-none [&_svg]:shrink-0 [&_svg:not([class*='size-'])]:size-4 *:[span]:last:flex *:[span]:last:items-center *:[span]:last:gap-2'',
                  className])),
           props]
          [host ''span''
             [attr ''className'' (cs ''absolute right-2 flex size-3.5 items-center justify-center'')]
             [lib ''SelectPrimitive.ItemIndicator'' []
                [lib ''CheckIcon'' [attr ''className'' (cs ''size-4'')] []]],
           lib ''SelectPrimitive.ItemText'' [] [child children]])"

definition SelectSeparator :: "'a component" where
  "SelectSeparator L ps =
     (let className = pget ''className'' ps;
          props = rest_of [''className''] ps
      in lib ''SelectPrimitive.Separator''
          [attr ''data-slot'' (cs ''select-separator''),
           attr ''className'' (PStr (ui_cn L [cs ''bg-border pointer-events-none -mx-1 my-1 h-px'', className])),
           props] [])"

definition SelectScrollUpButton :: "'a component" where
  "SelectScrollUpButton L ps =
     (let className = pget ''className'' ps;
          props = rest_of [''className''] ps
      in lib ''SelectPrimitive.ScrollUpButton''
          [attr ''data-slot'' (cs ''select-scroll-up-button''),
           attr ''className'' (PStr (ui_cn L [cs ''flex cursor-default items-center justify-center py-1'', className])),
           props] [lib ''ChevronUpIcon'' [attr ''className'' (cs ''size-4'')] []])"

definition SelectScrollDownButton :: "'a component" where
  "SelectScrollDownButton L ps =
     (let className = pget ''className'' ps;
          props = rest_of [''className''] ps
      in lib ''SelectPrimitive.ScrollDownButton''
          [attr ''data-slot'' (cs ''select-scroll-down-button''),
           attr ''className'' (PStr (ui_cn L [cs ''flex cursor-default items-center justify-center py-1'', className])),
           props] [lib ''ChevronDownIcon'' [attr ''className'' (cs ''size-4'')] []])"

definition SelectContent :: "'a component" where
  "SelectContent L ps =
     (let className = pget ''className'' ps;
          children = pget ''children'' ps;
          position = pget_or ''position'' (cs ''popper'') ps;
          props = rest_of [''className'', ''children'', ''position''] ps
      in lib ''SelectPrimitive.Portal'' []
          [lib ''SelectPrimitive.Content''
             [attr ''data-slot'' (cs ''select-content''),
              attr ''className'' (PStr (ui_cn L
                    [cs
                       ''bg-popover text-popover-foreground data-[state=open]:animate-in data-[state=closed]:animate-out data-[state=closed]:fade-out-0 data-[state=open]:fade-in-0 data-[state=closed]:zoom-out-95 data-[state=open]:zoom-in-95 data-[side=bottom]:slide-in-from-top-2 data-[side=left]:slide-in-from-right-2 data-[side=right]:slide-in-from-left-2 data-[side=top]:slide-in-from-bottom-2 relative z-50 max-h-(--radix-select-content-available-height) min-w-[8rem] origin-(--radix-select-content-transform-origin) overflow-x-hidden overflow-y-auto rounded-md border shadow-md'',
                     js_and (PBool (js_eq position (cs ''popper''))) (cs
                         ''data-[side=bottom]:translate-y-1 data-[side=left]:-translate-x-1 data-[side=right]:translate-x-1 data-[side=top]:-translate-y-1''),
                     className])),
              attr ''position'' position,
              props]
             [SelectScrollUpButton L (attrs [] []),
              lib ''SelectPrimitive.Viewport''
                [attr ''className'' (PStr (ui_cn L
                       [cs ''p-1'',
                        js_and (PBool (js_eq position (cs ''popper''))) (cs
                            ''h-[var(--radix-select-trigger-height)] w-full min-w-[var(--radix-select-trigger-width)] scroll-my-1'')]))]
                [child children],
              SelectScrollDownButton L (attrs [] [])]])"

subsection \<open>components/ui/command.tsx\<close>

definition Command :: "'a component" where
  "Command L ps =
     (let className = pget ''className'' ps;
          props = rest_of [''className''] ps
      in lib ''CommandPrimitive''
          [attr ''data-slot'' (cs ''command''),
           attr ''className'' (PStr (ui_cn L
                 [cs
                    ''bg-popover text-popover-foreground flex h-full w-full flex-col overflow-hidden rounded-md'',
                  className])),
           props] [])"

definition CommandDialog :: "'a component" where
  "CommandDialog L ps =
     (let title1 = pget_or ''title'' (cs ''Command Palette'') ps;
          description = pget_or ''description'' (cs ''Search for a command to run...'') ps;
          children = pget ''children'' ps;
          className = pget ''className'' ps;
          showCloseButton = pget_or ''showCloseButton'' (PBool True) ps;
          props = rest_of [''title'', ''description'', ''children'', ''className'', ''showCloseButton''] ps
      in Dialog L (attrs [props]
            [DialogHeader L (attrs [attr ''className'' (cs ''sr-only'')]
                 [DialogTitle L (attrs [] [child title1]),
                  DialogDescription L (attrs [] [child description])]),
             DialogContent L (attrs
                 [attr ''className'' (PStr (ui_cn L [cs ''overflow-hidden p-0'', className])),
                  attr ''showCloseButton'' showCloseButton]
                 [Command L (attrs
                      [attr ''className'' (cs
                           ''[&_[cmdk-group-heading]]:text-muted-foreground **:data-[slot=command-input-wrapper]:h-12 [&_[cmdk-group-heading]]:px-2 [&_[cmdk-group-heading]]:font-medium [&_[cmdk-group]]:px-2 [&_[cmdk-group]:not([hidden])_~[cmdk-group]]:pt-0 [&_[cmdk-input-wrapper]_svg]:h-5 [&_[cmdk-input-wrapper]_svg]:w-5 [&_[cmdk-input]]:h-12 [&_[cmdk-item]]:px-2 [&_[cmdk-item]]:py-3 [&_[cmdk-item]_svg]:h-5 [&_[cmdk-item]_svg]:w-5'')]
                      [child children])])]))"

definition CommandInput :: "'a component" where
  "CommandInput L ps =
     (let className = pget ''className'' ps;
          props = rest_of [''className''] ps
      in host ''div''
          [attr ''data-slot'' (cs ''command-input-wrapper''),
           attr ''className'' (cs ''flex h-9 items-center gap-2 border-b px-3'')]
          [lib ''SearchIcon'' [attr ''className'' (cs ''size-4 shrink-0 opacity-50'')] [],
           lib ''CommandPrimitive.Input''
             [attr ''data-slot'' (cs ''command-input''),
              attr ''className'' (PStr (ui_cn L
                    [cs
                       ''placeholder:text-muted-foreground flex h-10 w-full rounded-md bg-transparent py-3 text-sm outline-hidden disabled:cursor-not-allowed disabled:opacity-50'',
                     className])),
              props] []])"

definition CommandList :: "'a component" where
  "CommandList L ps =
     (let className = pget ''className'' ps;
          props = rest_of [''className''] ps
      in lib ''CommandPrimitive.List''
          [attr ''data-slot'' (cs ''command-list''),
           attr ''className'' (PStr (ui_cn L [cs ''max-h-[300px] scroll-py-1 overflow-x-hidden overflow-y-auto'', className])),
           props] [])"

definition CommandEmpty :: "'a component" where
  "CommandEmpty L ps =
     (let props = rest_of [] ps
      in lib ''CommandPrimitive.Empty''
          [attr ''data-slot'' (cs ''command-empty''),
           attr ''className'' (cs ''py-6 text-center text-sm''),
           props] [])"

definition CommandGroup :: "'a component" where
  "CommandGroup L ps =
     (let className = pget ''className'' ps;
          props = rest_of [''className''] ps
      in lib ''CommandPrimitive.Group''
          [attr ''data-slot'' (cs ''command-group''),
           attr ''className'' (PStr (ui_cn L
                 [cs
                    ''text-foreground [&_[cmdk-group-heading]]:text-muted-foreground overflow-hidden p-1 [&_[cmdk-group-heading]]:px-2 [&_[cmdk-group-heading]]:py-1.5 [&_[cmdk-group-heading]]:text-xs [&_[cmdk-group-heading]]:font-medium'',
                  className])),
           props] [])"

definition CommandSeparator :: "'a component" where
  "CommandSeparator L ps =
     (let className = pget ''className'' ps;
          props = rest_of [''className''] ps
      in lib ''CommandPrimitive.Separator''
          [attr ''data-slot'' (cs ''command-separator''),
           attr ''className'' (PStr (ui_cn L [cs ''bg-border -mx-1 h-px'', className])),
           props] [])"

definition CommandItem :: "'a component" where
  "CommandItem L ps =
     (let className = pget ''className'' ps;
          props = rest_of [''className''] ps
      in lib ''CommandPrimitive.Item''
          [attr ''data-slot'' (cs ''command-item''),
           attr ''className'' (PStr (ui_cn L
                 [cs
                    ''data-[selected=true]:bg-accent data-[selected=true]:text-accent-foreground [&_svg:not([class*='text-'])]:text-muted-foreground relative flex cursor-default items-center gap-2 rounded-sm px-2 py-1.5 text-sm outline-hidden select-none data-[disabled=true]:pointer-events-none data-[disabled=true]:opacity-50 [&_svg]:pointer-events-none [&_svg]:shrink-0 [&_svg:not([class*='size-'])]:size-4'',
                  className])),
           props] [])"

definition CommandShortcut :: "'a component" where
  "CommandShortcut L ps =
     (let className = pget ''className'' ps;
          props = rest_of [''className''] ps
      in host ''span''
          [attr ''data-slot'' (cs ''command-shortcut''),
           attr ''className'' (PStr (ui_cn L [cs ''text-muted-foreground ml-auto text-xs tracking-widest'', className])),
           props] [])"

subsection \<open>components/ui/navigation-menu.tsx\<close>

definition NavigationMenuList :: "'a component" where
  "NavigationMenuList L ps =
     (let className = pget ''className'' ps;
          props = rest_of [''className''] ps
      in lib ''NavigationMenuPrimitive.List''
          [attr ''data-slot'' (cs ''navigation-menu-list''),
           attr ''className'' (PStr (ui_cn L [cs ''group flex flex-1 list-none items-center justify-center gap-1'', className])),
           props] [])"

definition NavigationMenuItem :: "'a component" where
  "NavigationMenuItem L ps =
     (let className = pget ''className'' ps;
          props = rest_of [''className''] ps
      in lib ''NavigationMenuPrimitive.Item''
          [attr ''data-slot'' (cs ''navigation-menu-item''),
           attr ''className'' (PStr (ui_cn L [cs ''relative'', className])),
           props] [])"

definition navigationMenuTriggerStyle :: cva_spec where
  "navigationMenuTriggerStyle =
     \<lparr>cva_base = (js ''group inline-flex h-9 w-max items-center justify-center rounded-md bg-background px-4 py-2 text-sm font-medium hover:bg-accent hover:text-accent-foreground focus:bg-accent focus:text-accent-foreground disabled:pointer-events-none disabled:opacity-50 data-[state=open]:hover:bg-accent data-[state=open]:text-accent-foreground data-[state=open]:focus:bg-accent data-[state=open]:bg-accent/50 focus-visible:ring-ring/50 outline-none transition-[color,box-shadow] focus-visible:ring-[3px] focus-visible:outline-1''),
      cva_variants = [],
      cva_defaults = []\<rparr>"

definition NavigationMenuTrigger :: "'a component" where
  "NavigationMenuTrigger L ps =
     (let className = pget ''className'' ps;
          children = pget ''children'' ps;
          props = rest_of [''className'', ''children''] ps
      in lib ''NavigationMenuPrimitive.Trigger''
          [attr ''data-slot'' (cs ''navigation-menu-trigger''),
           attr ''className'' (PStr (ui_cn L [PStr (ui_cva L navigationMenuTriggerStyle []), cs ''group'', className])),
           props]
          [child children,
           [Text (js '' '')],
           lib ''ChevronDownIcon''
             [attr ''className'' (cs
                  ''relative top-[1px] ml-1 size-3 transition duration-300 group-data-[state=open]:rotate-180''),
              attr ''aria-hidden'' (cs ''true'')] []])"

definition NavigationMenuContent :: "'a component" where
  "NavigationMenuContent L ps =
     (let className = pget ''className'' ps;
          props = rest_of [''className''] ps
      in lib ''NavigationMenuPrimitive.Content''
          [attr ''data-slot'' (cs ''navigation-menu-content''),
           attr ''className'' (PStr (ui_cn L
                 [cs
                    ''data-[motion^=from-]:animate-in data-[motion^=to-]:animate-out data-[motion^=from-]:fade-in data-[motion^=to-]:fade-out data-[motion=from-end]:slide-in-from-right-52 data-[motion=from-start]:slide-in-from-left-52 data-[motion=to-end]:slide-out-to-right-52 data-[motion=to-start]:slide-out-to-left-52 top-0 left-0 w-full p-2 pr-2.5 md:absolute md:w-auto'',
                  cs
                    ''group-data-[viewport=false]/navigation-menu:bg-popover group-data-[viewport=false]/navigation-menu:text-popover-foreground group-data-[viewport=false]/navigation-menu:data-[state=open]:animate-in group-data-[viewport=false]/navigation-menu:data-[state=closed]:animate-out group-data-[viewport=false]/navigation-menu:data-[state=closed]:zoom-out-95 group-data-[viewport=false]/navigation-menu:data-[state=open]:zoom-in-95 group-data-[viewport=false]/navigation-menu:data-[state=open]:fade-in-0 group-data-[viewport=false]/navigation-menu:data-[state=closed]:fade-out-0 group-data-[viewport=false]/navigation-menu:top-full group-data-[viewport=false]/navigation-menu:mt-1.5 group-data-[viewport=false]/navigation-menu:overflow-hidden group-data-[viewport=false]/navigation-menu:rounded-md group-data-[viewport=false]/navigation-menu:border group-data-[viewport=false]/navigation-menu:shadow group-data-[viewport=false]/navigation-menu:duration-200 **:data-[slot=navigation-menu-link]:focus:ring-0 **:data-[slot=navigation-menu-link]:focus:outline-none'',
                  className])),
           props] [])"

definition NavigationMenuViewport :: "'a component" where
  "NavigationMenuViewport L ps =
     (let className = pget ''className'' ps;
          props = rest_of [''className''] ps
      in host ''div''
          [attr ''className'' (cs ''absolute top-full left-0 isolate z-50 flex justify-center'')]
          [lib ''NavigationMenuPrimitive.Viewport''
             [attr ''data-slot'' (cs ''navigation-menu-viewport''),
              attr ''className'' (PStr (ui_cn L
                    [cs
                       ''origin-top-center bg-popover text-popover-foreground data-[state=open]:animate-in data-[state=closed]:animate-out data-[state=closed]:zoom-out-95 data-[state=open]:zoom-in-90 relative mt-1.5 h-[var(--radix-navigation-menu-viewport-height)] w-full overflow-hidden rounded-md border shadow md:w-[var(--radix-navigation-menu-viewport-width)]'',
                     className])),
              props] []])"

definition NavigationMenu :: "'a component" where
  "NavigationMenu L ps =
     (let className = pget ''className'' ps;
          children = pget ''children'' ps;
          viewport = pget_or ''viewport'' (PBool True) ps;
          props = rest_of [''className'', ''children'', ''viewport''] ps
      in lib ''NavigationMenuPrimitive.Root''
          [attr ''data-slot'' (cs ''navigation-menu''),
           attr ''data-viewport'' viewport,
           attr ''className'' (PStr (ui_cn L
                 [cs ''group/navigation-menu relative flex max-w-max flex-1 items-center justify-center'',
                  className])),
           props]
          [child children,
           child (js_and viewport (PNodes (NavigationMenuViewport L (attrs [] []))))])"

definition NavigationMenuLink :: "'a component" where
  "NavigationMenuLink L ps =
     (let className = pget ''className'' ps;
          props = rest_of [''className''] ps
      in lib ''NavigationMenuPrimitive.Link''
          [attr ''data-slot'' (cs ''navigation-menu-link''),
           attr ''className'' (PStr (ui_cn L
                 [cs
                    ''data-[active=true]:focus:bg-accent data-[active=true]:hover:bg-accent data-[active=true]:bg-accent/50 data-[active=true]:text-accent-foreground hover:bg-accent hover:text-accent-foreground focus:bg-accent focus:text-accent-foreground focus-visible:ring-ring/50 [&_svg:not([class*='text-'])]:text-muted-foreground flex flex-col gap-1 rounded-sm p-2 text-sm transition-all outline-none focus-visible:ring-[3px] focus-visible:outline-1 [&_svg:not([class*='size-'])]:size-4'',
                  className])),
           props] [])"

definition NavigationMenuIndicator :: "'a component" where
  "NavigationMenuIndicator L ps =
     (let className = pget ''className'' ps;
          props = rest_of [''className''] ps
      in lib ''NavigationMenuPrimitive.Indicator''
          [attr ''data-slot'' (cs ''navigation-menu-indicator''),
           attr ''className'' (PStr (ui_cn L
                 [cs
                    ''data-[state=visible]:animate-in data-[state=hidden]:animate-out data-[state=hidden]:fade-out data-[state=visible]:fade-in top-full z-[1] flex h-1.5 items-end justify-center overflow-hidden'',
                  className])),
           props]
          [host ''div''
             [attr ''className'' (cs ''bg-border relative top-[60%] h-2 w-2 rotate-45 rounded-tl-sm shadow-md'')]
             []])"

end
