(* ===== verification/UiLayout.thy ===== *)
theory UiLayout imports UiBase begin

section \<open>Layout and lists (components/ui)\<close>

text \<open>
  Each component of the files below is the function from its properties to what it renders: the
  properties it destructures, with their defaults, the remaining ones spread where the source spreads
  them, and the class lists passed to the merging function in the source's order.
\<close>

subsection \<open>components/ui/item.tsx\<close>

definition ItemGroup :: "'a component" where
  "ItemGroup L ps =
     (let className = pget ''className'' ps;
          props = rest_of [''className''] ps
      in host ''div''
          [attr ''role'' (cs ''list''),
           attr ''data-slot'' (cs ''item-group''),
           attr ''className'' (PStr (ui_cn L [cs ''group/item-group flex flex-col'', className])),
           props] [])"

definition ItemSeparator :: "'a component" where
  "ItemSeparator L ps =
     (let className = pget ''className'' ps;
          props = rest_of [''className''] ps
      in Separator L (attrs
            [attr ''data-slot'' (cs ''item-separator''),
             attr ''orientation'' (cs ''horizontal''),
             attr ''className'' (PStr (ui_cn L [cs ''my-0'', className])),
             props] []))"

definition itemVariants :: cva_spec where
  "itemVariants =
     \<lparr>cva_base = (js ''group/item flex items-center border border-transparent text-sm rounded-md transition-colors [a&]:hover:bg-accent/50 [a&]:transition-colors duration-100 flex-wrap outline-none focus-visible:border-ring focus-visible:ring-ring/50 focus-visible:ring-[3px]''),
      cva_variants = [(''variant'', [(''default'', js ''bg-transparent''),
        (''outline'', js ''border-border''),
        (''muted'', js ''bg-muted/50'')]),
       (''size'', [(''default'', js ''p-4 gap-4 ''),
        (''sm'', js ''py-3 px-4 gap-2.5'')])],
      cva_defaults = [(''variant'', ''default''), (''size'', ''default'')]\<rparr>"

definition Item :: "'a component" where
  "Item L ps =
     (let className = pget ''className'' ps;
          variant = pget_or ''variant'' (cs ''default'') ps;
          size1 = pget_or ''size'' (cs ''default'') ps;
          asChild = pget_or ''asChild'' (PBool False) ps;
          props = rest_of [''className'', ''variant'', ''size'', ''asChild''] ps
      in let Comp = (if truthy asChild then Lib ''Slot'' else Host ''div'') in
        elem Comp
          [attr ''data-slot'' (cs ''item''),
           attr ''data-variant'' variant,
           attr ''data-size'' size1,
           attr ''className'' (PStr (ui_cn L
                 [PStr (ui_cva L itemVariants
                      [(''variant'', variant),
                       (''size'', size1),
                       (''className'', className)])])),
           props] [])"

definition itemMediaVariants :: cva_spec where
  "itemMediaVariants =
     \<lparr>cva_base = (js ''flex shrink-0 items-center justify-center gap-2 group-has-[[data-slot=item-description]]/item:self-start [&_svg]:pointer-events-none group-has-[[data-slot=item-description]]/item:translate-y-0.5''),
      cva_variants = [(''variant'', [(''default'', js ''bg-transparent''),
        (''icon'', js ''size-8 border rounded-sm bg-muted [&_svg:not([class*='size-'])]:size-4''),
        (''image'', js ''size-10 rounded-sm overflow-hidden [&_img]:size-full [&_img]:object-cover'')])],
      cva_defaults = [(''variant'', ''default'')]\<rparr>"

definition ItemMedia :: "'a component" where
  "ItemMedia L ps =
     (let className = pget ''className'' ps;
          variant = pget_or ''variant'' (cs ''default'') ps;
          props = rest_of [''className'', ''variant''] ps
      in host ''div''
          [attr ''data-slot'' (cs ''item-media''),
           attr ''data-variant'' variant,
           attr ''className'' (PStr (ui_cn L
                 [PStr (ui_cva L itemMediaVariants [(''variant'', variant), (''className'', className)])])),
           props] [])"

definition ItemContent :: "'a component" where
  "ItemContent L ps =
     (let className = pget ''className'' ps;
          props = rest_of [''className''] ps
      in host ''div''
          [attr ''data-slot'' (cs ''item-content''),
           attr ''className'' (PStr (ui_cn L
                 [cs ''flex flex-1 flex-col gap-1 [&+[data-slot=item-content]]:flex-none'',
                  className])),
           props] [])"

definition ItemTitle :: "'a component" where
  "ItemTitle L ps =
     (let className = pget ''className'' ps;
          props = rest_of [''className''] ps
      in host ''div''
          [attr ''data-slot'' (cs ''item-title''),
           attr ''className'' (PStr (ui_cn L [cs ''flex w-fit items-center gap-2 text-sm leading-snug font-medium'', className])),
           props] [])"

definition ItemDescription :: "'a component" where
  "ItemDescription L ps =
     (let className = pget ''className'' ps;
          props = rest_of [''className''] ps
      in host ''p''
          [attr ''data-slot'' (cs ''item-description''),
           attr ''className'' (PStr (ui_cn L
                 [cs
                    ''text-muted-foreground line-clamp-2 text-sm leading-normal font-normal text-balance'',
                  cs ''[&>a:hover]:text-primary [&>a]:underline [&>a]:underline-offset-4'',
                  className])),
           props] [])"

definition ItemActions :: "'a component" where
  "ItemActions L ps =
     (let className = pget ''className'' ps;
          props = rest_of [''className''] ps
      in host ''div''
          [attr ''data-slot'' (cs ''item-actions''),
           attr ''className'' (PStr (ui_cn L [cs ''flex items-center gap-2'', className])),
           props] [])"

definition ItemHeader :: "'a component" where
  "ItemHeader L ps =
     (let className = pget ''className'' ps;
          props = rest_of [''className''] ps
      in host ''div''
          [attr ''data-slot'' (cs ''item-header''),
           attr ''className'' (PStr (ui_cn L [cs ''flex basis-full items-center justify-between gap-2'', className])),
           props] [])"

definition ItemFooter :: "'a component" where
  "ItemFooter L ps =
     (let className = pget ''className'' ps;
          props = rest_of [''className''] ps
      in host ''div''
          [attr ''data-slot'' (cs ''item-footer''),
           attr ''className'' (PStr (ui_cn L [cs ''flex basis-full items-center justify-between gap-2'', className])),
           props] [])"

subsection \<open>components/ui/empty.tsx\<close>

definition Empty :: "'a component" where
  "Empty L ps =
     (let className = pget ''className'' ps;
          props = rest_of [''className''] ps
      in host ''div''
          [attr ''data-slot'' (cs ''empty''),
           attr ''className'' (PStr (ui_cn L
                 [cs
                    ''flex min-w-0 flex-1 flex-col items-center justify-center gap-6 rounded-lg border-dashed p-6 text-center text-balance md:p-12'',
                  className])),
           props] [])"

definition EmptyHeader :: "'a component" where
  "EmptyHeader L ps =
     (let className = pget ''className'' ps;
          props = rest_of [''className''] ps
      in host ''div''
          [attr ''data-slot'' (cs ''empty-header''),
           attr ''className'' (PStr (ui_cn L [cs ''flex max-w-sm flex-col items-center gap-2 text-center'', className])),
           props] [])"

definition emptyMediaVariants :: cva_spec where
  "emptyMediaVariants =
     \<lparr>cva_base = (js ''flex shrink-0 items-center justify-center mb-2 [&_svg]:pointer-events-none [&_svg]:shrink-0''),
      cva_variants = [(''variant'', [(''default'', js ''bg-transparent''),
        (''icon'', js ''bg-muted text-foreground flex size-10 shrink-0 items-center justify-center rounded-lg [&_svg:not([class*='size-'])]:size-6'')])],
      cva_defaults = [(''variant'', ''default'')]\<rparr>"

definition EmptyMedia :: "'a component" where
  "EmptyMedia L ps =
     (let className = pget ''className'' ps;
          variant = pget_or ''variant'' (cs ''default'') ps;
          props = rest_of [''className'', ''variant''] ps
      in host ''div''
          [attr ''data-slot'' (cs ''empty-icon''),
           attr ''data-variant'' variant,
           attr ''className'' (PStr (ui_cn L
                 [PStr (ui_cva L emptyMediaVariants [(''variant'', variant), (''className'', className)])])),
           props] [])"

definition EmptyTitle :: "'a component" where
  "EmptyTitle L ps =
     (let className = pget ''className'' ps;
          props = rest_of [''className''] ps
      in host ''div''
          [attr ''data-slot'' (cs ''empty-title''),
           attr ''className'' (PStr (ui_cn L [cs ''text-lg font-medium tracking-tight'', className])),
           props] [])"

definition EmptyDescription :: "'a component" where
  "EmptyDescription L ps =
     (let className = pget ''className'' ps;
          props = rest_of [''className''] ps
      in host ''div''
          [attr ''data-slot'' (cs ''empty-description''),
           attr ''className'' (PStr (ui_cn L
                 [cs
                    ''text-muted-foreground [&>a:hover]:text-primary text-sm/relaxed [&>a]:underline [&>a]:underline-offset-4'',
                  className])),
           props] [])"

definition EmptyContent :: "'a component" where
  "EmptyContent L ps =
     (let className = pget ''className'' ps;
          props = rest_of [''className''] ps
      in host ''div''
          [attr ''data-slot'' (cs ''empty-content''),
           attr ''className'' (PStr (ui_cn L
                 [cs ''flex w-full max-w-sm min-w-0 flex-col items-center gap-4 text-sm text-balance'',
                  className])),
           props] [])"

subsection \<open>components/ui/table.tsx\<close>

definition Table :: "'a component" where
  "Table L ps =
     (let className = pget ''className'' ps;
          props = rest_of [''className''] ps
      in host ''div''
          [attr ''data-slot'' (cs ''table-container''),
           attr ''className'' (cs ''relative w-full overflow-x-auto'')]
          [host ''table''
             [attr ''data-slot'' (cs ''table''),
              attr ''className'' (PStr (ui_cn L [cs ''w-full caption-bottom text-sm'', className])),
              props] []])"

definition TableHeader :: "'a component" where
  "TableHeader L ps =
     (let className = pget ''className'' ps;
          props = rest_of [''className''] ps
      in host ''thead''
          [attr ''data-slot'' (cs ''table-header''),
           attr ''className'' (PStr (ui_cn L [cs ''[&_tr]:border-b'', className])),
           props] [])"

definition TableBody :: "'a component" where
  "TableBody L ps =
     (let className = pget ''className'' ps;
          props = rest_of [''className''] ps
      in host ''tbody''
          [attr ''data-slot'' (cs ''table-body''),
           attr ''className'' (PStr (ui_cn L [cs ''[&_tr:last-child]:border-0'', className])),
           props] [])"

definition TableFooter :: "'a component" where
  "TableFooter L ps =
     (let className = pget ''className'' ps;
          props = rest_of [''className''] ps
      in host ''tfoot''
          [attr ''data-slot'' (cs ''table-footer''),
           attr ''className'' (PStr (ui_cn L [cs ''bg-muted/50 border-t font-medium [&>tr]:last:border-b-0'', className])),
           props] [])"

definition TableRow :: "'a component" where
  "TableRow L ps =
     (let className = pget ''className'' ps;
          props = rest_of [''className''] ps
      in host ''tr''
          [attr ''data-slot'' (cs ''table-row''),
           attr ''className'' (PStr (ui_cn L
                 [cs ''hover:bg-muted/50 data-[state=selected]:bg-muted border-b transition-colors'',
                  className])),
           props] [])"

definition TableHead :: "'a component" where
  "TableHead L ps =
     (let className = pget ''className'' ps;
          props = rest_of [''className''] ps
      in host ''th''
          [attr ''data-slot'' (cs ''table-head''),
           attr ''className'' (PStr (ui_cn L
                 [cs
                    ''text-foreground h-10 px-2 text-left align-middle font-medium whitespace-nowrap [&:has([role=checkbox])]:pr-0 [&>[role=checkbox]]:translate-y-[2px]'',
                  className])),
           props] [])"

definition TableCell :: "'a component" where
  "TableCell L ps =
     (let className = pget ''className'' ps;
          props = rest_of [''className''] ps
      in host ''td''
          [attr ''data-slot'' (cs ''table-cell''),
           attr ''className'' (PStr (ui_cn L
                 [cs
                    ''p-2 align-middle whitespace-nowrap [&:has([role=checkbox])]:pr-0 [&>[role=checkbox]]:translate-y-[2px]'',
                  className])),
           props] [])"

definition TableCaption :: "'a component" where
  "TableCaption L ps =
     (let className = pget ''className'' ps;
          props = rest_of [''className''] ps
      in host ''caption''
          [attr ''data-slot'' (cs ''table-caption''),
           attr ''className'' (PStr (ui_cn L [cs ''text-muted-foreground mt-4 text-sm'', className])),
           props] [])"

subsection \<open>components/ui/breadcrumb.tsx\<close>

definition Breadcrumb :: "'a component" where
  "Breadcrumb L ps =
     (let props = rest_of [] ps
      in host ''nav''
          [attr ''aria-label'' (cs ''breadcrumb''),
           attr ''data-slot'' (cs ''breadcrumb''),
           props] [])"

definition BreadcrumbList :: "'a component" where
  "BreadcrumbList L ps =
     (let className = pget ''className'' ps;
          props = rest_of [''className''] ps
      in host ''ol''
          [attr ''data-slot'' (cs ''breadcrumb-list''),
           attr ''className'' (PStr (ui_cn L
                 [cs
                    ''text-muted-foreground flex flex-wrap items-center gap-1.5 text-sm break-words sm:gap-2.5'',
                  className])),
           props] [])"

definition BreadcrumbItem :: "'a component" where
  "BreadcrumbItem L ps =
     (let className = pget ''className'' ps;
          props = rest_of [''className''] ps
      in host ''li''
          [attr ''data-slot'' (cs ''breadcrumb-item''),
           attr ''className'' (PStr (ui_cn L [cs ''inline-flex items-center gap-1.5'', className])),
           props] [])"

definition BreadcrumbLink :: "'a component" where
  "BreadcrumbLink L ps =
     (let asChild = pget ''asChild'' ps;
          className = pget ''className'' ps;
          props = rest_of [''asChild'', ''className''] ps
      in let Comp = (if truthy asChild then Lib ''Slot'' else Host ''a'') in
        elem Comp
          [attr ''data-slot'' (cs ''breadcrumb-link''),
           attr ''className'' (PStr (ui_cn L [cs ''hover:text-foreground transition-colors'', className])),
           props] [])"

definition BreadcrumbPage :: "'a component" where
  "BreadcrumbPage L ps =
     (let className = pget ''className'' ps;
          props = rest_of [''className''] ps
      in host ''span''
          [attr ''data-slot'' (cs ''breadcrumb-page''),
           attr ''role'' (cs ''link''),
           attr ''aria-disabled'' (cs ''true''),
           attr ''aria-current'' (cs ''page''),
           attr ''className'' (PStr (ui_cn L [cs ''text-foreground font-normal'', className])),
           props] [])"

definition BreadcrumbSeparator :: "'a component" where
  "BreadcrumbSeparator L ps =
     (let children = pget ''children'' ps;
          className = pget ''className'' ps;
          props = rest_of [''children'', ''className''] ps
      in host ''li''
          [attr ''data-slot'' (cs ''breadcrumb-separator''),
           attr ''role'' (cs ''presentation''),
           attr ''aria-hidden'' (cs ''true''),
           attr ''className'' (PStr (ui_cn L [cs ''[&>svg]:size-3.5'', className])),
           props] [child (js_coalesce children (PNodes (lib ''ChevronRight'' [] [])))])"

definition BreadcrumbEllipsis :: "'a component" where
  "BreadcrumbEllipsis L ps =
     (let className = pget ''className'' ps;
          props = rest_of [''className''] ps
      in host ''span''
          [attr ''data-slot'' (cs ''breadcrumb-ellipsis''),
           attr ''role'' (cs ''presentation''),
           attr ''aria-hidden'' (cs ''true''),
           attr ''className'' (PStr (ui_cn L [cs ''flex size-9 items-center justify-center'', className])),
           props]
          [lib ''MoreHorizontal'' [attr ''className'' (cs ''size-4'')] [],
           host ''span'' [attr ''className'' (cs ''sr-only'')] [tx ''More'']])"

subsection \<open>components/ui/pagination.tsx\<close>

definition Pagination :: "'a component" where
  "Pagination L ps =
     (let className = pget ''className'' ps;
          props = rest_of [''className''] ps
      in host ''nav''
          [attr ''role'' (cs ''navigation''),
           attr ''aria-label'' (cs ''pagination''),
           attr ''data-slot'' (cs ''pagination''),
           attr ''className'' (PStr (ui_cn L [cs ''mx-auto flex w-full justify-center'', className])),
           props] [])"

definition PaginationContent :: "'a component" where
  "PaginationContent L ps =
     (let className = pget ''className'' ps;
          props = rest_of [''className''] ps
      in host ''ul''
          [attr ''data-slot'' (cs ''pagination-content''),
           attr ''className'' (PStr (ui_cn L [cs ''flex flex-row items-center gap-1'', className])),
           props] [])"

definition PaginationItem :: "'a component" where
  "PaginationItem L ps =
     (let props = rest_of [] ps
      in host ''li'' [attr ''data-slot'' (cs ''pagination-item''), props] [])"

definition PaginationLink :: "'a component" where
  "PaginationLink L ps =
     (let className = pget ''className'' ps;
          isActive = pget ''isActive'' ps;
          size1 = pget_or ''size'' (cs ''icon'') ps;
          props = rest_of [''className'', ''isActive'', ''size''] ps
      in host ''a''
          [attr ''aria-current'' (if truthy isActive then cs ''page'' else PUndef),
           attr ''data-slot'' (cs ''pagination-link''),
           attr ''data-active'' isActive,
           attr ''className'' (PStr (ui_cn L
                 [PStr (ui_cva L buttonVariants
                      [(''variant'', if truthy isActive then cs ''outline'' else cs ''ghost''),
                       (''size'', size1)]),
                  className])),
           props] [])"

definition PaginationPrevious :: "'a component" where
  "PaginationPrevious L ps =
     (let className = pget ''className'' ps;
          props = rest_of [''className''] ps
      in PaginationLink L (attrs
            [attr ''aria-label'' (cs ''Go to previous page''),
             attr ''size'' (cs ''default''),
             attr ''className'' (PStr (ui_cn L [cs ''gap-1 px-2.5 sm:pl-2.5'', className])),
             props]
            [lib ''ChevronLeftIcon'' [] [],
             host ''span'' [attr ''className'' (cs ''hidden sm:block'')] [tx ''Previous'']]))"

definition PaginationNext :: "'a component" where
  "PaginationNext L ps =
     (let className = pget ''className'' ps;
          props = rest_of [''className''] ps
      in PaginationLink L (attrs
            [attr ''aria-label'' (cs ''Go to next page''),
             attr ''size'' (cs ''default''),
             attr ''className'' (PStr (ui_cn L [cs ''gap-1 px-2.5 sm:pr-2.5'', className])),
             props]
            [host ''span'' [attr ''className'' (cs ''hidden sm:block'')] [tx ''Next''],
             lib ''ChevronRightIcon'' [] []]))"

definition PaginationEllipsis :: "'a component" where
  "PaginationEllipsis L ps =
     (let className = pget ''className'' ps;
          props = rest_of [''className''] ps
      in host ''span''
          [attr ''aria-hidden'' (PBool True),
           attr ''data-slot'' (cs ''pagination-ellipsis''),
           attr ''className'' (PStr (ui_cn L [cs ''flex size-9 items-center justify-center'', className])),
           props]
          [lib ''MoreHorizontalIcon'' [attr ''className'' (cs ''size-4'')] [],
           host ''span'' [attr ''className'' (cs ''sr-only'')] [tx ''More pages'']])"

subsection \<open>components/ui/button-group.tsx\<close>

definition buttonGroupVariants :: cva_spec where
  "buttonGroupVariants =
     \<lparr>cva_base = (js ''flex w-fit items-stretch [&>*]:focus-visible:z-10 [&>*]:focus-visible:relative [&>[data-slot=select-trigger]:not([class*='w-'])]:w-fit [&>input]:flex-1 has-[select[aria-hidden=true]:last-child]:[&>[data-slot=select-trigger]:last-of-type]:rounded-r-md has-[>[data-slot=button-group]]:gap-2''),
      cva_variants = [(''orientation'', [(''horizontal'', js ''[&>*:not(:first-child)]:rounded-l-none [&>*:not(:first-child)]:border-l-0 [&>*:not(:last-child)]:rounded-r-none''),
        (''vertical'', js ''flex-col [&>*:not(:first-child)]:rounded-t-none [&>*:not(:first-child)]:border-t-0 [&>*:not(:last-child)]:rounded-b-none'')])],
      cva_defaults = [(''orientation'', ''horizontal'')]\<rparr>"

definition ButtonGroup :: "'a component" where
  "ButtonGroup L ps =
     (let className = pget ''className'' ps;
          orientation = pget ''orientation'' ps;
          props = rest_of [''className'', ''orientation''] ps
      in host ''div''
          [attr ''role'' (cs ''group''),
           attr ''data-slot'' (cs ''button-group''),
           attr ''data-orientation'' orientation,
           attr ''className'' (PStr (ui_cn L [PStr (ui_cva L buttonGroupVariants [(''orientation'', orientation)]), className])),
           props] [])"

definition ButtonGroupText :: "'a component" where
  "ButtonGroupText L ps =
     (let className = pget ''className'' ps;
          asChild = pget_or ''asChild'' (PBool False) ps;
          props = rest_of [''className'', ''asChild''] ps
      in let Comp = (if truthy asChild then Lib ''Slot'' else Host ''div'') in
        elem Comp
          [attr ''className'' (PStr (ui_cn L
                 [cs
                    ''bg-muted flex items-center gap-2 rounded-md border px-4 text-sm font-medium shadow-xs [&_svg]:pointer-events-none [&_svg:not([class*='size-'])]:size-4'',
                  className])),
           props] [])"

definition ButtonGroupSeparator :: "'a component" where
  "ButtonGroupSeparator L ps =
     (let className = pget ''className'' ps;
          orientation = pget_or ''orientation'' (cs ''vertical'') ps;
          props = rest_of [''className'', ''orientation''] ps
      in Separator L (attrs
            [attr ''data-slot'' (cs ''button-group-separator''),
             attr ''orientation'' orientation,
             attr ''className'' (PStr (ui_cn L
                   [cs ''bg-input relative !m-0 self-stretch data-[orientation=vertical]:h-auto'',
                    className])),
             props] []))"

subsection \<open>components/ui/alert.tsx\<close>

definition alertVariants :: cva_spec where
  "alertVariants =
     \<lparr>cva_base = (js ''relative w-full rounded-lg border px-4 py-3 text-sm grid has-[>svg]:grid-cols-[calc(var(--spacing)*4)_1fr] grid-cols-[0_1fr] has-[>svg]:gap-x-3 gap-y-0.5 items-start [&>svg]:size-4 [&>svg]:translate-y-0.5 [&>svg]:text-current''),
      cva_variants = [(''variant'', [(''default'', js ''bg-card text-card-foreground''),
        (''destructive'', js ''text-destructive bg-card [&>svg]:text-current *:data-[slot=alert-description]:text-destructive/90'')])],
      cva_defaults = [(''variant'', ''default'')]\<rparr>"

definition Alert :: "'a component" where
  "Alert L ps =
     (let className = pget ''className'' ps;
          variant = pget ''variant'' ps;
          props = rest_of [''className'', ''variant''] ps
      in host ''div''
          [attr ''data-slot'' (cs ''alert''),
           attr ''role'' (cs ''alert''),
           attr ''className'' (PStr (ui_cn L [PStr (ui_cva L alertVariants [(''variant'', variant)]), className])),
           props] [])"

definition AlertTitle :: "'a component" where
  "AlertTitle L ps =
     (let className = pget ''className'' ps;
          props = rest_of [''className''] ps
      in host ''div''
          [attr ''data-slot'' (cs ''alert-title''),
           attr ''className'' (PStr (ui_cn L [cs ''col-start-2 line-clamp-1 min-h-4 font-medium tracking-tight'', className])),
           props] [])"

definition AlertDescription :: "'a component" where
  "AlertDescription L ps =
     (let className = pget ''className'' ps;
          props = rest_of [''className''] ps
      in host ''div''
          [attr ''data-slot'' (cs ''alert-description''),
           attr ''className'' (PStr (ui_cn L
                 [cs
                    ''text-muted-foreground col-start-2 grid justify-items-start gap-1 text-sm [&_p]:leading-relaxed'',
                  className])),
           props] [])"

subsection \<open>components/ui/accordion.tsx\<close>

definition Accordion :: "'a component" where
  "Accordion L ps =
     (let props = rest_of [] ps
      in lib ''AccordionPrimitive.Root'' [attr ''data-slot'' (cs ''accordion''), props] [])"

definition AccordionItem :: "'a component" where
  "AccordionItem L ps =
     (let className = pget ''className'' ps;
          props = rest_of [''className''] ps
      in lib ''AccordionPrimitive.Item''
          [attr ''data-slot'' (cs ''accordion-item''),
           attr ''className'' (PStr (ui_cn L [cs ''border-b last:border-b-0'', className])),
           props] [])"

definition AccordionTrigger :: "'a component" where
  "AccordionTrigger L ps =
     (let className = pget ''className'' ps;
          children = pget ''children'' ps;
          props = rest_of [''className'', ''children''] ps
      in lib ''AccordionPrimitive.Header'' [attr ''className'' (cs ''flex'')]
          [lib ''AccordionPrimitive.Trigger''
             [attr ''data-slot'' (cs ''accordion-trigger''),
              attr ''className'' (PStr (ui_cn L
                    [cs
                       ''focus-visible:border-ring focus-visible:ring-ring/50 flex flex-1 items-start justify-between gap-4 rounded-md py-4 text-left text-sm font-medium transition-all outline-none hover:underline focus-visible:ring-[3px] disabled:pointer-events-none disabled:opacity-50 [&[data-state=open]>svg]:rotate-180'',
                     className])),
              props]
             [child children,
              lib ''ChevronDownIcon''
                [attr ''className'' (cs
                     ''text-muted-foreground pointer-events-none size-4 shrink-0 translate-y-0.5 transition-transform duration-200'')]
                []]])"

definition AccordionContent :: "'a component" where
  "AccordionContent L ps =
     (let className = pget ''className'' ps;
          children = pget ''children'' ps;
          props = rest_of [''className'', ''children''] ps
      in lib ''AccordionPrimitive.Content''
          [attr ''data-slot'' (cs ''accordion-content''),
           attr ''className'' (cs
               ''data-[state=closed]:animate-accordion-up data-[state=open]:animate-accordion-down overflow-hidden text-sm''),
           props]
          [host ''div'' [attr ''className'' (PStr (ui_cn L [cs ''pt-0 pb-4'', className]))]
             [child children]])"

subsection \<open>components/ui/collapsible.tsx\<close>

definition Collapsible :: "'a component" where
  "Collapsible L ps =
     (let props = rest_of [] ps
      in lib ''CollapsiblePrimitive.Root'' [attr ''data-slot'' (cs ''collapsible''), props] [])"

definition CollapsibleTrigger :: "'a component" where
  "CollapsibleTrigger L ps =
     (let props = rest_of [] ps
      in lib ''CollapsiblePrimitive.CollapsibleTrigger''
          [attr ''data-slot'' (cs ''collapsible-trigger''),
           props] [])"

definition CollapsibleContent :: "'a component" where
  "CollapsibleContent L ps =
     (let props = rest_of [] ps
      in lib ''CollapsiblePrimitive.CollapsibleContent''
          [attr ''data-slot'' (cs ''collapsible-content''),
           props] [])"

subsection \<open>components/ui/tabs.tsx\<close>

definition Tabs :: "'a component" where
  "Tabs L ps =
     (let className = pget ''className'' ps;
          props = rest_of [''className''] ps
      in lib ''TabsPrimitive.Root''
          [attr ''data-slot'' (cs ''tabs''),
           attr ''className'' (PStr (ui_cn L [cs ''flex flex-col gap-2'', className])),
           props] [])"

definition TabsList :: "'a component" where
  "TabsList L ps =
     (let className = pget ''className'' ps;
          props = rest_of [''className''] ps
      in lib ''TabsPrimitive.List''
          [attr ''data-slot'' (cs ''tabs-list''),
           attr ''className'' (PStr (ui_cn L
                 [cs
                    ''bg-muted text-muted-foreground inline-flex h-9 w-fit items-center justify-center rounded-lg p-[3px]'',
                  className])),
           props] [])"

definition TabsTrigger :: "'a component" where
  "TabsTrigger L ps =
     (let className = pget ''className'' ps;
          props = rest_of [''className''] ps
      in lib ''TabsPrimitive.Trigger''
          [attr ''data-slot'' (cs ''tabs-trigger''),
           attr ''className'' (PStr (ui_cn L
                 [cs
                    ''data-[state=active]:bg-background dark:data-[state=active]:text-foreground focus-visible:border-ring focus-visible:ring-ring/50 focus-visible:outline-ring dark:data-[state=active]:border-input dark:data-[state=active]:bg-input/30 text-foreground dark:text-muted-foreground inline-flex h-[calc(100%-1px)] flex-1 items-center justify-center gap-1.5 rounded-md border border-transparent px-2 py-1 text-sm font-medium whitespace-nowrap transition-[color,box-shadow] focus-visible:ring-[3px] focus-visible:outline-1 disabled:pointer-events-none disabled:opacity-50 data-[state=active]:shadow-sm [&_svg]:pointer-events-none [&_svg]:shrink-0 [&_svg:not([class*='size-'])]:size-4'',
                  className])),
           props] [])"

definition TabsContent :: "'a component" where
  "TabsContent L ps =
     (let className = pget ''className'' ps;
          props = rest_of [''className''] ps
      in lib ''TabsPrimitive.Content''
          [attr ''data-slot'' (cs ''tabs-content''),
           attr ''className'' (PStr (ui_cn L [cs ''flex-1 outline-none'', className])),
           props] [])"

subsection \<open>components/ui/scroll-area.tsx\<close>

definition ScrollBar :: "'a component" where
  "ScrollBar L ps =
     (let className = pget ''className'' ps;
          orientation = pget_or ''orientation'' (cs ''vertical'') ps;
          props = rest_of [''className'', ''orientation''] ps
      in lib ''ScrollAreaPrimitive.ScrollAreaScrollbar''
          [attr ''data-slot'' (cs ''scroll-area-scrollbar''),
           attr ''orientation'' orientation,
           attr ''className'' (PStr (ui_cn L
                 [cs ''flex touch-none p-px transition-colors select-none'',
                  js_and (PBool (js_eq orientation (cs ''vertical''))) (cs ''h-full w-2.5 border-l border-l-transparent''),
                  js_and (PBool (js_eq orientation (cs ''horizontal''))) (cs ''h-2.5 flex-col border-t border-t-transparent''),
                  className])),
           props]
          [lib ''ScrollAreaPrimitive.ScrollAreaThumb''
             [attr ''data-slot'' (cs ''scroll-area-thumb''),
              attr ''className'' (cs ''bg-border relative flex-1 rounded-full'')] []])"

definition ScrollArea :: "'a component" where
  "ScrollArea L ps =
     (let className = pget ''className'' ps;
          children = pget ''children'' ps;
          props = rest_of [''className'', ''children''] ps
      in lib ''ScrollAreaPrimitive.Root''
          [attr ''data-slot'' (cs ''scroll-area''),
           attr ''className'' (PStr (ui_cn L [cs ''relative'', className])),
           props]
          [lib ''ScrollAreaPrimitive.Viewport''
             [attr ''data-slot'' (cs ''scroll-area-viewport''),
              attr ''className'' (cs
                  ''focus-visible:ring-ring/50 size-full rounded-[inherit] transition-[color,box-shadow] outline-none focus-visible:ring-[3px] focus-visible:outline-1'')]
             [child children],
           ScrollBar L (attrs [] []),
           lib ''ScrollAreaPrimitive.Corner'' [] []])"

subsection \<open>components/ui/resizable.tsx\<close>

definition ResizablePanelGroup :: "'a component" where
  "ResizablePanelGroup L ps =
     (let className = pget ''className'' ps;
          props = rest_of [''className''] ps
      in lib ''ResizablePrimitive.PanelGroup''
          [attr ''data-slot'' (cs ''resizable-panel-group''),
           attr ''className'' (PStr (ui_cn L
                 [cs ''flex h-full w-full data-[panel-group-direction=vertical]:flex-col'',
                  className])),
           props] [])"

definition ResizablePanel :: "'a component" where
  "ResizablePanel L ps =
     (let props = rest_of [] ps
      in lib ''ResizablePrimitive.Panel'' [attr ''data-slot'' (cs ''resizable-panel''), props] [])"

definition ResizableHandle :: "'a component" where
  "ResizableHandle L ps =
     (let withHandle = pget ''withHandle'' ps;
          className = pget ''className'' ps;
          props = rest_of [''withHandle'', ''className''] ps
      in lib ''ResizablePrimitive.PanelResizeHandle''
          [attr ''data-slot'' (cs ''resizable-handle''),
           attr ''className'' (PStr (ui_cn L
                 [cs
                    ''bg-border focus-visible:ring-ring relative flex w-px items-center justify-center after:absolute after:inset-y-0 after:left-1/2 after:w-1 after:-translate-x-1/2 focus-visible:ring-1 focus-visible:ring-offset-1 focus-visible:outline-hidden data-[panel-group-direction=vertical]:h-px data-[panel-group-direction=vertical]:w-full data-[panel-group-direction=vertical]:after:left-0 data-[panel-group-direction=vertical]:after:h-1 data-[panel-group-direction=vertical]:after:w-full data-[panel-group-direction=vertical]:after:translate-x-0 data-[panel-group-direction=vertical]:after:-translate-y-1/2 [&[data-panel-group-direction=vertical]>div]:rotate-90'',
                  className])),
           props]
          [child (js_and withHandle (PNodes (host ''div''
                   [attr ''className'' (cs ''bg-border z-10 flex h-4 w-3 items-center justify-center rounded-xs border'')]
                   [lib ''GripVerticalIcon'' [attr ''className'' (cs ''size-2.5'')] []])))])"

subsection \<open>components/ui/field.tsx\<close>

definition FieldSet :: "'a component" where
  "FieldSet L ps =
     (let className = pget ''className'' ps;
          props = rest_of [''className''] ps
      in host ''fieldset''
          [attr ''data-slot'' (cs ''field-set''),
           attr ''className'' (PStr (ui_cn L
                 [cs ''flex flex-col gap-6'',
                  cs ''has-[>[data-slot=checkbox-group]]:gap-3 has-[>[data-slot=radio-group]]:gap-3'',
                  className])),
           props] [])"

definition FieldLegend :: "'a component" where
  "FieldLegend L ps =
     (let className = pget ''className'' ps;
          variant = pget_or ''variant'' (cs ''legend'') ps;
          props = rest_of [''className'', ''variant''] ps
      in host ''legend''
          [attr ''data-slot'' (cs ''field-legend''),
           attr ''data-variant'' variant,
           attr ''className'' (PStr (ui_cn L
                 [cs ''mb-3 font-medium'',
                  cs ''data-[variant=legend]:text-base'',
                  cs ''data-[variant=label]:text-sm'',
                  className])),
           props] [])"

definition FieldGroup :: "'a component" where
  "FieldGroup L ps =
     (let className = pget ''className'' ps;
          props = rest_of [''className''] ps
      in host ''div''
          [attr ''data-slot'' (cs ''field-group''),
           attr ''className'' (PStr (ui_cn L
                 [cs
                    ''group/field-group @container/field-group flex w-full flex-col gap-7 data-[slot=checkbox-group]:gap-3 [&>[data-slot=field-group]]:gap-4'',
                  className])),
           props] [])"

definition fieldVariants :: cva_spec where
  "fieldVariants =
     \<lparr>cva_base = (js ''group/field flex w-full gap-3 data-[invalid=true]:text-destructive''),
      cva_variants = [(''orientation'', [(''vertical'', js ''flex-col [&>*]:w-full [&>.sr-only]:w-auto''),
        (''horizontal'', js ''flex-row items-center [&>[data-slot=field-label]]:flex-auto has-[>[data-slot=field-content]]:items-start has-[>[data-slot=field-content]]:[&>[role=checkbox],[role=radio]]:mt-px''),
        (''responsive'', js ''flex-col [&>*]:w-full [&>.sr-only]:w-auto @md/field-group:flex-row @md/field-group:items-center @md/field-group:[&>*]:w-auto @md/field-group:[&>[data-slot=field-label]]:flex-auto @md/field-group:has-[>[data-slot=field-content]]:items-start @md/field-group:has-[>[data-slot=field-content]]:[&>[role=checkbox],[role=radio]]:mt-px'')])],
      cva_defaults = [(''orientation'', ''vertical'')]\<rparr>"

definition Field :: "'a component" where
  "Field L ps =
     (let className = pget ''className'' ps;
          orientation = pget_or ''orientation'' (cs ''vertical'') ps;
          props = rest_of [''className'', ''orientation''] ps
      in host ''div''
          [attr ''role'' (cs ''group''),
           attr ''data-slot'' (cs ''field''),
           attr ''data-orientation'' orientation,
           attr ''className'' (PStr (ui_cn L [PStr (ui_cva L fieldVariants [(''orientation'', orientation)]), className])),
           props] [])"

definition FieldContent :: "'a component" where
  "FieldContent L ps =
     (let className = pget ''className'' ps;
          props = rest_of [''className''] ps
      in host ''div''
          [attr ''data-slot'' (cs ''field-content''),
           attr ''className'' (PStr (ui_cn L [cs ''group/field-content flex flex-1 flex-col gap-1.5 leading-snug'', className])),
           props] [])"

definition FieldLabel :: "'a component" where
  "FieldLabel L ps =
     (let className = pget ''className'' ps;
          props = rest_of [''className''] ps
      in Label L (attrs
            [attr ''data-slot'' (cs ''field-label''),
             attr ''className'' (PStr (ui_cn L
                   [cs
                      ''group/field-label peer/field-label flex w-fit gap-2 leading-snug group-data-[disabled=true]/field:opacity-50'',
                    cs
                      ''has-[>[data-slot=field]]:w-full has-[>[data-slot=field]]:flex-col has-[>[data-slot=field]]:rounded-md has-[>[data-slot=field]]:border [&>*]:data-[slot=field]:p-4'',
                    cs
                      ''has-data-[state=checked]:bg-primary/5 has-data-[state=checked]:border-primary dark:has-data-[state=checked]:bg-primary/10'',
                    className])),
             props] []))"

definition FieldTitle :: "'a component" where
  "FieldTitle L ps =
     (let className = pget ''className'' ps;
          props = rest_of [''className''] ps
      in host ''div''
          [attr ''data-slot'' (cs ''field-label''),
           attr ''className'' (PStr (ui_cn L
                 [cs
                    ''flex w-fit items-center gap-2 text-sm leading-snug font-medium group-data-[disabled=true]/field:opacity-50'',
                  className])),
           props] [])"

definition FieldDescription :: "'a component" where
  "FieldDescription L ps =
     (let className = pget ''className'' ps;
          props = rest_of [''className''] ps
      in host ''p''
          [attr ''data-slot'' (cs ''field-description''),
           attr ''className'' (PStr (ui_cn L
                 [cs
                    ''text-muted-foreground text-sm leading-normal font-normal group-has-[[data-orientation=horizontal]]/field:text-balance'',
                  cs ''last:mt-0 nth-last-2:-mt-1 [[data-variant=legend]+&]:-mt-1.5'',
                  cs ''[&>a:hover]:text-primary [&>a]:underline [&>a]:underline-offset-4'',
                  className])),
           props] [])"

definition FieldSeparator :: "'a component" where
  "FieldSeparator L ps =
     (let children = pget ''children'' ps;
          className = pget ''className'' ps;
          props = rest_of [''children'', ''className''] ps
      in host ''div''
          [attr ''data-slot'' (cs ''field-separator''),
           attr ''data-content'' (PBool (\<not> (\<not> (truthy children)))),
           attr ''className'' (PStr (ui_cn L
                 [cs ''relative -my-2 h-5 text-sm group-data-[variant=outline]/field-group:-mb-2'',
                  className])),
           props]
          [Separator L (attrs [attr ''className'' (cs ''absolute inset-0 top-1/2'')] []),
           child (js_and children (PNodes (host ''span''
                   [attr ''className'' (cs ''bg-background text-muted-foreground relative mx-auto block w-fit px-2''),
                    attr ''data-slot'' (cs ''field-separator-content'')] [child children])))])"

definition FieldError :: "'a component" where
  "FieldError L ps =
     (let className = pget ''className'' ps;
          children = pget ''children'' ps;
          errors = pget ''errors'' ps;
          props = rest_of [''className'', ''children'', ''errors''] ps;
          first = member (arr_at errors (PNum 0)) ''message'';
          content1 = (if truthy children then children
            else if \<not> truthy errors then PNull
            else if length (items errors) = 1 \<and> truthy first then first
            else PNodes (host ''ul'' [attr ''className'' (cs ''ml-4 flex list-disc flex-col gap-1'')]
              [concat (map (\<lambda>(index, error1). child (js_and (member error1 ''message'')
                 (PNodes (host ''li'' [attr ''key'' (PNum (of_nat index))] [child (member error1 ''message'')]))))
                 (zip [0..<length (items errors)] (items errors)))]))
      in if \<not> truthy content1 then []
         else host ''div'' [attr ''role'' (cs ''alert''), attr ''data-slot'' (cs ''field-error''),
             attr ''className'' (PStr (ui_cn L [cs ''text-destructive text-sm font-normal'', className])), props]
           [child content1])"

subsection \<open>components/ui/input-group.tsx\<close>

definition InputGroup :: "'a component" where
  "InputGroup L ps =
     (let className = pget ''className'' ps;
          props = rest_of [''className''] ps
      in host ''div''
          [attr ''data-slot'' (cs ''input-group''),
           attr ''role'' (cs ''group''),
           attr ''className'' (PStr (ui_cn L
                 [cs
                    ''group/input-group border-input dark:bg-input/30 relative flex w-full items-center rounded-md border shadow-xs transition-[color,box-shadow] outline-none'',
                  cs ''h-9 has-[>textarea]:h-auto'',
                  cs ''has-[>[data-align=inline-start]]:[&>input]:pl-2'',
                  cs ''has-[>[data-align=inline-end]]:[&>input]:pr-2'',
                  cs
                    ''has-[>[data-align=block-start]]:h-auto has-[>[data-align=block-start]]:flex-col has-[>[data-align=block-start]]:[&>input]:pb-3'',
                  cs
                    ''has-[>[data-align=block-end]]:h-auto has-[>[data-align=block-end]]:flex-col has-[>[data-align=block-end]]:[&>input]:pt-3'',
                  cs
                    ''has-[[data-slot=input-group-control]:focus-visible]:border-ring has-[[data-slot=input-group-control]:focus-visible]:ring-ring/50 has-[[data-slot=input-group-control]:focus-visible]:ring-[3px]'',
                  cs
                    ''has-[[data-slot][aria-invalid=true]]:ring-destructive/20 has-[[data-slot][aria-invalid=true]]:border-destructive dark:has-[[data-slot][aria-invalid=true]]:ring-destructive/40'',
                  className])),
           props] [])"

definition inputGroupAddonVariants :: cva_spec where
  "inputGroupAddonVariants =
     \<lparr>cva_base = (js ''text-muted-foreground flex h-auto cursor-text items-center justify-center gap-2 py-1.5 text-sm font-medium select-none [&>svg:not([class*='size-'])]:size-4 [&>kbd]:rounded-[calc(var(--radius)-5px)] group-data-[disabled=true]/input-group:opacity-50''),
      cva_variants = [(''align'', [(''inline-start'', js ''order-first pl-3 has-[>button]:ml-[-0.45rem] has-[>kbd]:ml-[-0.35rem]''),
        (''inline-end'', js ''order-last pr-3 has-[>button]:mr-[-0.4rem] has-[>kbd]:mr-[-0.35rem]''),
        (''block-start'', js ''order-first w-full justify-start px-3 pt-3 [.border-b]:pb-3 group-has-[>input]/input-group:pt-2.5''),
        (''block-end'', js ''order-last w-full justify-start px-3 pb-3 [.border-t]:pt-3 group-has-[>input]/input-group:pb-2.5'')])],
      cva_defaults = [(''align'', ''inline-start'')]\<rparr>"

text \<open>
  The click handler does nothing when the target lies in a button; otherwise it focuses the first input of
  the parent element, the actions \<open>focus\<close>.
\<close>

definition InputGroupAddon :: "'a list \<Rightarrow> 'a component" where
  "InputGroupAddon focus L ps =
     (let className = pget ''className'' ps;
          align = pget_or ''align'' (cs ''inline-start'') ps;
          props = rest_of [''className'', ''align''] ps
      in host ''div''
          [attr ''role'' (cs ''group''),
           attr ''data-slot'' (cs ''input-group-addon''),
           attr ''data-align'' align,
           attr ''className'' (PStr (ui_cn L
                 [PStr (ui_cva L inputGroupAddonVariants [(''align'', align)]), className])),
           attr ''onClick'' (PFun False (\<lambda>v. if v = js ''button'' then [] else focus)),
           props] [])"

definition inputGroupButtonVariants :: cva_spec where
  "inputGroupButtonVariants =
     \<lparr>cva_base = (js ''text-sm shadow-none flex gap-2 items-center''),
      cva_variants = [(''size'', [(''xs'', js ''h-6 gap-1 px-2 rounded-[calc(var(--radius)-5px)] [&>svg:not([class*='size-'])]:size-3.5 has-[>svg]:px-2''),
        (''sm'', js ''h-8 px-2.5 gap-1.5 rounded-md has-[>svg]:px-2.5''),
        (''icon-xs'', js ''size-6 rounded-[calc(var(--radius)-5px)] p-0 has-[>svg]:p-0''),
        (''icon-sm'', js ''size-8 p-0 has-[>svg]:p-0'')])],
      cva_defaults = [(''size'', ''xs'')]\<rparr>"

definition InputGroupButton :: "'a component" where
  "InputGroupButton L ps =
     (let className = pget ''className'' ps;
          type1 = pget_or ''type'' (cs ''button'') ps;
          variant = pget_or ''variant'' (cs ''ghost'') ps;
          size1 = pget_or ''size'' (cs ''xs'') ps;
          props = rest_of [''className'', ''type'', ''variant'', ''size''] ps
      in Button L (attrs
            [attr ''type'' type1,
             attr ''data-size'' size1,
             attr ''variant'' variant,
             attr ''className'' (PStr (ui_cn L [PStr (ui_cva L inputGroupButtonVariants [(''size'', size1)]), className])),
             props] []))"

definition InputGroupText :: "'a component" where
  "InputGroupText L ps =
     (let className = pget ''className'' ps;
          props = rest_of [''className''] ps
      in host ''span''
          [attr ''className'' (PStr (ui_cn L
                 [cs
                    ''text-muted-foreground flex items-center gap-2 text-sm [&_svg]:pointer-events-none [&_svg:not([class*='size-'])]:size-4'',
                  className])),
           props] [])"

definition InputGroupInput :: "'a component" where
  "InputGroupInput L ps =
     (let className = pget ''className'' ps;
          props = rest_of [''className''] ps
      in Input L (attrs
            [attr ''data-slot'' (cs ''input-group-control''),
             attr ''className'' (PStr (ui_cn L
                   [cs
                      ''flex-1 rounded-none border-0 bg-transparent shadow-none focus-visible:ring-0 dark:bg-transparent'',
                    className])),
             props] []))"

definition InputGroupTextarea :: "'a component" where
  "InputGroupTextarea L ps =
     (let className = pget ''className'' ps;
          props = rest_of [''className''] ps
      in Textarea L (attrs
            [attr ''data-slot'' (cs ''input-group-control''),
             attr ''className'' (PStr (ui_cn L
                   [cs
                      ''flex-1 resize-none rounded-none border-0 bg-transparent py-3 shadow-none focus-visible:ring-0 dark:bg-transparent'',
                    className])),
             props] []))"

end
