(* ===== verification/UiForm.thy ===== *)
theory UiForm imports UiBase begin

section \<open>Form fields (components/ui/form.tsx)\<close>

text \<open>
  Each component of the files below is the function from its properties to what it renders: the
  properties it destructures, with their defaults, the remaining ones spread where the source spreads
  them, and the class lists passed to the merging function in the source's order.
  The components inside a field take the result of \<open>useFormField\<close> as their first argument. The form
  library (react-hook-form) is outside: its field state is a parameter.
\<close>

subsection \<open>components/ui/form.tsx\<close>

definition FormField :: "'a component" where
  "FormField L ps = lib ''FormFieldContext.Provider'' [attr ''value'' (obj [attr ''name'' (pget ''name'' ps)])]
     [lib ''Controller'' [ps] []]"

text \<open>The two contexts, and the form library's field state for a name.\<close>

definition useFormField :: "'a pval \<Rightarrow> 'a pval \<Rightarrow> ('a pval \<Rightarrow> 'a pval) \<Rightarrow> 'a pval" where
  "useFormField fieldContext itemContext getFieldState =
     (let id1 = member itemContext ''id''
      in obj [attr ''id'' id1, attr ''name'' (member fieldContext ''name''),
           attr ''formItemId'' (PStr (as_text id1 @ js ''-form-item'')),
           attr ''formDescriptionId'' (PStr (as_text id1 @ js ''-form-item-description'')),
           attr ''formMessageId'' (PStr (as_text id1 @ js ''-form-item-message'')),
           spread (getFieldState (member fieldContext ''name''))])"

definition FormItem :: "'a pval \<Rightarrow> 'a component" where
  "FormItem id1 L ps =
     (let className = pget ''className'' ps;
          props = rest_of [''className''] ps
      in lib ''FormItemContext.Provider'' [attr ''value'' (obj [attr ''id'' id1])]
          [host ''div''
             [attr ''data-slot'' (cs ''form-item''),
              attr ''className'' (PStr (ui_cn L [cs ''grid gap-2'', className])),
              props] []])"

definition FormLabel :: "'a pval \<Rightarrow> 'a component" where
  "FormLabel field L ps =
     (let className = pget ''className'' ps;
          props = rest_of [''className''] ps
      in Label L (attrs
            [attr ''data-slot'' (cs ''form-label''),
             attr ''data-error'' (PBool (\<not> (\<not> (truthy (member field ''error''))))),
             attr ''className'' (PStr (ui_cn L [cs ''data-[error=true]:text-destructive'', className])),
             attr ''htmlFor'' (member field ''formItemId''),
             props] []))"

definition FormControl :: "'a pval \<Rightarrow> 'a component" where
  "FormControl field L ps =
     (let props = rest_of [] ps
      in lib ''Slot''
          [attr ''data-slot'' (cs ''form-control''),
           attr ''id'' (member field ''formItemId''),
           attr ''aria-describedby'' (if \<not> (truthy (member field ''error'')) then PStr (as_text (member field ''formDescriptionId''))
               else PStr (as_text (member field ''formDescriptionId'') @ (js '' '') @ as_text (member field ''formMessageId''))),
           attr ''aria-invalid'' (PBool (\<not> (\<not> (truthy (member field ''error''))))),
           props] [])"

definition FormDescription :: "'a pval \<Rightarrow> 'a component" where
  "FormDescription field L ps =
     (let className = pget ''className'' ps;
          props = rest_of [''className''] ps
      in host ''p''
          [attr ''data-slot'' (cs ''form-description''),
           attr ''id'' (member field ''formDescriptionId''),
           attr ''className'' (PStr (ui_cn L [cs ''text-muted-foreground text-sm'', className])),
           props] [])"

definition FormMessage :: "'a pval \<Rightarrow> 'a component" where
  "FormMessage field L ps =
     (let className = pget ''className'' ps;
          props = rest_of [''className''] ps;
          error = member field ''error'';
          body = (if truthy error then PStr (as_text (js_coalesce (member error ''message'') (PStr []))) else pget ''children'' props)
      in if \<not> truthy body then []
         else host ''p'' [attr ''data-slot'' (cs ''form-message''), attr ''id'' (member field ''formMessageId''),
             attr ''className'' (PStr (ui_cn L [cs ''text-destructive text-sm'', className])), props]
           [child body])"

subsection \<open>components/ui/input-otp.tsx\<close>

definition InputOTP :: "'a component" where
  "InputOTP L ps =
     (let className = pget ''className'' ps;
          containerClassName = pget ''containerClassName'' ps;
          props = rest_of [''className'', ''containerClassName''] ps
      in lib ''OTPInput''
          [attr ''data-slot'' (cs ''input-otp''),
           attr ''containerClassName'' (PStr (ui_cn L [cs ''flex items-center gap-2 has-disabled:opacity-50'', containerClassName])),
           attr ''className'' (PStr (ui_cn L [cs ''disabled:cursor-not-allowed'', className])),
           props] [])"

definition InputOTPGroup :: "'a component" where
  "InputOTPGroup L ps =
     (let className = pget ''className'' ps;
          props = rest_of [''className''] ps
      in host ''div''
          [attr ''data-slot'' (cs ''input-otp-group''),
           attr ''className'' (PStr (ui_cn L [cs ''flex items-center'', className])),
           props] [])"

definition InputOTPSlot :: "'a pval \<Rightarrow> 'a component" where
  "InputOTPSlot otpContext L ps =
     (let index1 = pget ''index'' ps;
          className = pget ''className'' ps;
          props = rest_of [''index'', ''className''] ps
      in let slot1 = arr_at (member otpContext ''slots'') index1 in
        host ''div''
          [attr ''data-slot'' (cs ''input-otp-slot''),
           attr ''data-active'' (member slot1 ''isActive''),
           attr ''className'' (PStr (ui_cn L
                 [cs
                    ''data-[active=true]:border-ring data-[active=true]:ring-ring/50 data-[active=true]:aria-invalid:ring-destructive/20 dark:data-[active=true]:aria-invalid:ring-destructive/40 aria-invalid:border-destructive data-[active=true]:aria-invalid:border-destructive dark:bg-input/30 border-input relative flex h-9 w-9 items-center justify-center border-y border-r text-sm shadow-xs transition-all outline-none first:rounded-l-md first:border-l last:rounded-r-md data-[active=true]:z-10 data-[active=true]:ring-[3px]'',
                  className])),
           props]
          [child (member slot1 ''char''),
           child (js_and (member slot1 ''hasFakeCaret'') (PNodes (host ''div''
                   [attr ''className'' (cs ''pointer-events-none absolute inset-0 flex items-center justify-center'')]
                   [host ''div''
                      [attr ''className'' (cs ''animate-caret-blink bg-foreground h-4 w-px duration-1000'')]
                      []])))])"

definition InputOTPSeparator :: "'a component" where
  "InputOTPSeparator L ps =
     (let props = rest_of [] ps
      in host ''div''
          [attr ''data-slot'' (cs ''input-otp-separator''),
           attr ''role'' (cs ''separator''),
           props] [lib ''MinusIcon'' [] []])"

end
