(* ===== verification/UiContract.thy ===== *)
theory UiContract imports UiMenu UiLayout UiSidebar UiForm begin

section \<open>The contract of the wrapper components\<close>

text \<open>
  Most components of \<open>components/ui\<close> wrap one element of the page or of a library. What their callers rely
  on: exactly one element is rendered; every property the wrapper does not consume itself arrives at
  that element with the caller's value, overriding the wrapper's own; the element carries its
  \<open>data-slot\<close> unless the caller sets one; and the class list ends with the caller's classes, so that the
  merging function can let them win.
\<close>

text \<open>The properties of an element have distinct names.\<close>

definition is_props :: "'a props \<Rightarrow> bool" where
  "is_props ps = distinct (map fst ps)"

definition wrapper_ok :: "'a component \<Rightarrow> string \<Rightarrow> string list \<Rightarrow> bool" where
  "wrapper_ok c slot own = (\<forall>L ps. is_props ps \<longrightarrow> (\<exists>t qs. c L ps = [Elem t qs]
     \<and> (\<forall>k v. map_of ps k = Some v \<longrightarrow> k \<notin> set own \<longrightarrow> map_of qs k = Some v)
     \<and> (''data-slot'' \<notin> fst ` set ps \<longrightarrow> map_of qs ''data-slot'' = Some (cs slot))
     \<and> (\<exists>xs. map_of qs ''className'' = Some (PStr (ui_cn L xs)) \<and> xs \<noteq> [] \<and> last xs = pget ''className'' ps)))"

lemma map_of_rev_object: "is_props ps \<Longrightarrow> map_of (rev ps) = map_of ps"
  by (rule map_of_inject_set [THEN iffD2]) (auto simp: is_props_def rev_map [symmetric])

lemma wrapperI:
  assumes shape: "\<And>L ps. c L ps = elem (t L ps) (parts L ps) (kids L ps)"
    and last_part: "\<And>L ps. last (parts L ps) = rest_of own' ps"
    and some_part: "\<And>L ps. parts L ps \<noteq> []"
    and own: "set own' \<subseteq> set own" "\<And>L ps. kids L ps = [] \<or> ''children'' \<in> set own"
      "''className'' \<in> set own'"
    and slot: "\<And>L ps. map_of (rev (concat (butlast (parts L ps)))) ''data-slot'' = Some (cs slot)"
    and cls: "\<And>L ps. \<exists>xs. map_of (rev (concat (butlast (parts L ps)))) ''className'' = Some (PStr (ui_cn L xs))
        \<and> xs \<noteq> [] \<and> last xs = pget ''className'' ps"
  shows "wrapper_ok c slot own"
  unfolding wrapper_ok_def
proof (intro allI impI)
  fix L :: "'a ui" and ps :: "'a props" assume o: "is_props ps"
  let ?pre = "concat (butlast (parts L ps))" and ?qs = "attrs (parts L ps) (kids L ps)"
  have "concat (parts L ps) = ?pre @ rest_of own' ps"
    using last_part [of L ps] some_part [of L ps] append_butlast_last_id [of "parts L ps"]
    by (metis concat.simps concat_append self_append_conv append_Nil2)
  then have m: "map_of ?qs k = (if k = ''children'' \<and> kids L ps \<noteq> [] then Some (PNodes (concat (kids L ps)))
      else if k \<notin> set own' \<and> map_of ps k \<noteq> None then map_of ps k else map_of (rev ?pre) k)" for k
    using map_of_rev_object [OF o]
    by (auto simp: attrs_def Let_def map_of_put_all map_add_def map_of_rev_rest split: option.split)
  have "c L ps = [Elem (t L ps) ?qs]" by (simp add: shape elem_def)
  moreover have "map_of ?qs k = Some v" if "map_of ps k = Some v" "k \<notin> set own" for k v
    using that own(1) own(2) [of L ps] by (auto simp: m)
  moreover have "map_of ?qs ''data-slot'' = Some (cs slot)" if "''data-slot'' \<notin> fst ` set ps"
    using that slot [of L ps] by (simp add: m map_of_eq_None_iff)
  moreover have "\<exists>xs. map_of ?qs ''className'' = Some (PStr (ui_cn L xs)) \<and> xs \<noteq> [] \<and> last xs = pget ''className'' ps"
    using cls [of L ps] own(3) by (simp add: m)
  ultimately show "\<exists>t qs. c L ps = [Elem t qs]
     \<and> (\<forall>k v. map_of ps k = Some v \<longrightarrow> k \<notin> set own \<longrightarrow> map_of qs k = Some v)
     \<and> (''data-slot'' \<notin> fst ` set ps \<longrightarrow> map_of qs ''data-slot'' = Some (cs slot))
     \<and> (\<exists>xs. map_of qs ''className'' = Some (PStr (ui_cn L xs)) \<and> xs \<noteq> [] \<and> last xs = pget ''className'' ps)"
    by blast
qed

lemma last_more: "last (b # xs) = r \<Longrightarrow> last (a # b # xs) = r" by simp

lemma last_one: "last [r] = r" by simp

lemma merged: "xs \<noteq> [] \<Longrightarrow> last xs = v \<Longrightarrow> \<exists>ys. ui_cn L xs = ui_cn L ys \<and> ys \<noteq> [] \<and> last ys = v"
  by blast

subsection \<open>Every wrapper, file by file\<close>

lemmas input_defs = Input_def

lemma input_wrappers:
  "wrapper_ok Input ''input'' [''className'', ''type'']"
  by (rule wrapperI, simp only: input_defs Let_def, (rule last_more)+, rule last_one, simp, simp, simp, simp, simp, simp split del: if_split, rule merged, simp, simp)+

lemmas label_defs = Label_def

lemma label_wrappers:
  "wrapper_ok Label ''label'' [''className'']"
  by (rule wrapperI, simp only: label_defs Let_def, (rule last_more)+, rule last_one, simp, simp, simp, simp, simp, simp split del: if_split, rule merged, simp, simp)+

lemmas separator_defs = Separator_def

lemma separator_wrappers:
  "wrapper_ok Separator ''separator'' [''className'', ''orientation'', ''decorative'']"
  by (rule wrapperI, simp only: separator_defs Let_def, (rule last_more)+, rule last_one, simp, simp, simp, simp, simp, simp split del: if_split, rule merged, simp, simp)+

lemmas skeleton_defs = Skeleton_def

lemma skeleton_wrappers:
  "wrapper_ok Skeleton ''skeleton'' [''className'']"
  by (rule wrapperI, simp only: skeleton_defs Let_def, (rule last_more)+, rule last_one, simp, simp, simp, simp, simp, simp split del: if_split, rule merged, simp, simp)+

lemmas textarea_defs = Textarea_def

lemma textarea_wrappers:
  "wrapper_ok Textarea ''textarea'' [''className'']"
  by (rule wrapperI, simp only: textarea_defs Let_def, (rule last_more)+, rule last_one, simp, simp, simp, simp, simp, simp split del: if_split, rule merged, simp, simp)+

lemmas kbd_defs = Kbd_def KbdGroup_def

lemma kbd_wrappers:
  "wrapper_ok Kbd ''kbd'' [''className'']"
  "wrapper_ok KbdGroup ''kbd-group'' [''className'']"
  by (rule wrapperI, simp only: kbd_defs Let_def, (rule last_more)+, rule last_one, simp, simp, simp, simp, simp, simp split del: if_split, rule merged, simp, simp)+

lemmas badge_defs = Badge_def

lemma badge_wrappers:
  "wrapper_ok Badge ''badge'' [''className'', ''variant'', ''asChild'']"
  by (rule wrapperI, simp only: badge_defs Let_def, (rule last_more)+, rule last_one, simp, simp, simp, simp, simp, simp split del: if_split, rule merged, simp, simp)+

lemmas card_defs = Card_def CardHeader_def CardTitle_def CardDescription_def CardAction_def CardContent_def CardFooter_def

lemma card_wrappers:
  "wrapper_ok Card ''card'' [''className'']"
  "wrapper_ok CardHeader ''card-header'' [''className'']"
  "wrapper_ok CardTitle ''card-title'' [''className'']"
  "wrapper_ok CardDescription ''card-description'' [''className'']"
  "wrapper_ok CardAction ''card-action'' [''className'']"
  "wrapper_ok CardContent ''card-content'' [''className'']"
  "wrapper_ok CardFooter ''card-footer'' [''className'']"
  by (rule wrapperI, simp only: card_defs Let_def, (rule last_more)+, rule last_one, simp, simp, simp, simp, simp, simp split del: if_split, rule merged, simp, simp)+

lemmas switch_defs = Switch_def

lemma switch_wrappers:
  "wrapper_ok Switch ''switch'' [''className'', ''children'']"
  by (rule wrapperI, simp only: switch_defs Let_def, (rule last_more)+, rule last_one, simp, simp, simp, simp, simp, simp split del: if_split, rule merged, simp, simp)+

lemmas checkbox_defs = Checkbox_def

lemma checkbox_wrappers:
  "wrapper_ok Checkbox ''checkbox'' [''className'', ''children'']"
  by (rule wrapperI, simp only: checkbox_defs Let_def, (rule last_more)+, rule last_one, simp, simp, simp, simp, simp, simp split del: if_split, rule merged, simp, simp)+

lemmas radio_group_defs = RadioGroup_def RadioGroupItem_def

lemma radio_group_wrappers:
  "wrapper_ok RadioGroup ''radio-group'' [''className'']"
  "wrapper_ok RadioGroupItem ''radio-group-item'' [''className'', ''children'']"
  by (rule wrapperI, simp only: radio_group_defs Let_def, (rule last_more)+, rule last_one, simp, simp, simp, simp, simp, simp split del: if_split, rule merged, simp, simp)+

lemmas avatar_defs = Avatar_def AvatarImage_def AvatarFallback_def

lemma avatar_wrappers:
  "wrapper_ok Avatar ''avatar'' [''className'']"
  "wrapper_ok AvatarImage ''avatar-image'' [''className'']"
  "wrapper_ok AvatarFallback ''avatar-fallback'' [''className'']"
  by (rule wrapperI, simp only: avatar_defs Let_def, (rule last_more)+, rule last_one, simp, simp, simp, simp, simp, simp split del: if_split, rule merged, simp, simp)+

lemmas toggle_group_defs = ToggleGroup_def

lemma toggle_group_wrappers:
  "wrapper_ok ToggleGroup ''toggle-group'' [''className'', ''variant'', ''size'', ''children'']"
  by (rule wrapperI, simp only: toggle_group_defs Let_def, (rule last_more)+, rule last_one, simp, simp, simp, simp, simp, simp split del: if_split, rule merged, simp, simp)+

lemmas progress_defs = Progress_def

lemma progress_wrappers:
  "wrapper_ok Progress ''progress'' [''className'', ''value'', ''children'']"
  by (rule wrapperI, simp only: progress_defs Let_def, (rule last_more)+, rule last_one, simp, simp, simp, simp, simp, simp split del: if_split, rule merged, simp, simp)+

lemmas item_defs = ItemGroup_def ItemContent_def ItemTitle_def ItemDescription_def ItemActions_def ItemHeader_def ItemFooter_def

lemma item_wrappers:
  "wrapper_ok ItemGroup ''item-group'' [''className'']"
  "wrapper_ok ItemContent ''item-content'' [''className'']"
  "wrapper_ok ItemTitle ''item-title'' [''className'']"
  "wrapper_ok ItemDescription ''item-description'' [''className'']"
  "wrapper_ok ItemActions ''item-actions'' [''className'']"
  "wrapper_ok ItemHeader ''item-header'' [''className'']"
  "wrapper_ok ItemFooter ''item-footer'' [''className'']"
  by (rule wrapperI, simp only: item_defs Let_def, (rule last_more)+, rule last_one, simp, simp, simp, simp, simp, simp split del: if_split, rule merged, simp, simp)+

lemmas empty_defs = Empty_def EmptyHeader_def EmptyTitle_def EmptyDescription_def EmptyContent_def

lemma empty_wrappers:
  "wrapper_ok Empty ''empty'' [''className'']"
  "wrapper_ok EmptyHeader ''empty-header'' [''className'']"
  "wrapper_ok EmptyTitle ''empty-title'' [''className'']"
  "wrapper_ok EmptyDescription ''empty-description'' [''className'']"
  "wrapper_ok EmptyContent ''empty-content'' [''className'']"
  by (rule wrapperI, simp only: empty_defs Let_def, (rule last_more)+, rule last_one, simp, simp, simp, simp, simp, simp split del: if_split, rule merged, simp, simp)+

lemmas table_defs = TableHeader_def TableBody_def TableFooter_def TableRow_def TableHead_def TableCell_def TableCaption_def

lemma table_wrappers:
  "wrapper_ok TableHeader ''table-header'' [''className'']"
  "wrapper_ok TableBody ''table-body'' [''className'']"
  "wrapper_ok TableFooter ''table-footer'' [''className'']"
  "wrapper_ok TableRow ''table-row'' [''className'']"
  "wrapper_ok TableHead ''table-head'' [''className'']"
  "wrapper_ok TableCell ''table-cell'' [''className'']"
  "wrapper_ok TableCaption ''table-caption'' [''className'']"
  by (rule wrapperI, simp only: table_defs Let_def, (rule last_more)+, rule last_one, simp, simp, simp, simp, simp, simp split del: if_split, rule merged, simp, simp)+

lemmas breadcrumb_defs = BreadcrumbList_def BreadcrumbItem_def BreadcrumbLink_def BreadcrumbPage_def BreadcrumbSeparator_def BreadcrumbEllipsis_def

lemma breadcrumb_wrappers:
  "wrapper_ok BreadcrumbList ''breadcrumb-list'' [''className'']"
  "wrapper_ok BreadcrumbItem ''breadcrumb-item'' [''className'']"
  "wrapper_ok BreadcrumbLink ''breadcrumb-link'' [''asChild'', ''className'']"
  "wrapper_ok BreadcrumbPage ''breadcrumb-page'' [''className'']"
  "wrapper_ok BreadcrumbSeparator ''breadcrumb-separator'' [''children'', ''className'']"
  "wrapper_ok BreadcrumbEllipsis ''breadcrumb-ellipsis'' [''className'', ''children'']"
  by (rule wrapperI, simp only: breadcrumb_defs Let_def, (rule last_more)+, rule last_one, simp, simp, simp, simp, simp, simp split del: if_split, rule merged, simp, simp)+

lemmas pagination_defs = Pagination_def PaginationContent_def PaginationLink_def PaginationEllipsis_def

lemma pagination_wrappers:
  "wrapper_ok Pagination ''pagination'' [''className'']"
  "wrapper_ok PaginationContent ''pagination-content'' [''className'']"
  "wrapper_ok PaginationLink ''pagination-link'' [''className'', ''isActive'', ''size'']"
  "wrapper_ok PaginationEllipsis ''pagination-ellipsis'' [''className'', ''children'']"
  by (rule wrapperI, simp only: pagination_defs Let_def, (rule last_more)+, rule last_one, simp, simp, simp, simp, simp, simp split del: if_split, rule merged, simp, simp)+

lemmas button_group_defs = ButtonGroup_def

lemma button_group_wrappers:
  "wrapper_ok ButtonGroup ''button-group'' [''className'', ''orientation'']"
  by (rule wrapperI, simp only: button_group_defs Let_def, (rule last_more)+, rule last_one, simp, simp, simp, simp, simp, simp split del: if_split, rule merged, simp, simp)+

lemmas alert_defs = Alert_def AlertTitle_def AlertDescription_def

lemma alert_wrappers:
  "wrapper_ok Alert ''alert'' [''className'', ''variant'']"
  "wrapper_ok AlertTitle ''alert-title'' [''className'']"
  "wrapper_ok AlertDescription ''alert-description'' [''className'']"
  by (rule wrapperI, simp only: alert_defs Let_def, (rule last_more)+, rule last_one, simp, simp, simp, simp, simp, simp split del: if_split, rule merged, simp, simp)+

lemmas accordion_defs = AccordionItem_def

lemma accordion_wrappers:
  "wrapper_ok AccordionItem ''accordion-item'' [''className'']"
  by (rule wrapperI, simp only: accordion_defs Let_def, (rule last_more)+, rule last_one, simp, simp, simp, simp, simp, simp split del: if_split, rule merged, simp, simp)+

lemmas tabs_defs = Tabs_def TabsList_def TabsTrigger_def TabsContent_def

lemma tabs_wrappers:
  "wrapper_ok Tabs ''tabs'' [''className'']"
  "wrapper_ok TabsList ''tabs-list'' [''className'']"
  "wrapper_ok TabsTrigger ''tabs-trigger'' [''className'']"
  "wrapper_ok TabsContent ''tabs-content'' [''className'']"
  by (rule wrapperI, simp only: tabs_defs Let_def, (rule last_more)+, rule last_one, simp, simp, simp, simp, simp, simp split del: if_split, rule merged, simp, simp)+

lemmas scroll_area_defs = ScrollBar_def ScrollArea_def

lemma scroll_area_wrappers:
  "wrapper_ok ScrollBar ''scroll-area-scrollbar'' [''className'', ''orientation'', ''children'']"
  "wrapper_ok ScrollArea ''scroll-area'' [''className'', ''children'']"
  by (rule wrapperI, simp only: scroll_area_defs Let_def, (rule last_more)+, rule last_one, simp, simp, simp, simp, simp, simp split del: if_split, rule merged, simp, simp)+

lemmas resizable_defs = ResizablePanelGroup_def ResizableHandle_def

lemma resizable_wrappers:
  "wrapper_ok ResizablePanelGroup ''resizable-panel-group'' [''className'']"
  "wrapper_ok ResizableHandle ''resizable-handle'' [''withHandle'', ''className'', ''children'']"
  by (rule wrapperI, simp only: resizable_defs Let_def, (rule last_more)+, rule last_one, simp, simp, simp, simp, simp, simp split del: if_split, rule merged, simp, simp)+

lemmas field_defs = FieldSet_def FieldLegend_def FieldGroup_def Field_def FieldContent_def FieldTitle_def FieldDescription_def FieldSeparator_def

lemma field_wrappers:
  "wrapper_ok FieldSet ''field-set'' [''className'']"
  "wrapper_ok FieldLegend ''field-legend'' [''className'', ''variant'']"
  "wrapper_ok FieldGroup ''field-group'' [''className'']"
  "wrapper_ok Field ''field'' [''className'', ''orientation'']"
  "wrapper_ok FieldContent ''field-content'' [''className'']"
  "wrapper_ok FieldTitle ''field-label'' [''className'']"
  "wrapper_ok FieldDescription ''field-description'' [''className'']"
  "wrapper_ok FieldSeparator ''field-separator'' [''children'', ''className'']"
  by (rule wrapperI, simp only: field_defs Let_def, (rule last_more)+, rule last_one, simp, simp, simp, simp, simp, simp split del: if_split, rule merged, simp, simp)+

lemmas input_group_defs = InputGroup_def InputGroupAddon_def

lemma input_group_wrappers:
  "wrapper_ok InputGroup ''input-group'' [''className'']"
  "wrapper_ok (InputGroupAddon focus) ''input-group-addon'' [''className'', ''align'']"
  by (rule wrapperI, simp only: input_group_defs Let_def, (rule last_more)+, rule last_one, simp, simp, simp, simp, simp, simp split del: if_split, rule merged, simp, simp)+

lemmas dialog_defs = DialogOverlay_def DialogHeader_def DialogFooter_def DialogTitle_def DialogDescription_def

lemma dialog_wrappers:
  "wrapper_ok DialogOverlay ''dialog-overlay'' [''className'']"
  "wrapper_ok DialogHeader ''dialog-header'' [''className'']"
  "wrapper_ok DialogFooter ''dialog-footer'' [''className'']"
  "wrapper_ok DialogTitle ''dialog-title'' [''className'']"
  "wrapper_ok DialogDescription ''dialog-description'' [''className'']"
  by (rule wrapperI, simp only: dialog_defs Let_def, (rule last_more)+, rule last_one, simp, simp, simp, simp, simp, simp split del: if_split, rule merged, simp, simp)+

lemmas alert_dialog_defs = AlertDialogOverlay_def AlertDialogHeader_def AlertDialogFooter_def AlertDialogTitle_def AlertDialogDescription_def

lemma alert_dialog_wrappers:
  "wrapper_ok AlertDialogOverlay ''alert-dialog-overlay'' [''className'']"
  "wrapper_ok AlertDialogHeader ''alert-dialog-header'' [''className'']"
  "wrapper_ok AlertDialogFooter ''alert-dialog-footer'' [''className'']"
  "wrapper_ok AlertDialogTitle ''alert-dialog-title'' [''className'']"
  "wrapper_ok AlertDialogDescription ''alert-dialog-description'' [''className'']"
  by (rule wrapperI, simp only: alert_dialog_defs Let_def, (rule last_more)+, rule last_one, simp, simp, simp, simp, simp, simp split del: if_split, rule merged, simp, simp)+

lemmas sheet_defs = SheetOverlay_def SheetHeader_def SheetFooter_def SheetTitle_def SheetDescription_def

lemma sheet_wrappers:
  "wrapper_ok SheetOverlay ''sheet-overlay'' [''className'']"
  "wrapper_ok SheetHeader ''sheet-header'' [''className'']"
  "wrapper_ok SheetFooter ''sheet-footer'' [''className'']"
  "wrapper_ok SheetTitle ''sheet-title'' [''className'']"
  "wrapper_ok SheetDescription ''sheet-description'' [''className'']"
  by (rule wrapperI, simp only: sheet_defs Let_def, (rule last_more)+, rule last_one, simp, simp, simp, simp, simp, simp split del: if_split, rule merged, simp, simp)+

lemmas drawer_defs = DrawerOverlay_def DrawerHeader_def DrawerFooter_def DrawerTitle_def DrawerDescription_def

lemma drawer_wrappers:
  "wrapper_ok DrawerOverlay ''drawer-overlay'' [''className'']"
  "wrapper_ok DrawerHeader ''drawer-header'' [''className'']"
  "wrapper_ok DrawerFooter ''drawer-footer'' [''className'']"
  "wrapper_ok DrawerTitle ''drawer-title'' [''className'']"
  "wrapper_ok DrawerDescription ''drawer-description'' [''className'']"
  by (rule wrapperI, simp only: drawer_defs Let_def, (rule last_more)+, rule last_one, simp, simp, simp, simp, simp, simp split del: if_split, rule merged, simp, simp)+

lemmas dropdown_menu_defs = DropdownMenuItem_def DropdownMenuCheckboxItem_def DropdownMenuRadioItem_def DropdownMenuLabel_def DropdownMenuSeparator_def DropdownMenuShortcut_def DropdownMenuSubTrigger_def DropdownMenuSubContent_def

lemma dropdown_menu_wrappers:
  "wrapper_ok DropdownMenuItem ''dropdown-menu-item'' [''className'', ''inset'', ''variant'']"
  "wrapper_ok DropdownMenuCheckboxItem ''dropdown-menu-checkbox-item'' [''className'', ''children'', ''checked'']"
  "wrapper_ok DropdownMenuRadioItem ''dropdown-menu-radio-item'' [''className'', ''children'']"
  "wrapper_ok DropdownMenuLabel ''dropdown-menu-label'' [''className'', ''inset'']"
  "wrapper_ok DropdownMenuSeparator ''dropdown-menu-separator'' [''className'']"
  "wrapper_ok DropdownMenuShortcut ''dropdown-menu-shortcut'' [''className'']"
  "wrapper_ok DropdownMenuSubTrigger ''dropdown-menu-sub-trigger'' [''className'', ''inset'', ''children'']"
  "wrapper_ok DropdownMenuSubContent ''dropdown-menu-sub-content'' [''className'']"
  by (rule wrapperI, simp only: dropdown_menu_defs Let_def, (rule last_more)+, rule last_one, simp, simp, simp, simp, simp, simp split del: if_split, rule merged, simp, simp)+

lemmas context_menu_defs = ContextMenuSubTrigger_def ContextMenuSubContent_def ContextMenuItem_def ContextMenuCheckboxItem_def ContextMenuRadioItem_def ContextMenuLabel_def ContextMenuSeparator_def ContextMenuShortcut_def

lemma context_menu_wrappers:
  "wrapper_ok ContextMenuSubTrigger ''context-menu-sub-trigger'' [''className'', ''inset'', ''children'']"
  "wrapper_ok ContextMenuSubContent ''context-menu-sub-content'' [''className'']"
  "wrapper_ok ContextMenuItem ''context-menu-item'' [''className'', ''inset'', ''variant'']"
  "wrapper_ok ContextMenuCheckboxItem ''context-menu-checkbox-item'' [''className'', ''children'', ''checked'']"
  "wrapper_ok ContextMenuRadioItem ''context-menu-radio-item'' [''className'', ''children'']"
  "wrapper_ok ContextMenuLabel ''context-menu-label'' [''className'', ''inset'']"
  "wrapper_ok ContextMenuSeparator ''context-menu-separator'' [''className'']"
  "wrapper_ok ContextMenuShortcut ''context-menu-shortcut'' [''className'']"
  by (rule wrapperI, simp only: context_menu_defs Let_def, (rule last_more)+, rule last_one, simp, simp, simp, simp, simp, simp split del: if_split, rule merged, simp, simp)+

lemmas menubar_defs = Menubar_def MenubarTrigger_def MenubarItem_def MenubarCheckboxItem_def MenubarRadioItem_def MenubarLabel_def MenubarSeparator_def MenubarShortcut_def MenubarSubTrigger_def MenubarSubContent_def

lemma menubar_wrappers:
  "wrapper_ok Menubar ''menubar'' [''className'']"
  "wrapper_ok MenubarTrigger ''menubar-trigger'' [''className'']"
  "wrapper_ok MenubarItem ''menubar-item'' [''className'', ''inset'', ''variant'']"
  "wrapper_ok MenubarCheckboxItem ''menubar-checkbox-item'' [''className'', ''children'', ''checked'']"
  "wrapper_ok MenubarRadioItem ''menubar-radio-item'' [''className'', ''children'']"
  "wrapper_ok MenubarLabel ''menubar-label'' [''className'', ''inset'']"
  "wrapper_ok MenubarSeparator ''menubar-separator'' [''className'']"
  "wrapper_ok MenubarShortcut ''menubar-shortcut'' [''className'']"
  "wrapper_ok MenubarSubTrigger ''menubar-sub-trigger'' [''className'', ''inset'', ''children'']"
  "wrapper_ok MenubarSubContent ''menubar-sub-content'' [''className'']"
  by (rule wrapperI, simp only: menubar_defs Let_def, (rule last_more)+, rule last_one, simp, simp, simp, simp, simp, simp split del: if_split, rule merged, simp, simp)+

lemmas select_defs = SelectTrigger_def SelectLabel_def SelectItem_def SelectSeparator_def SelectScrollUpButton_def SelectScrollDownButton_def

lemma select_wrappers:
  "wrapper_ok SelectTrigger ''select-trigger'' [''className'', ''size'', ''children'']"
  "wrapper_ok SelectLabel ''select-label'' [''className'']"
  "wrapper_ok SelectItem ''select-item'' [''className'', ''children'']"
  "wrapper_ok SelectSeparator ''select-separator'' [''className'']"
  "wrapper_ok SelectScrollUpButton ''select-scroll-up-button'' [''className'', ''children'']"
  "wrapper_ok SelectScrollDownButton ''select-scroll-down-button'' [''className'', ''children'']"
  by (rule wrapperI, simp only: select_defs Let_def, (rule last_more)+, rule last_one, simp, simp, simp, simp, simp, simp split del: if_split, rule merged, simp, simp)+

lemmas command_defs = Command_def CommandList_def CommandGroup_def CommandSeparator_def CommandItem_def CommandShortcut_def

lemma command_wrappers:
  "wrapper_ok Command ''command'' [''className'']"
  "wrapper_ok CommandList ''command-list'' [''className'']"
  "wrapper_ok CommandGroup ''command-group'' [''className'']"
  "wrapper_ok CommandSeparator ''command-separator'' [''className'']"
  "wrapper_ok CommandItem ''command-item'' [''className'']"
  "wrapper_ok CommandShortcut ''command-shortcut'' [''className'']"
  by (rule wrapperI, simp only: command_defs Let_def, (rule last_more)+, rule last_one, simp, simp, simp, simp, simp, simp split del: if_split, rule merged, simp, simp)+

lemmas navigation_menu_defs = NavigationMenuList_def NavigationMenuItem_def NavigationMenuTrigger_def NavigationMenuContent_def NavigationMenu_def NavigationMenuLink_def NavigationMenuIndicator_def

lemma navigation_menu_wrappers:
  "wrapper_ok NavigationMenuList ''navigation-menu-list'' [''className'']"
  "wrapper_ok NavigationMenuItem ''navigation-menu-item'' [''className'']"
  "wrapper_ok NavigationMenuTrigger ''navigation-menu-trigger'' [''className'', ''children'']"
  "wrapper_ok NavigationMenuContent ''navigation-menu-content'' [''className'']"
  "wrapper_ok NavigationMenu ''navigation-menu'' [''className'', ''children'', ''viewport'']"
  "wrapper_ok NavigationMenuLink ''navigation-menu-link'' [''className'']"
  "wrapper_ok NavigationMenuIndicator ''navigation-menu-indicator'' [''className'', ''children'']"
  by (rule wrapperI, simp only: navigation_menu_defs Let_def, (rule last_more)+, rule last_one, simp, simp, simp, simp, simp, simp split del: if_split, rule merged, simp, simp)+

lemmas sidebar_defs = SidebarInset_def SidebarHeader_def SidebarFooter_def SidebarContent_def SidebarGroup_def SidebarGroupLabel_def SidebarGroupAction_def SidebarGroupContent_def SidebarMenu_def SidebarMenuItem_def SidebarMenuAction_def SidebarMenuBadge_def SidebarMenuSub_def SidebarMenuSubItem_def SidebarMenuSubButton_def

lemma sidebar_wrappers:
  "wrapper_ok SidebarInset ''sidebar-inset'' [''className'']"
  "wrapper_ok SidebarHeader ''sidebar-header'' [''className'']"
  "wrapper_ok SidebarFooter ''sidebar-footer'' [''className'']"
  "wrapper_ok SidebarContent ''sidebar-content'' [''className'']"
  "wrapper_ok SidebarGroup ''sidebar-group'' [''className'']"
  "wrapper_ok SidebarGroupLabel ''sidebar-group-label'' [''className'', ''asChild'']"
  "wrapper_ok SidebarGroupAction ''sidebar-group-action'' [''className'', ''asChild'']"
  "wrapper_ok SidebarGroupContent ''sidebar-group-content'' [''className'']"
  "wrapper_ok SidebarMenu ''sidebar-menu'' [''className'']"
  "wrapper_ok SidebarMenuItem ''sidebar-menu-item'' [''className'']"
  "wrapper_ok SidebarMenuAction ''sidebar-menu-action'' [''className'', ''asChild'', ''showOnHover'']"
  "wrapper_ok SidebarMenuBadge ''sidebar-menu-badge'' [''className'']"
  "wrapper_ok SidebarMenuSub ''sidebar-menu-sub'' [''className'']"
  "wrapper_ok SidebarMenuSubItem ''sidebar-menu-sub-item'' [''className'']"
  "wrapper_ok SidebarMenuSubButton ''sidebar-menu-sub-button'' [''asChild'', ''size'', ''isActive'', ''className'']"
  by (rule wrapperI, simp only: sidebar_defs Let_def, (rule last_more)+, rule last_one, simp, simp, simp, simp, simp, simp split del: if_split, rule merged, simp, simp)+

lemmas input_otp_defs = InputOTP_def InputOTPGroup_def

lemma input_otp_wrappers:
  "wrapper_ok InputOTP ''input-otp'' [''className'', ''containerClassName'']"
  "wrapper_ok InputOTPGroup ''input-otp-group'' [''className'']"
  by (rule wrapperI, simp only: input_otp_defs Let_def, (rule last_more)+, rule last_one, simp, simp, simp, simp, simp, simp split del: if_split, rule merged, simp, simp)+

subsection \<open>All of them\<close>

definition wrappers :: "('a component \<times> string \<times> string list) list" where
  "wrappers =
    [(Input, ''input'', [''className'', ''type'']),
     (Label, ''label'', [''className'']),
     (Separator, ''separator'', [''className'', ''orientation'', ''decorative'']),
     (Skeleton, ''skeleton'', [''className'']),
     (Textarea, ''textarea'', [''className'']),
     (Kbd, ''kbd'', [''className'']),
     (KbdGroup, ''kbd-group'', [''className'']),
     (Badge, ''badge'', [''className'', ''variant'', ''asChild'']),
     (Card, ''card'', [''className'']),
     (CardHeader, ''card-header'', [''className'']),
     (CardTitle, ''card-title'', [''className'']),
     (CardDescription, ''card-description'', [''className'']),
     (CardAction, ''card-action'', [''className'']),
     (CardContent, ''card-content'', [''className'']),
     (CardFooter, ''card-footer'', [''className'']),
     (Switch, ''switch'', [''className'', ''children'']),
     (Checkbox, ''checkbox'', [''className'', ''children'']),
     (RadioGroup, ''radio-group'', [''className'']),
     (RadioGroupItem, ''radio-group-item'', [''className'', ''children'']),
     (Avatar, ''avatar'', [''className'']),
     (AvatarImage, ''avatar-image'', [''className'']),
     (AvatarFallback, ''avatar-fallback'', [''className'']),
     (ToggleGroup, ''toggle-group'', [''className'', ''variant'', ''size'', ''children'']),
     (Progress, ''progress'', [''className'', ''value'', ''children'']),
     (ItemGroup, ''item-group'', [''className'']),
     (ItemContent, ''item-content'', [''className'']),
     (ItemTitle, ''item-title'', [''className'']),
     (ItemDescription, ''item-description'', [''className'']),
     (ItemActions, ''item-actions'', [''className'']),
     (ItemHeader, ''item-header'', [''className'']),
     (ItemFooter, ''item-footer'', [''className'']),
     (Empty, ''empty'', [''className'']),
     (EmptyHeader, ''empty-header'', [''className'']),
     (EmptyTitle, ''empty-title'', [''className'']),
     (EmptyDescription, ''empty-description'', [''className'']),
     (EmptyContent, ''empty-content'', [''className'']),
     (TableHeader, ''table-header'', [''className'']),
     (TableBody, ''table-body'', [''className'']),
     (TableFooter, ''table-footer'', [''className'']),
     (TableRow, ''table-row'', [''className'']),
     (TableHead, ''table-head'', [''className'']),
     (TableCell, ''table-cell'', [''className'']),
     (TableCaption, ''table-caption'', [''className'']),
     (BreadcrumbList, ''breadcrumb-list'', [''className'']),
     (BreadcrumbItem, ''breadcrumb-item'', [''className'']),
     (BreadcrumbLink, ''breadcrumb-link'', [''asChild'', ''className'']),
     (BreadcrumbPage, ''breadcrumb-page'', [''className'']),
     (BreadcrumbSeparator, ''breadcrumb-separator'', [''children'', ''className'']),
     (BreadcrumbEllipsis, ''breadcrumb-ellipsis'', [''className'', ''children'']),
     (Pagination, ''pagination'', [''className'']),
     (PaginationContent, ''pagination-content'', [''className'']),
     (PaginationLink, ''pagination-link'', [''className'', ''isActive'', ''size'']),
     (PaginationEllipsis, ''pagination-ellipsis'', [''className'', ''children'']),
     (ButtonGroup, ''button-group'', [''className'', ''orientation'']),
     (Alert, ''alert'', [''className'', ''variant'']),
     (AlertTitle, ''alert-title'', [''className'']),
     (AlertDescription, ''alert-description'', [''className'']),
     (AccordionItem, ''accordion-item'', [''className'']),
     (Tabs, ''tabs'', [''className'']),
     (TabsList, ''tabs-list'', [''className'']),
     (TabsTrigger, ''tabs-trigger'', [''className'']),
     (TabsContent, ''tabs-content'', [''className'']),
     (ScrollBar, ''scroll-area-scrollbar'', [''className'', ''orientation'', ''children'']),
     (ScrollArea, ''scroll-area'', [''className'', ''children'']),
     (ResizablePanelGroup, ''resizable-panel-group'', [''className'']),
     (ResizableHandle, ''resizable-handle'', [''withHandle'', ''className'', ''children'']),
     (FieldSet, ''field-set'', [''className'']),
     (FieldLegend, ''field-legend'', [''className'', ''variant'']),
     (FieldGroup, ''field-group'', [''className'']),
     (Field, ''field'', [''className'', ''orientation'']),
     (FieldContent, ''field-content'', [''className'']),
     (FieldTitle, ''field-label'', [''className'']),
     (FieldDescription, ''field-description'', [''className'']),
     (FieldSeparator, ''field-separator'', [''children'', ''className'']),
     (InputGroup, ''input-group'', [''className'']),
     (InputGroupAddon [], ''input-group-addon'', [''className'', ''align'']),
     (DialogOverlay, ''dialog-overlay'', [''className'']),
     (DialogHeader, ''dialog-header'', [''className'']),
     (DialogFooter, ''dialog-footer'', [''className'']),
     (DialogTitle, ''dialog-title'', [''className'']),
     (DialogDescription, ''dialog-description'', [''className'']),
     (AlertDialogOverlay, ''alert-dialog-overlay'', [''className'']),
     (AlertDialogHeader, ''alert-dialog-header'', [''className'']),
     (AlertDialogFooter, ''alert-dialog-footer'', [''className'']),
     (AlertDialogTitle, ''alert-dialog-title'', [''className'']),
     (AlertDialogDescription, ''alert-dialog-description'', [''className'']),
     (SheetOverlay, ''sheet-overlay'', [''className'']),
     (SheetHeader, ''sheet-header'', [''className'']),
     (SheetFooter, ''sheet-footer'', [''className'']),
     (SheetTitle, ''sheet-title'', [''className'']),
     (SheetDescription, ''sheet-description'', [''className'']),
     (DrawerOverlay, ''drawer-overlay'', [''className'']),
     (DrawerHeader, ''drawer-header'', [''className'']),
     (DrawerFooter, ''drawer-footer'', [''className'']),
     (DrawerTitle, ''drawer-title'', [''className'']),
     (DrawerDescription, ''drawer-description'', [''className'']),
     (DropdownMenuItem, ''dropdown-menu-item'', [''className'', ''inset'', ''variant'']),
     (DropdownMenuCheckboxItem, ''dropdown-menu-checkbox-item'', [''className'', ''children'', ''checked'']),
     (DropdownMenuRadioItem, ''dropdown-menu-radio-item'', [''className'', ''children'']),
     (DropdownMenuLabel, ''dropdown-menu-label'', [''className'', ''inset'']),
     (DropdownMenuSeparator, ''dropdown-menu-separator'', [''className'']),
     (DropdownMenuShortcut, ''dropdown-menu-shortcut'', [''className'']),
     (DropdownMenuSubTrigger, ''dropdown-menu-sub-trigger'', [''className'', ''inset'', ''children'']),
     (DropdownMenuSubContent, ''dropdown-menu-sub-content'', [''className'']),
     (ContextMenuSubTrigger, ''context-menu-sub-trigger'', [''className'', ''inset'', ''children'']),
     (ContextMenuSubContent, ''context-menu-sub-content'', [''className'']),
     (ContextMenuItem, ''context-menu-item'', [''className'', ''inset'', ''variant'']),
     (ContextMenuCheckboxItem, ''context-menu-checkbox-item'', [''className'', ''children'', ''checked'']),
     (ContextMenuRadioItem, ''context-menu-radio-item'', [''className'', ''children'']),
     (ContextMenuLabel, ''context-menu-label'', [''className'', ''inset'']),
     (ContextMenuSeparator, ''context-menu-separator'', [''className'']),
     (ContextMenuShortcut, ''context-menu-shortcut'', [''className'']),
     (Menubar, ''menubar'', [''className'']),
     (MenubarTrigger, ''menubar-trigger'', [''className'']),
     (MenubarItem, ''menubar-item'', [''className'', ''inset'', ''variant'']),
     (MenubarCheckboxItem, ''menubar-checkbox-item'', [''className'', ''children'', ''checked'']),
     (MenubarRadioItem, ''menubar-radio-item'', [''className'', ''children'']),
     (MenubarLabel, ''menubar-label'', [''className'', ''inset'']),
     (MenubarSeparator, ''menubar-separator'', [''className'']),
     (MenubarShortcut, ''menubar-shortcut'', [''className'']),
     (MenubarSubTrigger, ''menubar-sub-trigger'', [''className'', ''inset'', ''children'']),
     (MenubarSubContent, ''menubar-sub-content'', [''className'']),
     (SelectTrigger, ''select-trigger'', [''className'', ''size'', ''children'']),
     (SelectLabel, ''select-label'', [''className'']),
     (SelectItem, ''select-item'', [''className'', ''children'']),
     (SelectSeparator, ''select-separator'', [''className'']),
     (SelectScrollUpButton, ''select-scroll-up-button'', [''className'', ''children'']),
     (SelectScrollDownButton, ''select-scroll-down-button'', [''className'', ''children'']),
     (Command, ''command'', [''className'']),
     (CommandList, ''command-list'', [''className'']),
     (CommandGroup, ''command-group'', [''className'']),
     (CommandSeparator, ''command-separator'', [''className'']),
     (CommandItem, ''command-item'', [''className'']),
     (CommandShortcut, ''command-shortcut'', [''className'']),
     (NavigationMenuList, ''navigation-menu-list'', [''className'']),
     (NavigationMenuItem, ''navigation-menu-item'', [''className'']),
     (NavigationMenuTrigger, ''navigation-menu-trigger'', [''className'', ''children'']),
     (NavigationMenuContent, ''navigation-menu-content'', [''className'']),
     (NavigationMenu, ''navigation-menu'', [''className'', ''children'', ''viewport'']),
     (NavigationMenuLink, ''navigation-menu-link'', [''className'']),
     (NavigationMenuIndicator, ''navigation-menu-indicator'', [''className'', ''children'']),
     (SidebarInset, ''sidebar-inset'', [''className'']),
     (SidebarHeader, ''sidebar-header'', [''className'']),
     (SidebarFooter, ''sidebar-footer'', [''className'']),
     (SidebarContent, ''sidebar-content'', [''className'']),
     (SidebarGroup, ''sidebar-group'', [''className'']),
     (SidebarGroupLabel, ''sidebar-group-label'', [''className'', ''asChild'']),
     (SidebarGroupAction, ''sidebar-group-action'', [''className'', ''asChild'']),
     (SidebarGroupContent, ''sidebar-group-content'', [''className'']),
     (SidebarMenu, ''sidebar-menu'', [''className'']),
     (SidebarMenuItem, ''sidebar-menu-item'', [''className'']),
     (SidebarMenuAction, ''sidebar-menu-action'', [''className'', ''asChild'', ''showOnHover'']),
     (SidebarMenuBadge, ''sidebar-menu-badge'', [''className'']),
     (SidebarMenuSub, ''sidebar-menu-sub'', [''className'']),
     (SidebarMenuSubItem, ''sidebar-menu-sub-item'', [''className'']),
     (SidebarMenuSubButton, ''sidebar-menu-sub-button'', [''asChild'', ''size'', ''isActive'', ''className'']),
     (InputOTP, ''input-otp'', [''className'', ''containerClassName'']),
     (InputOTPGroup, ''input-otp-group'', [''className''])]"

lemmas wrappers_ok = input_wrappers label_wrappers separator_wrappers skeleton_wrappers textarea_wrappers kbd_wrappers badge_wrappers card_wrappers switch_wrappers checkbox_wrappers radio_group_wrappers avatar_wrappers toggle_group_wrappers progress_wrappers item_wrappers empty_wrappers table_wrappers breadcrumb_wrappers pagination_wrappers button_group_wrappers alert_wrappers accordion_wrappers tabs_wrappers scroll_area_wrappers resizable_wrappers field_wrappers input_group_wrappers dialog_wrappers alert_dialog_wrappers sheet_wrappers drawer_wrappers dropdown_menu_wrappers context_menu_wrappers menubar_wrappers select_wrappers command_wrappers navigation_menu_wrappers sidebar_wrappers input_otp_wrappers

text \<open>C9. Every wrapper component of components/ui renders exactly one element; whatever properties its
  caller passes, those it does not consume itself reach that element with the caller's values and win
  over the wrapper's own; the element carries the wrapper's \<open>data-slot\<close> unless the caller sets another;
  and its class list is the merge of a list that ends with the caller's classes.\<close>

theorem wrappers_pass_properties: "list_all (\<lambda>(c, slot, own). wrapper_ok c slot own) wrappers"
  unfolding wrappers_def by (simp only: list.pred_inject prod.case wrappers_ok simp_thms)

end
