(* ===== verification/PriceChartView.thy ===== *)
theory PriceChartView imports UiBase Formats ChartLive begin

section \<open>The price chart (components/dashboard/price-chart.tsx)\<close>

text \<open>
  What the chart component shows around the canvas of the library: the header with price and change, the
  interval buttons, the legend and the status line, from the state of \<open>ChartMachine\<close> and the legend.
\<close>

record legend =
  lg_open :: rat
  lg_high :: rat
  lg_low :: rat
  lg_close :: rat

text \<open>
  The crosshair handler: the bar under the crosshair when there is a time and the candle series has data
  there. The library's event is that bar or nothing.
\<close>

definition legend_of :: "bar option \<Rightarrow> legend option" where
  "legend_of = map_option (\<lambda>d. \<lparr>lg_open = b_open d, lg_high = b_high d, lg_low = b_low d, lg_close = b_close d\<rparr>)"

text \<open>\<open>Number(s) || 0\<close>\<close>

definition number_or_0 :: "jstr \<Rightarrow> rat" where
  "number_or_0 s = (case to_number s of None \<Rightarrow> 0 | Some v \<Rightarrow> v)"

text \<open>The amount and the percentage of the change\<close>

definition priceChange :: "stock option \<Rightarrow> rat \<times> rat" where
  "priceChange selectedStock =
     (let percent = number_or_0 (trim (replace_first 37 (case selectedStock of None \<Rightarrow> js ''0'' | Some st \<Rightarrow> s_change st)));
          amount = number_or_0 (case selectedStock of None \<Rightarrow> js ''0'' | Some st \<Rightarrow> s_changeAmount st)
      in (amount, percent))"

definition PriceChart :: "intl \<Rightarrow> 'a ui \<Rightarrow> (interval \<Rightarrow> 'a list) \<Rightarrow> legend option \<Rightarrow> pc \<Rightarrow> 'a node list" where
  "PriceChart I L onInterval legendData s =
    (let selectedStock = sel s; change1 = priceChange (sel s) in
     host ''div'' [attr ''className'' (cs ''flex h-full flex-col relative'')]
       [if selectedStock \<noteq> None then concat
          [host ''div''
             [attr ''className'' (cs ''flex items-start justify-between border-b border-border px-6 py-4'')]
             [host ''div'' []
                [host ''div'' [attr ''className'' (cs ''flex items-center gap-3'')]
                   [host ''h1'' [attr ''className'' (cs ''text-xl font-bold text-foreground'')]
                      [shown (s_name (the selectedStock))],
                    host ''span''
                      [attr ''className'' (cs ''rounded bg-secondary px-2 py-0.5 text-xs text-muted-foreground'')]
                      [shown (s_ticker (the selectedStock))],
                    host ''span''
                      [attr ''className'' (cs ''flex items-center gap-1 text-xs text-chart-1'')]
                      [host ''span''
                         [attr ''className'' (cs ''h-1.5 w-1.5 animate-pulse rounded-full bg-chart-1'')]
                         [],
                       tx ''LIVE'']],
                 host ''div'' [attr ''className'' (cs ''mt-2 flex items-baseline gap-3'')]
                   [host ''span''
                      [attr ''className'' (cs ''text-3xl font-bold tabular-nums text-foreground'')]
                      [shown (in_number I ko_KR (parse_float (s_price (the selectedStock))))],
                    host ''span'' [attr ''className'' (cs ''text-lg text-muted-foreground'')] [tx ''KRW'']]],
              host ''div'' [attr ''className'' (cs ''flex flex-col items-end gap-3'')]
                [host ''div''
                   [attr ''className'' (cs ''flex items-center gap-1 rounded-lg bg-secondary/50 p-1'')]
                   [host ''button''
                      [attr ''onClick'' (PFun False (\<lambda>_. onInterval I1m)),
                       attr ''className'' (PStr (ui_cn L
                             [cs ''rounded px-3 py-1 text-xs font-medium transition-colors'',
                              if ival s = I1m then cs ''bg-background text-foreground shadow-sm'' else cs
                                ''text-muted-foreground hover:text-foreground'']))] [[Text [49, 48516]]],
                    host ''button''
                      [attr ''onClick'' (PFun False (\<lambda>_. onInterval I1d)),
                       attr ''className'' (PStr (ui_cn L
                             [cs ''rounded px-3 py-1 text-xs font-medium transition-colors'',
                              if ival s = I1d then cs ''bg-background text-foreground shadow-sm'' else cs
                                ''text-muted-foreground hover:text-foreground'']))] [[Text [49, 51068]]],
                    host ''button''
                      [attr ''onClick'' (PFun False (\<lambda>_. onInterval I1w)),
                       attr ''className'' (PStr (ui_cn L
                             [cs ''rounded px-3 py-1 text-xs font-medium transition-colors'',
                              if ival s = I1w then cs ''bg-background text-foreground shadow-sm'' else cs
                                ''text-muted-foreground hover:text-foreground'']))] [[Text [49, 51452]]],
                    host ''button''
                      [attr ''onClick'' (PFun False (\<lambda>_. onInterval I1M)),
                       attr ''className'' (PStr (ui_cn L
                             [cs ''rounded px-3 py-1 text-xs font-medium transition-colors'',
                              if ival s = I1M then cs ''bg-background text-foreground shadow-sm'' else cs
                                ''text-muted-foreground hover:text-foreground'']))] [[Text [49, 50900]]]],
                 host ''div''
                   [attr ''className'' (PStr (ui_cn L
                          [cs ''rounded-lg px-4 py-2 text-right'',
                           if 0 \<le> fst change1 then cs ''bg-chart-1/10'' else cs ''bg-chart-2/10'']))]
                   [host ''div''
                      [attr ''className'' (PStr (ui_cn L
                             [cs
                                ''flex items-center justify-end gap-1 text-lg font-semibold tabular-nums'',
                              if 0 \<le> fst change1 then cs ''text-chart-1'' else cs ''text-chart-2'']))]
                      [if 0 \<le> fst change1 then lib ''TrendingUp''
                         [attr ''className'' (cs ''h-5 w-5'')] [] else lib ''TrendingDown''
                         [attr ''className'' (cs ''h-5 w-5'')] [],
                       if 0 \<le> fst change1 then [Text (js ''+'')] else [],
                       shown (to_fixed 2 (snd change1)),
                       tx ''%''],
                    host ''div''
                      [attr ''className'' (PStr (ui_cn L
                             [cs ''text-sm tabular-nums'',
                              if 0 \<le> fst change1 then cs ''text-chart-1/70'' else cs
                                ''text-chart-2/70'']))]
                      [if 0 \<le> fst change1 then [Text (js ''+'')] else [],
                       shown (in_number I ko_KR (Some (fst change1)))]]]],
           host ''div''
             [attr ''className'' (cs ''absolute left-6 top-32 z-10 flex gap-4 text-[11px] font-medium tabular-nums'')]
             [if legendData \<noteq> None then concat
                [host ''div'' [attr ''className'' (cs ''flex gap-1'')]
                   [host ''span'' [attr ''className'' (cs ''text-muted-foreground'')] [tx ''O:''],
                    host ''span''
                      [attr ''className'' (if lg_open (the legendData) \<le> lg_close (the legendData) then cs
                           ''text-chart-1'' else cs ''text-chart-2'')]
                      [shown (in_number I None (Some (lg_open (the legendData))))]],
                 host ''div'' [attr ''className'' (cs ''flex gap-1'')]
                   [host ''span'' [attr ''className'' (cs ''text-muted-foreground'')] [tx ''H:''],
                    host ''span''
                      [attr ''className'' (if lg_open (the legendData) \<le> lg_close (the legendData) then cs
                           ''text-chart-1'' else cs ''text-chart-2'')]
                      [shown (in_number I None (Some (lg_high (the legendData))))]],
                 host ''div'' [attr ''className'' (cs ''flex gap-1'')]
                   [host ''span'' [attr ''className'' (cs ''text-muted-foreground'')] [tx ''L:''],
                    host ''span''
                      [attr ''className'' (if lg_open (the legendData) \<le> lg_close (the legendData) then cs
                           ''text-chart-1'' else cs ''text-chart-2'')]
                      [shown (in_number I None (Some (lg_low (the legendData))))]],
                 host ''div'' [attr ''className'' (cs ''flex gap-1'')]
                   [host ''span'' [attr ''className'' (cs ''text-muted-foreground'')] [tx ''C:''],
                    host ''span''
                      [attr ''className'' (if lg_open (the legendData) \<le> lg_close (the legendData) then cs
                           ''text-chart-1'' else cs ''text-chart-2'')]
                      [shown (in_number I None (Some (lg_close (the legendData))))]]] else if cdata s
                \<noteq> [] then concat
                [host ''div'' [attr ''className'' (cs ''flex gap-1'')]
                   [host ''span'' [attr ''className'' (cs ''text-muted-foreground'')] [tx ''O:''],
                    host ''span'' [] [shown (in_number I None (Some (c_open (last (cdata s)))))]],
                 host ''div'' [attr ''className'' (cs ''flex gap-1'')]
                   [host ''span'' [attr ''className'' (cs ''text-muted-foreground'')] [tx ''H:''],
                    host ''span'' [] [shown (in_number I None (Some (c_high (last (cdata s)))))]],
                 host ''div'' [attr ''className'' (cs ''flex gap-1'')]
                   [host ''span'' [attr ''className'' (cs ''text-muted-foreground'')] [tx ''L:''],
                    host ''span'' [] [shown (in_number I None (Some (c_low (last (cdata s)))))]],
                 host ''div'' [attr ''className'' (cs ''flex gap-1'')]
                   [host ''span'' [attr ''className'' (cs ''text-muted-foreground'')] [tx ''C:''],
                    host ''span'' [] [shown (in_number I None (Some (c_close (last (cdata s)))))]]] else
                []]] else host ''div''
          [attr ''className'' (cs
               ''absolute inset-0 z-10 flex flex-col items-center justify-center bg-card text-muted-foreground'')]
          [lib ''Activity'' [attr ''className'' (cs ''mb-3 h-12 w-12 opacity-30'')] [],
           host ''p'' [attr ''className'' (cs ''text-sm'')]
             [[Text [51333, 47785, 51012, 32, 49440, 53469, 54616, 49464, 50836]]]],
        host ''div''
          [attr ''className'' (cs ''flex-1 p-4''),
           attr ''ref'' PUndef,
           attr ''style'' (obj [attr ''position'' (cs ''relative'')])] [],
        if selectedStock \<noteq> None then host ''div''
          [attr ''className'' (cs ''flex items-center gap-2 border-t border-border px-6 py-3'')]
          [lib ''Activity''
             [attr ''className'' (PStr (ui_cn L
                    [cs ''h-4 w-4'',
                     if (loading_more s) \<or> (\<not> hist_loaded s) then cs
                       ''animate-pulse text-muted-foreground'' else cs ''text-chart-1'']))] [],
           host ''span'' [attr ''className'' (cs ''text-xs text-muted-foreground'')]
             [if loading_more s then
                [Text
                   [44284, 44144, 32, 45936, 51060, 53552, 32, 48520, 47084, 50724, 45716, 32, 51473, 46,
                    46, 46]] else if \<not> hist_loaded s then
                [Text [45936, 51060, 53552, 32, 47196, 46300, 32, 51473, 46, 46, 46]] else if cdata s = []
                then
                [Text
                   [44284, 44144, 32, 45936, 51060, 53552, 32, 48512, 51116, 32, 40, 49892, 49884, 44036,
                    32, 45824, 44592, 32, 51473, 41]] else
                [Text [49892, 49884, 44036, 32, 49828, 53944, 47532, 48141, 32, 51473]]]] else []])"

subsection \<open>What the screen says and does\<close>

declare js_Cons [simp del] js_Nil [simp del]

text \<open>The texts of the status line\<close>

definition loading_page_text :: jstr where
  "loading_page_text = [44284, 44144, 32, 45936, 51060, 53552, 32, 48520, 47084, 50724, 45716, 32, 51473, 46, 46, 46]"

definition loading_text :: jstr where
  "loading_text = [45936, 51060, 53552, 32, 47196, 46300, 32, 51473, 46, 46, 46]"

definition no_history_text :: jstr where
  "no_history_text = [44284, 44144, 32, 45936, 51060, 53552, 32, 48512, 51116, 32, 40, 49892, 49884, 44036, 32, 45824, 44592, 32, 51473, 41]"

definition streaming_text :: jstr where
  "streaming_text = [49892, 49884, 44036, 32, 49828, 53944, 47532, 48141, 32, 51473]"

lemma status_line:
  assumes "sel s = Some st"
  shows "last (descend (PriceChart I L f lg s) [0, 3, 1, 0]) =
    Text (if loading_more s then loading_page_text else if \<not> hist_loaded s then loading_text
          else if cdata s = [] then no_history_text else streaming_text)"
  using assms by (simp add: PriceChart_def Let_def elem_def kids_of_elem loading_page_text_def loading_text_def
      no_history_text_def streaming_text_def)

lemma interval_buttons:
  assumes "sel s = Some st"
  shows "click (PriceChart I L f lg s) [0, 0, 1, 0, 0] = f I1m" "click (PriceChart I L f lg s) [0, 0, 1, 0, 1] = f I1d"
    "click (PriceChart I L f lg s) [0, 0, 1, 0, 2] = f I1w" "click (PriceChart I L f lg s) [0, 0, 1, 0, 3] = f I1M"
  using assms by (simp_all add: PriceChart_def Let_def elem_def click_eval click_def split del: if_split)

text \<open>C17. What the user sees agrees with what is going on: in every reachable state with a selected stock the
  status line speaks of older data exactly while a page request is open; otherwise it says that data
  loads exactly while the history flag is down, and then a history request is open; else it tells
  whether there are candles. Each of the four buttons asks for its own interval.\<close>

theorem chart_screen:
  assumes "reachable_pc s" and "sel s = Some st"
  shows "last (descend (PriceChart I L f lg s) [0, 3, 1, 0]) =
      Text (if list_ex is_more (inflight s) then loading_page_text else if \<not> hist_loaded s then loading_text
            else if cdata s = [] then no_history_text else streaming_text)
    \<and> (hist_loaded s \<or> history_open s)
    \<and> map (\<lambda>k. click (PriceChart I L f lg s) [0, 0, 1, 0, k]) [0, 1, 2, 3] = map f [I1m, I1d, I1w, I1M]"
proof -
  note s = reachable_settled [OF assms(1)]
  have "list_ex is_more (inflight s) = (length (filter is_more (inflight s)) \<noteq> 0)"
    by (auto simp: list_ex_iff filter_empty_conv)
  then have "loading_more s = list_ex is_more (inflight s)" using settledD(8,9) [OF s] by simp
  moreover have "hist_loaded s \<or> history_open s"
    using assms by (auto simp: reachable_pc_def awaited_def dest!: live.inv_reach)
  ultimately show ?thesis
    using status_line [OF assms(2), of I L f lg] interval_buttons [OF assms(2), of I L f lg] by simp
qed

theorem chart_screen_witness:
  "last (descend (PriceChart plain_intl plain_ui (\<lambda>i. [i]) None demo_paging) [0, 3, 1, 0]) = Text loading_page_text"
proof -
  have "sel demo_paging = Some demo_stock"
    by (simp add: demo_paging_def visible_range_def range_change_def load_more_def demo_loaded_facts split: option.split)
  from chart_screen [OF demo_paging_facts(1) this, of plain_intl plain_ui "\<lambda>i. [i]" None] show ?thesis
    by (simp add: demo_paging_facts)
qed

end
