(* ===== verification/StockListView.thy ===== *)
theory StockListView imports UiBase Formats StockTypes begin

section \<open>The list of subscribed stocks (components/dashboard/stock-list.tsx)\<close>

text \<open>
  The rendered list with the handlers of its rows. A row is a button that holds a span with a handler of
  its own, which stops the event before it reaches the row.
\<close>

text \<open>\<open>Number(s) >= 0\<close>\<close>

definition number_ge0 :: "jstr \<Rightarrow> bool" where
  "number_ge0 s = (case to_number s of None \<Rightarrow> False | Some v \<Rightarrow> 0 \<le> v)"

definition stock_row :: "intl \<Rightarrow> 'a ui \<Rightarrow> stock option \<Rightarrow> (stock \<Rightarrow> 'a list) \<Rightarrow> (jstr \<Rightarrow> 'a list) \<Rightarrow> stock \<Rightarrow> 'a node list" where
  "stock_row I L selectedStock onSelectStock onUnsubscribe stock =
    (host ''button''
       [attr ''key'' (PStr (s_id stock)),
        attr ''onClick'' (PFun False (\<lambda>_. onSelectStock stock)),
        attr ''className'' (PStr (ui_cn L
              [cs
                 ''group relative flex w-full items-center justify-between border-b border-border/50 px-4 py-4 text-left transition-all hover:bg-secondary/50'',
               js_and (PBool (map_option s_id selectedStock = Some (s_id stock))) (cs ''bg-secondary/70'')]))]
       [if s_status stock = js ''anomaly'' then host ''div''
          [attr ''className'' (cs ''absolute left-0 top-0 h-full w-0.5 bg-destructive'')] [] else [],
        host ''div'' [attr ''className'' (cs ''min-w-0 flex-1'')]
          [host ''div'' [attr ''className'' (cs ''flex items-center gap-2'')]
             [host ''span'' [attr ''className'' (cs ''truncate text-sm font-medium text-foreground'')]
                [shown (s_name stock)],
              if s_status stock = js ''anomaly'' then lib ''AlertTriangle''
                [attr ''className'' (cs ''h-3.5 w-3.5 flex-shrink-0 text-destructive'')] [] else []],
           host ''span'' [attr ''className'' (cs ''text-xs text-muted-foreground'')]
             [shown (s_ticker stock)]],
        host ''div'' [attr ''className'' (cs ''ml-3 text-right'')]
          [host ''div'' [attr ''className'' (cs ''text-sm font-medium tabular-nums text-foreground'')]
             [shown (in_number I ko_KR (to_number (s_price stock)))],
           host ''div''
             [attr ''className'' (PStr (ui_cn L
                    [cs ''flex items-center justify-end gap-0.5 text-xs font-medium tabular-nums'',
                     if number_ge0 (s_changeAmount stock) then cs ''text-chart-1'' else cs
                       ''text-chart-2'']))]
             [if number_ge0 (s_changeAmount stock) then lib ''TrendingUp''
                [attr ''className'' (cs ''h-3 w-3'')] [] else lib ''TrendingDown''
                [attr ''className'' (cs ''h-3 w-3'')] [],
              shown (s_change stock)]],
        host ''span''
          [attr ''role'' (cs ''button''),
           attr ''aria-label'' (PStr (s_name stock @ [32, 44396, 46021, 32, 54644, 51228])),
           attr ''onClick'' (PFun True (\<lambda>_. onUnsubscribe (s_ticker stock))),
           attr ''className'' (cs
               ''ml-2 flex h-6 w-6 flex-shrink-0 items-center justify-center rounded-md text-muted-foreground opacity-0 transition-opacity hover:bg-destructive/10 hover:text-destructive group-hover:opacity-100'')]
          [lib ''X'' [attr ''className'' (cs ''h-3.5 w-3.5'')] []]])"

definition StockList :: "intl \<Rightarrow> 'a ui \<Rightarrow> stock list \<Rightarrow> stock option \<Rightarrow> (stock \<Rightarrow> 'a list) \<Rightarrow> (jstr \<Rightarrow> 'a list) \<Rightarrow> 'a node list" where
  "StockList I L stocks selectedStock onSelectStock onUnsubscribe =
    (host ''div'' [attr ''className'' (cs ''flex h-full flex-col'')]
       [host ''div'' [attr ''className'' (cs ''border-b border-border px-4 py-3'')]
          [host ''h2''
             [attr ''className'' (cs ''text-sm font-semibold tracking-wide text-foreground/90'')]
             [[Text [44288, 49900, 32, 51333, 47785]]],
           host ''p'' [attr ''className'' (cs ''mt-0.5 text-xs text-muted-foreground'')]
             [[Text [49892, 49884, 44036, 32, 47784, 45768, 53552, 47553, 32, 51473, 32, 40]],
              shown (nat_str (length stocks)),
              [Text [44060, 41]]]],
        host ''div'' [attr ''className'' (cs ''flex-1 overflow-y-auto'')]
          [if stocks = [] then host ''div''
             [attr ''className'' (cs ''flex h-full flex-col items-center justify-center p-6 text-center'')]
             [host ''p'' [attr ''className'' (cs ''text-sm text-muted-foreground'')]
                [[Text [44288, 49900, 32, 51333, 47785, 51060, 32, 50630, 49845, 45768, 45796, 46]]],
              host ''p'' [attr ''className'' (cs ''mt-1 text-xs text-muted-foreground/60'')]
                [
                   [Text
                      [49345, 45800, 32, 44160, 49353, 52285, 50640, 49436, 32, 51333, 47785, 51012, 32,
                       52628, 44032, 54644, 48372, 49464, 50836, 46]]]] else concat (map (stock_row I L selectedStock onSelectStock onUnsubscribe) stocks)]])"

subsection \<open>Where a click goes\<close>

declare js_Cons [simp del] js_Nil [simp del]

lemma StockList_shape:
  assumes "stocks \<noteq> []"
  obtains h v w where "StockList I L stocks sel onSel onUns =
    [Elem (Host ''div'') (attrs [attr ''className'' v] [[h], [Elem (Host ''div'') (attrs [attr ''className'' w]
      [concat (map (stock_row I L sel onSel onUns) stocks)])]])]"
  unfolding StockList_def elem_def if_not_P [OF assms] by blast

lemma stock_row_shape:
  obtains d ns x where "stock_row I L sel onSel onUns st = [d]"
    "handler ''onClick'' d = Some (False, \<lambda>_. onSel st)" "\<not> disabled d" "kids_of d = ns @ [x]" "silent ns"
    "length ns = (if s_status st = js ''anomaly'' then 3 else 2)"
    "handler ''onClick'' x = Some (True, \<lambda>_. onUns (s_ticker st))" "\<not> disabled x" "silent (kids_of x)"
proof -
  obtain d where d: "stock_row I L sel onSel onUns st = [d]" by (simp add: stock_row_def elem_def)
  obtain a b c x where k: "kids_of d = a @ [b, c] @ [x]" "a = (if s_status st = js ''anomaly'' then
        host ''div'' [attr ''className'' (cs ''absolute left-0 top-0 h-full w-0.5 bg-destructive'')] [] else [])"
    and "silent [b, c]" and x: "handler ''onClick'' x = Some (True, \<lambda>_. onUns (s_ticker st))" "\<not> disabled x" "silent (kids_of x)"
    using d by (auto simp: stock_row_def elem_def click_eval)
  moreover have "silent a" "length a = (if s_status st = js ''anomaly'' then 1 else 0)"
    by (simp_all add: k(2) elem_def click_eval)
  ultimately have ns: "kids_of d = (a @ [b, c]) @ [x]" "silent (a @ [b, c])"
      "length (a @ [b, c]) = (if s_status st = js ''anomaly'' then 3 else 2)" by simp_all
  have "handler ''onClick'' d = Some (False, \<lambda>_. onSel st)" "\<not> disabled d"
    using d by (auto simp: stock_row_def elem_def click_eval)
  from that [OF d this ns x] show thesis .
qed

lemma stock_row_chain:
  assumes "bubble ''onClick'' v ms = []" and "\<not> list_ex disabled ms"
    and p: "chain = rev (descend (stock_row I L sel onSel onUns st) (0 # p)) @ ms"
  shows "bubble ''onClick'' v chain =
      (if p \<noteq> [] \<and> hd p = (if s_status st = js ''anomaly'' then 3 else 2) then onUns (s_ticker st) else onSel st)"
    and "\<not> list_ex disabled chain"
proof -
  obtain d ns x where d: "stock_row I L sel onSel onUns st = [d]"
    "handler ''onClick'' d = Some (False, \<lambda>_. onSel st)" "\<not> disabled d" "kids_of d = ns @ [x]" "silent ns"
    "length ns = (if s_status st = js ''anomaly'' then 3 else 2)"
    "handler ''onClick'' x = Some (True, \<lambda>_. onUns (s_ticker st))" "\<not> disabled x" "silent (kids_of x)"
    by (rule stock_row_shape)
  have row: "bubble ''onClick'' v (d # ms) = onSel st" using d(2) assms(1) by simp
  show "bubble ''onClick'' v chain =
      (if p \<noteq> [] \<and> hd p = (if s_status st = js ''anomaly'' then 3 else 2) then onUns (s_ticker st) else onSel st)"
  proof (cases p)
    case Nil
    then show ?thesis using row by (simp add: p d(1))
  next
    case (Cons j q)
    consider "j < length ns" | "j = length ns" | "length ns < j" by linarith
    then show ?thesis
    proof cases
      case 1
      then have "chain = rev (descend ns p) @ d # ms" using Cons by (simp add: p d(1,4) nth_append)
      then have "bubble ''onClick'' v chain = onSel st" using silent_bubble [OF d(5)] row by (simp only:)
      moreover have "j \<noteq> (if s_status st = js ''anomaly'' then 3 else 2)" using 1 d(6) by (auto split: if_splits)
      ultimately show ?thesis using Cons by simp
    next
      case 2
      then have "chain = rev (descend (kids_of x) q) @ x # d # ms" using Cons by (simp add: p d(1,4))
      then show ?thesis using silent_bubble [OF d(9)] 2 Cons d(6,7) by simp
    next
      case 3
      then show ?thesis using Cons row d(6) by (auto simp: p d(1,4))
    qed
  qed
  have "list_ex disabled (descend (ns @ [x]) p) = False"
    using silent_enabled [OF d(5)] silent_enabled [OF d(9)] d(8)
    by (cases p) (simp_all add: descend_append del: descend.simps(2), simp add: descend.simps(2))
  then show "\<not> list_ex disabled chain" using assms(2) d(1,3,4) by (simp add: p)
qed

text \<open>A click on a row, whatever the list is part of\<close>

lemma StockList_clicks:
  assumes i: "i < length stocks" and d: "descend ns q = outer @ descend (StockList I L stocks sel onSel onUns) ([0, 1, i] @ p)"
    and outer: "list_all (\<lambda>n. handler ''onClick'' n = None \<and> \<not> disabled n) outer"
  shows "click ns q =
    (if p \<noteq> [] \<and> hd p = (if s_status (stocks ! i) = js ''anomaly'' then 3 else 2)
     then onUns (s_ticker (stocks ! i)) else onSel (stocks ! i))"
proof -
  let ?row = "stock_row I L sel onSel onUns"
  have f: "?row st = [hd (?row st)]" for st by (simp only: stock_row_def elem_def list.sel(1))
  have "concat (map ?row ss) = map (\<lambda>st. hd (?row st)) ss" for ss by (induction ss) (simp, subst list.map, subst concat.simps, subst f, simp)
  then have one: "descend (concat (map ?row stocks)) (i # p) = descend (?row (stocks ! i)) (0 # p)"
    using i by (subst f) simp
  obtain h v w where shape: "StockList I L stocks sel onSel onUns =
    [Elem (Host ''div'') (attrs [attr ''className'' v] [[h], [Elem (Host ''div'') (attrs [attr ''className'' w]
      [concat (map ?row stocks)])]])]"
    using i by (rule_tac StockList_shape [of stocks I L sel onSel onUns]) auto
  define l where "l = Elem (Host ''div'') (attrs [attr ''className'' w] [concat (map ?row stocks)])"
  define r where "r = Elem (Host ''div'') (attrs [attr ''className'' v] [[h], [l]])"
  have rl: "handler ''onClick'' r = None" "handler ''onClick'' l = None" "\<not> disabled r" "\<not> disabled l"
    and kids: "kids_of r = [h, l]" "kids_of l = concat (map ?row stocks)"
    by (simp_all add: r_def l_def click_eval)
  have "StockList I L stocks sel onSel onUns = [r]" by (simp only: shape r_def l_def)
  moreover have "descend [r] ([0, 1, i] @ p) = [r, l] @ descend (concat (map ?row stocks)) (i # p)"
    by (simp add: kids)
  ultimately have "descend ns q = outer @ [r, l] @ descend (?row (stocks ! i)) (0 # p)"
    by (simp only: one d)
  then have chain: "rev (descend ns q) = rev (descend (?row (stocks ! i)) (0 # p)) @ ([l, r] @ rev outer)"
    by simp
  have "bubble ''onClick'' v (rev outer) = []" "\<not> list_ex disabled (rev outer)" for v
    using outer bubble_silent [of "rev outer" "''onClick''" v "[]"] by (auto simp: list_all_iff list_ex_iff)
  then have ms: "bubble ''onClick'' v ([l, r] @ rev outer) = []" "\<not> list_ex disabled ([l, r] @ rev outer)" for v using rl by simp_all
  show ?thesis
    using stock_row_chain [OF ms chain] by (simp add: click_def Let_def)
qed

text \<open>Wherever a shown row of the list is clicked, on the row itself or on anything inside of it, exactly
  one thing happens: inside of the row's cross (the third part of the row, the fourth when the row is marked
  as an anomaly) the stock is unsubscribed and not selected, anywhere else it is selected.\<close>

theorem stock_row_clicks:
  assumes "i < length stocks"
  shows "click (StockList I L stocks sel onSel onUns) ([0, 1, i] @ p) =
    (if p \<noteq> [] \<and> hd p = (if s_status (stocks ! i) = js ''anomaly'' then 3 else 2)
     then onUns (s_ticker (stocks ! i)) else onSel (stocks ! i))"
  by (rule StockList_clicks [OF assms, of _ _ "[]"]) simp_all

definition sample_stock :: stock where
  "sample_stock = \<lparr>s_id = js ''005930'', s_ticker = js ''005930'', s_name = js ''Samsung'', s_price = js ''71000'',
     s_change = js ''1.2%'', s_changeAmount = js ''800'', s_status = js ''stable''\<rparr>"

theorem stock_row_clicks_witness:
  "click (StockList I L [sample_stock] None (\<lambda>st. [js ''select'']) (\<lambda>t. [t])) [0, 1, 0, 2, 0] = [js ''005930'']
   \<and> click (StockList I L [sample_stock] None (\<lambda>st. [js ''select'']) (\<lambda>t. [t])) [0, 1, 0, 1, 0] = [js ''select'']"
  using stock_row_clicks [of 0 "[sample_stock]" I L None "\<lambda>st. [js ''select'']" "\<lambda>t. [t]" "[2, 0]"]
    stock_row_clicks [of 0 "[sample_stock]" I L None "\<lambda>st. [js ''select'']" "\<lambda>t. [t]" "[1, 0]"]
  by (simp add: sample_stock_def)

end
