(* ===== verification/AlarmLogView.thy ===== *)
theory AlarmLogView imports UiBase Formats StockTypes begin

section \<open>The alarm log (components/dashboard/alarm-log.tsx)\<close>

text \<open>
  What an alarm shows. The effect that scrolls the list to its top changes the page only, not the state.
\<close>

definition severityConfig :: "severity \<Rightarrow> entry_style" where
  "severityConfig x = (case x of
       HIGH \<Rightarrow> \<lparr>es_bg = js ''bg-chart-2/10'', es_border = js ''border-chart-2/30'',
         es_icon = js ''text-chart-2'', es_badge = js ''bg-chart-2/20 text-chart-2''\<rparr>
     | MEDIUM \<Rightarrow> \<lparr>es_bg = js ''bg-chart-4/10'', es_border = js ''border-chart-4/30'',
         es_icon = js ''text-chart-4'', es_badge = js ''bg-chart-4/20 text-chart-4''\<rparr>
     | LOW \<Rightarrow> \<lparr>es_bg = js ''bg-chart-3/10'', es_border = js ''border-chart-3/30'',
         es_icon = js ''text-chart-3'', es_badge = js ''bg-chart-3/20 text-chart-3''\<rparr>)"

definition getIcon :: "severity \<Rightarrow> tag" where
  "getIcon severity = (if severity = HIGH then Lib ''Zap'' else if severity = MEDIUM then Lib ''TrendingUp'' else Lib ''Activity'')"

definition severity_text :: "severity \<Rightarrow> jstr" where
  "severity_text s = (case s of HIGH \<Rightarrow> js ''HIGH'' | MEDIUM \<Rightarrow> js ''MEDIUM'' | LOW \<Rightarrow> js ''LOW'')"

definition getMessage :: "alarm_entry \<Rightarrow> jstr" where
  "getMessage alarm = (case al_severity alarm of
       HIGH \<Rightarrow> [44053, 54620, 32, 51060, 49345, 32, 49888, 54840, 32, 8212, 32, 90, 45, 83, 99, 111, 114, 101, 58, 32]
         @ to_fixed 2 (al_zscore alarm)
         @ [44, 32, 44032, 44201, 48320, 46041, 58, 32]
         @ (if 0 < al_price_change_pct alarm then js ''+'' else [])
         @ to_fixed 2 (al_price_change_pct alarm)
         @ (js ''%'')
     | MEDIUM \<Rightarrow> [44144, 47000, 47049, 43, 44032, 44201, 32, 51060, 49345, 32, 8212, 32, 90, 45, 83, 99, 111, 114, 101, 58, 32]
         @ to_fixed 2 (al_zscore alarm)
         @ [44, 32, 44032, 44201, 48320, 46041, 58, 32]
         @ (if 0 < al_price_change_pct alarm then js ''+'' else [])
         @ to_fixed 2 (al_price_change_pct alarm)
         @ (js ''%'')
     | LOW \<Rightarrow> [44144, 47000, 47049, 32, 51060, 49345, 32, 44048, 51648, 32, 8212, 32, 90, 45, 83, 99, 111, 114, 101, 58, 32]
         @ to_fixed 2 (al_zscore alarm))"

definition AlarmLog :: "intl \<Rightarrow> 'a ui \<Rightarrow> alarm_entry list \<Rightarrow> 'a node list" where
  "AlarmLog I L alarms =
    (host ''div'' [attr ''className'' (cs ''flex h-full flex-col'')]
       [host ''div''
          [attr ''className'' (cs ''flex items-center justify-between border-b border-border px-4 py-2'')]
          [host ''div'' [attr ''className'' (cs ''flex items-center gap-2'')]
             [lib ''AlertTriangle'' [attr ''className'' (cs ''h-4 w-4 text-accent'')] [],
              host ''h3'' [attr ''className'' (cs ''text-sm font-semibold text-foreground'')]
                [[Text [49892, 49884, 44036, 32, 50508, 46988, 32, 47196, 44536]]]],
           host ''span'' [attr ''className'' (cs ''text-xs text-muted-foreground'')]
             [shown (nat_str (length alarms)),
              [Text [44148, 51032, 32, 50508, 46988]]]],
        host ''div''
          [attr ''ref'' PUndef,
           attr ''className'' (cs ''flex-1 overflow-y-auto font-mono text-xs'')]
          [if alarms = [] then host ''div''
             [attr ''className'' (cs ''flex h-full items-center justify-center text-muted-foreground text-xs'')]
             [[Text [51060, 49345, 32, 49888, 54840, 32, 45824, 44592, 32, 51473, 46, 46, 46]]] else
             concat (map (\<lambda>(index, alarm). host ''div''
                 [attr ''key'' (PStr (al_id alarm)),
                  attr ''className'' (PStr (ui_cn L
                        [cs
                           ''flex items-start gap-3 border-b border-border/30 px-4 py-2.5 transition-colors hover:bg-secondary/30'',
                         js_and (PBool (index = 0)) (cs ''animate-in fade-in slide-in-from-top-2 duration-300'')]))]
                 [host ''div''
                    [attr ''className'' (PStr (ui_cn L
                           [cs ''mt-0.5 rounded p-1'',
                            PStr (es_bg (severityConfig (al_severity alarm))),
                            cs ''border'',
                            PStr (es_border (severityConfig (al_severity alarm)))]))]
                    [elem (getIcon (al_severity alarm))
                       [attr ''className'' (PStr (ui_cn L [cs ''h-3 w-3'', PStr (es_icon (severityConfig (al_severity alarm)))]))]
                       []],
                  host ''div'' [attr ''className'' (cs ''min-w-0 flex-1'')]
                    [host ''div'' [attr ''className'' (cs ''flex items-center gap-2'')]
                       [host ''span'' [attr ''className'' (cs ''text-muted-foreground'')]
                          [shown (in_time I (al_timestamp alarm))],
                        host ''span'' [attr ''className'' (cs ''font-semibold text-foreground'')]
                          [tx ''['',
                           shown (al_ticker alarm),
                           tx '']''],
                        host ''span'' [attr ''className'' (cs ''text-muted-foreground'')]
                          [[Text [8361]],
                           shown (in_number I None (Some (al_current_price alarm)))]],
                     host ''p'' [attr ''className'' (cs ''mt-0.5 text-foreground/80'')]
                       [shown (getMessage alarm)]],
                  host ''span''
                    [attr ''className'' (PStr (ui_cn L
                           [cs ''flex-shrink-0 rounded px-1.5 py-0.5 text-[10px] font-medium'',
                            PStr (es_badge (severityConfig (al_severity alarm)))]))]
                    [shown (severity_text (al_severity alarm))]]) (indexed alarms))]])"

end
