(* ===== verification/AiSignalLogView.thy ===== *)
theory AiSignalLogView imports UiBase Formats StockTypes begin

section \<open>The AI signal log (components/dashboard/ai-signal-log.tsx)\<close>

text \<open>
  What a signal shows; probabilities are exact numbers between 0 and 1.
\<close>

definition directionConfig :: "direction \<Rightarrow> entry_style" where
  "directionConfig x = (case x of
       BUY_READY \<Rightarrow> \<lparr>es_bg = js ''bg-chart-1/10'', es_border = js ''border-chart-1/30'',
         es_icon = js ''text-chart-1'', es_badge = js ''bg-chart-1/20 text-chart-1''\<rparr>
     | SELL_READY \<Rightarrow> \<lparr>es_bg = js ''bg-chart-2/10'', es_border = js ''border-chart-2/30'',
         es_icon = js ''text-chart-2'', es_badge = js ''bg-chart-2/20 text-chart-2''\<rparr>
     | NEUTRAL \<Rightarrow> \<lparr>es_bg = js ''bg-muted/50'', es_border = js ''border-border'',
         es_icon = js ''text-muted-foreground'', es_badge = js ''bg-muted text-muted-foreground''\<rparr>)"

definition direction_label :: "direction \<Rightarrow> jstr" where
  "direction_label d = (case d of BUY_READY \<Rightarrow> [47588, 49688, 32, 49888, 54840] | SELL_READY \<Rightarrow> [47588, 46020, 32, 49888, 54840] | NEUTRAL \<Rightarrow> [51473, 47549])"

definition getIcon :: "direction \<Rightarrow> tag" where
  "getIcon direction = (if direction = BUY_READY then Lib ''TrendingUp'' else if direction = SELL_READY then Lib ''TrendingDown''
     else Lib ''Minus'')"

definition AiSignalLog :: "intl \<Rightarrow> 'a ui \<Rightarrow> ai_signal_entry list \<Rightarrow> 'a node list" where
  "AiSignalLog I L signals =
    (host ''div'' [attr ''className'' (cs ''flex h-full flex-col'')]
       [host ''div''
          [attr ''className'' (cs ''flex items-center justify-between border-b border-border px-4 py-2'')]
          [host ''div'' [attr ''className'' (cs ''flex items-center gap-2'')]
             [lib ''Sparkles'' [attr ''className'' (cs ''h-4 w-4 text-accent'')] [],
              host ''h3'' [attr ''className'' (cs ''text-sm font-semibold text-foreground'')]
                [[Text [65, 73, 32, 49884, 44536, 45328]]]],
           host ''span'' [attr ''className'' (cs ''text-xs text-muted-foreground'')]
             [shown (nat_str (length signals)),
              [Text [44148]]]],
        host ''div''
          [attr ''ref'' PUndef,
           attr ''className'' (cs ''flex-1 overflow-y-auto font-mono text-xs'')]
          [if signals = [] then host ''div''
             [attr ''className'' (cs ''flex h-full items-center justify-center text-muted-foreground text-xs'')]
             [[Text [65, 73, 32, 49884, 44536, 45328, 32, 45824, 44592, 32, 51473, 46, 46, 46]]] else
             concat (map (\<lambda>(index, signal). host ''div''
                 [attr ''key'' (PStr (ai_id signal)),
                  attr ''className'' (PStr (ui_cn L
                        [cs
                           ''flex items-start gap-3 border-b border-border/30 px-4 py-2.5 transition-colors hover:bg-secondary/30'',
                         js_and (PBool (index = 0)) (cs ''animate-in fade-in slide-in-from-top-2 duration-300'')]))]
                 [host ''div''
                    [attr ''className'' (PStr (ui_cn L
                           [cs ''mt-0.5 rounded p-1'',
                            PStr (es_bg (directionConfig (ai_direction signal))),
                            cs ''border'',
                            PStr (es_border (directionConfig (ai_direction signal)))]))]
                    [elem (getIcon (ai_direction signal))
                       [attr ''className'' (PStr (ui_cn L
                              [cs ''h-3 w-3'',
                               PStr (es_icon (directionConfig (ai_direction signal)))]))] []],
                  host ''div'' [attr ''className'' (cs ''min-w-0 flex-1'')]
                    [host ''div'' [attr ''className'' (cs ''flex items-center gap-2'')]
                       [host ''span'' [attr ''className'' (cs ''text-muted-foreground'')]
                          [shown (in_time I (ai_timestamp signal))],
                        host ''span'' [attr ''className'' (cs ''font-semibold text-foreground'')]
                          [tx ''['',
                           shown (ai_ticker signal),
                           tx '']''],
                        host ''span'' [attr ''className'' (cs ''text-muted-foreground'')]
                          [[Text [8361]],
                           shown (in_number I None (Some (ai_close signal)))]],
                     host ''p'' [attr ''className'' (cs ''mt-0.5 text-foreground/80'')]
                       [shown (direction_label (ai_direction signal)),
                        [Text [32, 8212, 32, 49345, 49849, 32]],
                        shown (to_fixed 1 (ai_bullProbability signal * 100)),
                        [Text [37, 32, 47, 32, 54616, 46973, 32]],
                        shown (to_fixed 1 (ai_bearProbability signal * 100)),
                        tx ''%'']],
                  host ''span''
                    [attr ''className'' (PStr (ui_cn L
                           [cs ''flex-shrink-0 rounded px-1.5 py-0.5 text-[10px] font-medium'',
                            PStr (es_badge (directionConfig (ai_direction signal)))]))]
                    [shown (to_fixed 0 (ai_bullProbability signal * 100)),
                     tx ''%'']]) (indexed signals))]])"

end
