(* ===== verification/DashboardView.thy ===== *)
theory DashboardView imports UiMenu UiLayout StockListView AlarmLogView AiSignalLogView Dashboard begin

section \<open>The dashboard page as it is shown (app/page.tsx)\<close>

text \<open>
  The markup of the page over the state of \<open>Dashboard\<close>. A handler yields the state transformers of the
  operations it calls. The chart has a state of its own: what it shows for a selection is a parameter.
\<close>

text \<open>\<open>router.push("/settings/profile")\<close>\<close>

definition push_profile :: "dash \<Rightarrow> dash" where
  "push_profile s = s\<lparr>browser := navigate (js ''/settings/profile'') (browser s)\<rparr>"

definition result_button :: "stock \<Rightarrow> (dash \<Rightarrow> dash) node list" where
  "result_button result =
    (host ''button''
       [attr ''key'' (PStr (s_ticker result)),
        attr ''className'' (cs
            ''flex w-full flex-col items-start rounded-sm px-3 py-2 text-sm hover:bg-accent hover:text-accent-foreground''),
        attr ''onClick'' (PFun False (\<lambda>_. [handle_subscribe (Some (s_ticker result))]))]
       [host ''span'' [attr ''className'' (cs ''font-medium'')] [shown (s_name result)],
        host ''span'' [attr ''className'' (cs ''text-xs text-muted-foreground'')]
          [shown (s_ticker result)]])"

definition DashboardPage :: "intl \<Rightarrow> (dash \<Rightarrow> dash) ui \<Rightarrow> (stock option \<Rightarrow> (dash \<Rightarrow> dash) node list) \<Rightarrow> dash \<Rightarrow> (dash \<Rightarrow> dash) node list" where
  "DashboardPage I L chart1 s =
    (if loading s then
      host ''div''
        [attr ''className'' (cs ''flex h-screen items-center justify-center bg-background text-foreground'')]
        [host ''div'' [attr ''className'' (cs ''flex flex-col items-center gap-4'')]
           [lib ''Activity'' [attr ''className'' (cs ''h-8 w-8 animate-pulse text-primary'')] [],
            host ''p'' [attr ''className'' (cs ''text-sm font-medium'')]
              [
                 [Text
                    [51064, 51613, 32, 51221, 48372, 47484, 32, 54869, 51064, 32, 51473, 51077, 45768,
                     45796, 46, 46, 46]]]]]
 else
     host ''div'' [attr ''className'' (cs ''flex h-screen flex-col bg-background'')]
       [host ''header''
          [attr ''className'' (cs ''flex h-14 items-center justify-between border-b border-border px-6'')]
          [host ''div'' [attr ''className'' (cs ''flex items-center gap-3'')]
             [host ''div''
                [attr ''className'' (cs ''flex h-8 w-8 items-center justify-center rounded-lg bg-primary'')]
                [lib ''Activity'' [attr ''className'' (cs ''h-4 w-4 text-primary-foreground'')] []],
              host ''div'' []
                [host ''h1''
                   [attr ''className'' (cs ''text-sm font-bold tracking-tight text-foreground'')]
                   [tx ''Stock Anomaly Detection''],
                 host ''p'' [attr ''className'' (cs ''text-[10px] text-muted-foreground'')]
                   [tx ''Real-time RRCF Monitoring System'']]],
           host ''div'' [attr ''className'' (cs ''flex items-center gap-4'')]
             [host ''div'' [attr ''className'' (cs ''relative hidden md:flex items-center gap-2'')]
                [host ''div'' [attr ''className'' (cs ''relative'')]
                   [lib ''Search''
                      [attr ''className'' (cs ''absolute left-3 top-1/2 h-4 w-4 -translate-y-1/2 text-muted-foreground'')]
                      [],
                    host ''input''
                      [attr ''type'' (cs ''text''),
                       attr ''placeholder'' (PStr [51333, 47785, 47749, 32, 46608, 45716, 32, 53076, 46300, 32, 44160, 49353]),
                       attr ''value'' (PStr (newTicker s)),
                       attr ''onChange'' (PFun False (\<lambda>v. [set_new_ticker v])),
                       attr ''onFocus'' (PFun False (\<lambda>_. [focus_search])),
                       attr ''className'' (cs
                           ''h-9 w-64 rounded-lg border border-border bg-secondary/50 pl-9 pr-4 text-sm text-foreground placeholder:text-muted-foreground focus:border-primary focus:outline-none focus:ring-1 focus:ring-primary'')]
                      [],
                    if showSearchResults s \<and> searchResults s \<noteq> [] then host ''div''
                      [attr ''className'' (cs
                           ''absolute top-full left-0 z-50 mt-1 w-full rounded-md border border-border bg-popover p-1 shadow-md max-h-64 overflow-y-auto'')]
                      [concat (map (result_button) (searchResults s))] else []]],
              host ''div''
                [attr ''className'' (cs ''hidden items-center gap-2 rounded-lg bg-chart-1/10 px-3 py-1.5 sm:flex'')]
                [host ''span'' [attr ''className'' (cs ''relative flex h-2 w-2'')]
                   [host ''span''
                      [attr ''className'' (cs
                           ''absolute inline-flex h-full w-full animate-ping rounded-full bg-chart-1 opacity-75'')]
                      [],
                    host ''span''
                      [attr ''className'' (cs ''relative inline-flex h-2 w-2 rounded-full bg-chart-1'')]
                      []],
                 host ''span'' [attr ''className'' (cs ''text-xs font-medium text-chart-1'')]
                   [[Text [49884, 49828, 53596, 32, 51221, 49345]]]],
              host ''div'' [attr ''className'' (cs ''flex items-center gap-2'')]
                [Button L (attrs
                     [attr ''variant'' (cs ''ghost''),
                      attr ''size'' (cs ''icon''),
                      attr ''className'' (cs ''text-muted-foreground'')]
                     [lib ''Bell'' [attr ''className'' (cs ''h-4 w-4'')] []]),
                 DropdownMenu L (attrs []
                     [DropdownMenuTrigger L (attrs [attr ''asChild'' (PBool True)]
                          [Button L (attrs
                               [attr ''variant'' (cs ''ghost''),
                                attr ''size'' (cs ''icon''),
                                attr ''className'' (cs ''text-muted-foreground'')]
                               [lib ''Settings'' [attr ''className'' (cs ''h-4 w-4'')] []])]),
                      DropdownMenuContent L (attrs [attr ''align'' (cs ''end''), attr ''className'' (cs ''w-56'')]
                          [DropdownMenuLabel L (attrs [] [[Text [45236, 32, 49444, 51221]]]),
                           DropdownMenuSeparator L (attrs [] []),
                           DropdownMenuItem L (attrs [attr ''onClick'' (PFun False (\<lambda>_. [push_profile]))]
                               [lib ''User'' [attr ''className'' (cs ''mr-2 h-4 w-4'')] [],
                                host ''span'' [] [[Text [54532, 47196, 54596, 32, 49444, 51221]]]]),
                           DropdownMenuItem L (attrs
                               [attr ''onClick'' (PFun False (\<lambda>_. [logout_click])),
                                attr ''className'' (cs ''text-destructive focus:text-destructive'')]
                               [lib ''LogOut'' [attr ''className'' (cs ''mr-2 h-4 w-4'')] [],
                                host ''span'' [] [[Text [47196, 44536, 50500, 50883]]]])])]),
                 host ''div''
                   [attr ''className'' (cs ''h-8 w-8 rounded-full bg-secondary border border-border'')] []]]],
        host ''main'' [attr ''className'' (cs ''flex-1 overflow-hidden p-6'')]
          [host ''div'' [attr ''className'' (cs ''grid h-full grid-cols-12 gap-6'')]
             [host ''div''
                [attr ''className'' (cs
                     ''col-span-12 lg:col-span-3 overflow-hidden rounded-xl border border-border bg-card shadow-sm'')]
                [StockList I L (stocks s) (selectedStock s) (\<lambda>st. [select_stock st]) (\<lambda>t. [handle_unsubscribe t])],
              host ''div''
                [attr ''className'' (cs
                     ''col-span-12 lg:col-span-6 self-start h-[calc(100%-10rem)] overflow-hidden rounded-xl border border-border bg-card shadow-sm'')]
                [chart1 (selectedStock s)],
              host ''div''
                [attr ''className'' (cs
                     ''col-span-12 lg:col-span-3 overflow-hidden rounded-xl border border-border bg-card shadow-sm'')]
                [Tabs L (attrs [attr ''defaultValue'' (cs ''alarms''), attr ''className'' (cs ''h-full gap-0'')]
                     [TabsList L (attrs [attr ''className'' (cs ''mx-4 mt-2 w-fit'')]
                          [TabsTrigger L (attrs [attr ''value'' (cs ''alarms'')]
                               [[Text [49892, 49884, 44036, 32, 50508, 46988, 32, 47196, 44536]]]),
                           TabsTrigger L (attrs [attr ''value'' (cs ''ai-signals'')]
                               [[Text [65, 73, 32, 49884, 44536, 45328]]])]),
                      TabsContent L (attrs
                          [attr ''value'' (cs ''alarms''),
                           attr ''className'' (cs ''h-[calc(100%-2.75rem)]'')] [AlarmLog I L (alarms s)]),
                      TabsContent L (attrs
                          [attr ''value'' (cs ''ai-signals''),
                           attr ''className'' (cs ''h-[calc(100%-2.75rem)]'')]
                          [AiSignalLog I L (aiSignals s)])])]]]])"

subsection \<open>Where a click on the page goes\<close>

declare js_Cons [simp del] js_Nil [simp del]

abbreviation box :: "jstr \<Rightarrow> 'a node list list \<Rightarrow> 'a node" where
  "box c kids \<equiv> Elem (Host ''div'') (attrs [attr ''className'' (PStr c)] kids)"

text \<open>The page in outline: the search box and its results in the header, the list in the first column.\<close>

lemma page_shape:
  assumes "\<not> loading s"
  obtains a h m g c t r w d z x logo bell menu col2 col3 icon where
    "DashboardPage I L ch s = [box a
      [[Elem (Host ''header'') (attrs [attr ''className'' h] [[logo],
         [box t [[box r [[box w [[icon],
             [Elem (Host ''input'') (attrs [attr ''type'' (cs ''text''), attr ''placeholder'' z, attr ''value'' (PStr (newTicker s)),
                attr ''onChange'' (PFun False (\<lambda>v. [set_new_ticker v])),
                attr ''onFocus'' (PFun False (\<lambda>_. [focus_search])), attr ''className'' x] [])],
             if showSearchResults s \<and> searchResults s \<noteq> []
             then [box d [concat (map result_button (searchResults s))]] else []]]]], bell, menu]]])],
       [Elem (Host ''main'') (attrs [attr ''className'' m] [[box g
         [[box c [StockList I L (stocks s) (selectedStock s) (\<lambda>st. [select_stock st]) (\<lambda>t. [handle_unsubscribe t])]],
          col2, col3]]])]]]"
  by (rule that, unfold DashboardPage_def if_not_P [OF assms] elem_def, rule refl)

lemma result_button_shape:
  obtains b where "result_button st = [b]" "handler ''onClick'' b = Some (False, \<lambda>_. [handle_subscribe (Some (s_ticker st))])"
    "\<not> disabled b" "silent (kids_of b)"
  by (rule that [of "hd (result_button st)"]) (simp_all add: result_button_def elem_def click_eval)

text \<open>The handlers of a click or a change run in order.\<close>

definition perform :: "(dash \<Rightarrow> dash) list \<Rightarrow> dash \<Rightarrow> dash" where
  "perform fs s = fold (\<lambda>f. f) fs s"

lemma row_clicked:
  assumes "\<not> loading s" and "i < length (stocks s)"
  shows "click (DashboardPage I L ch s) ([0, 1, 0, 0, 0, 1, i] @ p) =
    [if p \<noteq> [] \<and> hd p = (if s_status (stocks s ! i) = js ''anomaly'' then 3 else 2)
     then handle_unsubscribe (s_ticker (stocks s ! i)) else select_stock (stocks s ! i)]"
proof -
  obtain root hdr main grid col c2 c3 where page: "DashboardPage I L ch s = [root]" "kids_of root = [hdr, main]"
      "kids_of main = [grid]" "kids_of grid = col # c2 @ c3"
      "kids_of col = StockList I L (stocks s) (selectedStock s) (\<lambda>st. [select_stock st]) (\<lambda>t. [handle_unsubscribe t])"
    and quiet: "list_all (\<lambda>n. handler ''onClick'' n = None \<and> \<not> disabled n) [root, main, grid, col]"
    using assms(1) by (rule page_shape [of s I L ch]) (auto simp: click_eval intro!: that)
  have "descend (DashboardPage I L ch s) ([0, 1, 0, 0, 0, 1, i] @ p) = [root, main, grid, col] @ descend (kids_of col) ([0, 1, i] @ p)"
    by (simp add: page del: page(5))
  from StockList_clicks [OF assms(2) this [unfolded page(5)] quiet] show ?thesis by simp
qed

lemma search_box:
  assumes "\<not> loading s"
  obtains root hdr right srch wrap icon input res where
    "list_all (\<lambda>n. handler ''onClick'' n = None \<and> \<not> disabled n) [root, hdr, right, srch, wrap]"
    "\<And>p. descend (DashboardPage I L ch s) ([0, 0, 1, 0, 0] @ p) = [root, hdr, right, srch, wrap] @ descend (icon # input # res) p"
    "\<And>v. fire ''onChange'' v input = [set_new_ticker v]" "\<And>v. fire ''onFocus'' v input = [focus_search]"
    "node_prop ''value'' input = PStr (newTicker s)"
    "showSearchResults s \<Longrightarrow> searchResults s \<noteq> [] \<Longrightarrow>
       \<exists>d. res = [d] \<and> handler ''onClick'' d = None \<and> \<not> disabled d \<and> kids_of d = concat (map result_button (searchResults s))"
  using assms by (rule page_shape [of s I L ch]) (auto simp: click_eval fire_def intro!: that)

lemma result_clicked:
  assumes "\<not> loading s" and "showSearchResults s" and i: "i < length (searchResults s)"
  shows "click (DashboardPage I L ch s) ([0, 0, 1, 0, 0, 2, i] @ p) = [handle_subscribe (Some (s_ticker (searchResults s ! i)))]"
proof -
  obtain root hdr right srch wrap icon input res where
    quiet: "list_all (\<lambda>n. handler ''onClick'' n = None \<and> \<not> disabled n) [root, hdr, right, srch, wrap]"
    and d: "\<And>p. descend (DashboardPage I L ch s) ([0, 0, 1, 0, 0] @ p) = [root, hdr, right, srch, wrap] @ descend (icon # input # res) p"
    and res: "showSearchResults s \<Longrightarrow> searchResults s \<noteq> [] \<Longrightarrow>
       \<exists>d. res = [d] \<and> handler ''onClick'' d = None \<and> \<not> disabled d \<and> kids_of d = concat (map result_button (searchResults s))"
    by (rule search_box [OF assms(1), of I L ch]) (rule that, assumption+)
  have f: "result_button st = [hd (result_button st)]" for st by (simp only: result_button_def elem_def list.sel(1))
  have "concat (map result_button ss) = map (\<lambda>st. hd (result_button st)) ss" for ss
    by (induction ss) (simp, subst list.map, subst concat.simps, subst f, simp)
  moreover obtain b where b: "result_button (searchResults s ! i) = [b]"
      "handler ''onClick'' b = Some (False, \<lambda>_. [handle_subscribe (Some (s_ticker (searchResults s ! i)))])"
      "\<not> disabled b" "silent (kids_of b)" by (rule result_button_shape)
  moreover obtain x where x: "res = [x]" "handler ''onClick'' x = None" "\<not> disabled x"
      "kids_of x = concat (map result_button (searchResults s))" using res assms(2) i by fastforce
  ultimately have "descend (DashboardPage I L ch s) ([0, 0, 1, 0, 0, 2, i] @ p)
      = [root, hdr, right, srch, wrap, x, b] @ descend (kids_of b) p"
    using d [of "[2, i] @ p"] i by simp
  then have "rev (descend (DashboardPage I L ch s) ([0, 0, 1, 0, 0, 2, i] @ p))
      = rev (descend (kids_of b) p) @ [b, x, wrap, srch, right, hdr, root]" by simp
  then show ?thesis
    using silent_bubble [OF b(4)] silent_enabled [OF b(4)] b(2,3) x(2,3) quiet
    by (simp add: click_def Let_def)
qed

text \<open>C6. The page and its handlers are one machine: what the rendered page does when a shown row, its cross, a
  shown search result or the search box is used is the event of \<open>handle\<close> for it, in every state in which the
  page is shown. Rows and results act on the stock they display, wherever inside they are hit, and the
  search box shows the text it changes.\<close>

theorem page_acts_as_events:
  assumes "\<not> loading s"
  shows "(i < length (stocks s) \<longrightarrow>
      perform (click (DashboardPage I L ch s) ([0, 1, 0, 0, 0, 1, i] @ p)) s =
        handle (if p \<noteq> [] \<and> hd p = (if s_status (stocks s ! i) = js ''anomaly'' then 3 else 2)
                then RemoveClicked (stocks s ! i) else RowClicked (stocks s ! i)) s)
    \<and> (showSearchResults s \<and> j < length (searchResults s) \<longrightarrow>
      perform (click (DashboardPage I L ch s) ([0, 0, 1, 0, 0, 2, j] @ q)) s = handle (ResultClicked (searchResults s ! j)) s)
    \<and> (let input = last (descend (DashboardPage I L ch s) [0, 0, 1, 0, 0, 1]) in
        perform (fire ''onChange'' v input) s = handle (Typed v) s \<and> perform (fire ''onFocus'' [] input) s = handle Focused s
        \<and> node_prop ''value'' input = PStr (newTicker s))"
proof -
  have "perform (click (DashboardPage I L ch s) ([0, 1, 0, 0, 0, 1, i] @ p)) s =
        handle (if p \<noteq> [] \<and> hd p = (if s_status (stocks s ! i) = js ''anomaly'' then 3 else 2)
                then RemoveClicked (stocks s ! i) else RowClicked (stocks s ! i)) s" if "i < length (stocks s)"
    using row_clicked [OF assms that] that by (simp add: perform_def)
  moreover have "perform (click (DashboardPage I L ch s) ([0, 0, 1, 0, 0, 2, j] @ q)) s = handle (ResultClicked (searchResults s ! j)) s"
    if "showSearchResults s" "j < length (searchResults s)"
    using result_clicked [OF assms that] that by (simp add: perform_def)
  moreover have "perform (fire ''onChange'' v (last (descend (DashboardPage I L ch s) [0, 0, 1, 0, 0, 1]))) s = handle (Typed v) s
      \<and> perform (fire ''onFocus'' [] (last (descend (DashboardPage I L ch s) [0, 0, 1, 0, 0, 1]))) s = handle Focused s
      \<and> node_prop ''value'' (last (descend (DashboardPage I L ch s) [0, 0, 1, 0, 0, 1])) = PStr (newTicker s)"
  proof -
    obtain root hdr right srch wrap icon input res where
      d: "\<And>p. descend (DashboardPage I L ch s) ([0, 0, 1, 0, 0] @ p) = [root, hdr, right, srch, wrap] @ descend (icon # input # res) p"
      and f: "\<And>v. fire ''onChange'' v input = [set_new_ticker v]" "\<And>v. fire ''onFocus'' v input = [focus_search]"
        "node_prop ''value'' input = PStr (newTicker s)"
      by (rule search_box [OF assms, of I L ch]) (rule that, assumption+)
    then show ?thesis using d [of "[1]"] by (simp add: perform_def)
  qed
  ultimately show ?thesis by (simp add: Let_def)
qed

theorem page_acts_as_events_witness:
  "perform (click (DashboardPage plain_intl plain_ui (\<lambda>st. []) demo_dash) [0, 1, 0, 0, 0, 1, 1, 2, 0]) demo_dash
    = handle (RemoveClicked (demo_row\<lparr>s_ticker := js ''B''\<rparr>)) demo_dash"
proof -
  have "\<not> loading demo_dash" "1 < length (stocks demo_dash)" "stocks demo_dash ! 1 = demo_row\<lparr>s_ticker := js ''B''\<rparr>"
    "s_status (demo_row\<lparr>s_ticker := js ''B''\<rparr>) \<noteq> js ''anomaly''"
    by (simp_all add: demo_dash_def initial_dash_def demo_row_def)
  then show ?thesis using page_acts_as_events [of demo_dash 1 plain_intl plain_ui "\<lambda>st. []" "[2, 0]"] by (simp del: handle.simps)
qed

end
