(* ===== verification/AuthViews.thy ===== *)
theory AuthViews imports UiBase Formats Session begin

section \<open>The pages for login, sign-up and the profile as they are shown (app/auth, app/settings/profile)\<close>

text \<open>
  The markup of the three pages over the state of \<open>Session\<close>. A handler yields transformers of the page's
  state and the browser; a submit handler is the part before its request. A change handler of the sign-up
  form reads the id of the input it is attached to.
\<close>

definition LoginPage :: "(login_page \<times> browser \<Rightarrow> login_page \<times> browser) ui \<Rightarrow> login_page \<Rightarrow> (login_page \<times> browser \<Rightarrow> login_page \<times> browser) node list" where
  "LoginPage L p =
    (host ''div''
       [attr ''className'' (cs ''flex min-h-screen items-center justify-center bg-background px-4 py-12'')]
       [host ''div'' [attr ''className'' (cs ''w-full max-w-[400px] space-y-6'')]
          [host ''div'' [attr ''className'' (cs ''flex flex-col items-center gap-2 text-center'')]
             [host ''div''
                [attr ''className'' (cs ''flex h-12 w-12 items-center justify-center rounded-xl bg-primary'')]
                [lib ''Activity'' [attr ''className'' (cs ''h-6 w-6 text-primary-foreground'')] []],
              host ''h1'' [attr ''className'' (cs ''text-2xl font-bold tracking-tight text-foreground'')]
                [tx ''Stock Anomaly Detection''],
              host ''p'' [attr ''className'' (cs ''text-sm text-muted-foreground'')]
                [
                   [Text
                      [44228, 51221, 50640, 32, 47196, 44536, 51064, 54616, 50668, 32, 49892, 49884,
                       44036, 32, 47784, 45768, 53552, 47553, 51012, 32, 49884, 51089, 54616, 49464,
                       50836, 46]]]],
           Card L (attrs
               [attr ''className'' (cs ''border-border/50 bg-secondary/20 shadow-xl backdrop-blur-sm'')]
               [CardHeader L (attrs []
                    [CardTitle L (attrs [attr ''className'' (cs ''text-xl'')] [[Text [47196, 44536, 51064]]]),
                     CardDescription L (attrs []
                         [
                            [Text
                               [51060, 47700, 51068, 44284, 32, 48708, 48128, 48264, 54840, 47484, 32,
                                51077, 47141, 54644, 51452, 49464, 50836, 46]]])]),
                host ''form'' [attr ''onSubmit'' (PFun False (\<lambda>_. [login_submit]))]
                  [CardContent L (attrs [attr ''className'' (cs ''space-y-4'')]
                       [host ''div'' [attr ''className'' (cs ''space-y-2'')]
                          [Label L (attrs [attr ''htmlFor'' (cs ''email'')] [[Text [51060, 47700, 51068]]]),
                           host ''div'' [attr ''className'' (cs ''relative'')]
                             [lib ''Mail''
                                [attr ''className'' (cs
                                     ''absolute left-3 top-1/2 h-4 w-4 -translate-y-1/2 text-muted-foreground'')]
                                [],
                              Input L (attrs
                                  [attr ''id'' (cs ''email''),
                                   attr ''type'' (cs ''email''),
                                   attr ''placeholder'' (cs ''name@example.com''),
                                   attr ''value'' (PStr (lp_email p)),
                                   attr ''onChange'' (PFun False (\<lambda>v. [\<lambda>(p, b). (p\<lparr>lp_email := v\<rparr>, b)])),
                                   attr ''className'' (cs ''pl-9''),
                                   attr ''required'' (PBool True)] [])]],
                        host ''div'' [attr ''className'' (cs ''space-y-2'')]
                          [Label L (attrs [attr ''htmlFor'' (cs ''password'')]
                               [[Text [48708, 48128, 48264, 54840]]]),
                           host ''div'' [attr ''className'' (cs ''relative'')]
                             [lib ''Lock''
                                [attr ''className'' (cs
                                     ''absolute left-3 top-1/2 h-4 w-4 -translate-y-1/2 text-muted-foreground'')]
                                [],
                              Input L (attrs
                                  [attr ''id'' (cs ''password''),
                                   attr ''type'' (cs ''password''),
                                   attr ''value'' (PStr (lp_password p)),
                                   attr ''onChange'' (PFun False (\<lambda>v.
                                         [\<lambda>(p, b). (p\<lparr>lp_password := v\<rparr>, b)])),
                                   attr ''className'' (cs ''pl-9''),
                                   attr ''required'' (PBool True)] [])]]]),
                   CardFooter L (attrs [attr ''className'' (cs ''flex flex-col gap-4'')]
                       [Button L (attrs
                            [attr ''type'' (cs ''submit''),
                             attr ''className'' (cs ''w-full''),
                             attr ''disabled'' (PBool (lp_loading p))]
                            [if lp_loading p then [Text [47196, 44536, 51064, 32, 51473, 46, 46, 46]] else
                               [Text [47196, 44536, 51064]],
                             if \<not> (lp_loading p) then lib ''ArrowRight''
                               [attr ''className'' (cs ''ml-2 h-4 w-4'')] [] else []]),
                        host ''div''
                          [attr ''className'' (cs ''text-center text-sm text-muted-foreground'')]
                          [[Text [44228, 51221, 51060, 32, 50630, 51004, 49888, 44032, 50836, 63]],
                           [Text (js '' '')],
                           lib ''Link''
                             [attr ''href'' (cs ''/auth/signup''),
                              attr ''className'' (cs ''font-medium text-primary hover:underline'')]
                             [[Text [54924, 50896, 44032, 51077]]]]])]])]])"

text \<open>\<open>formData.k\<close>\<close>

definition field :: "string \<Rightarrow> signup_page \<Rightarrow> 'a pval" where
  "field k p = (case map_of (sp_form p) (js k) of None \<Rightarrow> PUndef | Some v \<Rightarrow> PStr v)"

definition SignupPage :: "(signup_page \<times> browser \<Rightarrow> signup_page \<times> browser) ui \<Rightarrow> signup_page \<Rightarrow> (signup_page \<times> browser \<Rightarrow> signup_page \<times> browser) node list" where
  "SignupPage L p =
    (host ''div''
       [attr ''className'' (cs ''flex min-h-screen items-center justify-center bg-background px-4 py-12'')]
       [host ''div'' [attr ''className'' (cs ''w-full max-w-[500px] space-y-6'')]
          [host ''div'' [attr ''className'' (cs ''flex flex-col items-center gap-2 text-center'')]
             [host ''div''
                [attr ''className'' (cs
                     ''flex h-12 w-12 items-center justify-center rounded-xl bg-primary shadow-[0_0_20px_rgba(var(--primary),0.3)]'')]
                [lib ''Activity'' [attr ''className'' (cs ''h-6 w-6 text-primary-foreground'')] []],
              host ''h1'' [attr ''className'' (cs ''text-2xl font-bold tracking-tight text-foreground'')]
                [tx ''Stock Anomaly Detection''],
              host ''p'' [attr ''className'' (cs ''text-sm text-muted-foreground'')]
                [
                   [Text
                      [49892, 49884, 44036, 32, 51452, 49885, 32, 51060, 49345, 32, 53456, 51648, 47484,
                       32, 50948, 54620, 32, 54924, 50896, 44032, 51077, 51012, 32, 49884, 51089, 54616,
                       49464, 50836, 46]]]],
           Card L (attrs
               [attr ''className'' (cs ''border-border/50 bg-secondary/20 shadow-xl backdrop-blur-sm overflow-hidden'')]
               [CardHeader L (attrs []
                    [CardTitle L (attrs [attr ''className'' (cs ''text-xl'')] [[Text [54924, 50896, 44032, 51077]]]),
                     CardDescription L (attrs []
                         [
                            [Text
                               [49324, 50857, 51088, 32, 51221, 48372, 32, 48143, 32, 75, 73, 83, 32, 65,
                                80, 73, 32, 53412, 47484, 32, 46321, 47197, 54644, 51452, 49464, 50836,
                                46]]])]),
                host ''form'' [attr ''onSubmit'' (PFun False (\<lambda>_. [signup_submit]))]
                  [CardContent L (attrs [attr ''className'' (cs ''space-y-6'')]
                       [host ''div'' [attr ''className'' (cs ''space-y-4'')]
                          [host ''div'' [attr ''className'' (cs ''grid grid-cols-2 gap-4'')]
                             [host ''div'' [attr ''className'' (cs ''space-y-2'')]
                                [Label L (attrs [attr ''htmlFor'' (cs ''name'')] [[Text [51060, 47492]]]),
                                 host ''div'' [attr ''className'' (cs ''relative'')]
                                   [lib ''User''
                                      [attr ''className'' (cs
                                           ''absolute left-3 top-1/2 h-4 w-4 -translate-y-1/2 text-muted-foreground'')]
                                      [],
                                    Input L (attrs
                                        [attr ''id'' (cs ''name''),
                                         attr ''placeholder'' (PStr [54861, 44600, 46041]),
                                         attr ''value'' (field ''name'' p),
                                         attr ''onChange'' (PFun False (\<lambda>v.
                                               [\<lambda>(p, b). (handle_change (js ''name'') v p, b)])),
                                         attr ''className'' (cs ''pl-9''),
                                         attr ''required'' (PBool True)] [])]],
                              host ''div'' [attr ''className'' (cs ''space-y-2'')]
                                [Label L (attrs [attr ''htmlFor'' (cs ''phoneNumber'')]
                                     [[Text [51204, 54868, 48264, 54840]]]),
                                 host ''div'' [attr ''className'' (cs ''relative'')]
                                   [lib ''Phone''
                                      [attr ''className'' (cs
                                           ''absolute left-3 top-1/2 h-4 w-4 -translate-y-1/2 text-muted-foreground'')]
                                      [],
                                    Input L (attrs
                                        [attr ''id'' (cs ''phoneNumber''),
                                         attr ''placeholder'' (cs ''010-1234-5678''),
                                         attr ''value'' (field ''phoneNumber'' p),
                                         attr ''onChange'' (PFun False (\<lambda>v.
                                               [\<lambda>(p, b). (handle_change (js ''phoneNumber'') v p, b)])),
                                         attr ''className'' (cs ''pl-9'')] [])]]],
                           host ''div'' [attr ''className'' (cs ''space-y-2'')]
                             [Label L (attrs [attr ''htmlFor'' (cs ''email'')] [[Text [51060, 47700, 51068]]]),
                              host ''div'' [attr ''className'' (cs ''relative'')]
                                [lib ''Mail''
                                   [attr ''className'' (cs
                                        ''absolute left-3 top-1/2 h-4 w-4 -translate-y-1/2 text-muted-foreground'')]
                                   [],
                                 Input L (attrs
                                     [attr ''id'' (cs ''email''),
                                      attr ''type'' (cs ''email''),
                                      attr ''placeholder'' (cs ''name@example.com''),
                                      attr ''value'' (field ''email'' p),
                                      attr ''onChange'' (PFun False (\<lambda>v.
                                            [\<lambda>(p, b). (handle_change (js ''email'') v p, b)])),
                                      attr ''className'' (cs ''pl-9''),
                                      attr ''required'' (PBool True)] [])]],
                           host ''div'' [attr ''className'' (cs ''space-y-2'')]
                             [Label L (attrs [attr ''htmlFor'' (cs ''password'')]
                                  [[Text [48708, 48128, 48264, 54840]]]),
                              host ''div'' [attr ''className'' (cs ''relative'')]
                                [lib ''Lock''
                                   [attr ''className'' (cs
                                        ''absolute left-3 top-1/2 h-4 w-4 -translate-y-1/2 text-muted-foreground'')]
                                   [],
                                 Input L (attrs
                                     [attr ''id'' (cs ''password''),
                                      attr ''type'' (cs ''password''),
                                      attr ''value'' (field ''password'' p),
                                      attr ''onChange'' (PFun False (\<lambda>v.
                                            [\<lambda>(p, b). (handle_change (js ''password'') v p, b)])),
                                      attr ''className'' (cs ''pl-9''),
                                      attr ''required'' (PBool True)] [])]]],
                        host ''div'' [attr ''className'' (cs ''flex items-center gap-4'')]
                          [Separator L (attrs [attr ''className'' (cs ''flex-1'')] []),
                           host ''span''
                             [attr ''className'' (cs
                                  ''text-[10px] font-bold uppercase tracking-widest text-muted-foreground'')]
                             [tx ''KIS API Configuration''],
                           Separator L (attrs [attr ''className'' (cs ''flex-1'')] [])],
                        host ''div''
                          [attr ''className'' (cs ''space-y-4 bg-primary/5 p-4 rounded-lg border border-primary/10'')]
                          [host ''div'' [attr ''className'' (cs ''space-y-2'')]
                             [Label L (attrs [attr ''htmlFor'' (cs ''kisApiKey'')] [tx ''App Key'']),
                              host ''div'' [attr ''className'' (cs ''relative'')]
                                [lib ''Key''
                                   [attr ''className'' (cs
                                        ''absolute left-3 top-1/2 h-4 w-4 -translate-y-1/2 text-muted-foreground'')]
                                   [],
                                 Input L (attrs
                                     [attr ''id'' (cs ''kisApiKey''),
                                      attr ''placeholder'' (PStr
                                          [48156, 44553, 48155, 51008, 32, 65, 112, 112, 32, 75, 101, 121]),
                                      attr ''value'' (field ''kisApiKey'' p),
                                      attr ''onChange'' (PFun False (\<lambda>v.
                                            [\<lambda>(p, b). (handle_change (js ''kisApiKey'') v p, b)])),
                                      attr ''className'' (cs ''pl-9 bg-background/50'')] [])]],
                           host ''div'' [attr ''className'' (cs ''space-y-2'')]
                             [Label L (attrs [attr ''htmlFor'' (cs ''kisSecretKey'')] [tx ''Secret Key'']),
                              host ''div'' [attr ''className'' (cs ''relative'')]
                                [lib ''ShieldCheck''
                                   [attr ''className'' (cs
                                        ''absolute left-3 top-1/2 h-4 w-4 -translate-y-1/2 text-muted-foreground'')]
                                   [],
                                 Input L (attrs
                                     [attr ''id'' (cs ''kisSecretKey''),
                                      attr ''type'' (cs ''password''),
                                      attr ''placeholder'' (PStr
                                          [48156, 44553, 48155, 51008, 32, 83, 101, 99, 114, 101, 116, 32,
                                           75, 101, 121]),
                                      attr ''value'' (field ''kisSecretKey'' p),
                                      attr ''onChange'' (PFun False (\<lambda>v.
                                            [\<lambda>(p, b). (handle_change (js ''kisSecretKey'') v p, b)])),
                                      attr ''className'' (cs ''pl-9 bg-background/50'')] [])]]]]),
                   CardFooter L (attrs [attr ''className'' (cs ''flex flex-col gap-4 bg-secondary/30 p-6'')]
                       [Button L (attrs
                            [attr ''type'' (cs ''submit''),
                             attr ''className'' (cs ''w-full h-11''),
                             attr ''disabled'' (PBool (sp_loading p))]
                            [if sp_loading p then
                               [Text [44032, 51077, 32, 51652, 54665, 32, 51473, 46, 46, 46]] else
                               [Text [44032, 51077, 54616, 44592]],
                             if \<not> (sp_loading p) then lib ''ArrowRight''
                               [attr ''className'' (cs ''ml-2 h-4 w-4'')] [] else []]),
                        host ''div''
                          [attr ''className'' (cs ''text-center text-sm text-muted-foreground'')]
                          [
                             [Text
                                [51060, 48120, 32, 44228, 51221, 51060, 32, 51080, 51004, 49888, 44032,
                                 50836, 63]],
                           [Text (js '' '')],
                           lib ''Link''
                             [attr ''href'' (cs ''/auth/login''),
                              attr ''className'' (cs ''font-medium text-primary hover:underline'')]
                             [[Text [47196, 44536, 51064]]]]])]])]])"

text \<open>\<open>profile?.hasKisApiKey\<close>\<close>

definition has_key :: "profile_page \<Rightarrow> bool" where
  "has_key p = (case pp_profile p of None \<Rightarrow> False | Some u \<Rightarrow> up_hasKisApiKey u)"

definition ProfileSettingsPage :: "(profile_page \<times> browser \<Rightarrow> profile_page \<times> browser) ui \<Rightarrow> profile_page \<Rightarrow> (profile_page \<times> browser \<Rightarrow> profile_page \<times> browser) node list" where
  "ProfileSettingsPage L p =
    (if pp_loading p then
      host ''div'' [attr ''className'' (cs ''flex h-screen items-center justify-center bg-background'')]
        [lib ''Activity'' [attr ''className'' (cs ''h-6 w-6 animate-pulse text-primary'')] []]
 else
     host ''div'' [attr ''className'' (cs ''min-h-screen bg-background p-6'')]
       [host ''div'' [attr ''className'' (cs ''mx-auto max-w-2xl space-y-6'')]
          [host ''div'' [attr ''className'' (cs ''flex items-center gap-4'')]
             [Button L (attrs
                  [attr ''variant'' (cs ''ghost''),
                   attr ''size'' (cs ''icon''),
                   attr ''onClick'' (PFun False (\<lambda>_. [\<lambda>(p, b). (p, navigate (js ''/'') b)])),
                   attr ''className'' (cs ''text-muted-foreground'')]
                  [lib ''ArrowLeft'' [attr ''className'' (cs ''h-4 w-4'')] []]),
              host ''div'' []
                [host ''h1'' [attr ''className'' (cs ''text-xl font-bold text-foreground'')]
                   [[Text [54532, 47196, 54596, 32, 49444, 51221]]],
                 host ''p'' [attr ''className'' (cs ''text-sm text-muted-foreground'')]
                   [
                      [Text
                         [44228, 51221, 32, 51221, 48372, 32, 48143, 32, 75, 73, 83, 32, 65, 80, 73, 32,
                          53412, 47484, 32, 44288, 47532, 54633, 45768, 45796, 46]]]]],
           Card L (attrs [attr ''className'' (cs ''border-border bg-card'')]
               [CardHeader L (attrs []
                    [CardTitle L (attrs [attr ''className'' (cs ''flex items-center gap-2 text-base'')]
                         [lib ''User'' [attr ''className'' (cs ''h-4 w-4'')] [],
                          [Text [44228, 51221, 32, 51221, 48372]]])]),
                CardContent L (attrs [attr ''className'' (cs ''space-y-4'')]
                    [host ''div'' [attr ''className'' (cs ''grid grid-cols-2 gap-4'')]
                       [host ''div'' [attr ''className'' (cs ''space-y-1'')]
                          [host ''p'' [attr ''className'' (cs ''text-xs text-muted-foreground'')]
                             [[Text [51060, 47492]]],
                           host ''p'' [attr ''className'' (cs ''text-sm font-medium text-foreground'')]
                             [shown (case pp_profile p of None \<Rightarrow> js ''-'' | Some u \<Rightarrow>
                                  up_name u)]],
                        host ''div'' [attr ''className'' (cs ''space-y-1'')]
                          [host ''p'' [attr ''className'' (cs ''text-xs text-muted-foreground'')]
                             [[Text [51204, 54868, 48264, 54840]]],
                           host ''p'' [attr ''className'' (cs ''text-sm font-medium text-foreground'')]
                             [shown (case pp_profile p of None \<Rightarrow> js ''-'' | Some u \<Rightarrow>
                                  up_phoneNumber u)]]],
                     host ''div'' [attr ''className'' (cs ''space-y-1'')]
                       [host ''p'' [attr ''className'' (cs ''text-xs text-muted-foreground'')]
                          [[Text [51060, 47700, 51068]]],
                        host ''p'' [attr ''className'' (cs ''text-sm font-medium text-foreground'')]
                          [shown (case pp_profile p of None \<Rightarrow> js ''-'' | Some u \<Rightarrow>
                               up_email u)]]])]),
           Card L (attrs [attr ''className'' (cs ''border-border bg-card'')]
               [CardHeader L (attrs []
                    [CardTitle L (attrs [attr ''className'' (cs ''flex items-center gap-2 text-base'')]
                         [lib ''Key'' [attr ''className'' (cs ''h-4 w-4'')] [],
                          [Text [75, 73, 83, 32, 65, 80, 73, 32, 53412]]]),
                     CardDescription L (attrs []
                         [
                            [Text
                               [54620, 44397, 53804, 51088, 51613, 44428, 32, 79, 112, 101, 110, 65, 80,
                                73, 50640, 49436, 32, 48156, 44553, 48155, 51008, 32, 53412, 47484, 32,
                                46321, 47197, 54616, 47732, 32, 49892, 49884, 44036, 32, 51452, 49885, 32,
                                45936, 51060, 53552, 47484, 32, 49688, 49888, 54624, 32, 49688, 32, 51080,
                                49845, 45768, 45796, 46]]])]),
                CardContent L (attrs [attr ''className'' (cs ''space-y-5'')]
                    [host ''div''
                       [attr ''className'' (cs
                            ''flex items-center gap-2 rounded-lg border border-border bg-secondary/30 px-4 py-3'')]
                       [if has_key p then concat
                          [lib ''CheckCircle'' [attr ''className'' (cs ''h-4 w-4 text-chart-1'')] [],
                           host ''span'' [attr ''className'' (cs ''text-sm text-chart-1 font-medium'')]
                             [
                                [Text
                                   [65, 80, 73, 32, 53412, 44032, 32, 46321, 47197, 46104, 50612, 32,
                                    51080, 49845, 45768, 45796, 46]]]] else concat
                          [lib ''XCircle'' [attr ''className'' (cs ''h-4 w-4 text-destructive'')] [],
                           host ''span''
                             [attr ''className'' (cs ''text-sm text-destructive font-medium'')]
                             [
                                [Text
                                   [65, 80, 73, 32, 53412, 44032, 32, 46321, 47197, 46104, 51648, 32,
                                    50506, 50520, 49845, 45768, 45796, 46, 32, 46321, 47197, 32, 54980,
                                    32, 49892, 49884, 44036, 32, 44396, 46021, 51060, 32, 44032, 45733,
                                    54633, 45768, 45796, 46]]]]],
                     host ''form''
                       [attr ''onSubmit'' (PFun False (\<lambda>_. [save_submit])),
                        attr ''className'' (cs ''space-y-4'')]
                       [host ''div'' [attr ''className'' (cs ''space-y-2'')]
                          [Label L (attrs [attr ''htmlFor'' (cs ''kisApiKey'')]
                               [if has_key p then
                                  [Text [65, 112, 112, 32, 75, 101, 121, 32, 48320, 44221]] else
                                  [Text (js ''App Key'')]]),
                           host ''div'' [attr ''className'' (cs ''relative'')]
                             [lib ''Key''
                                [attr ''className'' (cs
                                     ''absolute left-3 top-1/2 h-4 w-4 -translate-y-1/2 text-muted-foreground'')]
                                [],
                              Input L (attrs
                                  [attr ''id'' (cs ''kisApiKey''),
                                   attr ''placeholder'' (PStr
                                       [48156, 44553, 48155, 51008, 32, 65, 112, 112, 32, 75, 101, 121,
                                        32, 51077, 47141]),
                                   attr ''value'' (PStr (pp_kisApiKey p)),
                                   attr ''onChange'' (PFun False (\<lambda>v.
                                         [\<lambda>(p, b). (p\<lparr>pp_kisApiKey := v\<rparr>, b)])),
                                   attr ''className'' (cs ''pl-9''),
                                   attr ''required'' (PBool True)] [])]],
                        host ''div'' [attr ''className'' (cs ''space-y-2'')]
                          [Label L (attrs [attr ''htmlFor'' (cs ''kisSecretKey'')]
                               [if has_key p then
                                  [Text [83, 101, 99, 114, 101, 116, 32, 75, 101, 121, 32, 48320, 44221]]
                                  else [Text (js ''Secret Key'')]]),
                           host ''div'' [attr ''className'' (cs ''relative'')]
                             [lib ''ShieldCheck''
                                [attr ''className'' (cs
                                     ''absolute left-3 top-1/2 h-4 w-4 -translate-y-1/2 text-muted-foreground'')]
                                [],
                              Input L (attrs
                                  [attr ''id'' (cs ''kisSecretKey''),
                                   attr ''type'' (cs ''password''),
                                   attr ''placeholder'' (PStr
                                       [48156, 44553, 48155, 51008, 32, 83, 101, 99, 114, 101, 116, 32,
                                        75, 101, 121, 32, 51077, 47141]),
                                   attr ''value'' (PStr (pp_kisSecretKey p)),
                                   attr ''onChange'' (PFun False (\<lambda>v.
                                         [\<lambda>(p, b). (p\<lparr>pp_kisSecretKey := v\<rparr>, b)])),
                                   attr ''className'' (cs ''pl-9''),
                                   attr ''required'' (PBool True)] [])]],
                        if pp_message p \<noteq> None then host ''div''
                          [attr ''className'' (PStr ((js ''rounded-lg px-4 py-3 text-sm '') @ (if fst (the (pp_message p)) = Success then js
                                   ''bg-chart-1/10 text-chart-1'' else js
                                   ''bg-destructive/10 text-destructive'')))]
                          [shown (snd (the (pp_message p)))] else [],
                        Button L (attrs
                            [attr ''type'' (cs ''submit''),
                             attr ''className'' (cs ''w-full''),
                             attr ''disabled'' (PBool (pp_saving p))]
                            [if pp_saving p then [Text [51200, 51109, 32, 51473, 46, 46, 46]] else if
                               has_key p then [Text [65, 80, 73, 32, 53412, 32, 48320, 44221]] else
                               [Text [65, 80, 73, 32, 53412, 32, 46321, 47197]]])]])])]])"

subsection \<open>The sign-up form\<close>

declare js_Cons [simp del] js_Nil [simp del]

lemma map_of_rev_attrs: "map_of (rev (attrs parts kids)) = map_of (attrs parts kids)"
proof -
  have "distinct (map fst (attrs parts kids))" by (simp add: attrs_def Let_def)
  then show ?thesis by (simp add: map_of_inject_set rev_map [symmetric])
qed

lemma map_of_attrs: "map_of (attrs parts kids) k =
     (if k = ''children'' \<and> kids \<noteq> [] then Some (PNodes (concat kids)) else map_of (rev (concat parts)) k)"
  by (simp add: attrs_def Let_def map_of_put_all)

lemmas wrapper_eval = elem_def kids_of_elem pget_attrs map_of_rev_rest map_of_rev_attrs map_of_attrs Let_def map_add_def

lemma wrapped [simp]:
  "length (Card L ps) = 1" "length (CardHeader L ps) = 1" "length (CardContent L ps) = 1" "length (CardFooter L ps) = 1"
  "length (Label L ps) = 1" "length (Input L ps) = 1" "length (Button L ps) = 1"
  "kids_of (Card L (attrs parts (k # ks)) ! 0) = concat (k # ks)"
  "kids_of (CardContent L (attrs parts (k # ks)) ! 0) = concat (k # ks)"
  "kids_of (CardFooter L (attrs parts (k # ks)) ! 0) = concat (k # ks)"
  by (simp_all add: wrapper_eval Card_def CardHeader_def CardContent_def CardFooter_def Label_def Input_def Button_def)

lemma Button_disabled [simp]:
  "node_prop ''disabled'' (Button L (attrs [attr ''type'' a, attr ''className'' b, attr ''disabled'' d] kids) ! 0) = d"
  by (simp add: Button_def wrapper_eval pget_or_def split: option.split)

lemma Input_props:
  assumes "k \<notin> {''className'', ''type'', ''data-slot''}"
  shows "node_prop k (Input L (attrs parts []) ! 0) = pget k (attrs parts [])"
    and "handler k (Input L (attrs parts []) ! 0) = own_handler (pget k (attrs parts []))"
  using assms by (simp_all add: wrapper_eval Input_def handler_elem split: option.split)

text \<open>Where the six inputs are on the page, by their ids, and the button\<close>

definition signup_inputs :: "(string \<times> nat list) list" where
  "signup_inputs = [(''name'', [0, 0, 1, 1, 0, 0, 0, 0, 1, 1]), (''phoneNumber'', [0, 0, 1, 1, 0, 0, 0, 1, 1, 1]),
     (''email'', [0, 0, 1, 1, 0, 0, 1, 1, 1]), (''password'', [0, 0, 1, 1, 0, 0, 2, 1, 1]),
     (''kisApiKey'', [0, 0, 1, 1, 0, 2, 0, 1, 1]), (''kisSecretKey'', [0, 0, 1, 1, 0, 2, 1, 1, 1])]"

definition form_input :: "string \<Rightarrow> signup_page \<Rightarrow> (signup_page \<times> browser \<Rightarrow> signup_page \<times> browser) node \<Rightarrow> bool" where
  "form_input k p n \<longleftrightarrow> node_prop ''id'' n = cs k \<and> node_prop ''value'' n = field k p
     \<and> handler ''onChange'' n = Some (False, \<lambda>v. [\<lambda>(p, b). (handle_change (js k) v p, b)])"

lemma form_input_Input:
  "form_input k p (Input L (attrs ps []) ! 0) \<longleftrightarrow> pget ''id'' (attrs ps []) = cs k \<and> pget ''value'' (attrs ps []) = field k p
     \<and> own_handler (pget ''onChange'' (attrs ps [])) = Some (False, \<lambda>v. [\<lambda>(p, b). (handle_change (js k) v p, b)])"
  by (simp add: form_input_def Input_props)

text \<open>One labelled input of the form\<close>

abbreviation labelled :: "'a ui \<Rightarrow> 'a props list \<Rightarrow> 'a props list \<Rightarrow> 'a props \<Rightarrow> 'a props list \<Rightarrow> 'a node \<Rightarrow> 'a node" where
  "labelled L ps a lb b icon \<equiv> Elem (Host ''div'') (attrs a [Label L lb,
     [Elem (Host ''div'') (attrs b [[icon], Input L (attrs ps [])])]])"

lemma labelled_descend:
  "descend [labelled L ps a lb b icon] [0, 1, 1] =
    [labelled L ps a lb b icon, Elem (Host ''div'') (attrs b [[icon], Input L (attrs ps [])]), Input L (attrs ps []) ! 0]"
  by (simp add: kids_of_elem nth_append)

text \<open>The frame of the page: a card whose form holds the content and the footer\<close>

lemma frame_descend:
  "descend [Elem (Host ''div'') (attrs oa [[Elem (Host ''div'') (attrs ob [[tp], Card L (attrs oc
      [CardHeader L hp, [Elem (Host ''form'') (attrs fp [CardContent L (attrs oe (k # ks)), CardFooter L (attrs oj (m # ms))])]])])]])]
      (0 # 0 # 1 # 1 # q) =
    (let card = Card L (attrs oc [CardHeader L hp, [Elem (Host ''form'') (attrs fp [CardContent L (attrs oe (k # ks)), CardFooter L (attrs oj (m # ms))])]]);
         form = Elem (Host ''form'') (attrs fp [CardContent L (attrs oe (k # ks)), CardFooter L (attrs oj (m # ms))])
     in [Elem (Host ''div'') (attrs oa [[Elem (Host ''div'') (attrs ob [[tp], card])]]), Elem (Host ''div'') (attrs ob [[tp], card]), card ! 0, form]
        @ descend (CardContent L (attrs oe (k # ks)) @ CardFooter L (attrs oj (m # ms))) q)"
  by (simp add: kids_of_elem nth_append Let_def)

lemma content_last:
  "i < length (concat (k # ks)) \<Longrightarrow>
    last (xs @ descend (CardContent L (attrs oe (k # ks)) @ CardFooter L fo) (0 # i # q)) = last (descend (concat (k # ks)) (i # q))"
  "i < length (concat (m # ms)) \<Longrightarrow>
    last (xs @ descend (CardContent L ct @ CardFooter L (attrs oj (m # ms))) (1 # i # q)) = last (descend (concat (m # ms)) (i # q))"
  by (simp_all add: nth_append)

lemma fields_last:
  fixes n1 n2 n3 n4 n5 n6 sep :: "'a node" and og oh oi :: "'a props list" and t u w :: tag
  defines "ns \<equiv> concat [[Elem t (attrs og [[Elem u (attrs oh [[n1], [n2]])], [n3], [n4]])], [sep], [Elem w (attrs oi [[n5], [n6]])]]"
  shows "last (descend ns (0 # 0 # 0 # q)) = last (descend [n1] (0 # q))" "last (descend ns (0 # 0 # 1 # q)) = last (descend [n2] (0 # q))"
    "last (descend ns (0 # 1 # q)) = last (descend [n3] (0 # q))" "last (descend ns (0 # 2 # q)) = last (descend [n4] (0 # q))"
    "last (descend ns (2 # 0 # q)) = last (descend [n5] (0 # q))" "last (descend ns (2 # 1 # q)) = last (descend [n6] (0 # q))"
    "length ns = 3"
  by (simp_all add: ns_def kids_of_elem)

lemma SignupPage_shape:
  obtains p0 c0 r0 a0 lb0 b0 icon0 p1 c1 a1 lb1 b1 icon1 t2 p2 c2 r2 a2 lb2 b2 icon2 t3 c3 r3 a3 lb3 b3 icon3 p4 c4 a4 lb4 b4 icon4 t5 p5 c5 a5 lb5 b5 icon5 oa ob tp oc od ta tb oe og oh sep oi oj ok ol om where
  "SignupPage L p = [Elem (Host ''div'') (attrs oa [[Elem (Host ''div'') (attrs ob [[tp],
      Card L (attrs oc [CardHeader L (attrs od (ta # tb)), [Elem (Host ''form'') (attrs [attr ''onSubmit'' (PFun False (\<lambda>_. [signup_submit]))]
        [CardContent L (attrs oe
          [[Elem (Host ''div'') (attrs og [[Elem (Host ''div'') (attrs oh
             [[labelled L [attr ''id'' (cs ''name''), attr ''placeholder'' p0, attr ''value'' (field ''name'' p), attr ''onChange'' (PFun False (\<lambda>v. [\<lambda>(p, b). (handle_change (js ''name'') v p, b)])), attr ''className'' c0, attr ''required'' r0] a0 lb0 b0 icon0],
              [labelled L [attr ''id'' (cs ''phoneNumber''), attr ''placeholder'' p1, attr ''value'' (field ''phoneNumber'' p), attr ''onChange'' (PFun False (\<lambda>v. [\<lambda>(p, b). (handle_change (js ''phoneNumber'') v p, b)])), attr ''className'' c1] a1 lb1 b1 icon1]])],
             [labelled L [attr ''id'' (cs ''email''), attr ''type'' t2, attr ''placeholder'' p2, attr ''value'' (field ''email'' p), attr ''onChange'' (PFun False (\<lambda>v. [\<lambda>(p, b). (handle_change (js ''email'') v p, b)])), attr ''className'' c2, attr ''required'' r2] a2 lb2 b2 icon2],
             [labelled L [attr ''id'' (cs ''password''), attr ''type'' t3, attr ''value'' (field ''password'' p), attr ''onChange'' (PFun False (\<lambda>v. [\<lambda>(p, b). (handle_change (js ''password'') v p, b)])), attr ''className'' c3, attr ''required'' r3] a3 lb3 b3 icon3]])],
           [sep],
           [Elem (Host ''div'') (attrs oi
             [[labelled L [attr ''id'' (cs ''kisApiKey''), attr ''placeholder'' p4, attr ''value'' (field ''kisApiKey'' p), attr ''onChange'' (PFun False (\<lambda>v. [\<lambda>(p, b). (handle_change (js ''kisApiKey'') v p, b)])), attr ''className'' c4] a4 lb4 b4 icon4],
              [labelled L [attr ''id'' (cs ''kisSecretKey''), attr ''type'' t5, attr ''placeholder'' p5, attr ''value'' (field ''kisSecretKey'' p), attr ''onChange'' (PFun False (\<lambda>v. [\<lambda>(p, b). (handle_change (js ''kisSecretKey'') v p, b)])), attr ''className'' c5] a5 lb5 b5 icon5]])]]),
         CardFooter L (attrs oj [Button L (attrs [attr ''type'' (cs ''submit''), attr ''className'' ok, attr ''disabled'' (PBool (sp_loading p))] ol), om])])]])])]])]"
  by (rule that, unfold SignupPage_def elem_def, rule refl)



lemmas signup_eval = frame_descend Let_def content_last fields_last labelled_descend last.simps list.distinct if_False if_True

lemma signup_input_nodes:
  "list_all (\<lambda>(k, path). form_input k p (last (descend (SignupPage L p) path))) signup_inputs"
  unfolding signup_inputs_def list.pred_inject prod.case
  by (rule SignupPage_shape [of L p], intro conjI TrueI; (simp only: signup_eval)?;
      simp (no_asm) add: form_input_Input pget_attrs own_handler_def)

lemma signup_form_nodes:
  "node_prop ''disabled'' (last (descend (SignupPage L p) [0, 0, 1, 1, 1, 0])) = PBool (sp_loading p)"
  "fire ''onSubmit'' v (last (descend (SignupPage L p) [0, 0, 1, 1])) = [signup_submit]"
  by (rule SignupPage_shape [of L p], simp only: frame_descend Let_def, simp (no_asm) add: nth_append fire_def handler_elem pget_attrs own_handler_def)+

text \<open>C28. The sign-up form holds its state: each of its six inputs shows the field of its own id and a change
  of it writes that field alone, so the text typed is the text shown afterwards, in this input only. The
  button is disabled exactly while a request is open, and submitting sends one.\<close>

theorem signup_form_controlled:
  "list_all (\<lambda>(k, path).
       let n = last (descend (SignupPage L p) path);
           p' = fst (fold (\<lambda>f. f) (fire ''onChange'' v n) (p, b));
           shown_in = (\<lambda>path p. node_prop ''value'' (last (descend (SignupPage L p) path)))
       in node_prop ''id'' n = cs k \<and> shown_in path p' = PStr v \<and> sp_loading p' = sp_loading p
        \<and> list_all (\<lambda>(k', path'). k' = k \<or> shown_in path' p' = shown_in path' p) signup_inputs) signup_inputs
    \<and> node_prop ''disabled'' (last (descend (SignupPage L p) [0, 0, 1, 1, 1, 0])) = PBool (sp_loading p)
    \<and> fire ''onSubmit'' v (last (descend (SignupPage L p) [0, 0, 1, 1])) = [signup_submit]"
proof -
  have inp: "form_input k p (last (descend (SignupPage L p) path))" if "(k, path) \<in> set signup_inputs" for k path p
    using signup_input_nodes [of p L] that unfolding list_all_iff by blast
  have val: "node_prop ''value'' (last (descend (SignupPage L p) path)) = field k p"
    if "(k, path) \<in> set signup_inputs" for k path p
    using inp [OF that] by (simp add: form_input_def)
  have idt: "node_prop ''id'' (last (descend (SignupPage L p) path)) = cs k" if "(k, path) \<in> set signup_inputs" for k path
    using inp [OF that] by (simp add: form_input_def)
  have act: "fst (fold (\<lambda>f. f) (fire ''onChange'' v (last (descend (SignupPage L p) path))) (p, b)) = handle_change (js k) v p"
    if "(k, path) \<in> set signup_inputs" for k path
    using inp [OF that, of p] by (simp add: form_input_def fire_def)
  have fields: "field k (handle_change (js k) v p) = PStr v" "field k' (handle_change (js k) v p) \<noteq> field k' p \<Longrightarrow> k' = k"
    "sp_loading (handle_change i v p) = sp_loading p" for k k' i
    by (auto simp: field_def handle_change_def split: if_splits)
  show ?thesis using signup_form_nodes(1) [of L p] signup_form_nodes(2) [of v L p]
    by (auto simp: list_all_iff Let_def val idt act fields(1,3) intro: fields(2))
qed

end
