(* ===== verification/AppShell.thy ===== *)
theory AppShell imports UiOverlay Formats begin

section \<open>The frame of the application (app/layout.tsx, app/global-error.tsx, theme-provider.tsx, toaster.tsx)\<close>

text \<open>
  The root layout, the page of the last resort and the providers. Whether the build is a production build,
  the path of the window (\<open>None\<close> on the server) and the error's message and stack are arguments.
\<close>

definition js_lines :: "string list \<Rightarrow> jstr" where
  "js_lines ls = (case ls of [] \<Rightarrow> [] | l # r \<Rightarrow> js l @ concat (map (\<lambda>l. 10 # js l) r))"

definition RootLayout :: "bool \<Rightarrow> 'a node list \<Rightarrow> 'a node list" where
  "RootLayout production children =
    (host ''html'' [attr ''lang'' (cs ''en'')]
       [host ''body'' [attr ''className'' (cs ''font-sans antialiased'')]
          [children,
           if production then lib ''Analytics'' [] [] else []]])"

definition error_css :: jstr where
  "error_css = js_lines
    ['''',
     ''          * { box-sizing: border-box; }'',
     ''          body {'',
     ''            margin: 0;'',
     ''            font-family: ui-monospace, monospace;'',
     ''            padding: 2rem;'',
     ''            background: #fafafa;'',
     ''            color: #171717;'',
     ''            font-size: 14px;'',
     ''            min-height: 100vh;'',
     ''            display: flex;'',
     ''            align-items: flex-start;'',
     ''          }'',
     ''          .error-container {'',
     ''            width: 100%;'',
     ''            max-width: 560px;'',
     ''            min-width: 0;'',
     ''          }'',
     ''          .error-header {'',
     ''            display: flex;'',
     ''            align-items: center;'',
     ''            gap: 12px;'',
     ''          }'',
     ''          .error-icon {'',
     ''            width: 20px;'',
     ''            height: 20px;'',
     ''            border-radius: 50%;'',
     ''            background: #fef2f2;'',
     ''            color: #b91c1c;'',
     ''            display: flex;'',
     ''            align-items: center;'',
     ''            justify-content: center;'',
     ''            font-weight: 600;'',
     ''            font-size: 12px;'',
     ''            flex-shrink: 0;'',
     ''          }'',
     ''          .error-message {'',
     ''            margin: 0;'',
     ''            font-weight: 500;'',
     ''            line-height: 1.5;'',
     ''          }'',
     ''          .error-message code {'',
     ''            background: #e5e5e5;'',
     ''            padding: 0.1em 0.3em;'',
     ''          }'',
     ''          .error-summary {'',
     ''            margin: 0.25rem 0 0 2rem;'',
     ''            padding: 0;'',
     ''            font-size: 13px;'',
     ''            color: #b91c1c;'',
     ''            line-height: 1.5;'',
     ''          }'',
     ''          .error-details-wrapper {'',
     ''            margin: 1rem 0 0 2rem;'',
     ''          }'',
     ''          .error-details summary {'',
     ''            list-style: none;'',
     ''            cursor: pointer;'',
     ''            padding: 0;'',
     ''            color: #737373;'',
     ''            font-size: 12px;'',
     ''            user-select: none;'',
     ''            display: flex;'',
     ''            align-items: center;'',
     ''            gap: 6px;'',
     ''          }'',
     ''          .error-details summary::-webkit-details-marker {'',
     ''            display: none;'',
     ''          }'',
     ''          .error-details summary .chevron {'',
     ''            display: inline-flex;'',
     ''            align-items: center;'',
     ''            font-size: 0.6rem;'',
     ''            transition: transform 0.2s ease;'',
     ''            transform: rotate(-90deg);'',
     ''          }'',
     ''          .error-details[open] summary .chevron {'',
     ''            transform: rotate(0deg);'',
     ''          }'',
     ''          .error-stack-slot {'',
     ''            height: 320px;'',
     ''            margin-top: 0.5rem;'',
     ''          }'',
     ''          .error-details-wrapper:not(:has(details[open])) .error-stack {'',
     ''            visibility: hidden;'',
     ''          }'',
     ''          .error-stack {'',
     ''            margin: 0;'',
     ''            padding: 1rem;'',
     ''            background: #f5f5f5;'',
     ''            overflow: auto;'',
     ''            max-width: 100%;'',
     ''            min-width: 0;'',
     ''            height: 100%;'',
     ''            box-sizing: border-box;'',
     ''            font-size: 11px;'',
     ''            line-height: 1.5;'',
     ''          }'',
     ''        '']"

definition GlobalError :: "jstr option \<Rightarrow> jstr \<Rightarrow> jstr \<Rightarrow> 'a node list" where
  "GlobalError pathname message stack =
    (host ''html'' []
       [host ''head'' [] [host ''style'' [] [shown error_css]],
        host ''body'' []
          [host ''div'' [attr ''className'' (cs ''error-container'')]
             [host ''div'' [attr ''className'' (cs ''error-header'')]
                [host ''div'' [attr ''className'' (cs ''error-icon'')] [tx ''!''],
                 host ''div'' []
                   [host ''p'' [attr ''className'' (cs ''error-message'')]
                      [tx ''An application error has occurred while loading'',
                       [Text (js '' '')],
                       host ''code'' []
                         [shown (case pathname of None \<Rightarrow> js ''/'' | Some q \<Rightarrow> if q = []
                              then js ''/'' else q)]]]],
              host ''div'' [attr ''className'' (cs ''error-summary'')]
                [shown (if message = [] then js ''Unknown error'' else message)],
              if stack \<noteq> [] then host ''div'' [attr ''className'' (cs ''error-details-wrapper'')]
                [host ''details'' [attr ''className'' (cs ''error-details'')]
                   [host ''summary'' []
                      [host ''span'' [attr ''className'' (cs ''chevron'')] [[Text [9660]]],
                       tx ''View full error trace'']],
                 host ''div'' [attr ''className'' (cs ''error-stack-slot'')]
                   [host ''pre'' [attr ''className'' (cs ''error-stack'')] [shown stack]]] else []]]])"

definition ThemeProvider :: "'a component" where
  "ThemeProvider L ps = lib ''NextThemesProvider'' [rest_of [''children''] ps] [child (pget ''children'' ps)]"

text \<open>A toast is an object of properties; the store is \<open>Toast\<close>.\<close>

definition Toaster :: "'a ui \<Rightarrow> 'a props list \<Rightarrow> 'a node list" where
  "Toaster L toasts =
     ToastProvider L (attrs []
       [concat (map (\<lambda>t.
          let title = pget ''title'' t; description = pget ''description'' t; action = pget ''action'' t;
              props = rest_of [''id'', ''title'', ''description'', ''action''] t
          in UiOverlay.Toast L (attrs [attr ''key'' (pget ''id'' t), props]
            [host ''div'' [attr ''className'' (cs ''grid gap-1'')]
               [child (js_and title (PNodes (ToastTitle L (attrs [] [child title])))),
                child (js_and description (PNodes (ToastDescription L (attrs [] [child description]))))],
             child action,
             ToastClose L (attrs [] [])])) toasts),
        ToastViewport L (attrs [] [])])"

end
