(* ===== verification/Spec2Isabelle.thy ===== *)
theory Spec2Isabelle
  imports App ChartRuns Toast SidebarState CarouselState UiCalendar UiChart UiContract
    PriceChartView DashboardView AuthViews AppShell
begin

text \<open>
  The web application of a stock anomaly monitor (\<open>web-app/\<close>): a Next.js client that shows subscribed
  stocks with live prices, a candlestick chart, an alarm log and a log of AI signals, with pages for login,
  sign-up and the profile, a proxy that guards its paths, and a library of components. The server, the
  engine and the signal service of the repository are other programs; their answers and messages are
  arbitrary values here.

  Parts and how they interact
  \<bullet> \<open>app/page.tsx\<close> (Dashboard) owns the subscriptions, the search, the two logs and the event stream. It
    hands its selected stock to \<open>components/dashboard/price-chart.tsx\<close> (ChartMachine) at every render,
    which loads history, pages back in time while the user scrolls and merges live prices into the
    last candle. App puts both together.
  \<bullet> \<open>app/auth/login\<close>, \<open>app/auth/signup\<close>, \<open>app/settings/profile\<close> and \<open>proxy.ts\<close> (Session) share the browser:
    local storage, cookie jar, history of navigations and alerts.
  \<bullet> \<open>hooks/use-toast.ts\<close> (Toast) is a module store with subscribed hooks; \<open>components/ui/sidebar.tsx\<close>
    with \<open>hooks/use-mobile.ts\<close> (SidebarState) and \<open>components/ui/carousel.tsx\<close> (CarouselState) keep state
    of their own.
  \<bullet> What all of them show is a function from state to nodes of the page (the view theories).

  Theories
  \<bullet> Prelude: JavaScript strings as lists of code units, decimal texts, objects and maps that keep
    insertion order (\<open>put\<close>, \<open>put_all\<close>), and the locale \<open>stepwise\<close> of step relations with an invariant.
    JsDate: calendar days of \<open>Date\<close>; JsNumber: \<open>parseFloat\<close>, \<open>Number\<close> and the texts of decimals;
    Formats: \<open>toFixed\<close> and the locale formats; StockTypes: the records shared by the dashboard's parts.
  \<bullet> ChartData: the pure core of the chart, \<open>getKstDateString\<close>, \<open>updateChartData\<close>, the merge of an older page
    and the updater of \<open>applyTick\<close>. Times are integers, prices rationals. The locale \<open>keyed_feed\<close>
    of points under keys gives order and uniqueness of what is drawn.
  \<bullet> ChartMachine, ChartRuns, ChartLive: the component as a state machine. A handler changes refs at
    once and queues updates; a commit applies the queue and runs the effects whose dependencies
    changed, cleanups first; \<open>finish\<close> repeats commits. Requests in flight are a list, answered in any order.
    Groups of lemmas: what one round of effects does to each variable, termination of settling, the
    invariant \<open>pc_ok\<close>, the effect of each event on data, requests and the calls made on the chart object
    (\<open>calls_of\<close>; \<open>play\<close> is what a list of ticks does to candles and bars), what cannot happen between a
    switch and its history (\<open>unanswered\<close>), and progress (\<open>awaited\<close>).
  \<bullet> Dashboard: one transformer for each handler and for each continuation of a request; the locale
    \<open>recent_log\<close> of logs that keep the newest entries, interpreted for both logs. Values of a message are
    texts, numbers, null or absent; the server of the repository sends prices and rates as texts. Runs of
    ticks are told by the last tick of each ticker (\<open>after_ticks\<close>). App: the product of
    Dashboard and ChartMachine with all interleavings of their events.
  \<bullet> Session: the three forms, the cookie strings and their parsing, \<open>encodeURIComponent\<close> and the matcher of
    the proxy; a locale of forms with one open request, interpreted for each form.
  \<bullet> Toast: reducer, id counter, removal timers, hooks; invariants, life cycle and the types of toasts, whose
    optional properties may be present and \<open>undefined\<close>.
  \<bullet> SidebarState, CarouselState: the state of these components and their listeners; a carousel that was
    removed from the page has no state left to set.
  \<bullet> Jsx: nodes, properties and handlers, how a click descends to its target and bubbles outwards.
    UiBase, UiLayout, UiOverlay, UiMenu, UiSidebar, UiCarousel, UiCalendar, UiForm, UiChart: the components
    of \<open>components/ui\<close>, one definition each, in the order of the files. UiContract: what all wrappers
    promise their callers, for the table \<open>wrappers\<close>. StockListView, AlarmLogView, AiSignalLogView,
    PriceChartView, DashboardView, AuthViews, AppShell: the markup of pages and panels over the states
    above, with the properties that tie it to them (clicks act as events, the status line tells the
    state of the requests, inputs show and write their own field).

  Bounds and fuel
  \<bullet> \<open>finish\<close> allows five commits. Every update has a level, a commit of level n queues updates below n
    only, and the highest level is 4, so five always suffice (property \<open>finish_settles\<close>).
  \<bullet> Times: \<open>in_seconds\<close> are the seconds of 1970 to 2286, where the source's test against 10000000000
    takes a number for seconds; \<open>in_millis\<close> are the milliseconds of the same span above that bound.
  \<bullet> Ids of toasts wrap at \<open>MAX_SAFE_INTEGER\<close>, 2 ^ 53 - 1; runs up to that length have no repetition.
  \<bullet> JavaScript numbers: prices and rates are rationals and times integers; rounding of binary floating
    point, NaN (except as the absence of a number) and infinities are left out.

  Not modelled, and why
  \<bullet> Libraries: React (its batching and effect order are written out in ChartMachine), Radix, the chart,
    carousel and calendar libraries, class merging. They are parameters (\<open>ui\<close>, \<open>intl\<close>), named elements, or
    calls that are recorded. Whether the container node of the chart exists is not: it is always mounted.
  \<bullet> Network and JSON decoding: an answer is a value of a reply type, a failure one of its constructors.
  \<bullet> Console output, scrolling and focus, the size of the chart, the unmounting of the dashboard at a
    navigation, and \<open>lib/utils.ts\<close>, \<open>lib/api.ts\<close>, configuration and styles, which hold no logic.
  \<bullet> \<open>components/ui/use-toast.ts\<close> and \<open>components/ui/use-mobile.tsx\<close>, which repeat the files of \<open>hooks/\<close>.
  \<bullet> The services in Java, C++ and Python.
\<close>

end
